(* ===== verification/Uringio_Prelude.thy ===== *)
theory Uringio_Prelude
  imports Main "HOL-Library.Word" "HOL-Library.Monad_Syntax"
begin

unbundle bit_operations_syntax

text \<open>
  Shared vocabulary of the development.

  The extension module talks to three parties whose code is not in the repository: liburing
  (and the kernel behind it), the CPython API and the C library's allocator.  Each call that
  the source makes to one of them is an \<^emph>\<open>event\<close>; the record \<open>ext\<close> keeps the list of
  events made so far, oldest first.  What such a call answers is a field of the record
  \<open>env\<close>, a function of the history up to the call (and of the call's arguments where they
  matter).  Every definition of the development takes the environment as its first argument,
  so a theorem without a hypothesis on it holds whatever liburing, the kernel, CPython and
  the allocator answer.

  Pointers are numbers with 0 as the null pointer; Python objects are named by numbers, and a
  \<open>PyObject *\<close> that may be null is an \<open>obj option\<close>.  A C \<open>int\<close> is an \<open>int\<close>, converted by
  \<open>c_int\<close> where the source narrows a wider value; fields that liburing receives at a fixed
  width are words.  Undefined behaviour and \<open>abort()\<close> (a read of an indeterminate field, a null
  or dangling structure, an array access out of range) are the value \<open>None\<close> of an option.
\<close>

section \<open>Types shared by the components\<close>

type_synonym ptr = nat
type_synonym obj = nat

text \<open>
  A pointer field of a structure obtained from \<open>malloc\<close> without initialisation holds an
  indeterminate value (\<open>Wild\<close>) until it is written; afterwards it is null or refers to
  a structure.
\<close>

datatype 'a pfield = Wild | Null | To 'a

record iovec =
  iov_base :: ptr
  iov_len :: nat

record open_how =
  how_flags :: "64 word"
  how_mode :: "32 word"
  how_resolve :: "64 word"

record kernel_timespec =
  tv_sec :: int
  tv_nsec :: int

record msghdr =
  msg_name :: ptr
  msg_namelen :: "32 word"
  msg_iov :: ptr
  msg_iovlen :: "64 word"
  msg_control :: ptr
  msg_controllen :: "64 word"

text \<open>An \<open>iovec\<close> or \<open>msghdr\<close> argument is a local variable of the caller, passed with
  \<open>&\<close>, or a pointer it holds; with a \<open>msghdr\<close> pointer goes what the caller wrote there, the
  header and the one \<open>iovec\<close> behind it, if it wrote anything.\<close>

datatype (plugins only: code size) iovref = Iov_local iovec | Iov_ptr ptr

datatype (plugins only: code size) msgref =
    Msg_local msghdr
  | Msg_ptr ptr "(msghdr \<times> iovec) option"

record cqe =
  cqe_user_data :: "64 word"
  cqe_res :: int
  cqe_flags :: "32 word"

datatype (plugins only: code size) pyexc =
    RuntimeError string
  | TypeError string
  | ValueError string
  | BrokenPipeError string
  | ConnectionRefusedError string
  | RuntimeWarning string
  | OSError int
  | OSError_errno
  | MemoryError
  | ExceptionGroup
  | Reraised obj

text \<open>A byte of a \<open>bytes\<close> object that nobody has written is indeterminate (\<open>None\<close>).\<close>

datatype (plugins only: code size) pyval = PyNone | PyLong int | PyBytes "8 word option list" | PyObj obj

section \<open>Events\<close>

datatype (plugins only: code size) prep =
    Prep_openat2 int string open_how
  | Prep_read int ptr "32 word" "64 word"
  | Prep_readv2 int iovref "32 word" "64 word" int
  | Prep_write int ptr "32 word" "64 word"
  | Prep_writev2 int iovref "32 word" "64 word" int
  | Prep_close int
  | Prep_fsync int "32 word"
  | Prep_splice int "64 word" int "64 word" "32 word" "32 word"
  | Prep_read_fixed int ptr "32 word" "64 word" int
  | Prep_write_fixed int ptr "32 word" "64 word" int
  | Prep_read_multishot int "32 word" "64 word" int
  | Prep_socket int int int "32 word"
  | Prep_bind int ptr "32 word"
  | Prep_connect int ptr "32 word"
  | Prep_listen int int
  | Prep_accept int ptr ptr int
  | Prep_multishot_accept int ptr ptr int
  | Prep_send int ptr nat int
  | Prep_recv int ptr nat int
  | Prep_sendto int ptr nat int ptr "32 word"
  | Prep_sendmsg int msgref "32 word"
  | Prep_recvmsg int msgref "32 word"
  | Prep_send_zc int ptr nat int "32 word"
  | Prep_send_zc_fixed int ptr nat int "32 word" "32 word"
  | Prep_sendmsg_zc int msgref "32 word"
  | Prep_recv_multishot int ptr nat int
  | Prep_recvmsg_multishot int msgref "32 word"
  | Prep_timeout kernel_timespec "32 word" "32 word"
  | Prep_link_timeout kernel_timespec "32 word"
  | Prep_poll_add int int
  | Prep_cancel ptr int
  | Prep_provide_buffers ptr int int int int
  | Prep_remove_buffers int int

datatype (plugins only: code size) lu_call =
    Get_sqe ptr
  | Prep ptr prep
  | Or_flags ptr "8 word"
  | Set_buf_group ptr "16 word"
  | Set_buf_index ptr "16 word"
  | Or_ioprio ptr "16 word"
  | Set_data ptr "64 word"
  | Submit int
  | Queue_init nat "32 word" int
  | Queue_exit
  | Register_buffers ptr "32 word" int
  | Unregister_buffers int
  | Setup_buf_ring "32 word" int "32 word" ptr
  | Buf_ring_init ptr
  | Buf_ring_add ptr int "32 word" "16 word" int int
  | Buf_ring_advance ptr int
  | Free_buf_ring ptr "32 word" int
  | Peek_cqe "cqe option"
  | Wait_cqe_timeout kernel_timespec "cqe option"
  | Submit_and_wait_timeout kernel_timespec
  | Cqe_seen cqe

datatype (plugins only: code size) py_call =
    Incref obj
  | Decref obj
  | Create_future "obj option"
  | Set_result obj pyval
  | Set_exception obj pyexc
  | Err_set pyexc
  | Err_print
  | Err_clear
  | New_object "obj option"
  | Alloc_value bool
  | GetItem obj nat "obj option"
  | Seq_fast obj "obj option"
  | GetBuffer obj "(ptr \<times> nat) option"
  | Buffer_release ptr nat
  | PyMem_malloc nat ptr
  | PyMem_free ptr

datatype (plugins only: code size) libc_call =
    Malloc nat ptr
  | Free ptr
  | Rand int
  | Read_fd int int
  | Close_fd int
  | Write_fd int int
  | Eventfd int
  | Pipe2 int int

datatype (plugins only: code size) call = Lu lu_call | Py py_call | Libc libc_call

type_synonym history = "call list"

section \<open>The environment\<close>

text \<open>
  The answers of the code outside the repository, one field per entry point that answers
  anything.
\<close>

record env =
  e_get_sqe :: "history \<Rightarrow> ptr"
  e_submit :: "history \<Rightarrow> int"
  e_queue_init :: "history \<Rightarrow> int"
  e_register_buffers :: "history \<Rightarrow> int"
  e_unregister_buffers :: "history \<Rightarrow> int"
  e_setup_buf_ring :: "history \<Rightarrow> ptr"
  e_buf_ring_mask :: "32 word \<Rightarrow> int"
  e_peek_cqe :: "history \<Rightarrow> cqe option"
  e_wait_cqe :: "history \<Rightarrow> cqe option"
  e_recvmsg_validate :: "history \<Rightarrow> ptr \<Rightarrow> int \<Rightarrow> ptr \<Rightarrow> ptr"
  e_recvmsg_payload :: "history \<Rightarrow> ptr \<Rightarrow> ptr \<Rightarrow> ptr"
  e_recvmsg_payload_length :: "history \<Rightarrow> ptr \<Rightarrow> int \<Rightarrow> ptr \<Rightarrow> nat"
  e_malloc :: "history \<Rightarrow> nat \<Rightarrow> ptr"
  e_rand :: "history \<Rightarrow> int"
  e_inet_pton :: "int \<Rightarrow> string \<Rightarrow> nat option"
  e_mem :: "history \<Rightarrow> ptr \<Rightarrow> 8 word"
  e_gettid :: "history \<Rightarrow> int"
  e_create_future :: "history \<Rightarrow> obj option"
  e_new_object :: "history \<Rightarrow> obj option"
  e_alloc_value :: "history \<Rightarrow> bool"
  e_pymem_malloc :: "history \<Rightarrow> nat \<Rightarrow> ptr"
  e_get_item :: "history \<Rightarrow> obj \<Rightarrow> nat \<Rightarrow> obj option"
  e_get_buffer :: "history \<Rightarrow> obj \<Rightarrow> (ptr \<times> nat) option"
  e_seq_check :: "obj \<Rightarrow> bool"
  e_seq_length :: "history \<Rightarrow> obj \<Rightarrow> int"
  e_seq_fast :: "history \<Rightarrow> obj \<Rightarrow> (obj \<times> obj list) option"
  e_py_size :: "obj \<Rightarrow> int"
  e_loop_closed :: "history \<Rightarrow> bool"
  e_same_thread :: "history \<Rightarrow> bool"
  e_eventfd :: "history \<Rightarrow> int"
  e_pipe2 :: "history \<Rightarrow> int \<times> int"
  e_read :: "history \<Rightarrow> int"
  e_write :: "history \<Rightarrow> int"
  e_errno_again :: "history \<Rightarrow> bool"

section \<open>The history as state\<close>

text \<open>Components extend this record with the state they keep.\<close>

record ext =
  hist :: history

definition lu :: "lu_call \<Rightarrow> 'a ext_scheme \<Rightarrow> 'a ext_scheme" where
  "lu c w = w\<lparr>hist := hist w @ [Lu c]\<rparr>"

definition py :: "py_call \<Rightarrow> 'a ext_scheme \<Rightarrow> 'a ext_scheme" where
  "py c w = w\<lparr>hist := hist w @ [Py c]\<rparr>"

definition libc :: "libc_call \<Rightarrow> 'a ext_scheme \<Rightarrow> 'a ext_scheme" where
  "libc c w = w\<lparr>hist := hist w @ [Libc c]\<rparr>"

text \<open>Calls that answer: the answer is recorded in the event.\<close>

definition io_uring_get_sqe :: "env \<Rightarrow> 'a ext_scheme \<Rightarrow> ptr \<times> 'a ext_scheme" where
  "io_uring_get_sqe E w = (let p = e_get_sqe E (hist w) in (p, lu (Get_sqe p) w))"

definition io_uring_submit :: "env \<Rightarrow> 'a ext_scheme \<Rightarrow> int \<times> 'a ext_scheme" where
  "io_uring_submit E w = (let r = e_submit E (hist w) in (r, lu (Submit r) w))"

definition c_malloc :: "env \<Rightarrow> nat \<Rightarrow> 'a ext_scheme \<Rightarrow> ptr \<times> 'a ext_scheme" where
  "c_malloc E n w = (let p = e_malloc E (hist w) n in (p, libc (Malloc n p) w))"

text \<open>\<open>free(NULL)\<close> does nothing.\<close>

definition c_free :: "ptr \<Rightarrow> 'a ext_scheme \<Rightarrow> 'a ext_scheme" where
  "c_free p w = (if p = 0 then w else libc (Free p) w)"

definition pymem_malloc :: "env \<Rightarrow> nat \<Rightarrow> 'a ext_scheme \<Rightarrow> ptr \<times> 'a ext_scheme" where
  "pymem_malloc E n w = (let p = e_pymem_malloc E (hist w) n in (p, py (PyMem_malloc n p) w))"

definition pymem_free :: "ptr \<Rightarrow> 'a ext_scheme \<Rightarrow> 'a ext_scheme" where
  "pymem_free p w = (if p = 0 then w else py (PyMem_free p) w)"

section \<open>The resource ledger\<close>

text \<open>
  What the program holds after a history: blocks of the two allocators, exported buffers and
  Python references, counted as acquisitions minus releases.  A function that keeps the ledger
  leaks nothing and frees nothing twice.
\<close>

datatype (plugins only: code size) resource =
    Block ptr | PyBlock ptr | Export ptr nat | Reference obj

fun effect_py :: "py_call \<Rightarrow> resource \<Rightarrow> int" where
  "effect_py (Incref x) r = of_bool (r = Reference x)"
| "effect_py (Decref x) r = - of_bool (r = Reference x)"
| "effect_py (Create_future x) r = (case x of None \<Rightarrow> 0 | Some y \<Rightarrow> of_bool (r = Reference y))"
| "effect_py (New_object x) r = (case x of None \<Rightarrow> 0 | Some y \<Rightarrow> of_bool (r = Reference y))"
| "effect_py (GetItem q i x) r = (case x of None \<Rightarrow> 0 | Some y \<Rightarrow> of_bool (r = Reference y))"
| "effect_py (Seq_fast q x) r = (case x of None \<Rightarrow> 0 | Some y \<Rightarrow> of_bool (r = Reference y))"
| "effect_py (GetBuffer q x) r = (case x of None \<Rightarrow> 0 | Some (b, n) \<Rightarrow> of_bool (r = Export b n))"
| "effect_py (Buffer_release b n) r = - of_bool (r = Export b n)"
| "effect_py (PyMem_malloc n p) r = of_bool (p \<noteq> 0 \<and> r = PyBlock p)"
| "effect_py (PyMem_free p) r = - of_bool (r = PyBlock p)"
| "effect_py (Set_result x v) r = 0"
| "effect_py (Set_exception x e) r = 0"
| "effect_py (Err_set e) r = 0"
| "effect_py Err_print r = 0"
| "effect_py Err_clear r = 0"
| "effect_py (Alloc_value b) r = 0"

fun effect :: "call \<Rightarrow> resource \<Rightarrow> int" where
  "effect (Py c) r = effect_py c r"
| "effect (Libc (Malloc n p)) r = of_bool (p \<noteq> 0 \<and> r = Block p)"
| "effect (Libc (Free p)) r = - of_bool (r = Block p)"
| "effect (Libc c) r = 0"
| "effect (Lu c) r = 0"

definition ledger :: "history \<Rightarrow> resource \<Rightarrow> int" where
  "ledger h r = (\<Sum>c\<leftarrow>h. effect c r)"

section \<open>C integer conversions\<close>

text \<open>Conversion of a wider integer to a 32-bit \<open>int\<close>.\<close>

definition c_int :: "int \<Rightarrow> int" where
  "c_int i = signed_take_bit 31 i"

definition is_c_int :: "int \<Rightarrow> bool" where
  "is_c_int i \<longleftrightarrow> - (2 ^ 31) \<le> i \<and> i < 2 ^ 31"

text \<open>\<open>(size_t)\<close> of an \<open>int\<close>, and a product computed in \<open>size_t\<close>.\<close>

definition size_t :: "int \<Rightarrow> nat" where
  "size_t i = nat (i mod 2 ^ 64)"

definition size_mult :: "nat \<Rightarrow> nat \<Rightarrow> nat" where
  "size_mult a b = (a * b) mod 2 ^ 64"

text \<open>C division truncates towards zero; division by zero is undefined.\<close>

definition c_div :: "int \<Rightarrow> int \<Rightarrow> int option" where
  "c_div a b = (if b = 0 then None else Some (sgn a * sgn b * (\<bar>a\<bar> div \<bar>b\<bar>)))"

text \<open>\<open>(void *)(uintptr_t)request_idx\<close>, and \<open>(int)(uintptr_t)cqe->user_data\<close> back.\<close>

definition user_data_of :: "int \<Rightarrow> 64 word" where
  "user_data_of idx = word_of_int idx"

definition index_of :: "64 word \<Rightarrow> int" where
  "index_of ud = sint (ucast ud :: 32 word)"

section \<open>Lemma collections\<close>

named_theorems event_simps \<open>unfolding of the event primitives\<close>
named_theorems op_defs \<open>definitions of the request operations\<close>

lemma hist_lu [simp]: "hist (lu c w) = hist w @ [Lu c]"
  by (simp add: lu_def)

lemma hist_py [simp]: "hist (py c w) = hist w @ [Py c]"
  by (simp add: py_def)

lemma hist_libc [simp]: "hist (libc c w) = hist w @ [Libc c]"
  by (simp add: libc_def)

lemma more_lu [simp]: "ext.more (lu c w) = ext.more w"
  by (simp add: lu_def)

lemma more_py [simp]: "ext.more (py c w) = ext.more w"
  by (simp add: py_def)

lemma more_libc [simp]: "ext.more (libc c w) = ext.more w"
  by (simp add: libc_def)

lemma hist_c_free [simp]:
  "hist (c_free p w) = hist w @ (if p = 0 then [] else [Libc (Free p)])"
  by (simp add: c_free_def)

lemma hist_pymem_free [simp]:
  "hist (pymem_free p w) = hist w @ (if p = 0 then [] else [Py (PyMem_free p)])"
  by (simp add: pymem_free_def)

lemma more_c_free [simp]: "ext.more (c_free p w) = ext.more w"
  by (simp add: c_free_def)

lemma more_pymem_free [simp]: "ext.more (pymem_free p w) = ext.more w"
  by (simp add: pymem_free_def)

lemmas [event_simps] =
  io_uring_get_sqe_def io_uring_submit_def c_malloc_def pymem_malloc_def Let_def

text \<open>Two states with the same history and the same rest are equal.\<close>

lemma ext_eqI: "hist v = hist w \<Longrightarrow> ext.more v = ext.more w \<Longrightarrow> v = w"
  for v w :: "'a ext_scheme"
  by (cases v, cases w) simp

lemma ledger_Nil [simp]: "ledger [] r = 0"
  by (simp add: ledger_def)

lemma ledger_Cons [simp]: "ledger (c # h) r = effect c r + ledger h r"
  by (simp add: ledger_def)

lemma ledger_append [simp]: "ledger (h @ h') r = ledger h r + ledger h' r"
  by (simp add: ledger_def)

lemma effect_Lu [simp]: "effect (Lu c) r = 0"
  by simp

section \<open>Integer conversions\<close>

lemma c_int_id [simp]: "is_c_int i \<Longrightarrow> c_int i = i"
  by (simp add: c_int_def is_c_int_def signed_take_bit_int_eq_self)

lemma c_int_range: "is_c_int (c_int i)"
  using signed_take_bit_int_less_exp [of 31 i] signed_take_bit_int_greater_eq_minus_exp [of 31 i]
  by (simp add: c_int_def is_c_int_def)

text \<open>A request index survives the trip through the SQE's \<open>user_data\<close>.\<close>

lemma index_of_user_data_of:
  assumes "is_c_int i"
  shows "index_of (user_data_of i) = i"
proof -
  have "index_of (user_data_of i) = signed_take_bit 31 i"
    unfolding index_of_def user_data_of_def
    by transfer (simp add: signed_take_bit_take_bit)
  then show ?thesis
    using assms by (simp add: c_int_def [symmetric])
qed

text \<open>A nonnegative signed reading of a word is its unsigned one.\<close>

lemma unat_nat_sint: "0 \<le> sint x \<Longrightarrow> unat x = nat (sint x)" for x :: "32 word"
proof -
  assume nn: "0 \<le> sint x"
  have s: "sint x = signed_take_bit 31 (uint x)" by (simp add: sint_uint)
  with nn have "\<not> bit (uint x) 31" by (simp add: signed_take_bit_nonnegative_iff)
  moreover have "take_bit 32 (uint x) = uint x"
    using uint_lt2p [of x] by (simp add: take_bit_int_eq_self)
  ultimately have "sint x = uint x"
    using s signed_take_bit_eq_take_bit_minus [of 31 "uint x"] by simp
  then show ?thesis by simp
qed

section \<open>A sample environment\<close>

text \<open>
  The environment at which the theorems with hypotheses on liburing, CPython or the allocator are
  instantiated.  Every address it hands out is larger than every address handed out before.
\<close>

fun addr_of :: "call \<Rightarrow> ptr" where
  "addr_of (Lu (Get_sqe p)) = p"
| "addr_of (Libc (Malloc n p)) = p"
| "addr_of (Py (PyMem_malloc n p)) = p"
| "addr_of c = 0"

definition fresh_ptr :: "history \<Rightarrow> ptr" where
  "fresh_ptr h = Suc (\<Sum>c\<leftarrow>h. addr_of c)"

definition sample_env :: env where
  "sample_env = \<lparr>
     e_get_sqe = fresh_ptr, e_submit = (\<lambda>h. 1), e_queue_init = (\<lambda>h. 0),
     e_register_buffers = (\<lambda>h. 0), e_unregister_buffers = (\<lambda>h. 0),
     e_setup_buf_ring = fresh_ptr, e_buf_ring_mask = (\<lambda>n. uint n - 1),
     e_peek_cqe = (\<lambda>h. None), e_wait_cqe = (\<lambda>h. None),
     e_recvmsg_validate = (\<lambda>h buf len msgh. buf), e_recvmsg_payload = (\<lambda>h o1 msgh. o1),
     e_recvmsg_payload_length = (\<lambda>h o1 len msgh. 1),
     e_malloc = (\<lambda>h n. fresh_ptr h), e_rand = (\<lambda>h. 7), e_inet_pton = (\<lambda>d s. Some 1),
     e_mem = (\<lambda>h p. 0), e_gettid = (\<lambda>h. 1), e_create_future = (\<lambda>h. Some 900),
     e_new_object = (\<lambda>h. Some 901), e_alloc_value = (\<lambda>h. True),
     e_pymem_malloc = (\<lambda>h n. fresh_ptr h), e_get_item = (\<lambda>h q i. Some 902),
     e_get_buffer = (\<lambda>h x. Some (8000, 16)), e_seq_check = (\<lambda>x. True),
     e_seq_length = (\<lambda>h x. 1), e_seq_fast = (\<lambda>h x. Some (903, [902])), e_py_size = (\<lambda>x. 1),
     e_loop_closed = (\<lambda>h. False),
     e_same_thread = (\<lambda>h. True), e_eventfd = (\<lambda>h. 5), e_pipe2 = (\<lambda>h. (6, 7)),
     e_read = (\<lambda>h. 8), e_write = (\<lambda>h. 8), e_errno_again = (\<lambda>h. False)\<rparr>"

lemma sample_simps [simp]:
  "e_get_sqe sample_env = fresh_ptr" "e_submit sample_env h = 1"
  "e_malloc sample_env h n = fresh_ptr h" "e_pymem_malloc sample_env h n = fresh_ptr h"
  "e_get_buffer sample_env h x = Some (8000, 16)" "e_get_item sample_env h x i = Some 902"
  "e_create_future sample_env h = Some 900" "e_new_object sample_env h = Some 901"
  "e_seq_check sample_env x" "e_seq_length sample_env h x = 1" "e_py_size sample_env x = 1"
  "e_seq_fast sample_env h x = Some (903, [902])" "e_rand sample_env h = 7"
  "e_gettid sample_env h = 1" "\<not> e_loop_closed sample_env h" "e_alloc_value sample_env h"
  "e_same_thread sample_env h" "e_peek_cqe sample_env h = None" "e_queue_init sample_env h = 0"
  by (simp_all add: sample_env_def)

lemma fresh_ptr_pos [simp]: "fresh_ptr h \<noteq> 0" "0 < fresh_ptr h"
  by (simp_all add: fresh_ptr_def)

lemma fresh_ptr_above:
  assumes "c \<in> set h"
  shows "addr_of c < fresh_ptr h"
  using member_le_sum_list [of "addr_of c" "map addr_of h"] assms by (simp add: fresh_ptr_def)

end
