(* ===== verification/Ring_Timer.thy ===== *)
theory Ring_Timer
  imports Uringio_Prelude
begin

text \<open>
  The ring (\<open>src/ring\<close>), the C timer (\<open>src/timer\<close>) and the macro of \<open>src/macroses.h\<close>
  with which every request operation starts.  The second half defines the view of a
  submission queue entry that the history gives (what the program has written into the
  entry since liburing handed it out) and the contract \<open>request_op\<close> that the operations
  of \<open>src/ops\<close> share.
\<close>

section \<open>Kernel interface constants\<close>

abbreviation IOSQE_IO_LINK :: "8 word" where "IOSQE_IO_LINK \<equiv> 4"
abbreviation IOSQE_BUFFER_SELECT :: "8 word" where "IOSQE_BUFFER_SELECT \<equiv> 32"
abbreviation IORING_ACCEPT_MULTISHOT :: "16 word" where "IORING_ACCEPT_MULTISHOT \<equiv> 1"
abbreviation IORING_RECV_MULTISHOT :: "16 word" where "IORING_RECV_MULTISHOT \<equiv> 2"
abbreviation IORING_RECVSEND_FIXED_BUF :: "16 word" where "IORING_RECVSEND_FIXED_BUF \<equiv> 4"
abbreviation IORING_TIMEOUT_MULTISHOT :: int where "IORING_TIMEOUT_MULTISHOT \<equiv> 64"
abbreviation IORING_ASYNC_CANCEL_ANY :: int where "IORING_ASYNC_CANCEL_ANY \<equiv> 4"

definition WAKEUP_FD_TAG :: "64 word" where
  "WAKEUP_FD_TAG = - 1"

section \<open>Structures\<close>

record TimerParams =
  timer_sec :: int
  timer_nsec :: int
  timer_count :: int
  is_multishot :: bool

record TimeoutParams =
  sec :: int
  nsec :: int
  is_required :: bool

definition no_timeout :: TimeoutParams where
  "no_timeout = \<lparr>sec = 0, nsec = 0, is_required = False\<rparr>"

section \<open>Ring\<close>

definition create_sqe :: "env \<Rightarrow> 'a ext_scheme \<Rightarrow> ptr \<times> 'a ext_scheme" where
  "create_sqe E w =
     (let (sqe, w) = io_uring_get_sqe E w
      in if sqe = 0 then (0, w) else (sqe, w))"

definition ring_init :: "env \<Rightarrow> 'a ext_scheme \<Rightarrow> int \<times> 'a ext_scheme" where
  "ring_init E w =
     (let result = e_queue_init E (hist w); w = lu (Queue_init 256 0 result) w
      in if result < 0 then (-1, w) else (0, w))"

definition ring_destroy :: "env \<Rightarrow> ptr \<Rightarrow> 'a ext_scheme \<Rightarrow> 'a ext_scheme" where
  "ring_destroy E ring w =
     (if ring = 0 then w
      else let (sqe, w) = io_uring_get_sqe E w
           in if sqe = 0 then w
              else let w = lu (Prep sqe (Prep_cancel 0 IORING_ASYNC_CANCEL_ANY)) w;
                       (result, w) = io_uring_submit E w
                   in if result < 0 then w else lu Queue_exit w)"

definition ring_prep_wakeup_read ::
    "env \<Rightarrow> int \<Rightarrow> ptr \<Rightarrow> 'a ext_scheme \<Rightarrow> int \<times> 'a ext_scheme" where
  "ring_prep_wakeup_read E wakeup_fd wakeup_buf w =
     (let (sqe, w) = io_uring_get_sqe E w
      in if sqe = 0 then (-1, w)
         else let w = lu (Prep sqe (Prep_read wakeup_fd wakeup_buf 8 0)) w;
                  w = lu (Set_data sqe WAKEUP_FD_TAG) w;
                  (_, w) = io_uring_submit E w
              in (0, w))"

section \<open>Timer\<close>

definition set_data_and_submit ::
    "env \<Rightarrow> ptr \<Rightarrow> int \<Rightarrow> 'a ext_scheme \<Rightarrow> int \<times> 'a ext_scheme" where
  "set_data_and_submit E sqe request_idx w =
     (let w = lu (Set_data sqe (user_data_of request_idx)) w;
          (result, w) = io_uring_submit E w
      in if result < 0 then (0, w) else (1, w))"

definition timer ::
    "env \<Rightarrow> int \<Rightarrow> TimerParams option \<Rightarrow> 'a ext_scheme \<Rightarrow> int \<times> 'a ext_scheme" where
  "timer E request_idx timer_params w =
     (case timer_params of
        None \<Rightarrow> (-1, w)
      | Some tp \<Rightarrow>
          let (sqe, w) = create_sqe E w
          in if sqe = 0 then (-1, w)
             else let ts = \<lparr>tv_sec = timer_sec tp, tv_nsec = timer_nsec tp\<rparr>;
                      flag = (if is_multishot tp then IORING_TIMEOUT_MULTISHOT else 0);
                      w = lu (Prep sqe (Prep_timeout ts (word_of_int (timer_count tp))
                                          (word_of_int flag))) w
                  in set_data_and_submit E sqe request_idx w)"

definition timeout ::
    "env \<Rightarrow> ptr \<Rightarrow> TimeoutParams option \<Rightarrow> 'a ext_scheme \<Rightarrow> int \<times> 'a ext_scheme" where
  "timeout E sqe timeout_params w =
     (case timeout_params of
        None \<Rightarrow> (0, w)
      | Some tp \<Rightarrow>
          if sec tp = 0 \<and> nsec tp = 0 \<and> \<not> is_required tp then (0, w)
          else let w = lu (Or_flags sqe IOSQE_IO_LINK) w;
                   (timeout_sqe, w) = io_uring_get_sqe E w
               in if timeout_sqe = 0
                  then (if is_required tp then (-1, w) else (0, w))
                  else let ts = \<lparr>tv_sec = sec tp, tv_nsec = nsec tp\<rparr>
                       in (0, lu (Prep timeout_sqe (Prep_link_timeout ts 0)) w))"

text \<open>
  \<open>SQE_WITH_OPTIONAL_TIMEOUT\<close> declares \<open>sqe\<close> and returns \<open>-1\<close> from the enclosing function when
  there is no entry or no timeout entry: the rest of the function is the macro's continuation.
\<close>

definition SQE_WITH_OPTIONAL_TIMEOUT ::
    "env \<Rightarrow> TimeoutParams option \<Rightarrow> (ptr \<Rightarrow> 'a ext_scheme \<Rightarrow> int \<times> 'a ext_scheme) \<Rightarrow>
     'a ext_scheme \<Rightarrow> int \<times> 'a ext_scheme" where
  "SQE_WITH_OPTIONAL_TIMEOUT E timeout_params rest w =
     (let (sqe, w) = create_sqe E w
      in if sqe = 0 then (-1, w)
         else let (r, w) = timeout E sqe timeout_params w
              in if r < 0 then (-1, w) else rest sqe w)"

section \<open>The view of an entry\<close>

text \<open>
  What the program has written into an entry since \<open>io_uring_get_sqe\<close> last returned it.  A
  field nobody wrote is \<open>None\<close>: the entry then carries whatever liburing left there.
\<close>

record sqe_view =
  v_prep :: "prep option"
  v_flags :: "8 word"
  v_group :: "16 word option"
  v_index :: "16 word option"
  v_ioprio :: "16 word"
  v_data :: "64 word option"

definition fresh_view :: sqe_view where
  "fresh_view = \<lparr>v_prep = None, v_flags = 0, v_group = None, v_index = None,
                 v_ioprio = 0, v_data = None\<rparr>"

text \<open>
  The preparation functions of liburing write more than the operation and its arguments: those
  listed here assign or extend fields that the program also writes itself.  In particular
  \<open>io_uring_prep_read_multishot\<close> \<^emph>\<open>assigns\<close> the flags of the entry, where all others leave them.
\<close>

fun prep_fields :: "prep \<Rightarrow> sqe_view \<Rightarrow> sqe_view" where
  "prep_fields (Prep_read_fixed fd buf n off index) v = v\<lparr>v_index := Some (word_of_int index)\<rparr>"
| "prep_fields (Prep_write_fixed fd buf n off index) v = v\<lparr>v_index := Some (word_of_int index)\<rparr>"
| "prep_fields (Prep_read_multishot fd n off bgid) v =
     v\<lparr>v_flags := IOSQE_BUFFER_SELECT, v_group := Some (word_of_int bgid)\<rparr>"
| "prep_fields (Prep_multishot_accept fd addr len fl) v =
     v\<lparr>v_ioprio := v_ioprio v OR IORING_ACCEPT_MULTISHOT\<rparr>"
| "prep_fields (Prep_recv_multishot fd buf n fl) v =
     v\<lparr>v_ioprio := v_ioprio v OR IORING_RECV_MULTISHOT\<rparr>"
| "prep_fields (Prep_recvmsg_multishot fd msg fl) v =
     v\<lparr>v_ioprio := v_ioprio v OR IORING_RECV_MULTISHOT\<rparr>"
| "prep_fields (Prep_send_zc fd buf n fl zc) v = v\<lparr>v_ioprio := ucast zc\<rparr>"
| "prep_fields (Prep_send_zc_fixed fd buf n fl zc index) v =
     v\<lparr>v_ioprio := ucast zc OR IORING_RECVSEND_FIXED_BUF, v_index := Some (ucast index)\<rparr>"
| "prep_fields x v = v"

fun view_step :: "ptr \<Rightarrow> call \<Rightarrow> sqe_view \<Rightarrow> sqe_view" where
  "view_step s (Lu (Get_sqe p)) v = (if p = s then fresh_view else v)"
| "view_step s (Lu (Prep p x)) v = (if p = s then (prep_fields x v)\<lparr>v_prep := Some x\<rparr> else v)"
| "view_step s (Lu (Or_flags p f)) v = (if p = s then v\<lparr>v_flags := v_flags v OR f\<rparr> else v)"
| "view_step s (Lu (Set_buf_group p g)) v = (if p = s then v\<lparr>v_group := Some g\<rparr> else v)"
| "view_step s (Lu (Set_buf_index p i)) v = (if p = s then v\<lparr>v_index := Some i\<rparr> else v)"
| "view_step s (Lu (Or_ioprio p f)) v = (if p = s then v\<lparr>v_ioprio := v_ioprio v OR f\<rparr> else v)"
| "view_step s (Lu (Set_data p d)) v = (if p = s then v\<lparr>v_data := Some d\<rparr> else v)"
| "view_step s c v = v"

definition sqe_view :: "history \<Rightarrow> ptr \<Rightarrow> sqe_view" where
  "sqe_view h s = fold (view_step s) h fresh_view"

text \<open>
  The entries handed out since the last submission, latest first, and liburing's promise that
  it does not hand out an entry twice before it is submitted.
\<close>

fun taken_step :: "call \<Rightarrow> ptr list \<Rightarrow> ptr list" where
  "taken_step (Lu (Get_sqe p)) xs = p # xs"
| "taken_step (Lu (Submit r)) xs = []"
| "taken_step c xs = xs"

definition taken :: "history \<Rightarrow> ptr list" where
  "taken h = fold taken_step h []"

definition sqes_fresh :: "env \<Rightarrow> bool" where
  "sqes_fresh E \<longleftrightarrow> (\<forall>h. e_get_sqe E h \<noteq> 0 \<longrightarrow> e_get_sqe E h \<notin> set (taken h))"

text \<open>The calls that make up the body of a request operation write the entry they are
  given and nothing else: they neither take nor submit an entry nor set its user data.\<close>

fun writes_only :: "ptr \<Rightarrow> lu_call \<Rightarrow> bool" where
  "writes_only s (Prep p x) \<longleftrightarrow> p = s"
| "writes_only s (Or_flags p f) \<longleftrightarrow> p = s"
| "writes_only s (Set_buf_group p g) \<longleftrightarrow> p = s"
| "writes_only s (Set_buf_index p i) \<longleftrightarrow> p = s"
| "writes_only s (Or_ioprio p f) \<longleftrightarrow> p = s"
| "writes_only s c \<longleftrightarrow> False"

definition body_ok :: "(ptr \<Rightarrow> lu_call list) \<Rightarrow> bool" where
  "body_ok body \<longleftrightarrow>
     (\<forall>s. list_all (writes_only s) (body s) \<and> (\<exists>x. Prep s x \<in> set (body s)))"

definition lus :: "lu_call list \<Rightarrow> 'a ext_scheme \<Rightarrow> 'a ext_scheme" where
  "lus cs w = fold lu cs w"

definition issue ::
    "env \<Rightarrow> (ptr \<Rightarrow> lu_call list) \<Rightarrow> int \<Rightarrow> TimeoutParams \<Rightarrow> 'a ext_scheme \<Rightarrow>
     int \<times> 'a ext_scheme" where
  "issue E body request_idx tp =
     SQE_WITH_OPTIONAL_TIMEOUT E (Some tp)
       (\<lambda>sqe w. set_data_and_submit E sqe request_idx (lus (body sqe) w))"

section \<open>Basic facts\<close>

lemma hist_lus [simp]: "hist (lus cs w) = hist w @ map Lu cs"
  by (induction cs arbitrary: w) (simp_all add: lus_def)

lemma more_lus [simp]: "ext.more (lus cs w) = ext.more w"
  by (induction cs arbitrary: w) (simp_all add: lus_def)

lemma lus_Nil [simp]: "lus [] w = w"
  by (simp add: lus_def)

lemma lus_Cons [simp]: "lus (c # cs) w = lus cs (lu c w)"
  by (simp add: lus_def)

lemma sqe_view_append:
  "sqe_view (h @ h') s = fold (view_step s) h' (sqe_view h s)"
  by (simp add: sqe_view_def)

lemma sqe_view_snoc [simp]: "sqe_view (h @ [c]) s = view_step s c (sqe_view h s)"
  by (simp add: sqe_view_append)

lemma sqe_view_Cons_end: "sqe_view (h @ c # h') s = fold (view_step s) h' (view_step s c (sqe_view h s))"
  by (simp add: sqe_view_append)

lemma v_data_prep_fields [simp]: "v_data (prep_fields x v) = v_data v"
  by (cases "(x, v)" rule: prep_fields.cases) auto

lemma writes_only_keeps_data:
  "writes_only s c \<Longrightarrow> v_data (view_step p (Lu c) v) = v_data v"
  by (cases c) auto

lemma writes_only_other:
  "writes_only s c \<Longrightarrow> p \<noteq> s \<Longrightarrow> view_step p (Lu c) v = v"
  by (cases c) auto

lemma fold_writes_only_other:
  "list_all (writes_only s) cs \<Longrightarrow> p \<noteq> s \<Longrightarrow> fold (view_step p) (map Lu cs) v = v"
  by (induction cs arbitrary: v) (auto intro: writes_only_other)

lemma fold_writes_only_data:
  "list_all (writes_only s) cs \<Longrightarrow> v_data (fold (view_step p) (map Lu cs) v) = v_data v"
  by (induction cs arbitrary: v) (auto intro: writes_only_keeps_data)

lemma fold_writes_only_prep:
  "list_all (writes_only s) cs \<Longrightarrow> (\<exists>x. Prep s x \<in> set cs) \<or> v_prep v \<noteq> None \<Longrightarrow>
   v_prep (fold (view_step s) (map Lu cs) v) \<noteq> None"
proof (induction cs arbitrary: v)
  case (Cons c cs)
  then show ?case by (cases c) auto
qed simp

lemma v_prep_Set_data [simp]: "v_prep (view_step s (Lu (Set_data p d)) v) = v_prep v"
  by simp

section \<open>The events of a submission\<close>

text \<open>The events of \<open>timeout\<close> and whether it lets the operation continue.\<close>

definition timeout_wanted :: "TimeoutParams \<Rightarrow> bool" where
  "timeout_wanted tp \<longleftrightarrow> sec tp \<noteq> 0 \<or> nsec tp \<noteq> 0 \<or> is_required tp"

definition timeout_events :: "env \<Rightarrow> ptr \<Rightarrow> TimeoutParams \<Rightarrow> history \<Rightarrow> history" where
  "timeout_events E sqe tp h =
     (if \<not> timeout_wanted tp then []
      else let q = e_get_sqe E (h @ [Lu (Or_flags sqe IOSQE_IO_LINK)])
           in [Lu (Or_flags sqe IOSQE_IO_LINK), Lu (Get_sqe q)] @
              (if q = 0 then []
               else [Lu (Prep q (Prep_link_timeout
                       \<lparr>tv_sec = sec tp, tv_nsec = nsec tp\<rparr> 0))]))"

definition timeout_refused :: "env \<Rightarrow> ptr \<Rightarrow> TimeoutParams \<Rightarrow> history \<Rightarrow> bool" where
  "timeout_refused E sqe tp h \<longleftrightarrow>
     timeout_wanted tp \<and> is_required tp \<and>
     e_get_sqe E (h @ [Lu (Or_flags sqe IOSQE_IO_LINK)]) = 0"

lemma timeout_result:
  "timeout E sqe (Some tp) w =
     (if timeout_refused E sqe tp (hist w) then -1 else 0,
      w\<lparr>hist := hist w @ timeout_events E sqe tp (hist w)\<rparr>)"
  by (auto simp: timeout_def timeout_events_def timeout_refused_def timeout_wanted_def
      event_simps intro!: ext_eqI)

lemma create_sqe_eq: "create_sqe E w = io_uring_get_sqe E w"
  by (simp add: create_sqe_def event_simps)

text \<open>
  The whole operation as one equation over the history: the entry \<open>s\<close>, the timeout's events,
  the body and the submission.
\<close>

definition issue_events ::
    "env \<Rightarrow> (ptr \<Rightarrow> lu_call list) \<Rightarrow> int \<Rightarrow> TimeoutParams \<Rightarrow> history \<Rightarrow> int \<times> history" where
  "issue_events E body request_idx tp h =
     (let s = e_get_sqe E h; h1 = h @ [Lu (Get_sqe s)]
      in if s = 0 then (-1, h1)
         else let h2 = h1 @ timeout_events E s tp h1
              in if timeout_refused E s tp h1 then (-1, h2)
                 else let h3 = h2 @ map Lu (body s) @ [Lu (Set_data s (user_data_of request_idx))];
                          r = e_submit E h3
                      in (if r < 0 then 0 else 1, h3 @ [Lu (Submit r)]))"

lemma issue_eq:
  "issue E body request_idx tp w =
     (let (r, h) = issue_events E body request_idx tp (hist w) in (r, w\<lparr>hist := h\<rparr>))"
proof (cases "e_get_sqe E (hist w) = 0")
  case True
  then show ?thesis
    by (simp add: issue_def SQE_WITH_OPTIONAL_TIMEOUT_def create_sqe_eq issue_events_def
        event_simps lu_def)
next
  case False
  then show ?thesis
    by (simp add: issue_def SQE_WITH_OPTIONAL_TIMEOUT_def create_sqe_eq issue_events_def
        timeout_result set_data_and_submit_def event_simps lu_def)
qed

text \<open>The request's own entry after \<open>timeout\<close>: linked to its timeout when one is wanted.\<close>

lemma view_after_timeout:
  assumes "sqes_fresh E" and "s \<noteq> 0"
  shows "sqe_view ((h @ [Lu (Get_sqe s)]) @ timeout_events E s tp (h @ [Lu (Get_sqe s)])) s =
     fresh_view\<lparr>v_flags := if timeout_wanted tp then IOSQE_IO_LINK else 0\<rparr>"
proof -
  let ?h = "h @ [Lu (Get_sqe s), Lu (Or_flags s IOSQE_IO_LINK)]"
  have "s \<in> set (taken ?h)"
    by (simp add: taken_def)
  with assms have "e_get_sqe E ?h \<noteq> s"
    by (metis sqes_fresh_def)
  then show ?thesis
    by (simp add: timeout_events_def Let_def sqe_view_append) (simp add: fresh_view_def)
qed

section \<open>The contract of the request operations\<close>

text \<open>
  An operation of \<open>src/ops\<close> takes an entry (and a linked timeout entry when the caller asks for
  one), fills it with calls of its own, stamps it with the request index and submits.  The
  laws: the operation is the shared frame around its body, and the body is well behaved.
\<close>

locale request_op =
  fixes op :: "env \<Rightarrow> int \<Rightarrow> TimeoutParams \<Rightarrow> 'a ext_scheme \<Rightarrow> int \<times> 'a ext_scheme"
    and body :: "ptr \<Rightarrow> lu_call list"
  assumes op_issue: "op E request_idx tp w = issue E body request_idx tp w"
    and body_wf: "body_ok body"
begin

lemma result_codes: "fst (op E request_idx tp w) \<in> {-1, 0, 1}"
  by (simp add: op_issue issue_eq issue_events_def Let_def)

lemma keeps_state: "ext.more (snd (op E request_idx tp w)) = ext.more w"
  by (simp add: op_issue issue_eq split: prod.splits)

lemma no_entry:
  assumes "e_get_sqe E (hist w) = 0"
  shows "op E request_idx tp w = (-1, lu (Get_sqe 0) w)"
  using assms by (simp add: op_issue issue_eq issue_events_def lu_def)

text \<open>Success means that an entry with a prepared operation and this request's index was
  submitted, and that the kernel took it.\<close>

lemma success:
  assumes "op E request_idx tp w = (1, w')"
  obtains s h r where
    "s \<noteq> 0" "s = e_get_sqe E (hist w)"
    "hist w' = h @ [Lu (Submit r)]" "0 \<le> r"
    "v_data (sqe_view h s) = Some (user_data_of request_idx)"
    "v_prep (sqe_view h s) \<noteq> None"
proof -
  let ?s = "e_get_sqe E (hist w)"
  let ?h1 = "hist w @ [Lu (Get_sqe ?s)]"
  let ?h2 = "?h1 @ timeout_events E ?s tp ?h1"
  let ?h3 = "?h2 @ map Lu (body ?s) @ [Lu (Set_data ?s (user_data_of request_idx))]"
  from assms have ok: "?s \<noteq> 0" "\<not> timeout_refused E ?s tp ?h1" "\<not> e_submit E ?h3 < 0"
    "hist w' = ?h3 @ [Lu (Submit (e_submit E ?h3))]"
    by (auto simp: op_issue issue_eq issue_events_def Let_def split: if_splits)
  have wf: "list_all (writes_only ?s) (body ?s)" "\<exists>x. Prep ?s x \<in> set (body ?s)"
    using body_wf by (auto simp: body_ok_def)
  have view: "sqe_view ?h3 ?s =
      view_step ?s (Lu (Set_data ?s (user_data_of request_idx)))
        (fold (view_step ?s) (map Lu (body ?s)) (sqe_view ?h2 ?s))"
    by (simp add: sqe_view_append)
  have "v_prep (sqe_view ?h3 ?s) \<noteq> None"
    unfolding view v_prep_Set_data by (rule fold_writes_only_prep [OF wf(1) disjI1 [OF wf(2)]])
  moreover have "v_data (sqe_view ?h3 ?s) = Some (user_data_of request_idx)"
    unfolding view by simp
  ultimately show ?thesis
    using that [OF ok(1) refl ok(4)] ok(3) by simp
qed

text \<open>With liburing's promise, the submitted entry is exactly what the body wrote over a fresh
  entry.\<close>

lemma success_view:
  assumes "op E request_idx tp w = (1, w')" and "sqes_fresh E"
  shows "\<exists>h r. hist w' = h @ [Lu (Submit r)] \<and> 0 \<le> r \<and>
     (let s = e_get_sqe E (hist w)
      in s \<noteq> 0 \<and>
         sqe_view h s =
           (fold (view_step s) (map Lu (body s))
              (fresh_view\<lparr>v_flags := if timeout_wanted tp then IOSQE_IO_LINK else 0\<rparr>))
           \<lparr>v_data := Some (user_data_of request_idx)\<rparr>)"
proof -
  let ?s = "e_get_sqe E (hist w)"
  let ?h1 = "hist w @ [Lu (Get_sqe ?s)]"
  let ?h2 = "?h1 @ timeout_events E ?s tp ?h1"
  let ?h3 = "?h2 @ map Lu (body ?s) @ [Lu (Set_data ?s (user_data_of request_idx))]"
  from assms have ok: "?s \<noteq> 0" "0 \<le> e_submit E ?h3"
    "hist w' = ?h3 @ [Lu (Submit (e_submit E ?h3))]"
    by (auto simp: op_issue issue_eq issue_events_def Let_def split: if_splits)
  have "sqe_view ?h3 ?s =
      (fold (view_step ?s) (map Lu (body ?s)) (sqe_view ?h2 ?s))
        \<lparr>v_data := Some (user_data_of request_idx)\<rparr>"
    unfolding sqe_view_append [of ?h2] by simp
  also note view_after_timeout [OF assms(2) ok(1)]
  finally show ?thesis
    using ok unfolding Let_def by blast
qed

text \<open>The three results tell the three ways the operation can end apart.\<close>

lemma result_minus_one_iff:
  "fst (op E request_idx tp w) = -1 \<longleftrightarrow>
     (let s = e_get_sqe E (hist w)
      in s = 0 \<or> timeout_refused E s tp (hist w @ [Lu (Get_sqe s)]))"
  by (simp add: op_issue issue_eq issue_events_def Let_def)

end

section \<open>liburing's promise holds in the sample environment\<close>

lemma taken_fold: "p \<in> set (fold taken_step h xs) \<Longrightarrow> p \<in> set xs \<or> Lu (Get_sqe p) \<in> set h"
proof (induction h arbitrary: xs)
  case (Cons c h)
  from Cons.prems have "p \<in> set (fold taken_step h (taken_step c xs))" by simp
  from Cons.IH [OF this] show ?case
    by (cases "(c, xs)" rule: taken_step.cases) auto
qed simp

lemma sqes_fresh_sample: "sqes_fresh sample_env"
proof -
  have "fresh_ptr h \<notin> set (taken h)" for h
  proof
    assume "fresh_ptr h \<in> set (taken h)"
    then have "Lu (Get_sqe (fresh_ptr h)) \<in> set h"
      using taken_fold [of "fresh_ptr h" h "[]"] by (simp add: taken_def)
    from fresh_ptr_above [OF this] show False by simp
  qed
  then show ?thesis by (simp add: sqes_fresh_def)
qed

end
