(* ===== verification/File_Ops.thy ===== *)
theory File_Ops
  imports Ring_Timer
begin

text \<open>
  The C layer's file operations (\<open>src/ops/files\<close>).  Every operation is the frame of
  \<open>Ring_Timer\<close> around the liburing call of its name; each is an instance of the contract
  \<open>request_op\<close>.
\<close>

section \<open>Kernel interface constants\<close>

abbreviation O_RDWR_O_CREAT :: int where "O_RDWR_O_CREAT \<equiv> 66"
abbreviation RWF_NOWAIT :: int where "RWF_NOWAIT \<equiv> 8"
abbreviation IORING_FSYNC_DATASYNC :: "32 word" where "IORING_FSYNC_DATASYNC \<equiv> 1"

section \<open>files.c\<close>

definition open_file ::
    "env \<Rightarrow> int \<Rightarrow> int \<Rightarrow> string \<Rightarrow> int \<Rightarrow> int \<Rightarrow> 32 word \<Rightarrow> TimeoutParams \<Rightarrow>
     'a ext_scheme \<Rightarrow> int \<times> 'a ext_scheme" where
  "open_file E request_idx dfd path flags resolve mode timeout_params =
     SQE_WITH_OPTIONAL_TIMEOUT E (Some timeout_params) (\<lambda>sqe w.
       let flags = (if flags = -1 then O_RDWR_O_CREAT else flags);
           how = \<lparr>how_flags = word_of_int flags, how_mode = mode,
                  how_resolve = word_of_int resolve\<rparr>;
           w = lu (Prep sqe (Prep_openat2 dfd path how)) w
       in set_data_and_submit E sqe request_idx w)"

definition uringio_read ::
    "env \<Rightarrow> int \<Rightarrow> int \<Rightarrow> ptr \<Rightarrow> 32 word \<Rightarrow> int \<Rightarrow> TimeoutParams \<Rightarrow>
     'a ext_scheme \<Rightarrow> int \<times> 'a ext_scheme" where
  "uringio_read E request_idx fd buf sz offset timeout_params =
     SQE_WITH_OPTIONAL_TIMEOUT E (Some timeout_params) (\<lambda>sqe w.
       let w = lu (Prep sqe (Prep_read fd buf sz (word_of_int offset))) w
       in set_data_and_submit E sqe request_idx w)"

definition uringio_readv ::
    "env \<Rightarrow> int \<Rightarrow> int \<Rightarrow> ptr \<Rightarrow> 32 word \<Rightarrow> int \<Rightarrow> int \<Rightarrow> TimeoutParams \<Rightarrow>
     'a ext_scheme \<Rightarrow> int \<times> 'a ext_scheme" where
  "uringio_readv E request_idx fd iovecs nr_vecs offset nowait timeout_params =
     SQE_WITH_OPTIONAL_TIMEOUT E (Some timeout_params) (\<lambda>sqe w.
       let flags = (if nowait \<noteq> 0 then RWF_NOWAIT else 0);
           w = lu (Prep sqe (Prep_readv2 fd (Iov_ptr iovecs) nr_vecs (word_of_int offset) flags)) w
       in set_data_and_submit E sqe request_idx w)"

definition uringio_write ::
    "env \<Rightarrow> int \<Rightarrow> int \<Rightarrow> ptr \<Rightarrow> 32 word \<Rightarrow> int \<Rightarrow> TimeoutParams \<Rightarrow>
     'a ext_scheme \<Rightarrow> int \<times> 'a ext_scheme" where
  "uringio_write E request_idx fd buf sz offset timeout_params =
     SQE_WITH_OPTIONAL_TIMEOUT E (Some timeout_params) (\<lambda>sqe w.
       let w = lu (Prep sqe (Prep_write fd buf sz (word_of_int offset))) w
       in set_data_and_submit E sqe request_idx w)"

definition uringio_writev ::
    "env \<Rightarrow> int \<Rightarrow> int \<Rightarrow> ptr \<Rightarrow> 32 word \<Rightarrow> int \<Rightarrow> int \<Rightarrow> TimeoutParams \<Rightarrow>
     'a ext_scheme \<Rightarrow> int \<times> 'a ext_scheme" where
  "uringio_writev E request_idx fd iovecs nr_vecs offset flags timeout_params =
     SQE_WITH_OPTIONAL_TIMEOUT E (Some timeout_params) (\<lambda>sqe w.
       let w = lu (Prep sqe (Prep_writev2 fd (Iov_ptr iovecs) nr_vecs (word_of_int offset) flags)) w
       in set_data_and_submit E sqe request_idx w)"

definition uringio_close_file ::
    "env \<Rightarrow> int \<Rightarrow> int \<Rightarrow> TimeoutParams \<Rightarrow> 'a ext_scheme \<Rightarrow> int \<times> 'a ext_scheme" where
  "uringio_close_file E request_idx fd timeout_params =
     SQE_WITH_OPTIONAL_TIMEOUT E (Some timeout_params) (\<lambda>sqe w.
       let w = lu (Prep sqe (Prep_close fd)) w
       in set_data_and_submit E sqe request_idx w)"

definition uringio_fsync ::
    "env \<Rightarrow> int \<Rightarrow> int \<Rightarrow> TimeoutParams \<Rightarrow> 'a ext_scheme \<Rightarrow> int \<times> 'a ext_scheme" where
  "uringio_fsync E request_idx fd timeout_params =
     SQE_WITH_OPTIONAL_TIMEOUT E (Some timeout_params) (\<lambda>sqe w.
       let fsync_flags = 0;
           w = lu (Prep sqe (Prep_fsync fd fsync_flags)) w
       in set_data_and_submit E sqe request_idx w)"

definition uringio_fdatasync ::
    "env \<Rightarrow> int \<Rightarrow> int \<Rightarrow> TimeoutParams \<Rightarrow> 'a ext_scheme \<Rightarrow> int \<times> 'a ext_scheme" where
  "uringio_fdatasync E request_idx fd timeout_params =
     SQE_WITH_OPTIONAL_TIMEOUT E (Some timeout_params) (\<lambda>sqe w.
       let fsync_flags = IORING_FSYNC_DATASYNC;
           w = lu (Prep sqe (Prep_fsync fd fsync_flags)) w
       in set_data_and_submit E sqe request_idx w)"

definition uringio_splice ::
    "env \<Rightarrow> int \<Rightarrow> int \<Rightarrow> int \<Rightarrow> int \<Rightarrow> int \<Rightarrow> int \<Rightarrow> int \<Rightarrow> TimeoutParams \<Rightarrow>
     'a ext_scheme \<Rightarrow> int \<times> 'a ext_scheme" where
  "uringio_splice E request_idx fd_in off_in fd_out off_out nbytes flag timeout_params =
     SQE_WITH_OPTIONAL_TIMEOUT E (Some timeout_params) (\<lambda>sqe w.
       let w = lu (Prep sqe (Prep_splice fd_in (word_of_int off_in) fd_out (word_of_int off_out)
                               (word_of_int nbytes) (word_of_int flag))) w
       in set_data_and_submit E sqe request_idx w)"

section \<open>fixed.c, buffer\_select.c, multishot.c\<close>

definition uringio_read_fixed ::
    "env \<Rightarrow> int \<Rightarrow> int \<Rightarrow> ptr \<Rightarrow> 32 word \<Rightarrow> int \<Rightarrow> int \<Rightarrow> TimeoutParams \<Rightarrow>
     'a ext_scheme \<Rightarrow> int \<times> 'a ext_scheme" where
  "uringio_read_fixed E request_idx fd buf sz offset buf_index timeout_params =
     SQE_WITH_OPTIONAL_TIMEOUT E (Some timeout_params) (\<lambda>sqe w.
       let w = lu (Prep sqe (Prep_read_fixed fd buf sz (word_of_int offset) buf_index)) w
       in set_data_and_submit E sqe request_idx w)"

definition uringio_write_fixed ::
    "env \<Rightarrow> int \<Rightarrow> int \<Rightarrow> ptr \<Rightarrow> 32 word \<Rightarrow> int \<Rightarrow> int \<Rightarrow> TimeoutParams \<Rightarrow>
     'a ext_scheme \<Rightarrow> int \<times> 'a ext_scheme" where
  "uringio_write_fixed E request_idx fd buf sz offset buf_index timeout_params =
     SQE_WITH_OPTIONAL_TIMEOUT E (Some timeout_params) (\<lambda>sqe w.
       let w = lu (Prep sqe (Prep_write_fixed fd buf sz (word_of_int offset) buf_index)) w
       in set_data_and_submit E sqe request_idx w)"

definition uringio_read_buffer_select ::
    "env \<Rightarrow> int \<Rightarrow> int \<Rightarrow> 32 word \<Rightarrow> int \<Rightarrow> int \<Rightarrow> TimeoutParams \<Rightarrow>
     'a ext_scheme \<Rightarrow> int \<times> 'a ext_scheme" where
  "uringio_read_buffer_select E request_idx fd sz offset bgid timeout_params =
     SQE_WITH_OPTIONAL_TIMEOUT E (Some timeout_params) (\<lambda>sqe w.
       let w = lu (Prep sqe (Prep_read fd 0 sz (word_of_int offset))) w;
           w = lu (Or_flags sqe IOSQE_BUFFER_SELECT) w;
           w = lu (Set_buf_group sqe (word_of_int bgid)) w
       in set_data_and_submit E sqe request_idx w)"

definition uringio_readv_buffer_select ::
    "env \<Rightarrow> int \<Rightarrow> int \<Rightarrow> 32 word \<Rightarrow> int \<Rightarrow> int \<Rightarrow> int \<Rightarrow> TimeoutParams \<Rightarrow>
     'a ext_scheme \<Rightarrow> int \<times> 'a ext_scheme" where
  "uringio_readv_buffer_select E request_idx fd sz offset bgid nowait timeout_params =
     SQE_WITH_OPTIONAL_TIMEOUT E (Some timeout_params) (\<lambda>sqe w.
       let iov = \<lparr>iov_base = 0, iov_len = unat sz\<rparr>;
           flags = (if nowait \<noteq> 0 then RWF_NOWAIT else 0);
           w = lu (Prep sqe (Prep_readv2 fd (Iov_local iov) 1 (word_of_int offset) flags)) w;
           w = lu (Or_flags sqe IOSQE_BUFFER_SELECT) w;
           w = lu (Set_buf_group sqe (word_of_int bgid)) w
       in set_data_and_submit E sqe request_idx w)"

definition uringio_read_multishot ::
    "env \<Rightarrow> int \<Rightarrow> int \<Rightarrow> int \<Rightarrow> int \<Rightarrow> TimeoutParams \<Rightarrow>
     'a ext_scheme \<Rightarrow> int \<times> 'a ext_scheme" where
  "uringio_read_multishot E request_idx fd offset bgid timeout_params =
     SQE_WITH_OPTIONAL_TIMEOUT E (Some timeout_params) (\<lambda>sqe w.
       let w = lu (Prep sqe (Prep_read_multishot fd 0 (word_of_int offset) bgid)) w
       in set_data_and_submit E sqe request_idx w)"

lemmas file_op_defs [op_defs] =
  open_file_def uringio_read_def uringio_readv_def uringio_write_def uringio_writev_def
  uringio_close_file_def uringio_fsync_def uringio_fdatasync_def uringio_splice_def
  uringio_read_fixed_def uringio_write_fixed_def uringio_read_buffer_select_def
  uringio_readv_buffer_select_def uringio_read_multishot_def

lemmas request_op_simps = issue_def body_ok_def Let_def

section \<open>Every file operation is a request operation\<close>

interpretation open_op: request_op
    "\<lambda>E i tp w. open_file E i dfd path flags resolve mode tp w"
    "\<lambda>s. [Prep s (Prep_openat2 dfd path
            \<lparr>how_flags = word_of_int (if flags = -1 then O_RDWR_O_CREAT else flags),
             how_mode = mode, how_resolve = word_of_int resolve\<rparr>)]"
  for dfd path flags resolve mode
  by unfold_locales (simp_all add: op_defs request_op_simps)

interpretation read_op: request_op
    "\<lambda>E i tp w. uringio_read E i fd buf sz offset tp w"
    "\<lambda>s. [Prep s (Prep_read fd buf sz (word_of_int offset))]"
  for fd buf sz offset
  by unfold_locales (simp_all add: op_defs request_op_simps)

interpretation readv_op: request_op
    "\<lambda>E i tp w. uringio_readv E i fd iovecs nr_vecs offset nowait tp w"
    "\<lambda>s. [Prep s (Prep_readv2 fd (Iov_ptr iovecs) nr_vecs (word_of_int offset)
            (if nowait \<noteq> 0 then RWF_NOWAIT else 0))]"
  for fd iovecs nr_vecs offset nowait
  by unfold_locales (simp_all add: op_defs request_op_simps)

interpretation write_op: request_op
    "\<lambda>E i tp w. uringio_write E i fd buf sz offset tp w"
    "\<lambda>s. [Prep s (Prep_write fd buf sz (word_of_int offset))]"
  for fd buf sz offset
  by unfold_locales (simp_all add: op_defs request_op_simps)

interpretation writev_op: request_op
    "\<lambda>E i tp w. uringio_writev E i fd iovecs nr_vecs offset flags tp w"
    "\<lambda>s. [Prep s (Prep_writev2 fd (Iov_ptr iovecs) nr_vecs (word_of_int offset) flags)]"
  for fd iovecs nr_vecs offset flags
  by unfold_locales (simp_all add: op_defs request_op_simps)

interpretation close_file_op: request_op
    "\<lambda>E i tp w. uringio_close_file E i fd tp w" "\<lambda>s. [Prep s (Prep_close fd)]"
  for fd
  by unfold_locales (simp_all add: op_defs request_op_simps)

interpretation fsync_op: request_op
    "\<lambda>E i tp w. uringio_fsync E i fd tp w" "\<lambda>s. [Prep s (Prep_fsync fd 0)]"
  for fd
  by unfold_locales (simp_all add: op_defs request_op_simps)

interpretation fdatasync_op: request_op
    "\<lambda>E i tp w. uringio_fdatasync E i fd tp w"
    "\<lambda>s. [Prep s (Prep_fsync fd IORING_FSYNC_DATASYNC)]"
  for fd
  by unfold_locales (simp_all add: op_defs request_op_simps)

interpretation splice_op: request_op
    "\<lambda>E i tp w. uringio_splice E i fd_in off_in fd_out off_out nbytes flag tp w"
    "\<lambda>s. [Prep s (Prep_splice fd_in (word_of_int off_in) fd_out (word_of_int off_out)
            (word_of_int nbytes) (word_of_int flag))]"
  for fd_in off_in fd_out off_out nbytes flag
  by unfold_locales (simp_all add: op_defs request_op_simps)

interpretation read_fixed_op: request_op
    "\<lambda>E i tp w. uringio_read_fixed E i fd buf sz offset buf_index tp w"
    "\<lambda>s. [Prep s (Prep_read_fixed fd buf sz (word_of_int offset) buf_index)]"
  for fd buf sz offset buf_index
  by unfold_locales (simp_all add: op_defs request_op_simps)

interpretation write_fixed_op: request_op
    "\<lambda>E i tp w. uringio_write_fixed E i fd buf sz offset buf_index tp w"
    "\<lambda>s. [Prep s (Prep_write_fixed fd buf sz (word_of_int offset) buf_index)]"
  for fd buf sz offset buf_index
  by unfold_locales (simp_all add: op_defs request_op_simps)

interpretation read_select_op: request_op
    "\<lambda>E i tp w. uringio_read_buffer_select E i fd sz offset bgid tp w"
    "\<lambda>s. [Prep s (Prep_read fd 0 sz (word_of_int offset)),
          Or_flags s IOSQE_BUFFER_SELECT, Set_buf_group s (word_of_int bgid)]"
  for fd sz offset bgid
  by unfold_locales (simp_all add: op_defs request_op_simps)

interpretation readv_select_op: request_op
    "\<lambda>E i tp w. uringio_readv_buffer_select E i fd sz offset bgid nowait tp w"
    "\<lambda>s. [Prep s (Prep_readv2 fd (Iov_local \<lparr>iov_base = 0, iov_len = unat sz\<rparr>) 1
            (word_of_int offset) (if nowait \<noteq> 0 then RWF_NOWAIT else 0)),
          Or_flags s IOSQE_BUFFER_SELECT, Set_buf_group s (word_of_int bgid)]"
  for fd sz offset bgid nowait
  by unfold_locales (simp_all add: op_defs request_op_simps)

interpretation read_multishot_op: request_op
    "\<lambda>E i tp w. uringio_read_multishot E i fd offset bgid tp w"
    "\<lambda>s. [Prep s (Prep_read_multishot fd 0 (word_of_int offset) bgid)]"
  for fd offset bgid
  by unfold_locales (simp_all add: op_defs request_op_simps)

end
