(* ===== verification/Socket_Ops.thy ===== *)
theory Socket_Ops
  imports File_Ops
begin

text \<open>
  The C layer's socket operations (\<open>src/ops/sockets\<close>), again instances of the contract
  \<open>request_op\<close>; \<open>prep_socket\<close> is not one, because it refuses a domain after it has taken its
  entry.
\<close>

section \<open>Kernel interface constants\<close>

abbreviation AF_INET :: int where "AF_INET \<equiv> 2"
abbreviation AF_INET6 :: int where "AF_INET6 \<equiv> 10"
abbreviation IORING_RECVSEND_POLL_FIRST :: int where "IORING_RECVSEND_POLL_FIRST \<equiv> 1"
abbreviation IORING_CQE_F_MORE :: "32 word" where "IORING_CQE_F_MORE \<equiv> 2"

text \<open>\<open>sizeof(struct msghdr)\<close> on a 64-bit Linux.\<close>

abbreviation sizeof_msghdr :: nat where "sizeof_msghdr \<equiv> 56"

section \<open>Structures\<close>

record RecvMsgMultishotResult =
  out_payload :: ptr
  out_payload_len :: nat
  out_is_null :: bool

definition zero_msghdr :: msghdr where
  "zero_msghdr = \<lparr>msg_name = 0, msg_namelen = 0, msg_iov = 0, msg_iovlen = 0,
                  msg_control = 0, msg_controllen = 0\<rparr>"

definition poll_first_flags :: "int \<Rightarrow> int" where
  "poll_first_flags is_poll_first =
     (if is_poll_first \<noteq> 0 then IORING_RECVSEND_POLL_FIRST else 0)"

section \<open>sockets.c\<close>

definition prep_socket ::
    "env \<Rightarrow> int \<Rightarrow> int \<Rightarrow> int \<Rightarrow> TimeoutParams \<Rightarrow> 'a ext_scheme \<Rightarrow> int \<times> 'a ext_scheme" where
  "prep_socket E request_idx domain type timeout_params =
     SQE_WITH_OPTIONAL_TIMEOUT E (Some timeout_params) (\<lambda>sqe w.
       if \<not> (domain = AF_INET \<or> domain = AF_INET6) then (-2, w)
       else let w = lu (Prep sqe (Prep_socket domain type 0 0)) w
            in set_data_and_submit E sqe request_idx w)"

definition uringio_bind ::
    "env \<Rightarrow> int \<Rightarrow> int \<Rightarrow> ptr \<Rightarrow> 32 word \<Rightarrow> TimeoutParams \<Rightarrow>
     'a ext_scheme \<Rightarrow> int \<times> 'a ext_scheme" where
  "uringio_bind E request_idx fd addr addrlen timeout_params =
     SQE_WITH_OPTIONAL_TIMEOUT E (Some timeout_params) (\<lambda>sqe w.
       let w = lu (Prep sqe (Prep_bind fd addr addrlen)) w
       in set_data_and_submit E sqe request_idx w)"

definition uringio_connect ::
    "env \<Rightarrow> int \<Rightarrow> int \<Rightarrow> ptr \<Rightarrow> 32 word \<Rightarrow> TimeoutParams \<Rightarrow>
     'a ext_scheme \<Rightarrow> int \<times> 'a ext_scheme" where
  "uringio_connect E request_idx fd addr addrlen timeout_params =
     SQE_WITH_OPTIONAL_TIMEOUT E (Some timeout_params) (\<lambda>sqe w.
       let w = lu (Prep sqe (Prep_connect fd addr addrlen)) w
       in set_data_and_submit E sqe request_idx w)"

definition uringio_listen ::
    "env \<Rightarrow> int \<Rightarrow> int \<Rightarrow> int \<Rightarrow> TimeoutParams \<Rightarrow>
     'a ext_scheme \<Rightarrow> int \<times> 'a ext_scheme" where
  "uringio_listen E request_idx fd backlog timeout_params =
     SQE_WITH_OPTIONAL_TIMEOUT E (Some timeout_params) (\<lambda>sqe w.
       let w = lu (Prep sqe (Prep_listen fd backlog)) w
       in set_data_and_submit E sqe request_idx w)"

definition uringio_accept ::
    "env \<Rightarrow> int \<Rightarrow> int \<Rightarrow> ptr \<Rightarrow> ptr \<Rightarrow> int \<Rightarrow> TimeoutParams \<Rightarrow>
     'a ext_scheme \<Rightarrow> int \<times> 'a ext_scheme" where
  "uringio_accept E request_idx sockfd addr len flags timeout_params =
     SQE_WITH_OPTIONAL_TIMEOUT E (Some timeout_params) (\<lambda>sqe w.
       let w = lu (Prep sqe (Prep_accept sockfd addr len flags)) w
       in set_data_and_submit E sqe request_idx w)"

definition uringio_close_socket ::
    "env \<Rightarrow> int \<Rightarrow> int \<Rightarrow> TimeoutParams \<Rightarrow>
     'a ext_scheme \<Rightarrow> int \<times> 'a ext_scheme" where
  "uringio_close_socket E request_idx sockfd timeout_params =
     SQE_WITH_OPTIONAL_TIMEOUT E (Some timeout_params) (\<lambda>sqe w.
       let w = lu (Prep sqe (Prep_close sockfd)) w
       in set_data_and_submit E sqe request_idx w)"

definition uringio_send ::
    "env \<Rightarrow> int \<Rightarrow> int \<Rightarrow> ptr \<Rightarrow> nat \<Rightarrow> int \<Rightarrow> TimeoutParams \<Rightarrow>
     'a ext_scheme \<Rightarrow> int \<times> 'a ext_scheme" where
  "uringio_send E request_idx sockfd buf len is_poll_first timeout_params =
     SQE_WITH_OPTIONAL_TIMEOUT E (Some timeout_params) (\<lambda>sqe w.
       let flags = poll_first_flags is_poll_first;
           w = lu (Prep sqe (Prep_send sockfd buf len flags)) w
       in set_data_and_submit E sqe request_idx w)"

definition uringio_recv ::
    "env \<Rightarrow> int \<Rightarrow> int \<Rightarrow> ptr \<Rightarrow> nat \<Rightarrow> int \<Rightarrow> TimeoutParams \<Rightarrow>
     'a ext_scheme \<Rightarrow> int \<times> 'a ext_scheme" where
  "uringio_recv E request_idx sockfd buf len is_poll_first timeout_params =
     SQE_WITH_OPTIONAL_TIMEOUT E (Some timeout_params) (\<lambda>sqe w.
       let flags = poll_first_flags is_poll_first;
           w = lu (Prep sqe (Prep_recv sockfd buf len flags)) w
       in set_data_and_submit E sqe request_idx w)"

definition uringio_sendto ::
    "env \<Rightarrow> int \<Rightarrow> int \<Rightarrow> ptr \<Rightarrow> nat \<Rightarrow> ptr \<Rightarrow> nat \<Rightarrow> int \<Rightarrow> TimeoutParams \<Rightarrow>
     'a ext_scheme \<Rightarrow> int \<times> 'a ext_scheme" where
  "uringio_sendto E request_idx sockfd buf len addr addrlen is_poll_first timeout_params =
     SQE_WITH_OPTIONAL_TIMEOUT E (Some timeout_params) (\<lambda>sqe w.
       let flags = poll_first_flags is_poll_first;
           w = lu (Prep sqe (Prep_sendto sockfd buf len flags addr (word_of_nat addrlen))) w
       in set_data_and_submit E sqe request_idx w)"

definition uringio_recvfrom ::
    "env \<Rightarrow> int \<Rightarrow> int \<Rightarrow> ptr \<Rightarrow> nat \<Rightarrow> ptr \<Rightarrow> 32 word \<Rightarrow> int \<Rightarrow> ptr \<Rightarrow> TimeoutParams \<Rightarrow>
     'a ext_scheme \<Rightarrow> int \<times> 'a ext_scheme" where
  "uringio_recvfrom E request_idx sockfd buf len addr addrlen is_poll_first msg timeout_params =
     SQE_WITH_OPTIONAL_TIMEOUT E (Some timeout_params) (\<lambda>sqe w.
       let hdr = zero_msghdr\<lparr>msg_name := addr, msg_namelen := addrlen,
                             msg_iov := msg + sizeof_msghdr, msg_iovlen := 1\<rparr>;
           iov = \<lparr>iov_base = buf, iov_len = len\<rparr>;
           flags = poll_first_flags is_poll_first;
           w = lu (Prep sqe (Prep_recvmsg sockfd (Msg_ptr msg (Some (hdr, iov))) (word_of_int flags))) w
       in set_data_and_submit E sqe request_idx w)"

definition uringio_sendmsg ::
    "env \<Rightarrow> int \<Rightarrow> int \<Rightarrow> ptr \<Rightarrow> 32 word \<Rightarrow> ptr \<Rightarrow> nat \<Rightarrow> int \<Rightarrow> TimeoutParams \<Rightarrow>
     'a ext_scheme \<Rightarrow> int \<times> 'a ext_scheme" where
  "uringio_sendmsg E request_idx sockfd iovecs nr_vecs addr addrlen is_poll_first timeout_params =
     SQE_WITH_OPTIONAL_TIMEOUT E (Some timeout_params) (\<lambda>sqe w.
       let msg = zero_msghdr\<lparr>msg_iov := iovecs, msg_iovlen := ucast nr_vecs,
                             msg_name := addr, msg_namelen := word_of_nat addrlen\<rparr>;
           flags = poll_first_flags is_poll_first;
           w = lu (Prep sqe (Prep_sendmsg sockfd (Msg_local msg) (word_of_int flags))) w
       in set_data_and_submit E sqe request_idx w)"

definition uringio_recvmsg ::
    "env \<Rightarrow> int \<Rightarrow> int \<Rightarrow> ptr \<Rightarrow> 32 word \<Rightarrow> int \<Rightarrow> TimeoutParams \<Rightarrow>
     'a ext_scheme \<Rightarrow> int \<times> 'a ext_scheme" where
  "uringio_recvmsg E request_idx sockfd iovecs nr_vecs is_poll_first timeout_params =
     SQE_WITH_OPTIONAL_TIMEOUT E (Some timeout_params) (\<lambda>sqe w.
       let msg = zero_msghdr\<lparr>msg_iov := iovecs, msg_iovlen := ucast nr_vecs\<rparr>;
           flags = poll_first_flags is_poll_first;
           w = lu (Prep sqe (Prep_recvmsg sockfd (Msg_local msg) (word_of_int flags))) w
       in set_data_and_submit E sqe request_idx w)"

section \<open>fixed.c\<close>

definition uringio_recv_fixed ::
    "env \<Rightarrow> int \<Rightarrow> int \<Rightarrow> ptr \<Rightarrow> nat \<Rightarrow> int \<Rightarrow> int \<Rightarrow> TimeoutParams \<Rightarrow>
     'a ext_scheme \<Rightarrow> int \<times> 'a ext_scheme" where
  "uringio_recv_fixed E request_idx sockfd buf len is_poll_first buf_index timeout_params =
     SQE_WITH_OPTIONAL_TIMEOUT E (Some timeout_params) (\<lambda>sqe w.
       let flags = poll_first_flags is_poll_first;
           w = lu (Prep sqe (Prep_recv sockfd buf len flags)) w;
           w = lu (Set_buf_index sqe (word_of_int buf_index)) w;
           w = lu (Or_ioprio sqe IORING_RECVSEND_FIXED_BUF) w
       in set_data_and_submit E sqe request_idx w)"

definition uringio_recvmsg_fixed ::
    "env \<Rightarrow> int \<Rightarrow> int \<Rightarrow> ptr \<Rightarrow> 32 word \<Rightarrow> int \<Rightarrow> int \<Rightarrow> TimeoutParams \<Rightarrow>
     'a ext_scheme \<Rightarrow> int \<times> 'a ext_scheme" where
  "uringio_recvmsg_fixed E request_idx sockfd iovecs nr_vecs is_poll_first buf_index timeout_params =
     SQE_WITH_OPTIONAL_TIMEOUT E (Some timeout_params) (\<lambda>sqe w.
       let msg = zero_msghdr\<lparr>msg_iov := iovecs, msg_iovlen := ucast nr_vecs\<rparr>;
           flags = poll_first_flags is_poll_first;
           w = lu (Prep sqe (Prep_recvmsg sockfd (Msg_local msg) (word_of_int flags))) w;
           w = lu (Set_buf_index sqe (word_of_int buf_index)) w;
           w = lu (Or_ioprio sqe IORING_RECVSEND_FIXED_BUF) w
       in set_data_and_submit E sqe request_idx w)"

section \<open>zerocopy.c\<close>

definition uringio_send_zc ::
    "env \<Rightarrow> int \<Rightarrow> int \<Rightarrow> ptr \<Rightarrow> nat \<Rightarrow> int \<Rightarrow> TimeoutParams \<Rightarrow>
     'a ext_scheme \<Rightarrow> int \<times> 'a ext_scheme" where
  "uringio_send_zc E request_idx sockfd buf len is_poll_first timeout_params =
     SQE_WITH_OPTIONAL_TIMEOUT E (Some timeout_params) (\<lambda>sqe w.
       let flags = poll_first_flags is_poll_first;
           w = lu (Prep sqe (Prep_send_zc sockfd buf len flags 0)) w
       in set_data_and_submit E sqe request_idx w)"

definition uringio_send_zc_fixed ::
    "env \<Rightarrow> int \<Rightarrow> int \<Rightarrow> ptr \<Rightarrow> nat \<Rightarrow> int \<Rightarrow> int \<Rightarrow> TimeoutParams \<Rightarrow>
     'a ext_scheme \<Rightarrow> int \<times> 'a ext_scheme" where
  "uringio_send_zc_fixed E request_idx sockfd buf len is_poll_first buf_index timeout_params =
     SQE_WITH_OPTIONAL_TIMEOUT E (Some timeout_params) (\<lambda>sqe w.
       let flags = poll_first_flags is_poll_first;
           w = lu (Prep sqe (Prep_send_zc_fixed sockfd buf len flags 0 (word_of_int buf_index))) w
       in set_data_and_submit E sqe request_idx w)"

definition uringio_sendmsg_zc ::
    "env \<Rightarrow> int \<Rightarrow> int \<Rightarrow> ptr \<Rightarrow> 32 word \<Rightarrow> ptr \<Rightarrow> nat \<Rightarrow> int \<Rightarrow> int \<Rightarrow> TimeoutParams \<Rightarrow>
     'a ext_scheme \<Rightarrow> int \<times> 'a ext_scheme" where
  "uringio_sendmsg_zc E request_idx sockfd iovecs nr_vecs addr addrlen is_poll_first buf_index timeout_params =
     SQE_WITH_OPTIONAL_TIMEOUT E (Some timeout_params) (\<lambda>sqe w.
       let msg = zero_msghdr\<lparr>msg_iov := iovecs, msg_iovlen := ucast nr_vecs,
                             msg_name := addr, msg_namelen := word_of_nat addrlen\<rparr>;
           flags = poll_first_flags is_poll_first;
           w = lu (Prep sqe (Prep_sendmsg_zc sockfd (Msg_local msg) (word_of_int flags))) w;
           w = lu (Set_buf_index sqe (word_of_int buf_index)) w;
           w = lu (Or_ioprio sqe IORING_RECVSEND_FIXED_BUF) w
       in set_data_and_submit E sqe request_idx w)"

section \<open>buffer\_select.c\<close>

definition uringio_recv_buffer_select ::
    "env \<Rightarrow> int \<Rightarrow> int \<Rightarrow> nat \<Rightarrow> int \<Rightarrow> int \<Rightarrow> TimeoutParams \<Rightarrow>
     'a ext_scheme \<Rightarrow> int \<times> 'a ext_scheme" where
  "uringio_recv_buffer_select E request_idx sockfd len bgid is_poll_first timeout_params =
     SQE_WITH_OPTIONAL_TIMEOUT E (Some timeout_params) (\<lambda>sqe w.
       let flags = poll_first_flags is_poll_first;
           w = lu (Prep sqe (Prep_recv sockfd 0 len flags)) w;
           w = lu (Or_flags sqe IOSQE_BUFFER_SELECT) w;
           w = lu (Set_buf_group sqe (word_of_int bgid)) w
       in set_data_and_submit E sqe request_idx w)"

definition uringio_recvmsg_buffer_select ::
    "env \<Rightarrow> int \<Rightarrow> int \<Rightarrow> int \<Rightarrow> int \<Rightarrow> TimeoutParams \<Rightarrow>
     'a ext_scheme \<Rightarrow> int \<times> 'a ext_scheme" where
  "uringio_recvmsg_buffer_select E request_idx sockfd is_poll_first bgid timeout_params =
     SQE_WITH_OPTIONAL_TIMEOUT E (Some timeout_params) (\<lambda>sqe w.
       let flags = poll_first_flags is_poll_first;
           w = lu (Prep sqe (Prep_recvmsg sockfd (Msg_local zero_msghdr) (word_of_int flags))) w;
           w = lu (Or_flags sqe IOSQE_BUFFER_SELECT) w;
           w = lu (Set_buf_group sqe (word_of_int bgid)) w
       in set_data_and_submit E sqe request_idx w)"

section \<open>multishot.c\<close>

definition uringio_accept_multishot ::
    "env \<Rightarrow> int \<Rightarrow> int \<Rightarrow> ptr \<Rightarrow> ptr \<Rightarrow> int \<Rightarrow> TimeoutParams \<Rightarrow>
     'a ext_scheme \<Rightarrow> int \<times> 'a ext_scheme" where
  "uringio_accept_multishot E request_idx sockfd addr len flags timeout_params =
     SQE_WITH_OPTIONAL_TIMEOUT E (Some timeout_params) (\<lambda>sqe w.
       let w = lu (Prep sqe (Prep_multishot_accept sockfd addr len flags)) w
       in set_data_and_submit E sqe request_idx w)"

definition uringio_recv_multishot ::
    "env \<Rightarrow> int \<Rightarrow> int \<Rightarrow> nat \<Rightarrow> int \<Rightarrow> int \<Rightarrow> TimeoutParams \<Rightarrow>
     'a ext_scheme \<Rightarrow> int \<times> 'a ext_scheme" where
  "uringio_recv_multishot E request_idx sockfd len bgid is_poll_first timeout_params =
     SQE_WITH_OPTIONAL_TIMEOUT E (Some timeout_params) (\<lambda>sqe w.
       let flags = poll_first_flags is_poll_first;
           w = lu (Prep sqe (Prep_recv_multishot sockfd 0 len flags)) w;
           w = lu (Set_buf_group sqe (word_of_int bgid)) w;
           w = lu (Or_flags sqe IOSQE_BUFFER_SELECT) w
       in set_data_and_submit E sqe request_idx w)"

definition uringio_recvmsg_multishot ::
    "env \<Rightarrow> int \<Rightarrow> int \<Rightarrow> int \<Rightarrow> int \<Rightarrow> ptr \<Rightarrow> TimeoutParams \<Rightarrow>
     'a ext_scheme \<Rightarrow> int \<times> 'a ext_scheme" where
  "uringio_recvmsg_multishot E request_idx sockfd bgid is_poll_first msghdr timeout_params =
     SQE_WITH_OPTIONAL_TIMEOUT E (Some timeout_params) (\<lambda>sqe w.
       let flags = poll_first_flags is_poll_first;
           w = lu (Prep sqe (Prep_recvmsg_multishot sockfd (Msg_ptr msghdr None) (word_of_int flags))) w;
           w = lu (Set_buf_group sqe (word_of_int bgid)) w;
           w = lu (Or_flags sqe IOSQE_BUFFER_SELECT) w
       in set_data_and_submit E sqe request_idx w)"

definition uringio_recvmsg_validate_multishot ::
    "env \<Rightarrow> ptr \<Rightarrow> int \<Rightarrow> ptr \<Rightarrow> int \<Rightarrow> 'a ext_scheme \<Rightarrow> RecvMsgMultishotResult" where
  "uringio_recvmsg_validate_multishot E buf buf_len msghdr len w =
     (let out = e_recvmsg_validate E (hist w) buf buf_len msghdr
      in if out = 0 then \<lparr>out_payload = 0, out_payload_len = 0, out_is_null = True\<rparr>
         else \<lparr>out_payload = e_recvmsg_payload E (hist w) out msghdr,
               out_payload_len = e_recvmsg_payload_length E (hist w) out len msghdr,
               out_is_null = False\<rparr>)"

definition is_uringio_recvmsg_multishot_resubmit_required :: "cqe \<Rightarrow> bool" where
  "is_uringio_recvmsg_multishot_resubmit_required cqe \<longleftrightarrow>
     cqe_flags cqe AND IORING_CQE_F_MORE = 0"

lemmas socket_op_defs [op_defs] =
  uringio_bind_def uringio_connect_def uringio_listen_def
  uringio_accept_def uringio_close_socket_def uringio_send_def
  uringio_recv_def uringio_sendto_def uringio_recvfrom_def
  uringio_sendmsg_def uringio_recvmsg_def uringio_recv_fixed_def
  uringio_recvmsg_fixed_def uringio_send_zc_def uringio_send_zc_fixed_def
  uringio_sendmsg_zc_def uringio_recv_buffer_select_def uringio_recvmsg_buffer_select_def
  uringio_accept_multishot_def uringio_recv_multishot_def uringio_recvmsg_multishot_def

section \<open>Socket operations as request operations\<close>

interpretation bind_op: request_op
    "\<lambda>E i tp w. uringio_bind E i fd addr addrlen tp w"
    "\<lambda>s. [Prep s (Prep_bind fd addr addrlen)]"
  for fd addr addrlen
  by unfold_locales (simp_all add: op_defs request_op_simps)

interpretation connect_op: request_op
    "\<lambda>E i tp w. uringio_connect E i fd addr addrlen tp w"
    "\<lambda>s. [Prep s (Prep_connect fd addr addrlen)]"
  for fd addr addrlen
  by unfold_locales (simp_all add: op_defs request_op_simps)

interpretation listen_op: request_op
    "\<lambda>E i tp w. uringio_listen E i fd backlog tp w"
    "\<lambda>s. [Prep s (Prep_listen fd backlog)]"
  for fd backlog
  by unfold_locales (simp_all add: op_defs request_op_simps)

interpretation accept_op: request_op
    "\<lambda>E i tp w. uringio_accept E i sockfd addr len flags tp w"
    "\<lambda>s. [Prep s (Prep_accept sockfd addr len flags)]"
  for sockfd addr len flags
  by unfold_locales (simp_all add: op_defs request_op_simps)

interpretation close_socket_op: request_op
    "\<lambda>E i tp w. uringio_close_socket E i sockfd tp w"
    "\<lambda>s. [Prep s (Prep_close sockfd)]"
  for sockfd
  by unfold_locales (simp_all add: op_defs request_op_simps)

interpretation send_op: request_op
    "\<lambda>E i tp w. uringio_send E i sockfd buf len is_poll_first tp w"
    "\<lambda>s. [Prep s (Prep_send sockfd buf len (poll_first_flags is_poll_first))]"
  for sockfd buf len is_poll_first
  by unfold_locales (simp_all add: op_defs request_op_simps)

interpretation recv_op: request_op
    "\<lambda>E i tp w. uringio_recv E i sockfd buf len is_poll_first tp w"
    "\<lambda>s. [Prep s (Prep_recv sockfd buf len (poll_first_flags is_poll_first))]"
  for sockfd buf len is_poll_first
  by unfold_locales (simp_all add: op_defs request_op_simps)

interpretation sendto_op: request_op
    "\<lambda>E i tp w. uringio_sendto E i sockfd buf len addr addrlen is_poll_first tp w"
    "\<lambda>s. [Prep s (Prep_sendto sockfd buf len (poll_first_flags is_poll_first) addr (word_of_nat addrlen))]"
  for sockfd buf len addr addrlen is_poll_first
  by unfold_locales (simp_all add: op_defs request_op_simps)

interpretation recvfrom_op: request_op
    "\<lambda>E i tp w. uringio_recvfrom E i sockfd buf len addr addrlen is_poll_first msg tp w"
    "\<lambda>s. [Prep s (Prep_recvmsg sockfd (Msg_ptr msg (Some (zero_msghdr\<lparr>msg_name := addr, msg_namelen := addrlen, msg_iov := msg + sizeof_msghdr, msg_iovlen := 1\<rparr>, \<lparr>iov_base = buf, iov_len = len\<rparr>))) (word_of_int (poll_first_flags is_poll_first)))]"
  for sockfd buf len addr addrlen is_poll_first msg
  by unfold_locales (simp_all add: op_defs request_op_simps)

interpretation sendmsg_op: request_op
    "\<lambda>E i tp w. uringio_sendmsg E i sockfd iovecs nr_vecs addr addrlen is_poll_first tp w"
    "\<lambda>s. [Prep s (Prep_sendmsg sockfd (Msg_local (zero_msghdr\<lparr>msg_iov := iovecs, msg_iovlen := ucast nr_vecs, msg_name := addr, msg_namelen := word_of_nat addrlen\<rparr>)) (word_of_int (poll_first_flags is_poll_first)))]"
  for sockfd iovecs nr_vecs addr addrlen is_poll_first
  by unfold_locales (simp_all add: op_defs request_op_simps)

interpretation recvmsg_op: request_op
    "\<lambda>E i tp w. uringio_recvmsg E i sockfd iovecs nr_vecs is_poll_first tp w"
    "\<lambda>s. [Prep s (Prep_recvmsg sockfd (Msg_local (zero_msghdr\<lparr>msg_iov := iovecs, msg_iovlen := ucast nr_vecs\<rparr>)) (word_of_int (poll_first_flags is_poll_first)))]"
  for sockfd iovecs nr_vecs is_poll_first
  by unfold_locales (simp_all add: op_defs request_op_simps)

interpretation recv_fixed_op: request_op
    "\<lambda>E i tp w. uringio_recv_fixed E i sockfd buf len is_poll_first buf_index tp w"
    "\<lambda>s. [Prep s (Prep_recv sockfd buf len (poll_first_flags is_poll_first)),
          Set_buf_index s (word_of_int buf_index),
          Or_ioprio s IORING_RECVSEND_FIXED_BUF]"
  for sockfd buf len is_poll_first buf_index
  by unfold_locales (simp_all add: op_defs request_op_simps)

interpretation recvmsg_fixed_op: request_op
    "\<lambda>E i tp w. uringio_recvmsg_fixed E i sockfd iovecs nr_vecs is_poll_first buf_index tp w"
    "\<lambda>s. [Prep s (Prep_recvmsg sockfd (Msg_local (zero_msghdr\<lparr>msg_iov := iovecs, msg_iovlen := ucast nr_vecs\<rparr>)) (word_of_int (poll_first_flags is_poll_first))),
          Set_buf_index s (word_of_int buf_index),
          Or_ioprio s IORING_RECVSEND_FIXED_BUF]"
  for sockfd iovecs nr_vecs is_poll_first buf_index
  by unfold_locales (simp_all add: op_defs request_op_simps)

interpretation send_zc_op: request_op
    "\<lambda>E i tp w. uringio_send_zc E i sockfd buf len is_poll_first tp w"
    "\<lambda>s. [Prep s (Prep_send_zc sockfd buf len (poll_first_flags is_poll_first) 0)]"
  for sockfd buf len is_poll_first
  by unfold_locales (simp_all add: op_defs request_op_simps)

interpretation send_zc_fixed_op: request_op
    "\<lambda>E i tp w. uringio_send_zc_fixed E i sockfd buf len is_poll_first buf_index tp w"
    "\<lambda>s. [Prep s (Prep_send_zc_fixed sockfd buf len (poll_first_flags is_poll_first) 0 (word_of_int buf_index))]"
  for sockfd buf len is_poll_first buf_index
  by unfold_locales (simp_all add: op_defs request_op_simps)

interpretation sendmsg_zc_op: request_op
    "\<lambda>E i tp w. uringio_sendmsg_zc E i sockfd iovecs nr_vecs addr addrlen is_poll_first buf_index tp w"
    "\<lambda>s. [Prep s (Prep_sendmsg_zc sockfd (Msg_local (zero_msghdr\<lparr>msg_iov := iovecs, msg_iovlen := ucast nr_vecs, msg_name := addr, msg_namelen := word_of_nat addrlen\<rparr>)) (word_of_int (poll_first_flags is_poll_first))),
          Set_buf_index s (word_of_int buf_index),
          Or_ioprio s IORING_RECVSEND_FIXED_BUF]"
  for sockfd iovecs nr_vecs addr addrlen is_poll_first buf_index
  by unfold_locales (simp_all add: op_defs request_op_simps)

interpretation recv_buffer_select_op: request_op
    "\<lambda>E i tp w. uringio_recv_buffer_select E i sockfd len bgid is_poll_first tp w"
    "\<lambda>s. [Prep s (Prep_recv sockfd 0 len (poll_first_flags is_poll_first)),
          Or_flags s IOSQE_BUFFER_SELECT,
          Set_buf_group s (word_of_int bgid)]"
  for sockfd len bgid is_poll_first
  by unfold_locales (simp_all add: op_defs request_op_simps)

interpretation recvmsg_buffer_select_op: request_op
    "\<lambda>E i tp w. uringio_recvmsg_buffer_select E i sockfd is_poll_first bgid tp w"
    "\<lambda>s. [Prep s (Prep_recvmsg sockfd (Msg_local zero_msghdr) (word_of_int (poll_first_flags is_poll_first))),
          Or_flags s IOSQE_BUFFER_SELECT,
          Set_buf_group s (word_of_int bgid)]"
  for sockfd is_poll_first bgid
  by unfold_locales (simp_all add: op_defs request_op_simps)

interpretation accept_multishot_op: request_op
    "\<lambda>E i tp w. uringio_accept_multishot E i sockfd addr len flags tp w"
    "\<lambda>s. [Prep s (Prep_multishot_accept sockfd addr len flags)]"
  for sockfd addr len flags
  by unfold_locales (simp_all add: op_defs request_op_simps)

interpretation recv_multishot_op: request_op
    "\<lambda>E i tp w. uringio_recv_multishot E i sockfd len bgid is_poll_first tp w"
    "\<lambda>s. [Prep s (Prep_recv_multishot sockfd 0 len (poll_first_flags is_poll_first)),
          Set_buf_group s (word_of_int bgid),
          Or_flags s IOSQE_BUFFER_SELECT]"
  for sockfd len bgid is_poll_first
  by unfold_locales (simp_all add: op_defs request_op_simps)

interpretation recvmsg_multishot_op: request_op
    "\<lambda>E i tp w. uringio_recvmsg_multishot E i sockfd bgid is_poll_first msghdr tp w"
    "\<lambda>s. [Prep s (Prep_recvmsg_multishot sockfd (Msg_ptr msghdr None) (word_of_int (poll_first_flags is_poll_first))),
          Set_buf_group s (word_of_int bgid),
          Or_flags s IOSQE_BUFFER_SELECT]"
  for sockfd bgid is_poll_first msghdr
  by unfold_locales (simp_all add: op_defs request_op_simps)

section \<open>prep\_socket\<close>

text \<open>For a supported domain \<open>prep_socket\<close> keeps the contract of the other operations.\<close>

lemma prep_socket_supported:
  assumes "domain = AF_INET \<or> domain = AF_INET6"
  shows "prep_socket E i domain type tp w =
     issue E (\<lambda>s. [Prep s (Prep_socket domain type 0 0)]) i tp w"
  using assms by (auto simp: prep_socket_def issue_def Let_def)

text \<open>An unsupported domain is found only after the entry (and its timeout entry) was taken: it
  stays in the submission queue without a prepared operation and without user data.\<close>

lemma prep_socket_unsupported:
  assumes "domain \<noteq> AF_INET" and "domain \<noteq> AF_INET6" and "sqes_fresh E"
    and "e_get_sqe E (hist w) \<noteq> 0"
    and "\<not> timeout_refused E (e_get_sqe E (hist w)) tp
            (hist w @ [Lu (Get_sqe (e_get_sqe E (hist w)))])"
  shows "\<exists>w'. prep_socket E i domain type tp w = (-2, w') \<and>
     v_prep (sqe_view (hist w') (e_get_sqe E (hist w))) = None \<and>
     v_data (sqe_view (hist w') (e_get_sqe E (hist w))) = None"
proof -
  let ?s = "e_get_sqe E (hist w)"
  let ?h1 = "hist w @ [Lu (Get_sqe ?s)]"
  let ?w' = "w\<lparr>hist := ?h1 @ timeout_events E ?s tp ?h1\<rparr>"
  have "prep_socket E i domain type tp w = (-2, ?w')"
    using assms
    by (simp add: prep_socket_def SQE_WITH_OPTIONAL_TIMEOUT_def create_sqe_eq timeout_result
        event_simps lu_def)
  moreover have "sqe_view (hist ?w') ?s =
      fresh_view\<lparr>v_flags := if timeout_wanted tp then IOSQE_IO_LINK else 0\<rparr>"
    using view_after_timeout [OF assms(3,4), of "hist w" tp] by simp
  ultimately show ?thesis
    by (intro exI [of _ ?w']) (simp add: fresh_view_def)
qed

end
