(* ===== verification/Ops_Contract.thy ===== *)
theory Ops_Contract
  imports Socket_Ops
begin

text \<open>
  All request operations of the C layer as one family.  A value of \<open>framed_request\<close> names one of
  the thirty-five operations of \<open>src/ops\<close> that share the frame of \<open>SQE_WITH_OPTIONAL_TIMEOUT\<close>,
  with its arguments; \<open>perform_framed\<close> runs it and \<open>framed_body\<close> lists what it writes into its
  submission queue entry.  The contract \<open>request_op\<close> holds for that family.  The two operations
  outside the frame are \<open>prep_socket\<close>, which can refuse its domain after it has taken an entry,
  and \<open>timer\<close>, which has no linked timeout: \<open>c_request\<close> and \<open>perform\<close> add them, and the theorems
  are about every request the program can make.
\<close>

datatype (plugins only: code size) framed_request =
    R_open_file int string int int "32 word"
  | R_read int ptr "32 word" int
  | R_readv int ptr "32 word" int int
  | R_write int ptr "32 word" int
  | R_writev int ptr "32 word" int int
  | R_close_file int
  | R_fsync int
  | R_fdatasync int
  | R_splice int int int int int int
  | R_read_fixed int ptr "32 word" int int
  | R_write_fixed int ptr "32 word" int int
  | R_read_buffer_select int "32 word" int int
  | R_readv_buffer_select int "32 word" int int int
  | R_read_multishot int int int
  | R_bind int ptr "32 word"
  | R_connect int ptr "32 word"
  | R_listen int int
  | R_accept int ptr ptr int
  | R_close_socket int
  | R_send int ptr nat int
  | R_recv int ptr nat int
  | R_sendto int ptr nat ptr nat int
  | R_recvfrom int ptr nat ptr "32 word" int ptr
  | R_sendmsg int ptr "32 word" ptr nat int
  | R_recvmsg int ptr "32 word" int
  | R_recv_fixed int ptr nat int int
  | R_recvmsg_fixed int ptr "32 word" int int
  | R_send_zc int ptr nat int
  | R_send_zc_fixed int ptr nat int int
  | R_sendmsg_zc int ptr "32 word" ptr nat int int
  | R_recv_buffer_select int nat int int
  | R_recvmsg_buffer_select int int int
  | R_accept_multishot int ptr ptr int
  | R_recv_multishot int nat int int
  | R_recvmsg_multishot int int int ptr

fun perform_framed :: "framed_request \<Rightarrow> env \<Rightarrow> int \<Rightarrow> TimeoutParams
    \<Rightarrow> 'a ext_scheme \<Rightarrow> int \<times> 'a ext_scheme"
where
  "perform_framed (R_open_file dfd path flags resolve mode) E i tp w = open_file E i dfd path flags
      resolve mode tp w"
| "perform_framed (R_read fd buf sz offset) E i tp w = uringio_read E i fd buf sz offset tp w"
| "perform_framed (R_readv fd iovecs nr_vecs offset nowait) E i tp w = uringio_readv E i fd iovecs
    nr_vecs offset nowait tp w"
| "perform_framed (R_write fd buf sz offset) E i tp w = uringio_write E i fd buf sz offset tp w"
| "perform_framed (R_writev fd iovecs nr_vecs offset flags) E i tp w = uringio_writev E i fd iovecs
    nr_vecs offset flags tp w"
| "perform_framed (R_close_file fd) E i tp w = uringio_close_file E i fd tp w"
| "perform_framed (R_fsync fd) E i tp w = uringio_fsync E i fd tp w"
| "perform_framed (R_fdatasync fd) E i tp w = uringio_fdatasync E i fd tp w"
| "perform_framed (R_splice fd_in off_in fd_out off_out nbytes flag) E i tp w = uringio_splice E i
    fd_in off_in fd_out off_out nbytes flag tp w"
| "perform_framed (R_read_fixed fd buf sz offset buf_index) E i tp w = uringio_read_fixed E i fd buf
    sz offset buf_index tp w"
| "perform_framed (R_write_fixed fd buf sz offset buf_index) E i tp w = uringio_write_fixed E i fd buf
    sz offset buf_index tp w"
| "perform_framed (R_read_buffer_select fd sz offset bgid) E i tp w = uringio_read_buffer_select E i
    fd sz offset bgid tp w"
| "perform_framed (R_readv_buffer_select fd sz offset bgid nowait) E i tp w =
    uringio_readv_buffer_select E i fd sz offset bgid nowait tp w"
| "perform_framed (R_read_multishot fd offset bgid) E i tp w = uringio_read_multishot E i fd offset
    bgid tp w"
| "perform_framed (R_bind fd addr addrlen) E i tp w = uringio_bind E i fd addr addrlen tp w"
| "perform_framed (R_connect fd addr addrlen) E i tp w = uringio_connect E i fd addr addrlen tp w"
| "perform_framed (R_listen fd backlog) E i tp w = uringio_listen E i fd backlog tp w"
| "perform_framed (R_accept sockfd addr len flags) E i tp w = uringio_accept E i sockfd addr len flags
    tp w"
| "perform_framed (R_close_socket sockfd) E i tp w = uringio_close_socket E i sockfd tp w"
| "perform_framed (R_send sockfd buf len is_poll_first) E i tp w = uringio_send E i sockfd buf len
    is_poll_first tp w"
| "perform_framed (R_recv sockfd buf len is_poll_first) E i tp w = uringio_recv E i sockfd buf len
    is_poll_first tp w"
| "perform_framed (R_sendto sockfd buf len addr addrlen is_poll_first) E i tp w = uringio_sendto E i
    sockfd buf len addr addrlen is_poll_first tp w"
| "perform_framed (R_recvfrom sockfd buf len addr addrlen is_poll_first msg) E i tp w =
    uringio_recvfrom E i sockfd buf len addr addrlen is_poll_first msg tp w"
| "perform_framed (R_sendmsg sockfd iovecs nr_vecs addr addrlen is_poll_first) E i tp w =
    uringio_sendmsg E i sockfd iovecs nr_vecs addr addrlen is_poll_first tp w"
| "perform_framed (R_recvmsg sockfd iovecs nr_vecs is_poll_first) E i tp w = uringio_recvmsg E i
    sockfd iovecs nr_vecs is_poll_first tp w"
| "perform_framed (R_recv_fixed sockfd buf len is_poll_first buf_index) E i tp w = uringio_recv_fixed
    E i sockfd buf len is_poll_first buf_index tp w"
| "perform_framed (R_recvmsg_fixed sockfd iovecs nr_vecs is_poll_first buf_index) E i tp w =
    uringio_recvmsg_fixed E i sockfd iovecs nr_vecs is_poll_first buf_index tp w"
| "perform_framed (R_send_zc sockfd buf len is_poll_first) E i tp w = uringio_send_zc E i sockfd buf
    len is_poll_first tp w"
| "perform_framed (R_send_zc_fixed sockfd buf len is_poll_first buf_index) E i tp w =
    uringio_send_zc_fixed E i sockfd buf len is_poll_first buf_index tp w"
| "perform_framed (R_sendmsg_zc sockfd iovecs nr_vecs addr addrlen is_poll_first buf_index) E i tp w =
    uringio_sendmsg_zc E i sockfd iovecs nr_vecs addr addrlen is_poll_first buf_index tp w"
| "perform_framed (R_recv_buffer_select sockfd len bgid is_poll_first) E i tp w =
    uringio_recv_buffer_select E i sockfd len bgid is_poll_first tp w"
| "perform_framed (R_recvmsg_buffer_select sockfd is_poll_first bgid) E i tp w =
    uringio_recvmsg_buffer_select E i sockfd is_poll_first bgid tp w"
| "perform_framed (R_accept_multishot sockfd addr len flags) E i tp w = uringio_accept_multishot E i
    sockfd addr len flags tp w"
| "perform_framed (R_recv_multishot sockfd len bgid is_poll_first) E i tp w = uringio_recv_multishot E
    i sockfd len bgid is_poll_first tp w"
| "perform_framed (R_recvmsg_multishot sockfd bgid is_poll_first msghdr) E i tp w =
    uringio_recvmsg_multishot E i sockfd bgid is_poll_first msghdr tp w"

fun framed_body :: "framed_request \<Rightarrow> ptr \<Rightarrow> lu_call list" where
  "framed_body (R_open_file dfd path flags resolve mode) s =
     [Prep s (Prep_openat2 dfd path \<lparr>how_flags = word_of_int (if flags = -1 then
         O_RDWR_O_CREAT else flags), how_mode = mode, how_resolve = word_of_int resolve\<rparr>)]"
| "framed_body (R_read fd buf sz offset) s =
     [Prep s (Prep_read fd buf sz (word_of_int offset))]"
| "framed_body (R_readv fd iovecs nr_vecs offset nowait) s =
     [Prep s (Prep_readv2 fd (Iov_ptr iovecs) nr_vecs (word_of_int offset) (if nowait \<noteq>
         0 then RWF_NOWAIT else 0))]"
| "framed_body (R_write fd buf sz offset) s =
     [Prep s (Prep_write fd buf sz (word_of_int offset))]"
| "framed_body (R_writev fd iovecs nr_vecs offset flags) s =
     [Prep s (Prep_writev2 fd (Iov_ptr iovecs) nr_vecs (word_of_int offset) flags)]"
| "framed_body (R_close_file fd) s =
     [Prep s (Prep_close fd)]"
| "framed_body (R_fsync fd) s =
     [Prep s (Prep_fsync fd 0)]"
| "framed_body (R_fdatasync fd) s =
     [Prep s (Prep_fsync fd IORING_FSYNC_DATASYNC)]"
| "framed_body (R_splice fd_in off_in fd_out off_out nbytes flag) s =
     [Prep s (Prep_splice fd_in (word_of_int off_in) fd_out (word_of_int off_out) (word_of_int
         nbytes) (word_of_int flag))]"
| "framed_body (R_read_fixed fd buf sz offset buf_index) s =
     [Prep s (Prep_read_fixed fd buf sz (word_of_int offset) buf_index)]"
| "framed_body (R_write_fixed fd buf sz offset buf_index) s =
     [Prep s (Prep_write_fixed fd buf sz (word_of_int offset) buf_index)]"
| "framed_body (R_read_buffer_select fd sz offset bgid) s =
     [Prep s (Prep_read fd 0 sz (word_of_int offset)),
      Or_flags s IOSQE_BUFFER_SELECT, Set_buf_group s (word_of_int bgid)]"
| "framed_body (R_readv_buffer_select fd sz offset bgid nowait) s =
     [Prep s (Prep_readv2 fd (Iov_local \<lparr>iov_base = 0, iov_len = unat sz\<rparr>) 1
         (word_of_int offset) (if nowait \<noteq> 0 then RWF_NOWAIT else 0)),
      Or_flags s IOSQE_BUFFER_SELECT, Set_buf_group s (word_of_int bgid)]"
| "framed_body (R_read_multishot fd offset bgid) s =
     [Prep s (Prep_read_multishot fd 0 (word_of_int offset) bgid)]"
| "framed_body (R_bind fd addr addrlen) s =
     [Prep s (Prep_bind fd addr addrlen)]"
| "framed_body (R_connect fd addr addrlen) s =
     [Prep s (Prep_connect fd addr addrlen)]"
| "framed_body (R_listen fd backlog) s =
     [Prep s (Prep_listen fd backlog)]"
| "framed_body (R_accept sockfd addr len flags) s =
     [Prep s (Prep_accept sockfd addr len flags)]"
| "framed_body (R_close_socket sockfd) s =
     [Prep s (Prep_close sockfd)]"
| "framed_body (R_send sockfd buf len is_poll_first) s =
     [Prep s (Prep_send sockfd buf len (poll_first_flags is_poll_first))]"
| "framed_body (R_recv sockfd buf len is_poll_first) s =
     [Prep s (Prep_recv sockfd buf len (poll_first_flags is_poll_first))]"
| "framed_body (R_sendto sockfd buf len addr addrlen is_poll_first) s =
     [Prep s (Prep_sendto sockfd buf len (poll_first_flags is_poll_first) addr (word_of_nat
         addrlen))]"
| "framed_body (R_recvfrom sockfd buf len addr addrlen is_poll_first msg) s =
     [Prep s (Prep_recvmsg sockfd (Msg_ptr msg (Some (zero_msghdr\<lparr>msg_name := addr,
         msg_namelen := addrlen, msg_iov := msg + sizeof_msghdr, msg_iovlen := 1\<rparr>,
             \<lparr>iov_base = buf, iov_len = len\<rparr>))) (word_of_int (poll_first_flags
                 is_poll_first)))]"
| "framed_body (R_sendmsg sockfd iovecs nr_vecs addr addrlen is_poll_first) s =
     [Prep s (Prep_sendmsg sockfd (Msg_local (zero_msghdr\<lparr>msg_iov := iovecs, msg_iovlen
         := ucast nr_vecs, msg_name := addr, msg_namelen := word_of_nat addrlen\<rparr>))
             (word_of_int (poll_first_flags is_poll_first)))]"
| "framed_body (R_recvmsg sockfd iovecs nr_vecs is_poll_first) s =
     [Prep s (Prep_recvmsg sockfd (Msg_local (zero_msghdr\<lparr>msg_iov := iovecs, msg_iovlen
         := ucast nr_vecs\<rparr>)) (word_of_int (poll_first_flags is_poll_first)))]"
| "framed_body (R_recv_fixed sockfd buf len is_poll_first buf_index) s =
     [Prep s (Prep_recv sockfd buf len (poll_first_flags is_poll_first)), Set_buf_index s
         (word_of_int buf_index),
      Or_ioprio s IORING_RECVSEND_FIXED_BUF]"
| "framed_body (R_recvmsg_fixed sockfd iovecs nr_vecs is_poll_first buf_index) s =
     [Prep s (Prep_recvmsg sockfd (Msg_local (zero_msghdr\<lparr>msg_iov := iovecs, msg_iovlen
         := ucast nr_vecs\<rparr>)) (word_of_int (poll_first_flags is_poll_first))),
             Set_buf_index s (word_of_int buf_index),
      Or_ioprio s IORING_RECVSEND_FIXED_BUF]"
| "framed_body (R_send_zc sockfd buf len is_poll_first) s =
     [Prep s (Prep_send_zc sockfd buf len (poll_first_flags is_poll_first) 0)]"
| "framed_body (R_send_zc_fixed sockfd buf len is_poll_first buf_index) s =
     [Prep s (Prep_send_zc_fixed sockfd buf len (poll_first_flags is_poll_first) 0 (word_of_int
         buf_index))]"
| "framed_body (R_sendmsg_zc sockfd iovecs nr_vecs addr addrlen is_poll_first buf_index) s =
     [Prep s (Prep_sendmsg_zc sockfd (Msg_local (zero_msghdr\<lparr>msg_iov := iovecs,
         msg_iovlen := ucast nr_vecs, msg_name := addr, msg_namelen := word_of_nat
             addrlen\<rparr>)) (word_of_int (poll_first_flags is_poll_first))), Set_buf_index s
                 (word_of_int buf_index),
      Or_ioprio s IORING_RECVSEND_FIXED_BUF]"
| "framed_body (R_recv_buffer_select sockfd len bgid is_poll_first) s =
     [Prep s (Prep_recv sockfd 0 len (poll_first_flags is_poll_first)),
      Or_flags s IOSQE_BUFFER_SELECT, Set_buf_group s (word_of_int bgid)]"
| "framed_body (R_recvmsg_buffer_select sockfd is_poll_first bgid) s =
     [Prep s (Prep_recvmsg sockfd (Msg_local zero_msghdr) (word_of_int (poll_first_flags
         is_poll_first))),
      Or_flags s IOSQE_BUFFER_SELECT, Set_buf_group s (word_of_int bgid)]"
| "framed_body (R_accept_multishot sockfd addr len flags) s =
     [Prep s (Prep_multishot_accept sockfd addr len flags)]"
| "framed_body (R_recv_multishot sockfd len bgid is_poll_first) s =
     [Prep s (Prep_recv_multishot sockfd 0 len (poll_first_flags is_poll_first)), Set_buf_group
         s (word_of_int bgid),
      Or_flags s IOSQE_BUFFER_SELECT]"
| "framed_body (R_recvmsg_multishot sockfd bgid is_poll_first msghdr) s =
     [Prep s (Prep_recvmsg_multishot sockfd (Msg_ptr msghdr None) (word_of_int
         (poll_first_flags is_poll_first))), Set_buf_group s (word_of_int bgid),
      Or_flags s IOSQE_BUFFER_SELECT]"

interpretation request: request_op "perform_framed rq" "framed_body rq" for rq
proof
  show "perform_framed rq E i tp w = issue E (framed_body rq) i tp w" for E i tp and w :: "'a ext_scheme"
    by (cases rq) (simp_all add: op_defs request_op_simps)
  show "body_ok (framed_body rq)"
    by (cases rq) (simp_all add: request_op_simps)
qed

section \<open>All request operations\<close>

datatype (plugins only: code size) c_request =
    R_framed framed_request
  | R_prep_socket int int
  | R_timer "TimerParams option"

fun perform :: "c_request \<Rightarrow> env \<Rightarrow> int \<Rightarrow> TimeoutParams
    \<Rightarrow> 'a ext_scheme \<Rightarrow> int \<times> 'a ext_scheme"
where
  "perform (R_framed rq) E i tp w = perform_framed rq E i tp w"
| "perform (R_prep_socket domain type) E i tp w = prep_socket E i domain type tp w"
| "perform (R_timer timer_params) E i tp w = timer E i timer_params w"

fun entry_body :: "c_request \<Rightarrow> ptr \<Rightarrow> lu_call list" where
  "entry_body (R_framed rq) s = framed_body rq s"
| "entry_body (R_prep_socket domain type) s = [Prep s (Prep_socket domain type 0 0)]"
| "entry_body (R_timer None) s = []"
| "entry_body (R_timer (Some p)) s =
     [Prep s (Prep_timeout \<lparr>tv_sec = timer_sec p, tv_nsec = timer_nsec p\<rparr>
        (word_of_int (timer_count p))
        (word_of_int (if is_multishot p then IORING_TIMEOUT_MULTISHOT else 0)))]"

text \<open>Which operations take a timeout, which of them lose the link to it because liburing assigns the
  flags of the entry, and which requests are refused without a submission.\<close>

fun takes_timeout :: "c_request \<Rightarrow> bool" where
  "takes_timeout (R_timer p) \<longleftrightarrow> False"
| "takes_timeout rq \<longleftrightarrow> True"

fun loses_link :: "c_request \<Rightarrow> bool" where
  "loses_link (R_framed (R_read_multishot fd offset bgid)) \<longleftrightarrow> True"
| "loses_link rq \<longleftrightarrow> False"

fun bad_domain :: "c_request \<Rightarrow> bool" where
  "bad_domain (R_prep_socket domain type) \<longleftrightarrow> \<not> (domain = AF_INET \<or> domain = AF_INET6)"
| "bad_domain rq \<longleftrightarrow> False"

definition refused :: "env \<Rightarrow> c_request \<Rightarrow> TimeoutParams \<Rightarrow> history \<Rightarrow> bool" where
  "refused E rq tp h \<longleftrightarrow>
     rq = R_timer None \<or>
     (let s = e_get_sqe E h
      in s = 0 \<or> takes_timeout rq \<and> timeout_refused E s tp (h @ [Lu (Get_sqe s)]))"

lemma request_cases:
  obtains (framed) fr where "rq = R_framed fr"
    | (prep_socket) domain type where "rq = R_prep_socket domain type"
    | (no_timer) "rq = R_timer None" | (timer) p where "rq = R_timer (Some p)"
  by (cases rq; metis option.exhaust)

lemma timer_eq:
  "timer E i (Some p) w = issue E (entry_body (R_timer (Some p))) i no_timeout w"
  by (simp add: timer_def issue_def SQE_WITH_OPTIONAL_TIMEOUT_def create_sqe_eq timeout_def
      no_timeout_def Let_def split_beta)

lemma timeout_not_wanted [simp]:
  "\<not> timeout_wanted no_timeout" "\<not> timeout_refused E s no_timeout h"
  by (simp_all add: timeout_wanted_def timeout_refused_def no_timeout_def)

lemma entry_body_fun:
  "entry_body (R_framed fr) = framed_body fr"
  "entry_body (R_prep_socket domain type) = (\<lambda>s. [Prep s (Prep_socket domain type 0 0)])"
  by (rule ext, simp)+

text \<open>With a supported domain and given parameters every operation is the frame around its body, with
  the timeout the caller gave or, for the timer, with none.\<close>

lemma perform_issue:
  assumes "\<not> bad_domain rq" and "rq \<noteq> R_timer None"
  shows "perform rq E i tp w =
     issue E (entry_body rq) i (if takes_timeout rq then tp else no_timeout) w"
  using assms
  by (cases rq rule: request_cases)
    (simp_all add: request.op_issue prep_socket_supported timer_eq entry_body_fun)

lemma entry_body_ok: "rq \<noteq> R_timer None \<Longrightarrow> body_ok (entry_body rq)"
  using request.body_wf by (cases rq rule: request_cases) (auto simp: body_ok_def)

text \<open>With an unsupported domain the entry (and its timeout) is taken, but nothing is submitted.\<close>

lemma prep_socket_bad_domain:
  assumes "bad_domain (R_prep_socket domain type)"
  shows "prep_socket E i domain type tp w =
     (let s = e_get_sqe E (hist w); h = hist w @ [Lu (Get_sqe s)]
      in if s = 0 then (-1, w\<lparr>hist := h\<rparr>)
         else (if timeout_refused E s tp h then -1 else -2,
               w\<lparr>hist := h @ timeout_events E s tp h\<rparr>))"
  using assms
  by (auto simp: prep_socket_def SQE_WITH_OPTIONAL_TIMEOUT_def create_sqe_eq timeout_result
      event_simps lu_def Let_def)

lemma issue_events_submit:
  assumes "issue_events E body i tp h = (r, h')"
  shows "r = -1 \<or> (\<exists>g s. h' = g @ [Lu (Submit s)] \<and> r = (if s < 0 then 0 else 1))"
proof -
  let ?s = "e_get_sqe E h"
  let ?h1 = "h @ [Lu (Get_sqe ?s)]"
  let ?g = "?h1 @ timeout_events E ?s tp ?h1 @ map Lu (body ?s) @ [Lu (Set_data ?s (user_data_of i))]"
  from assms have "r = -1 \<or>
      h' = ?g @ [Lu (Submit (e_submit E ?g))] \<and> r = (if e_submit E ?g < 0 then 0 else 1)"
    by (auto simp: issue_events_def Let_def split: if_splits)
  then show ?thesis by blast
qed

text \<open>The three kinds of operations and their outcomes.\<close>

lemma perform_outcome:
  "\<exists>h r. perform rq E i tp w = (r, w\<lparr>hist := h\<rparr>) \<and>
     (r = -1 \<longleftrightarrow> refused E rq tp (hist w)) \<and>
     (r = -2 \<longleftrightarrow> bad_domain rq \<and> \<not> refused E rq tp (hist w)) \<and>
     (r = -1 \<or> r = -2 \<or> (\<exists>g s. h = g @ [Lu (Submit s)] \<and> r = (if s < 0 then 0 else 1)))"
proof -
  consider (timer) "rq = R_timer None" | (domain) domain type where
      "rq = R_prep_socket domain type" "bad_domain rq"
    | (frame) "\<not> bad_domain rq" "rq \<noteq> R_timer None"
    by (cases rq) auto
  then show ?thesis
  proof cases
    case timer
    then show ?thesis by (intro exI [of _ "hist w"]) (simp add: timer_def refused_def)
  next
    case domain
    then show ?thesis by (simp add: prep_socket_bad_domain refused_def Let_def) blast
  next
    case frame
    define p where "p = (if takes_timeout rq then tp else no_timeout)"
    obtain r h where e: "issue_events E (entry_body rq) i p (hist w) = (r, h)" by fastforce
    then have run: "perform rq E i tp w = (r, w\<lparr>hist := h\<rparr>)"
      by (simp add: perform_issue [OF frame] issue_eq p_def)
    have "r = -1 \<longleftrightarrow> refused E rq tp (hist w)" "r \<noteq> -2"
      using e frame(2) by (auto simp: issue_events_def Let_def refused_def p_def split: if_splits)
    moreover have "r = -1 \<or> (\<exists>g s. h = g @ [Lu (Submit s)] \<and> r = (if s < 0 then 0 else 1))"
      by (rule issue_events_submit [OF e])
    ultimately show ?thesis using run frame(1) by blast
  qed
qed

text \<open>The flag that links an entry to the next one, after the body has been written.\<close>

lemma link_flag_prep_fields:
  "(\<forall>fd n off bgid. x \<noteq> Prep_read_multishot fd n off bgid) \<Longrightarrow>
   v_flags (prep_fields x v) = v_flags v"
  by (cases "(x, v)" rule: prep_fields.cases) auto

lemma link_flag_or: "((f :: 8 word) OR IOSQE_BUFFER_SELECT) AND IOSQE_IO_LINK = f AND IOSQE_IO_LINK"
  by (simp add: bit.conj_disj_distrib2)

lemma link_flag_framed:
  "v_flags (fold (view_step s) (map Lu (framed_body rq s)) v) AND IOSQE_IO_LINK =
     (if loses_link (R_framed rq) then 0 else v_flags v AND IOSQE_IO_LINK)"
  by (cases rq) (simp_all add: link_flag_or)

lemma link_flag_body:
  "v_flags (fold (view_step s) (map Lu (entry_body rq s)) v) AND IOSQE_IO_LINK =
     (if loses_link rq then 0 else v_flags v AND IOSQE_IO_LINK)"
  by (cases rq rule: request_cases) (simp_all add: link_flag_framed)

section \<open>Properties of every request\<close>

lemmas request_eval = op_defs SQE_WITH_OPTIONAL_TIMEOUT_def create_sqe_eq timeout_def
  set_data_and_submit_def event_simps no_timeout_def fresh_ptr_def lu_def timer_def

text \<open>C4: a request operation of the C layer, \<open>prep_socket\<close> and \<open>timer\<close> included, that reports success has
  submitted exactly one prepared entry for the request: a fresh one that carries precisely what the
  operation writes, stamped with the request index as its user data.  Its link flag is set exactly
  when the caller asked for a timeout, except for \<open>uringio_read_multishot\<close>, where liburing assigns
  the flags and the link is lost, and for \<open>timer\<close>, which takes no timeout.\<close>

theorem every_request_submitted:
  assumes "perform rq E request_idx tp w = (1, w')" and "sqes_fresh E"
  shows "\<exists>h r. hist w' = h @ [Lu (Submit r)] \<and> 0 \<le> r \<and>
     (let s = e_get_sqe E (hist w)
      in s \<noteq> 0 \<and>
         sqe_view h s =
           (fold (view_step s) (map Lu (entry_body rq s))
              (fresh_view\<lparr>v_flags :=
                 if timeout_wanted tp \<and> takes_timeout rq then IOSQE_IO_LINK else 0\<rparr>))
           \<lparr>v_data := Some (user_data_of request_idx)\<rparr> \<and>
         (v_flags (sqe_view h s) AND IOSQE_IO_LINK \<noteq> 0 \<longleftrightarrow>
            timeout_wanted tp \<and> takes_timeout rq \<and> \<not> loses_link rq))"
proof -
  let ?p = "if takes_timeout rq then tp else no_timeout"
  from assms(1) perform_outcome [of rq E request_idx tp w]
  have ok: "\<not> bad_domain rq" "rq \<noteq> R_timer None" by (auto simp: refused_def)
  have op: "request_op (\<lambda>E i tp w. issue E (entry_body rq) i tp w) (entry_body rq)"
    using entry_body_ok [OF ok(2)] by unfold_locales simp_all
  from assms(1) have run: "issue E (entry_body rq) request_idx ?p w = (1, w')"
    by (simp only: perform_issue [OF ok])
  have wanted: "timeout_wanted ?p \<longleftrightarrow> timeout_wanted tp \<and> takes_timeout rq" by simp
  show ?thesis
    using request_op.success_view [OF op run assms(2)]
    unfolding wanted Let_def by (force simp: link_flag_body)
qed

theorem every_request_submitted_witness:
  "\<exists>h r. hist (snd (perform (R_framed (R_read 3 4096 16 0)) sample_env 5 no_timeout
        \<lparr>hist = []\<rparr>)) = h @ [Lu (Submit r)] \<and> 0 \<le> r \<and>
     v_prep (sqe_view h 1) = Some (Prep_read 3 4096 16 0) \<and> v_data (sqe_view h 1) = Some 5"
proof -
  let ?rq = "R_framed (R_read 3 4096 16 0)"
  have run: "perform ?rq sample_env 5 no_timeout \<lparr>hist = []\<rparr> =
      (1, snd (perform ?rq sample_env 5 no_timeout \<lparr>hist = []\<rparr>))"
    by (simp add: request_eval)
  have "e_get_sqe sample_env (hist \<lparr>hist = []\<rparr>) = 1"
    by (simp add: fresh_ptr_def)
  with every_request_submitted [OF run sqes_fresh_sample] show ?thesis
    by (auto simp: Let_def fresh_view_def user_data_of_def)
qed

text \<open>C18: a request operation of the C layer reports \<open>-1\<close> exactly when its parameters are missing (the
  timer), when liburing has no entry for it or no entry for a timeout that is required; \<open>-2\<close> exactly
  when it is \<open>prep_socket\<close> with an unsupported domain and not refused before; otherwise it ends
  with a submission and reports \<open>1\<close> when the kernel took it and \<open>0\<close> when not.  It never touches the
  state the program keeps.\<close>

theorem every_request_reports:
  "let (r, w') = perform rq E request_idx tp w
   in (r = -1 \<longleftrightarrow> refused E rq tp (hist w)) \<and>
      (r = -2 \<longleftrightarrow> bad_domain rq \<and> \<not> refused E rq tp (hist w)) \<and>
      (r = -1 \<or> r = -2 \<or>
        (\<exists>h s. hist w' = h @ [Lu (Submit s)] \<and> r = (if s < 0 then 0 else 1))) \<and>
      ext.more w' = ext.more w"
proof -
  from perform_outcome [of rq E request_idx tp w] obtain h r where
    "perform rq E request_idx tp w = (r, w\<lparr>hist := h\<rparr>)"
    "r = -1 \<longleftrightarrow> refused E rq tp (hist w)"
    "r = -2 \<longleftrightarrow> bad_domain rq \<and> \<not> refused E rq tp (hist w)"
    "r = -1 \<or> r = -2 \<or> (\<exists>g s. h = g @ [Lu (Submit s)] \<and> r = (if s < 0 then 0 else 1))"
    by blast
  then show ?thesis by simp
qed

text \<open>C39: the entry of a linked timeout is submitted without user data of its own: the completion
  of the timeout then carries whatever liburing left in the entry, not an index the program
  chose.\<close>

theorem linked_timeout_untagged:
  assumes "perform (R_framed rq) E request_idx tp w = (1, w')" and "sqes_fresh E"
    and "timeout_wanted tp" and "s = e_get_sqe E (hist w)"
    and "q = e_get_sqe E (hist w @ [Lu (Get_sqe s), Lu (Or_flags s IOSQE_IO_LINK)])"
    and "q \<noteq> 0"
  shows "\<exists>h r. hist w' = h @ [Lu (Submit r)] \<and> v_data (sqe_view h q) = None \<and>
     v_prep (sqe_view h q) =
       Some (Prep_link_timeout \<lparr>tv_sec = sec tp, tv_nsec = nsec tp\<rparr> 0)"
proof -
  let ?h1 = "hist w @ [Lu (Get_sqe s)]"
  let ?h2 = "?h1 @ timeout_events E s tp ?h1"
  let ?h3 = "?h2 @ map Lu (framed_body rq s) @ [Lu (Set_data s (user_data_of request_idx))]"
  from assms(1) obtain r where s: "s \<noteq> 0" and w': "hist w' = ?h3 @ [Lu (Submit r)]"
    by (auto simp: request.op_issue issue_eq issue_events_def Let_def assms(4) split: if_splits)
  have "s \<in> set (taken (hist w @ [Lu (Get_sqe s), Lu (Or_flags s IOSQE_IO_LINK)]))"
    by (simp add: taken_def)
  with assms(2,5,6) have q: "q \<noteq> s" unfolding sqes_fresh_def by metis
  have wf: "list_all (writes_only s) (framed_body rq s)"
    using request.body_wf [of rq] by (simp add: body_ok_def)
  have "sqe_view ?h3 q = sqe_view ?h2 q"
    using q by (simp add: sqe_view_append fold_writes_only_other [OF wf q])
  moreover have "sqe_view ?h2 q =
      fresh_view\<lparr>v_prep := Some (Prep_link_timeout \<lparr>tv_sec = sec tp, tv_nsec = nsec tp\<rparr> 0)\<rparr>"
    using assms(3,5,6) by (simp add: timeout_events_def Let_def sqe_view_append)
  ultimately show ?thesis
    using w' by (intro exI [of _ ?h3] exI [of _ r]) (simp add: fresh_view_def)
qed

theorem linked_timeout_untagged_witness:
  "\<exists>h r. hist (snd (perform (R_framed (R_close_file 3)) sample_env 5
        \<lparr>sec = 1, nsec = 0, is_required = True\<rparr> \<lparr>hist = []\<rparr>)) = h @ [Lu (Submit r)] \<and>
     v_data (sqe_view h 2) = None"
proof -
  let ?tp = "\<lparr>sec = 1, nsec = 0, is_required = True\<rparr>"
  have run: "perform (R_framed (R_close_file 3)) sample_env 5 ?tp \<lparr>hist = []\<rparr> =
      (1, snd (perform (R_framed (R_close_file 3)) sample_env 5 ?tp \<lparr>hist = []\<rparr>))"
    by (simp add: request_eval)
  have "timeout_wanted ?tp" and "(1::nat) = e_get_sqe sample_env (hist \<lparr>hist = []\<rparr>)"
    and "(2::nat) = e_get_sqe sample_env
       (hist \<lparr>hist = []\<rparr> @ [Lu (Get_sqe 1), Lu (Or_flags 1 IOSQE_IO_LINK)])"
    by (simp_all add: timeout_wanted_def fresh_ptr_def)
  from linked_timeout_untagged [OF run sqes_fresh_sample this] show ?thesis by auto
qed

end
