(* ===== verification/Index_Pool.thy ===== *)
theory Index_Pool
  imports Uringio_Prelude
begin

text \<open>
  The pool of buffer indices of the fixed buffer mode (\<open>src/buffer_controllers/buffer_index.c\<close>):
  an array used as a stack of free indices.  The request registry is built the same way, so the
  contract of such a pool is the locale \<open>index_pool\<close>, interpreted here for the buffer indices and
  in \<open>Request_Registry\<close> for the request slots.
\<close>

section \<open>buffer\_index.c\<close>

abbreviation DEFAULT_BUFFER_IDX_REGISTRY_SIZE :: "32 word" where
  "DEFAULT_BUFFER_IDX_REGISTRY_SIZE \<equiv> 128"

text \<open>\<open>fb_block\<close> is the pointer \<open>available_indices\<close>, \<open>fb_avail\<close> the array behind it.\<close>

record FixedBufferIdxRegistry =
  fb_block :: ptr
  fb_avail :: "int list"
  fb_top :: int
  fb_size :: "32 word"

text \<open>The loop \<open>for (int i = 0; i < (int)size; i++)\<close> that numbers the free indices.\<close>

definition index_array :: "32 word \<Rightarrow> int list" where
  "index_array sz = map int [0..<nat (sint sz)]"

definition buffer_idx_registry_create ::
    "env \<Rightarrow> 32 word \<Rightarrow> 'a ext_scheme \<Rightarrow> FixedBufferIdxRegistry option \<times> 'a ext_scheme" where
  "buffer_idx_registry_create E sz w =
     (let (registry, w) = c_malloc E 16 w
      in if registry = 0 then (None, w)
         else let sz = (if sz = 0 then DEFAULT_BUFFER_IDX_REGISTRY_SIZE else sz);
                  (block, w) = c_malloc E (unat sz * 4) w
              in if block = 0 then (None, c_free registry w)
                 else (Some \<lparr>fb_block = block, fb_avail = index_array sz,
                            fb_top = sint sz - 1, fb_size = sz\<rparr>, w))"

definition buffer_idx_registry_destroy ::
    "FixedBufferIdxRegistry \<Rightarrow> 'a ext_scheme \<Rightarrow> FixedBufferIdxRegistry \<times> 'a ext_scheme" where
  "buffer_idx_registry_destroy reg w =
     (let w = (if fb_block reg \<noteq> 0 then c_free (fb_block reg) w else w)
      in (\<lparr>fb_block = 0, fb_avail = [], fb_top = -1, fb_size = 0\<rparr>, w))"

definition get_buffer_idx ::
    "FixedBufferIdxRegistry \<Rightarrow> (int \<times> FixedBufferIdxRegistry) option" where
  "get_buffer_idx reg =
     (if fb_top reg < 0 then Some (-1, reg)
      else if nat (fb_top reg) < length (fb_avail reg)
           then Some (fb_avail reg ! nat (fb_top reg), reg\<lparr>fb_top := fb_top reg - 1\<rparr>)
           else None)"

definition release_buffer_idx ::
    "FixedBufferIdxRegistry \<Rightarrow> int \<Rightarrow> (int \<times> FixedBufferIdxRegistry) option" where
  "release_buffer_idx reg index =
     (if fb_top reg + 1 \<ge> sint (fb_size reg) then Some (-1, reg)
      else let top = fb_top reg + 1
           in if 0 \<le> top \<and> nat top < length (fb_avail reg)
              then Some (0, reg\<lparr>fb_top := top, fb_avail := (fb_avail reg)[nat top := index]\<rparr>)
              else None)"

section \<open>Arrays used as stacks\<close>

text \<open>The free indices of an array \<open>xs\<close> with top \<open>t\<close>, next one first, and when such a stack is
  well formed.\<close>

definition stack_free :: "int list \<Rightarrow> int \<Rightarrow> int list" where
  "stack_free xs t = rev (take (nat (t + 1)) xs)"

definition stack_ok :: "int list \<Rightarrow> int \<Rightarrow> 32 word \<Rightarrow> bool" where
  "stack_ok xs t sz \<longleftrightarrow>
     0 < sint sz \<and> length xs = nat (sint sz) \<and> -1 \<le> t \<and> t < sint sz \<and>
     distinct (stack_free xs t) \<and> set (stack_free xs t) \<subseteq> {0..<sint sz}"

lemma stack_free_empty_iff: "stack_ok xs t sz \<Longrightarrow> stack_free xs t = [] \<longleftrightarrow> t < 0"
  by (auto simp: stack_ok_def stack_free_def)

lemma stack_free_pop:
  assumes "stack_ok xs t sz" and "0 \<le> t"
  shows "stack_free xs t = xs ! nat t # stack_free xs (t - 1)"
proof -
  have "nat t < length xs"
    using assms by (simp add: stack_ok_def)
  moreover have "nat (t + 1) = Suc (nat t)" and "nat (t - 1 + 1) = nat t"
    using assms(2) by simp_all
  ultimately show ?thesis
    by (simp add: stack_free_def take_Suc_conv_app_nth)
qed

lemma stack_free_push:
  assumes "stack_ok xs t sz" and "t + 1 < sint sz"
  shows "stack_free (xs[nat (t + 1) := i]) (t + 1) = i # stack_free xs t"
proof -
  have "nat (t + 1) < length xs" and "-1 \<le> t"
    using assms by (simp_all add: stack_ok_def)
  moreover from this have "nat (t + 1 + 1) = Suc (nat (t + 1))" by arith
  ultimately show ?thesis
    by (simp add: stack_free_def take_Suc_conv_app_nth)
qed

lemma stack_ok_pop:
  assumes "stack_ok xs t sz" and "0 \<le> t"
  shows "stack_ok xs (t - 1) sz"
  using assms stack_free_pop [OF assms] by (simp add: stack_ok_def)

lemma stack_ok_push:
  assumes "stack_ok xs t sz" and "t + 1 < sint sz"
    and "i \<notin> set (stack_free xs t)" and "0 \<le> i" and "i < sint sz"
  shows "stack_ok (xs[nat (t + 1) := i]) (t + 1) sz"
  using assms stack_free_push [OF assms(1,2), of i] by (simp add: stack_ok_def)

lemma length_stack_free:
  "stack_ok xs t sz \<Longrightarrow> length (stack_free xs t) = nat (t + 1)"
  by (auto simp: stack_ok_def stack_free_def min_def)

text \<open>A full stack holds every index, so an index that is not free leaves room.\<close>

lemma stack_room:
  assumes "stack_ok xs t sz" and "i \<notin> set (stack_free xs t)" and "0 \<le> i" and "i < sint sz"
  shows "t + 1 < sint sz"
proof (rule ccontr)
  assume "\<not> t + 1 < sint sz"
  moreover have "t < sint sz"
    using assms(1) by (simp add: stack_ok_def)
  ultimately have "nat (t + 1) = nat (sint sz)"
    by arith
  then have "card (set (stack_free xs t)) = card {0..<sint sz}"
    using assms(1) length_stack_free [OF assms(1)]
    by (simp add: stack_ok_def distinct_card)
  moreover have "set (stack_free xs t) \<subseteq> {0..<sint sz}"
    using assms(1) by (simp add: stack_ok_def)
  ultimately have "set (stack_free xs t) = {0..<sint sz}"
    by (simp add: card_subset_eq)
  with assms(2-4) show False by simp
qed

lemma stack_ok_index_array:
  assumes "0 < sint sz"
  shows "stack_ok (index_array sz) (sint sz - 1) sz"
    and "stack_free (index_array sz) (sint sz - 1) = rev (map int [0..<nat (sint sz)])"
  using assms by (auto simp: stack_ok_def stack_free_def index_array_def distinct_map)

section \<open>The contract of an index pool\<close>

locale index_pool =
  fixes invar :: "'r \<Rightarrow> bool"
    and free :: "'r \<Rightarrow> int list"
    and capacity :: "'r \<Rightarrow> int"
    and acquire :: "'r \<Rightarrow> (int \<times> 'r) option"
    and release :: "'r \<Rightarrow> int \<Rightarrow> 'r option"
  assumes free_distinct: "invar r \<Longrightarrow> distinct (free r)"
    and free_range: "invar r \<Longrightarrow> set (free r) \<subseteq> {0..<capacity r}"
    and acquire_empty: "invar r \<Longrightarrow> free r = [] \<Longrightarrow> acquire r = Some (-1, r)"
    and acquire_next: "invar r \<Longrightarrow> free r = i # is \<Longrightarrow>
      \<exists>r'. acquire r = Some (i, r') \<and> invar r' \<and> free r' = is \<and> capacity r' = capacity r"
    and release_used: "invar r \<Longrightarrow> i \<in> {0..<capacity r} - set (free r) \<Longrightarrow>
      \<exists>r'. release r i = Some r' \<and> invar r' \<and> free r' = i # free r \<and> capacity r' = capacity r"
begin

text \<open>The indices handed out and not yet given back.\<close>

definition used :: "'r \<Rightarrow> int set" where
  "used r = {0..<capacity r} - set (free r)"

text \<open>An acquired index was free, is in range, and is the only change of the used set.\<close>

lemma acquire_fresh:
  assumes "invar r" and "acquire r = Some (i, r')" and "i \<noteq> -1"
  shows "i \<notin> used r \<and> 0 \<le> i \<and> i < capacity r \<and> used r' = insert i (used r) \<and> invar r'"
proof (cases "free r")
  case Nil
  with assms show ?thesis by (simp add: acquire_empty)
next
  case (Cons j js)
  from acquire_next [OF assms(1) Cons] assms(2)
  have "i = j" "invar r'" "free r' = js" "capacity r' = capacity r" by auto
  moreover have "j \<in> {0..<capacity r}" "j \<notin> set js"
    using free_range [OF assms(1)] free_distinct [OF assms(1)] Cons by auto
  ultimately show ?thesis
    by (auto simp: used_def Cons)
qed

text \<open>The pool answers \<open>-1\<close> exactly when every index is in use.\<close>

lemma acquire_fails_iff:
  assumes "invar r"
  shows "(\<exists>r'. acquire r = Some (-1, r')) \<longleftrightarrow> used r = {0..<capacity r}"
proof (cases "free r")
  case Nil
  with assms show ?thesis by (simp add: acquire_empty used_def)
next
  case (Cons j js)
  have j: "j \<in> {0..<capacity r}" using free_range [OF assms] Cons by simp
  from acquire_next [OF assms Cons] obtain r'' where "acquire r = Some (j, r'')" by blast
  with j have "\<not> (\<exists>r'. acquire r = Some (-1, r'))" by simp
  moreover have "j \<notin> used r" by (simp add: used_def Cons)
  with j have "used r \<noteq> {0..<capacity r}" by metis
  ultimately show ?thesis by blast
qed

lemma acquire_total:
  assumes "invar r"
  shows "\<exists>i r'. acquire r = Some (i, r') \<and> invar r' \<and> capacity r' = capacity r"
proof (cases "free r")
  case Nil
  with assms show ?thesis by (simp add: acquire_empty)
next
  case (Cons j js)
  from acquire_next [OF assms Cons] show ?thesis by blast
qed

lemma release_returns:
  assumes "invar r" and "i \<in> used r"
  obtains r' where "release r i = Some r'" "invar r'" "used r' = used r - {i}"
    "capacity r' = capacity r"
proof -
  from assms have "i \<in> {0..<capacity r} - set (free r)" by (simp add: used_def)
  from release_used [OF assms(1) this] obtain r' where
    r': "release r i = Some r'" "invar r'" "free r' = i # free r" "capacity r' = capacity r"
    by blast
  from r'(3,4) have "used r' = used r - {i}" by (auto simp: used_def)
  with r' show ?thesis using that by blast
qed

text \<open>A released index is the next one handed out.\<close>

lemma release_then_acquire:
  assumes "invar r" and "i \<in> used r"
  shows "\<exists>r' r''. release r i = Some r' \<and> acquire r' = Some (i, r'') \<and> free r'' = free r"
proof -
  from assms have "i \<in> {0..<capacity r} - set (free r)" by (simp add: used_def)
  from release_used [OF assms(1) this] obtain r' where
    r': "release r i = Some r'" "invar r'" "free r' = i # free r" by blast
  from acquire_next [OF r'(2,3)] r'(1) show ?thesis by blast
qed

end

section \<open>The buffer index registry is an index pool\<close>

definition fb_ok :: "FixedBufferIdxRegistry \<Rightarrow> bool" where
  "fb_ok r \<longleftrightarrow> stack_ok (fb_avail r) (fb_top r) (fb_size r)"

definition fb_free :: "FixedBufferIdxRegistry \<Rightarrow> int list" where
  "fb_free r = stack_free (fb_avail r) (fb_top r)"

interpretation buf_pool: index_pool
    fb_ok fb_free "\<lambda>r. sint (fb_size r)" get_buffer_idx
    "\<lambda>r i. map_option snd (release_buffer_idx r i)"
proof
  fix r i "is"
  assume r: "fb_ok r"
  show "distinct (fb_free r)" and "set (fb_free r) \<subseteq> {0..<sint (fb_size r)}"
    using r by (simp_all add: fb_ok_def fb_free_def stack_ok_def)
  show "get_buffer_idx r = Some (-1, r)" if "fb_free r = []"
    using that r stack_free_empty_iff by (simp add: fb_ok_def fb_free_def get_buffer_idx_def)
  show "\<exists>r'. get_buffer_idx r = Some (i, r') \<and> fb_ok r' \<and> fb_free r' = is \<and>
        sint (fb_size r') = sint (fb_size r)" if "fb_free r = i # is"
  proof -
    have ok: "stack_ok (fb_avail r) (fb_top r) (fb_size r)" using r by (simp add: fb_ok_def)
    have top: "0 \<le> fb_top r"
      using that stack_free_empty_iff [OF ok] by (simp add: fb_free_def) 
    have "nat (fb_top r) < length (fb_avail r)" using ok top by (simp add: stack_ok_def)
    then show ?thesis
      using that top stack_free_pop [OF ok top] stack_ok_pop [OF ok top]
      by (simp add: get_buffer_idx_def fb_free_def fb_ok_def)
  qed
  show "\<exists>r'. map_option snd (release_buffer_idx r i) = Some r' \<and> fb_ok r' \<and>
        fb_free r' = i # fb_free r \<and> sint (fb_size r') = sint (fb_size r)"
    if "i \<in> {0..<sint (fb_size r)} - set (fb_free r)"
  proof -
    have ok: "stack_ok (fb_avail r) (fb_top r) (fb_size r)" using r by (simp add: fb_ok_def)
    have i: "i \<notin> set (stack_free (fb_avail r) (fb_top r))" "0 \<le> i" "i < sint (fb_size r)"
      using that by (simp_all add: fb_free_def)
    have room: "fb_top r + 1 < sint (fb_size r)" by (rule stack_room [OF ok i])
    have "0 \<le> fb_top r + 1" "nat (fb_top r + 1) < length (fb_avail r)"
      using ok room by (simp_all add: stack_ok_def)
    then show ?thesis
      using room stack_free_push [OF ok room, of i] stack_ok_push [OF ok room i]
      by (simp add: release_buffer_idx_def fb_free_def fb_ok_def Let_def)
  qed
qed

section \<open>Creation and destruction\<close>

lemma buffer_idx_registry_create_ok:
  assumes "buffer_idx_registry_create E sz w = (Some r, w')" and "sint sz \<ge> 0"
  shows "fb_ok r \<and> fb_size r = (if sz = 0 then 128 else sz) \<and>
     fb_free r = rev (map int [0..<nat (sint (fb_size r))])"
proof -
  let ?sz = "if sz = 0 then 128 else sz"
  have pos: "0 < sint ?sz"
    using assms(2) signed_eq_0_iff [of sz] by (auto simp: order_less_le)
  from assms(1) have "fb_avail r = index_array ?sz" "fb_top r = sint ?sz - 1" "fb_size r = ?sz"
    by (auto simp: buffer_idx_registry_create_def c_malloc_def Let_def split: if_splits)
  then show ?thesis
    using stack_ok_index_array [OF pos] by (simp add: fb_ok_def fb_free_def)
qed

text \<open>After the mode is left the registry hands out nothing, and a completion that arrives late
  can still give its index back without touching the freed array.\<close>

lemma buffer_idx_registry_destroyed:
  assumes "buffer_idx_registry_destroy reg w = (r, w')"
  shows "get_buffer_idx r = Some (-1, r) \<and> release_buffer_idx r i = Some (-1, r)"
  using assms by (auto simp: buffer_idx_registry_destroy_def get_buffer_idx_def
      release_buffer_idx_def Let_def)

section \<open>Properties of the buffer indices\<close>

text \<open>C19: a buffer index that the pool hands out was free and in range, is not handed out again
  while it is held, and giving it back restores the pool; a pool that answers \<open>-1\<close> has nothing
  left.\<close>

theorem buffer_index_lifecycle:
  assumes "fb_ok reg" and "get_buffer_idx reg = Some (i, reg')"
  shows "if i = -1 then fb_free reg = [] \<and> reg' = reg
     else 0 \<le> i \<and> i < sint (fb_size reg) \<and> fb_free reg = i # fb_free reg' \<and>
       i \<notin> set (fb_free reg') \<and> fb_ok reg' \<and>
       (\<exists>reg''. release_buffer_idx reg' i = Some (0, reg'') \<and> fb_ok reg'' \<and>
          fb_free reg'' = fb_free reg)"
proof (cases "fb_free reg")
  case Nil
  with assms show ?thesis using buf_pool.acquire_empty by fastforce
next
  case (Cons j js)
  from buf_pool.acquire_next [OF assms(1) Cons] assms(2)
  have j: "i = j" "fb_ok reg'" "fb_free reg' = js" "sint (fb_size reg') = sint (fb_size reg)"
    by auto
  have range: "0 \<le> j" "j < sint (fb_size reg)" "j \<notin> set js"
    using buf_pool.free_range [OF assms(1)] buf_pool.free_distinct [OF assms(1)] Cons by auto
  have "j \<in> {0..<sint (fb_size reg')} - set (fb_free reg')" using range j by simp
  from buf_pool.release_used [OF j(2) this] obtain reg'' c where
    "release_buffer_idx reg' j = Some (c, reg'')" "fb_ok reg''" "fb_free reg'' = j # js"
    using j(3) by auto
  moreover from this have "c = 0 \<or> reg'' = reg'"
    by (auto simp: release_buffer_idx_def Let_def split: if_splits)
  with \<open>fb_free reg'' = j # js\<close> j(3) have "c = 0" by auto
  ultimately show ?thesis using j range Cons by simp
qed

theorem buffer_index_lifecycle_witness:
  "\<exists>reg'. get_buffer_idx \<lparr>fb_block = 1, fb_avail = [0, 1], fb_top = 1, fb_size = 2\<rparr> =
       Some (1, reg') \<and> fb_free reg' = [0]"
proof -
  let ?r = "\<lparr>fb_block = 1, fb_avail = [0, 1], fb_top = 1, fb_size = 2\<rparr> :: FixedBufferIdxRegistry"
  have "fb_ok ?r"
    by (simp add: fb_ok_def stack_ok_def stack_free_def)
  moreover have get: "get_buffer_idx ?r = Some (1, ?r\<lparr>fb_top := 0\<rparr>)"
    by (simp add: get_buffer_idx_def)
  ultimately have "fb_free ?r = 1 # fb_free (?r\<lparr>fb_top := 0\<rparr>)"
    using buffer_index_lifecycle [of ?r 1 "?r\<lparr>fb_top := 0\<rparr>"] by simp
  with get show ?thesis by (simp add: fb_free_def stack_free_def)
qed

end
