(* ===== verification/Buffers.thy ===== *)
theory Buffers
  imports Index_Pool
begin

text \<open>
  The buffer payloads of \<open>src/python_api/buffers\<close>: how a \<open>BufferPayload\<close> is built from the
  user's objects or from fresh memory, and how it is freed.  Payloads live in a store indexed by
  their address, because an execution context and any number of pending requests share one; a
  field of a payload that nobody has written since \<open>malloc\<close> is \<open>None\<close> (scalars) or \<open>Wild\<close>
  (pointers), and reading it is undefined.
\<close>

section \<open>Structures\<close>

datatype BufferMode = NORMAL_BUF | FIXED | PROVIDED | BUF_RING | BUF_NO_VAL

datatype PayloadOrigin = PAYLOAD_USER | PAYLOAD_RUNTIME | ORIGIN_NO_VAL

datatype PayloadType =
  PAYLOAD_LINEAR | PAYLOAD_IOVEC | PAYLOAD_LINEAR_AND_IOVEC | PAYLOAD_TYPE_NO_VAL

text \<open>An array of \<open>Py_buffer\<close>: its address and the (address, length) of each exported buffer.\<close>

record Views =
  vs_addr :: ptr
  vs_bufs :: "(ptr \<times> nat) list"

record LinearBuffer =
  buffer :: ptr
  len :: nat
  views :: "Views pfield"

text \<open>The array a payload's \<open>linear\<close> points to.\<close>

record LinearArray =
  la_addr :: ptr
  la_elems :: "LinearBuffer list"

record VectoredBuffer =
  vec_addr :: ptr
  iovecs_addr :: ptr
  iovecs :: "iovec list"
  nr_vecs :: "32 word"
  vec_views :: "Views pfield"

record BufferPayload =
  payload_type :: "PayloadType option"
  payload_origin :: "PayloadOrigin option"
  mode :: "BufferMode option"
  amount :: "int option"
  linear :: "LinearArray pfield"
  vector :: "VectoredBuffer pfield"
  idx_registry :: "FixedBufferIdxRegistry pfield"
  buf_idx :: "int option"
  bgid :: "int option"
  buf_ring :: "ptr option"

record BufferMetadata =
  md_origin :: PayloadOrigin
  md_type :: PayloadType
  md_mode :: BufferMode
  md_amount :: int
  md_bufsize :: int

text \<open>Sizes of the structures on a 64-bit Linux.\<close>

abbreviation sizeof_BufferPayload :: nat where "sizeof_BufferPayload \<equiv> 56"
abbreviation sizeof_LinearBuffer :: nat where "sizeof_LinearBuffer \<equiv> 24"
abbreviation sizeof_VectoredBuffer :: nat where "sizeof_VectoredBuffer \<equiv> 24"
abbreviation sizeof_iovec :: nat where "sizeof_iovec \<equiv> 16"
abbreviation sizeof_Py_buffer :: nat where "sizeof_Py_buffer \<equiv> 80"

record bufst = ext +
  payloads :: "ptr \<Rightarrow> BufferPayload option"

definition raw_payload :: BufferPayload where
  "raw_payload = \<lparr>payload_type = None, payload_origin = None, mode = None, amount = None,
     linear = Wild, vector = Wild, idx_registry = Wild, buf_idx = None, bgid = None,
     buf_ring = None\<rparr>"

text \<open>The payload after \<open>memset(payload, 0, sizeof(BufferPayload))\<close>: every enumeration at its
  first value.\<close>

definition zero_payload :: BufferPayload where
  "zero_payload = \<lparr>payload_type = Some PAYLOAD_LINEAR, payload_origin = Some PAYLOAD_USER,
     mode = Some NORMAL_BUF, amount = Some 0, linear = Null, vector = Null, idx_registry = Null,
     buf_idx = Some 0, bgid = Some 0, buf_ring = Some 0\<rparr>"

definition upd_payload ::
    "ptr \<Rightarrow> (BufferPayload \<Rightarrow> BufferPayload) \<Rightarrow> 'a bufst_scheme \<Rightarrow> 'a bufst_scheme" where
  "upd_payload p f w = w\<lparr>payloads := (payloads w)(p := map_option f (payloads w p))\<rparr>"

definition put_payload :: "ptr \<Rightarrow> BufferPayload \<Rightarrow> 'a bufst_scheme \<Rightarrow> 'a bufst_scheme" where
  "put_payload p x w = w\<lparr>payloads := (payloads w)(p \<mapsto> x)\<rparr>"

text \<open>\<open>malloc(sizeof(BufferPayload))\<close>.\<close>

definition malloc_payload :: "env \<Rightarrow> 'a bufst_scheme \<Rightarrow> ptr \<times> 'a bufst_scheme" where
  "malloc_payload E w =
     (let (p, w) = c_malloc E sizeof_BufferPayload w
      in if p = 0 then (0, w) else (p, put_payload p raw_payload w))"

section \<open>Loops shared by the constructors\<close>

text \<open>Allocation of \<open>n\<close> buffers, stopping at the first failure: the result says whether all were
  allocated and which were.\<close>

fun alloc_upto ::
    "env \<Rightarrow> nat \<Rightarrow> nat \<Rightarrow> ptr list \<Rightarrow> 'a ext_scheme \<Rightarrow> (bool \<times> ptr list) \<times> 'a ext_scheme" where
  "alloc_upto E bufsize 0 acc w = ((True, acc), w)"
| "alloc_upto E bufsize (Suc n) acc w =
     (let (b, w) = pymem_malloc E bufsize w
      in if b = 0 then ((False, acc), w) else alloc_upto E bufsize n (acc @ [b]) w)"

text \<open>Export of the buffers of the items \<open>i, i + 1, \<dots>\<close> of a sequence, stopping at the first
  failure.\<close>

fun export_items ::
    "env \<Rightarrow> obj \<Rightarrow> nat \<Rightarrow> nat \<Rightarrow> (ptr \<times> nat) list \<Rightarrow> 'a ext_scheme \<Rightarrow>
     (bool \<times> (ptr \<times> nat) list) \<times> 'a ext_scheme" where
  "export_items E seq i 0 acc w = ((True, acc), w)"
| "export_items E seq i (Suc n) acc w =
     (let item = e_get_item E (hist w) seq i; w = py (GetItem seq i item) w
      in case item of
           None \<Rightarrow> ((False, acc), w)
         | Some it \<Rightarrow>
             let b = e_get_buffer E (hist w) it; w = py (GetBuffer it b) w;
                 w = py (Decref it) w
             in (case b of
                   None \<Rightarrow> ((False, acc), w)
                 | Some v \<Rightarrow> export_items E seq (Suc i) n (acc @ [v]) w))"

text \<open>The same over the borrowed items of \<open>PySequence_Fast\<close>.\<close>

fun export_fast ::
    "env \<Rightarrow> obj list \<Rightarrow> (ptr \<times> nat) list \<Rightarrow> 'a ext_scheme \<Rightarrow>
     (bool \<times> (ptr \<times> nat) list) \<times> 'a ext_scheme" where
  "export_fast E [] acc w = ((True, acc), w)"
| "export_fast E (it # its) acc w =
     (let b = e_get_buffer E (hist w) it; w = py (GetBuffer it b) w
      in case b of
           None \<Rightarrow> ((False, acc), w)
         | Some v \<Rightarrow> export_fast E its (acc @ [v]) w)"

definition release_bufs :: "(ptr \<times> nat) list \<Rightarrow> 'a ext_scheme \<Rightarrow> 'a ext_scheme" where
  "release_bufs vs w = fold (\<lambda>(b, n). py (Buffer_release b n)) vs w"

definition free_bufs :: "ptr list \<Rightarrow> 'a ext_scheme \<Rightarrow> 'a ext_scheme" where
  "free_bufs bs w = fold pymem_free bs w"

section \<open>free\_buffer\_payload\<close>

text \<open>\<open>for (i = 0; i < amount; i++)\<close> over an array of which \<open>n\<close> entries exist.\<close>

definition prefix_of :: "int \<Rightarrow> 'a list \<Rightarrow> 'a list option" where
  "prefix_of n xs = (if nat n \<le> length xs then Some (take (nat n) xs) else None)"

definition free_views :: "int option \<Rightarrow> Views pfield \<Rightarrow> 'a ext_scheme \<Rightarrow> 'a ext_scheme option" where
  "free_views amt vf w =
     (case vf of
        Wild \<Rightarrow> None
      | Null \<Rightarrow> Some w
      | To vs \<Rightarrow> do {
          n \<leftarrow> amt;
          bufs \<leftarrow> prefix_of n (vs_bufs vs);
          Some (pymem_free (vs_addr vs) (release_bufs bufs w))
        })"

definition free_linear :: "BufferPayload \<Rightarrow> 'a ext_scheme \<Rightarrow> 'a ext_scheme option" where
  "free_linear p w =
     (case linear p of
        Wild \<Rightarrow> None
      | Null \<Rightarrow> Some w
      | To la \<Rightarrow> do {
          origin \<leftarrow> payload_origin p;
          w \<leftarrow> (if origin = PAYLOAD_RUNTIME
               then do {
                 n \<leftarrow> amount p;
                 bs \<leftarrow> prefix_of n (la_elems la);
                 Some (free_bufs (map buffer bs) w)
               }
               else Some w);
          w \<leftarrow> (case la_elems la of [] \<Rightarrow> None | b # _ \<Rightarrow> free_views (amount p) (views b) w);
          Some (pymem_free (la_addr la) w)
        })"

definition free_vector :: "BufferPayload \<Rightarrow> 'a ext_scheme \<Rightarrow> 'a ext_scheme option" where
  "free_vector p w =
     (case vector p of
        Wild \<Rightarrow> None
      | Null \<Rightarrow> Some w
      | To v \<Rightarrow> do {
          origin \<leftarrow> payload_origin p;
          w \<leftarrow> (if origin = PAYLOAD_RUNTIME
               then do {
                 iovs \<leftarrow> prefix_of (uint (nr_vecs v)) (iovecs v);
                 Some (free_bufs (map iov_base iovs) w)
               }
               else Some w);
          w \<leftarrow> free_views (amount p) (vec_views v) w;
          Some (pymem_free (vec_addr v) (pymem_free (iovecs_addr v) w))
        })"

definition free_buffer_payload ::
    "ptr \<Rightarrow> bool \<Rightarrow> 'a bufst_scheme \<Rightarrow> 'a bufst_scheme option" where
  "free_buffer_payload payload force w =
     (if payload = 0 then Some w
      else do {
        p \<leftarrow> payloads w payload;
        keep \<leftarrow> (if force then Some False else map_option (\<lambda>m. m \<noteq> NORMAL_BUF) (mode p));
        if keep then Some w
        else do {
          w \<leftarrow> free_linear p w;
          w \<leftarrow> free_vector p w;
          Some ((c_free payload w)\<lparr>payloads := (payloads w)(payload := None)\<rparr>)
        }
      })"

section \<open>Linear and vectored buffers\<close>

text \<open>
  Each constructor says whether it returned a buffer (\<open>True\<close>) or \<open>NULL\<close>, and stores the buffer
  in the payload.  \<open>buffers->views = \<dots>\<close> writes the first element, which an empty array does not
  have.
\<close>

definition create_linear_buffers ::
    "env \<Rightarrow> int \<Rightarrow> int \<Rightarrow> ptr \<Rightarrow> 'a bufst_scheme \<Rightarrow> (bool \<times> 'a bufst_scheme) option" where
  "create_linear_buffers E n bufsize p w =
     (let (addr, w) = pymem_malloc E (size_mult sizeof_LinearBuffer (size_t n)) w
      in if addr = 0 then Some (False, py (Err_set MemoryError) w)
         else let ((ok, bs), w) = alloc_upto E (size_t bufsize) (nat n) [] w
              in if \<not> ok
                 then Some (False, py (Err_set MemoryError) (pymem_free addr (free_bufs bs w)))
                 else if bs = [] then None
                 else let elems = map (\<lambda>b. \<lparr>buffer = b, len = size_t bufsize, views = Null\<rparr>) bs
                      in Some (True, upd_payload p (\<lambda>x. x\<lparr>linear := To \<lparr>la_addr = addr,
                                 la_elems = elems\<rparr>, vector := Null\<rparr>) w))"

definition serialize_linear_buffers ::
    "env \<Rightarrow> obj \<Rightarrow> int \<Rightarrow> ptr \<Rightarrow> 'a bufst_scheme \<Rightarrow> (bool \<times> 'a bufst_scheme) option" where
  "serialize_linear_buffers E buffers_obj n p w =
     (let (vaddr, w) = pymem_malloc E (size_mult sizeof_Py_buffer (size_t n)) w;
          (baddr, w) = pymem_malloc E (size_mult sizeof_LinearBuffer (size_t n)) w
      in if vaddr = 0 \<or> baddr = 0
         then Some (False, py (Err_set MemoryError) (pymem_free baddr (pymem_free vaddr w)))
         else let ((ok, vs), w) = export_items E buffers_obj 0 (nat n) [] w
              in if \<not> ok
                 then Some (False, pymem_free baddr (pymem_free vaddr (release_bufs vs w)))
                 else (case vs of
                         [] \<Rightarrow> None
                       | v # rest \<Rightarrow>
                           let mk = (\<lambda>x (b, k). \<lparr>buffer = b, len = k, views = x\<rparr>);
                               vw = To \<lparr>vs_addr = vaddr, vs_bufs = vs\<rparr>
                           in Some (True, upd_payload p (\<lambda>x. x\<lparr>linear := To \<lparr>la_addr = baddr,
                                      la_elems = mk vw v # map (mk Null) rest\<rparr>,
                                      vector := Null\<rparr>) w)))"

definition create_vectored_buffers ::
    "env \<Rightarrow> int \<Rightarrow> int \<Rightarrow> ptr \<Rightarrow> 'a bufst_scheme \<Rightarrow> (bool \<times> 'a bufst_scheme) option" where
  "create_vectored_buffers E n bufsize p w =
     (let (vec, w) = pymem_malloc E sizeof_VectoredBuffer w
      in if vec = 0 then Some (False, py (Err_set MemoryError) w)
         else let (iaddr, w) = pymem_malloc E (size_mult sizeof_iovec (size_t n)) w
              in if iaddr = 0 then Some (False, py (Err_set MemoryError) (pymem_free vec w))
                 else let ((ok, bs), w) = alloc_upto E (size_t bufsize) (nat n) [] w
                      in if \<not> ok
                         then Some (False, py (Err_set MemoryError)
                                (pymem_free vec (pymem_free iaddr (free_bufs bs w))))
                         else let iovs = map (\<lambda>b. \<lparr>iov_base = b, iov_len = size_t bufsize\<rparr>) bs
                              in Some (True, upd_payload p (\<lambda>x. x\<lparr>vector := To \<lparr>vec_addr = vec,
                                   iovecs_addr = iaddr, iovecs = iovs, nr_vecs = word_of_int n,
                                   vec_views = Null\<rparr>, linear := Null\<rparr>) w))"

definition serialize_vectored_buffers ::
    "env \<Rightarrow> obj \<Rightarrow> ptr \<Rightarrow> 'a bufst_scheme \<Rightarrow> (bool \<times> 'a bufst_scheme) option" where
  "serialize_vectored_buffers E buffers_obj p w =
     (case e_seq_fast E (hist w) buffers_obj of
        None \<Rightarrow> Some (False, py (Seq_fast buffers_obj None) w)
      | Some (fast, items) \<Rightarrow>
          let w = py (Seq_fast buffers_obj (Some fast)) w;
              n = c_int (int (length items));
              (vaddr, w) = pymem_malloc E (size_mult sizeof_Py_buffer (size_t n)) w;
              (vec, w) = pymem_malloc E sizeof_VectoredBuffer w
          in if vaddr = 0 \<or> vec = 0
             then Some (False, py (Err_set MemoryError) (py (Decref fast)
                          (pymem_free vec (pymem_free vaddr w))))
             else let (iaddr, w) = pymem_malloc E (size_mult sizeof_iovec (size_t n)) w
                  in if iaddr = 0
                     then Some (False, py (Err_set MemoryError) (py (Decref fast)
                                  (pymem_free vec (pymem_free vaddr w))))
                     else let ((ok, vs), w) = export_fast E (take (nat n) items) [] w
                          in if \<not> ok
                             then Some (False, py (Decref fast) (pymem_free vec
                                    (pymem_free iaddr (pymem_free vaddr (release_bufs vs w)))))
                             else let iovs = map (\<lambda>(b, k). \<lparr>iov_base = b, iov_len = k\<rparr>) vs;
                                      w = upd_payload p (\<lambda>x. x\<lparr>vector := To \<lparr>vec_addr = vec,
                                            iovecs_addr = iaddr, iovecs = iovs,
                                            nr_vecs = word_of_int n,
                                            vec_views = To \<lparr>vs_addr = vaddr, vs_bufs = vs\<rparr>\<rparr>,
                                            linear := Null\<rparr>) w
                                  in Some (True, py (Decref fast) w))"

section \<open>Payloads with both kinds of buffers\<close>

text \<open>These two free the payload themselves when they fail, with \<open>payload_origin\<close> and
  \<open>amount\<close> as the caller left them.\<close>

definition fail_payload :: "ptr \<Rightarrow> 'a bufst_scheme \<Rightarrow> (bool \<times> 'a bufst_scheme) option" where
  "fail_payload p w = map_option (\<lambda>w. (False, w)) (free_buffer_payload p True w)"

text \<open>A \<open>VectoredBuffer\<close> whose \<open>views\<close> nobody has written (nor \<open>nr_vecs\<close>: as long as \<open>views\<close> is
  indeterminate, freeing the vector is undefined whatever the count).\<close>

definition raw_vector :: "ptr \<Rightarrow> ptr \<Rightarrow> VectoredBuffer" where
  "raw_vector vec iaddr = \<lparr>vec_addr = vec, iovecs_addr = iaddr, iovecs = [], nr_vecs = 0,
                           vec_views = Wild\<rparr>"

definition serialize_buffers ::
    "env \<Rightarrow> obj \<Rightarrow> int \<Rightarrow> ptr \<Rightarrow> 'a bufst_scheme \<Rightarrow> (bool \<times> 'a bufst_scheme) option" where
  "serialize_buffers E buf_obj n p w =
     (let w = upd_payload p (\<lambda>x. x\<lparr>linear := Null, vector := Null\<rparr>) w;
          (vaddr, w) = pymem_malloc E (size_mult sizeof_Py_buffer (size_t n)) w
      in if vaddr = 0 then fail_payload p (py (Err_set MemoryError) w)
         else let (baddr, w) = pymem_malloc E (size_mult sizeof_LinearBuffer (size_t n)) w
              in if baddr = 0 then fail_payload p (py (Err_set MemoryError) w)
                 else let w = upd_payload p (\<lambda>x. x\<lparr>linear := To \<lparr>la_addr = baddr,
                                la_elems = []\<rparr>\<rparr>) w;
                          (vec, w) = pymem_malloc E sizeof_VectoredBuffer w
                      in if vec = 0 then fail_payload p (py (Err_set MemoryError) w)
                         else let (iaddr, w) =
                                    pymem_malloc E (size_mult sizeof_iovec (size_t n)) w;
                                  w = upd_payload p (\<lambda>x. x\<lparr>vector := To (raw_vector vec iaddr)\<rparr>) w
                              in if iaddr = 0 then fail_payload p (py (Err_set MemoryError) w)
                                 else let ((ok, vs), w) = export_items E buf_obj 0 (nat n) [] w;
                                          mk = (\<lambda>x (b, k). \<lparr>buffer = b, len = k, views = x\<rparr>);
                                          iovs = map (\<lambda>(b, k). \<lparr>iov_base = b, iov_len = k\<rparr>) vs
                                      in if \<not> ok
                                         then fail_payload p (upd_payload p (\<lambda>x. x\<lparr>
                                                linear := To \<lparr>la_addr = baddr,
                                                  la_elems = map (mk Null) vs\<rparr>,
                                                vector := To ((raw_vector vec iaddr)\<lparr>
                                                  iovecs := iovs, nr_vecs := word_of_int n\<rparr>)\<rparr>) w)
                                         else (case vs of
                                           [] \<Rightarrow> None
                                         | v # rest \<Rightarrow>
                                             let vw = To \<lparr>vs_addr = vaddr, vs_bufs = vs\<rparr>
                                             in Some (True, upd_payload p (\<lambda>x. x\<lparr>
                                                  linear := To \<lparr>la_addr = baddr,
                                                    la_elems = mk vw v # map (mk Null) rest\<rparr>,
                                                  vector := To \<lparr>vec_addr = vec,
                                                    iovecs_addr = iaddr, iovecs = iovs,
                                                    nr_vecs = word_of_int n,
                                                    vec_views = Null\<rparr>\<rparr>) w)))"

definition make_buffers ::
    "env \<Rightarrow> int \<Rightarrow> nat \<Rightarrow> ptr \<Rightarrow> 'a bufst_scheme \<Rightarrow> (bool \<times> 'a bufst_scheme) option" where
  "make_buffers E n bufsize p w =
     (let w = upd_payload p (\<lambda>x. x\<lparr>linear := Null, vector := Null\<rparr>) w;
          zero = \<lparr>buffer = 0, len = 0, views = Null\<rparr>;
          (baddr, w) = pymem_malloc E (size_mult (size_t n) sizeof_LinearBuffer) w
      in if baddr = 0 then fail_payload p (py (Err_set MemoryError) w)
         else let w = upd_payload p (\<lambda>x. x\<lparr>linear := To \<lparr>la_addr = baddr,
                        la_elems = replicate (nat n) zero\<rparr>\<rparr>) w;
                  (vec, w) = pymem_malloc E sizeof_VectoredBuffer w
              in if vec = 0 then fail_payload p (py (Err_set MemoryError) w)
                 else let (iaddr, w) = pymem_malloc E (size_mult sizeof_iovec (size_t n)) w;
                          w = upd_payload p (\<lambda>x. x\<lparr>vector := To (raw_vector vec iaddr)\<rparr>) w
                      in if iaddr = 0 then fail_payload p (py (Err_set MemoryError) w)
                         else let ((ok, bs), w) = alloc_upto E bufsize (nat n) [] w;
                                  elems = map (\<lambda>b. \<lparr>buffer = b, len = bufsize, views = Null\<rparr>) bs
                                          @ replicate (nat n - length bs) zero;
                                  iovs = map (\<lambda>b. \<lparr>iov_base = b, iov_len = bufsize\<rparr>) bs;
                                  w = upd_payload p (\<lambda>x. x\<lparr>
                                        linear := To \<lparr>la_addr = baddr, la_elems = elems\<rparr>,
                                        vector := To ((raw_vector vec iaddr)\<lparr>
                                          iovecs := iovs, nr_vecs := word_of_int n\<rparr>)\<rparr>) w
                              in if \<not> ok then fail_payload p (py (Err_set MemoryError) w)
                                 else Some (True, w))"

section \<open>create\_buffer\_payload\<close>

text \<open>The metadata of a call; \<open>Py_SIZE(buffers) / amount\<close> is undefined for an empty sequence.\<close>

definition get_buffer_metadata ::
    "env \<Rightarrow> obj option \<Rightarrow> BufferMode \<Rightarrow> PayloadType \<Rightarrow> int \<Rightarrow> int \<Rightarrow> 'a ext_scheme \<Rightarrow>
     (BufferMetadata \<times> 'a ext_scheme) option" where
  "get_buffer_metadata E buffers_obj m pt amt bufsize w =
     (let m = (if m = BUF_NO_VAL then NORMAL_BUF else m);
          pt = (if pt = PAYLOAD_TYPE_NO_VAL then PAYLOAD_LINEAR else pt);
          zero = \<lparr>md_origin = PAYLOAD_USER, md_type = PAYLOAD_LINEAR, md_mode = NORMAL_BUF,
                  md_amount = 0, md_bufsize = 0\<rparr>
      in case buffers_obj of
           None \<Rightarrow> Some (\<lparr>md_origin = PAYLOAD_RUNTIME, md_type = pt, md_mode = m,
                         md_amount = amt, md_bufsize = bufsize\<rparr>, w)
         | Some b \<Rightarrow>
             if \<not> e_seq_check E b
             then Some (zero, py (Err_set (TypeError ''Buffers must be a sequence'')) w)
             else let py_len = e_seq_length E (hist w) b
                  in if py_len < 0 then Some (zero, w)
                     else let amt = c_int py_len
                          in do {
                               q \<leftarrow> c_div (e_py_size E b) amt;
                               Some (\<lparr>md_origin = PAYLOAD_USER, md_type = pt, md_mode = m,
                                      md_amount = amt, md_bufsize = c_int q\<rparr>, w)
                             })"

text \<open>
  The branches of \<open>switch (mode)\<close>.  The case \<open>NORMAL_BUF\<close> has no \<open>break\<close>: after its inner switch
  control runs on into the case \<open>FIXED\<close>.
\<close>

definition linear_case ::
    "env \<Rightarrow> PayloadOrigin \<Rightarrow> obj option \<Rightarrow> int \<Rightarrow> int \<Rightarrow> ptr \<Rightarrow> 'a bufst_scheme \<Rightarrow>
     (bool \<times> 'a bufst_scheme) option" where
  "linear_case E origin buffers_obj amt bufsize p w =
     (case (origin, buffers_obj) of
        (PAYLOAD_RUNTIME, _) \<Rightarrow> create_linear_buffers E amt bufsize p w
      | (PAYLOAD_USER, Some b) \<Rightarrow> serialize_linear_buffers E b amt p w
      | (PAYLOAD_USER, None) \<Rightarrow> None
      | _ \<Rightarrow> Some (False, w))"

definition vectored_case ::
    "env \<Rightarrow> PayloadOrigin \<Rightarrow> obj option \<Rightarrow> int \<Rightarrow> int \<Rightarrow> ptr \<Rightarrow> 'a bufst_scheme \<Rightarrow>
     (bool \<times> 'a bufst_scheme) option" where
  "vectored_case E origin buffers_obj amt bufsize p w =
     (case (origin, buffers_obj) of
        (PAYLOAD_RUNTIME, _) \<Rightarrow> create_vectored_buffers E amt bufsize p w
      | (PAYLOAD_USER, Some b) \<Rightarrow> serialize_vectored_buffers E b p w
      | (PAYLOAD_USER, None) \<Rightarrow> None
      | _ \<Rightarrow> Some (False, w))"

definition both_case ::
    "env \<Rightarrow> PayloadOrigin \<Rightarrow> obj option \<Rightarrow> int \<Rightarrow> int \<Rightarrow> ptr \<Rightarrow> 'a bufst_scheme \<Rightarrow>
     (bool \<times> 'a bufst_scheme) option" where
  "both_case E origin buffers_obj amt bufsize p w =
     (case (origin, buffers_obj) of
        (PAYLOAD_RUNTIME, _) \<Rightarrow> make_buffers E amt (size_t bufsize) p w
      | (PAYLOAD_USER, Some b) \<Rightarrow> serialize_buffers E b amt p w
      | (PAYLOAD_USER, None) \<Rightarrow> None
      | _ \<Rightarrow> Some (False, w))"

definition normal_case ::
    "env \<Rightarrow> PayloadType \<Rightarrow> PayloadOrigin \<Rightarrow> obj option \<Rightarrow> int \<Rightarrow> int \<Rightarrow> ptr \<Rightarrow>
     'a bufst_scheme \<Rightarrow> (bool \<times> 'a bufst_scheme) option" where
  "normal_case E pt origin buffers_obj amt bufsize p w =
     (case pt of
        PAYLOAD_LINEAR \<Rightarrow> linear_case E origin buffers_obj amt bufsize p w
      | PAYLOAD_IOVEC \<Rightarrow> vectored_case E origin buffers_obj amt bufsize p w
      | PAYLOAD_LINEAR_AND_IOVEC \<Rightarrow> both_case E origin buffers_obj amt bufsize p w
      | PAYLOAD_TYPE_NO_VAL \<Rightarrow> Some (False, w))"

text \<open>The last four assignments.\<close>

definition finish_payload ::
    "int \<Rightarrow> PayloadOrigin \<Rightarrow> BufferMode \<Rightarrow> PayloadType \<Rightarrow> ptr \<Rightarrow> 'a bufst_scheme \<Rightarrow>
     'a bufst_scheme" where
  "finish_payload amt origin m pt p w =
     upd_payload p (\<lambda>x. x\<lparr>amount := Some amt, payload_origin := Some origin,
                          mode := Some m, payload_type := Some pt\<rparr>) w"

definition create_buffer_payload ::
    "env \<Rightarrow> BufferMode \<Rightarrow> PayloadType \<Rightarrow> obj option \<Rightarrow> int \<Rightarrow> int \<Rightarrow> 'a bufst_scheme \<Rightarrow>
     (ptr \<times> 'a bufst_scheme) option" where
  "create_buffer_payload E m pt buffers_obj amount_i bufsize_i w = do {
     (md, w) \<leftarrow> get_buffer_metadata E buffers_obj m pt amount_i bufsize_i w;
     let (p, w) = malloc_payload E w;
     if p = 0 then Some (0, py (Err_set MemoryError) w)
     else do {
       let w = upd_payload p (\<lambda>x. x\<lparr>bgid := Some 0\<rparr>) w;
       let origin = md_origin md;
       let amt = md_amount md;
       let bufsize = md_bufsize md;
       let fixed = (\<lambda>w. do {
             (ok, w) \<leftarrow> both_case E origin buffers_obj amt bufsize p w;
             Some (if ok then (p, finish_payload amt origin m PAYLOAD_LINEAR_AND_IOVEC p w)
                   else (0, w))
           });
       let select = (\<lambda>w. do {
             (ok, w) \<leftarrow> linear_case E origin buffers_obj amt bufsize p w;
             Some (if ok then (p, finish_payload amt origin m PAYLOAD_LINEAR p w)
                   else (0, w))
           });
       (case m of
          NORMAL_BUF \<Rightarrow> do {
            (ok, w) \<leftarrow> normal_case E pt origin buffers_obj amt bufsize p w;
            if ok then fixed w else Some (0, w)
          }
        | FIXED \<Rightarrow> fixed w
        | PROVIDED \<Rightarrow>
            (let r = e_rand E (hist w); w = libc (Rand r) w
             in select (upd_payload p (\<lambda>x. x\<lparr>bgid := Some r\<rparr>) w))
        | BUF_RING \<Rightarrow> select w
        | BUF_NO_VAL \<Rightarrow> Some (0, w))
     }
   }"

section \<open>Payloads around the caller's data\<close>

text \<open>\<open>memcpy\<close> of \<open>n\<close> \<open>iovec\<close> structures from \<open>src\<close>: two little-endian 64-bit fields each.\<close>

definition le64 :: "(ptr \<Rightarrow> 8 word) \<Rightarrow> ptr \<Rightarrow> nat" where
  "le64 m p = (\<Sum>i<8. unat (m (p + i)) * 256 ^ i)"

definition read_iovecs :: "(ptr \<Rightarrow> 8 word) \<Rightarrow> ptr \<Rightarrow> nat \<Rightarrow> iovec list" where
  "read_iovecs m src n =
     map (\<lambda>i. \<lparr>iov_base = le64 m (src + sizeof_iovec * i),
              iov_len = le64 m (src + sizeof_iovec * i + 8)\<rparr>) [0..<n]"

text \<open>The argument is the exported buffer \<open>(buf, len)\<close> of \<open>Py_buffer *iovecs_buf\<close>.\<close>

definition create_buffer_payload_from_pybuffer ::
    "env \<Rightarrow> ptr \<times> nat \<Rightarrow> 'a bufst_scheme \<Rightarrow> ptr \<times> 'a bufst_scheme" where
  "create_buffer_payload_from_pybuffer E iovecs_buf w =
     (let (p, w) = malloc_payload E w
      in if p = 0 then (0, py (Err_set MemoryError) w)
         else let w = put_payload p zero_payload w;
                  nr = word_of_nat (snd iovecs_buf div sizeof_iovec) :: 32 word;
                  (vec, w) = pymem_malloc E sizeof_VectoredBuffer w
              in if vec = 0
                 then (0, py (Err_set MemoryError)
                        ((c_free p w)\<lparr>payloads := (payloads w)(p := None)\<rparr>))
                 else let (iaddr, w) = pymem_malloc E (size_mult sizeof_iovec (unat nr)) w
                      in if iaddr = 0
                         then let w = pymem_free vec w
                              in (0, py (Err_set MemoryError)
                                   ((c_free p w)\<lparr>payloads := (payloads w)(p := None)\<rparr>))
                         else let iovs = read_iovecs (e_mem E (hist w)) (fst iovecs_buf) (unat nr);
                                  (vaddr, w) = pymem_malloc E sizeof_Py_buffer w
                              in if vaddr = 0
                                 then let w = pymem_free vec (pymem_free iaddr w)
                                      in (0, py (Err_set MemoryError)
                                           ((c_free p w)\<lparr>payloads := (payloads w)(p := None)\<rparr>))
                                 else (p, upd_payload p (\<lambda>x. x\<lparr>
                                        payload_type := Some PAYLOAD_IOVEC, amount := Some 1,
                                        linear := Null,
                                        vector := To \<lparr>vec_addr = vec, iovecs_addr = iaddr,
                                          iovecs = iovs, nr_vecs = nr,
                                          vec_views = To \<lparr>vs_addr = vaddr,
                                                         vs_bufs = [iovecs_buf]\<rparr>\<rparr>,
                                        mode := Some NORMAL_BUF,
                                        payload_origin := Some PAYLOAD_USER\<rparr>) w))"

definition create_buffer_payload_from_data ::
    "env \<Rightarrow> obj \<Rightarrow> 'a bufst_scheme \<Rightarrow> ptr \<times> 'a bufst_scheme" where
  "create_buffer_payload_from_data E data w =
     (let (p, w) = malloc_payload E w
      in if p = 0 then (0, py (Err_set MemoryError) w)
         else let w = put_payload p zero_payload w;
                  drop = (\<lambda>w. (c_free p w)\<lparr>payloads := (payloads w)(p := None)\<rparr>);
                  (baddr, w) = pymem_malloc E sizeof_LinearBuffer w
              in if baddr = 0 then (0, py (Err_set MemoryError) (drop w))
                 else let (vaddr, w) = pymem_malloc E sizeof_Py_buffer w
                      in if vaddr = 0
                         then (0, py (Err_set MemoryError) (drop (pymem_free baddr w)))
                         else let b = e_get_buffer E (hist w) data; w = py (GetBuffer data b) w
                              in case b of
                                   None \<Rightarrow> (0, drop (pymem_free baddr (pymem_free vaddr w)))
                                 | Some v \<Rightarrow>
                                     (p, upd_payload p (\<lambda>x. x\<lparr>
                                        payload_type := Some PAYLOAD_LINEAR, vector := Null,
                                        amount := Some 1,
                                        linear := To \<lparr>la_addr = baddr,
                                          la_elems = [\<lparr>buffer = fst v, len = snd v,
                                            views = To \<lparr>vs_addr = vaddr, vs_bufs = [v]\<rparr>\<rparr>]\<rparr>,
                                        payload_origin := Some PAYLOAD_USER\<rparr>) w))"

section \<open>Frame facts of the store\<close>

lemma hist_upd_payload [simp]: "hist (upd_payload p f w) = hist w"
  by (simp add: upd_payload_def)

lemma hist_put_payload [simp]: "hist (put_payload p x w) = hist w"
  by (simp add: put_payload_def)

lemma payloads_py [simp]: "payloads (py c w) = payloads w"
  by (simp add: py_def)

lemma payloads_lu [simp]: "payloads (lu c w) = payloads w"
  by (simp add: lu_def)

lemma payloads_libc [simp]: "payloads (libc c w) = payloads w"
  by (simp add: libc_def)

lemma payloads_c_free [simp]: "payloads (c_free p w) = payloads w"
  by (simp add: c_free_def)

lemma payloads_pymem_free [simp]: "payloads (pymem_free p w) = payloads w"
  by (simp add: pymem_free_def)

lemma payloads_upd_payload [simp]:
  "payloads (upd_payload p f w) = (payloads w)(p := map_option f (payloads w p))"
  by (simp add: upd_payload_def)

lemma payloads_put_payload [simp]: "payloads (put_payload p x w) = (payloads w)(p \<mapsto> x)"
  by (simp add: put_payload_def)

text \<open>A function on the history alone leaves the store alone.\<close>

lemma payloads_more: "ext.more v = ext.more w \<Longrightarrow> payloads v = payloads w"
  for v w :: "'a bufst_scheme"
  by (cases v, cases w) simp

section \<open>The ledger of the loops\<close>

text \<open>The units of the ledger that a list of blocks and a list of exports make up.\<close>

definition block_units :: "ptr list \<Rightarrow> resource \<Rightarrow> int" where
  "block_units bs r = (case r of PyBlock p \<Rightarrow> int (count_list bs p) | _ \<Rightarrow> 0)"

definition export_units :: "(ptr \<times> nat) list \<Rightarrow> resource \<Rightarrow> int" where
  "export_units vs r = (case r of Export b n \<Rightarrow> int (count_list vs (b, n)) | _ \<Rightarrow> 0)"

lemma block_units_simps [simp]:
  "block_units [] r = 0"
  "block_units (b # bs) r = of_bool (r = PyBlock b) + block_units bs r"
  "block_units (bs @ bs') r = block_units bs r + block_units bs' r"
  by (auto simp: block_units_def split: resource.split)

lemma export_units_simps [simp]:
  "export_units [] r = 0"
  "export_units (v # vs) r = of_bool (r = Export (fst v) (snd v)) + export_units vs r"
  "export_units (vs @ vs') r = export_units vs r + export_units vs' r"
  by (auto simp: export_units_def split: resource.split)

lemma free_bufs_simps [simp]:
  "free_bufs [] w = w" "free_bufs (b # bs) w = free_bufs bs (pymem_free b w)"
  by (simp_all add: free_bufs_def)

lemma release_bufs_simps [simp]:
  "release_bufs [] w = w"
  "release_bufs (v # vs) w = release_bufs vs (py (Buffer_release (fst v) (snd v)) w)"
  by (simp_all add: release_bufs_def case_prod_beta)

lemma more_free_bufs [simp]: "ext.more (free_bufs bs w) = ext.more w"
  by (induction bs arbitrary: w) simp_all

lemma more_release_bufs [simp]: "ext.more (release_bufs vs w) = ext.more w"
  by (induction vs arbitrary: w) simp_all

lemma payloads_free_bufs [simp]: "payloads (free_bufs bs w) = payloads w"
  by (rule payloads_more) simp

lemma payloads_release_bufs [simp]: "payloads (release_bufs vs w) = payloads w"
  by (rule payloads_more) simp

lemma ledger_free_bufs [simp]:
  "0 \<notin> set bs \<Longrightarrow> ledger (hist (free_bufs bs w)) r = ledger (hist w) r - block_units bs r"
  by (induction bs arbitrary: w) auto

lemma ledger_release_bufs [simp]:
  "ledger (hist (release_bufs vs w)) r = ledger (hist w) r - export_units vs r"
  by (induction vs arbitrary: w) auto

lemma alloc_upto_ledger:
  assumes "alloc_upto E k n acc w = ((ok, bs), w')"
  obtains new where "bs = acc @ new" "0 \<notin> set new" "ok \<longrightarrow> length new = n"
    "\<And>r. ledger (hist w') r = ledger (hist w) r + block_units new r" "ext.more w' = ext.more w"
proof -
  have "\<exists>new. bs = acc @ new \<and> 0 \<notin> set new \<and> (ok \<longrightarrow> length new = n) \<and>
      (\<forall>r. ledger (hist w') r = ledger (hist w) r + block_units new r) \<and> ext.more w' = ext.more w"
    using assms
  proof (induction n arbitrary: acc w)
    case (Suc n)
    let ?b = "e_pymem_malloc E (hist w) k"
    let ?w = "py (PyMem_malloc k ?b) w"
    show ?case
    proof (cases "?b = 0")
      case True
      with Suc.prems show ?thesis by (auto simp: pymem_malloc_def Let_def)
    next
      case False
      with Suc.prems have "alloc_upto E k n (acc @ [?b]) ?w = ((ok, bs), w')"
        by (simp add: pymem_malloc_def Let_def)
      from Suc.IH [OF this] obtain new where
        "bs = (acc @ [?b]) @ new" "0 \<notin> set new" "ok \<longrightarrow> length new = n"
        "\<forall>r. ledger (hist w') r = ledger (hist ?w) r + block_units new r"
        "ext.more w' = ext.more w" by auto
      with False show ?thesis by (intro exI [of _ "?b # new"]) simp
    qed
  qed simp
  then show ?thesis using that by blast
qed

lemma export_items_ledger:
  assumes "export_items E q i n acc w = ((ok, vs), w')"
  obtains new where "vs = acc @ new" "ok \<longrightarrow> length new = n"
    "\<And>r. ledger (hist w') r = ledger (hist w) r + export_units new r" "ext.more w' = ext.more w"
proof -
  have "\<exists>new. vs = acc @ new \<and> (ok \<longrightarrow> length new = n) \<and>
      (\<forall>r. ledger (hist w') r = ledger (hist w) r + export_units new r) \<and>
      ext.more w' = ext.more w"
    using assms
  proof (induction n arbitrary: i acc w)
    case (Suc n)
    let ?it = "e_get_item E (hist w) q i"
    let ?w = "py (GetItem q i ?it) w"
    show ?case
    proof (cases ?it)
      case None
      with Suc.prems show ?thesis by (auto simp: Let_def)
    next
      case (Some it)
      let ?b = "e_get_buffer E (hist ?w) it"
      let ?w2 = "py (Decref it) (py (GetBuffer it ?b) ?w)"
      show ?thesis
      proof (cases ?b)
        case None
        with Suc.prems Some show ?thesis by (auto simp: Let_def)
      next
        case b: (Some v)
        with Suc.prems Some have "export_items E q (Suc i) n (acc @ [v]) ?w2 = ((ok, vs), w')"
          by (simp add: Let_def)
        from Suc.IH [OF this] obtain new where
          "vs = (acc @ [v]) @ new" "ok \<longrightarrow> length new = n"
          "\<forall>r. ledger (hist w') r = ledger (hist ?w2) r + export_units new r"
          "ext.more w' = ext.more w" by auto
        with Some b show ?thesis
          by (intro exI [of _ "v # new"]) (simp add: case_prod_beta)
      qed
    qed
  qed simp
  then show ?thesis using that by blast
qed

lemma export_fast_ledger:
  assumes "export_fast E its acc w = ((ok, vs), w')"
  obtains new where "vs = acc @ new" "ok \<longrightarrow> length new = length its"
    "\<And>r. ledger (hist w') r = ledger (hist w) r + export_units new r" "ext.more w' = ext.more w"
proof -
  have "\<exists>new. vs = acc @ new \<and> (ok \<longrightarrow> length new = length its) \<and>
      (\<forall>r. ledger (hist w') r = ledger (hist w) r + export_units new r) \<and>
      ext.more w' = ext.more w"
    using assms
  proof (induction its arbitrary: acc w)
    case (Cons it its)
    let ?b = "e_get_buffer E (hist w) it"
    let ?w = "py (GetBuffer it ?b) w"
    show ?case
    proof (cases ?b)
      case None
      with Cons.prems show ?thesis by (auto simp: Let_def)
    next
      case (Some v)
      with Cons.prems have "export_fast E its (acc @ [v]) ?w = ((ok, vs), w')"
        by (simp add: Let_def)
      from Cons.IH [OF this] obtain new where
        "vs = (acc @ [v]) @ new" "ok \<longrightarrow> length new = length its"
        "\<forall>r. ledger (hist w') r = ledger (hist ?w) r + export_units new r"
        "ext.more w' = ext.more w" by auto
      with Some show ?thesis
        by (intro exI [of _ "v # new"]) (simp add: case_prod_beta)
    qed
  qed simp
  then show ?thesis using that by blast
qed

end
