(* ===== verification/Buffer_Ownership.thy ===== *)
theory Buffer_Ownership
  imports Buffers
begin

text \<open>
  Ownership of buffer memory: what a payload owns, that \<open>free_buffer_payload\<close> gives back exactly
  that, and the contract \<open>payload_ctor\<close> of the four functions that fill a payload with buffers of
  one kind.  A constructor that fails leaves the ledger of blocks, exported buffers and
  references as it found it; one that succeeds adds exactly what the payload then owns.
\<close>

section \<open>What a payload owns\<close>

definition views_units :: "Views pfield \<Rightarrow> resource \<Rightarrow> int" where
  "views_units vf r =
     (case vf of To vs \<Rightarrow> block_units [vs_addr vs] r + export_units (vs_bufs vs) r | _ \<Rightarrow> 0)"

definition linear_units :: "PayloadOrigin \<Rightarrow> LinearArray pfield \<Rightarrow> resource \<Rightarrow> int" where
  "linear_units origin lf r =
     (case lf of
        To la \<Rightarrow> block_units [la_addr la] r +
          (if origin = PAYLOAD_RUNTIME then block_units (map buffer (la_elems la)) r else 0) +
          (case la_elems la of [] \<Rightarrow> 0 | b # _ \<Rightarrow> views_units (views b) r)
      | _ \<Rightarrow> 0)"

definition vector_units :: "PayloadOrigin \<Rightarrow> VectoredBuffer pfield \<Rightarrow> resource \<Rightarrow> int" where
  "vector_units origin vf r =
     (case vf of
        To v \<Rightarrow> block_units [vec_addr v, iovecs_addr v] r +
          (if origin = PAYLOAD_RUNTIME then block_units (map iov_base (iovecs v)) r else 0) +
          views_units (vec_views v) r
      | _ \<Rightarrow> 0)"

text \<open>Payloads of \<open>n\<close> buffers that can be freed: no field is indeterminate and the arrays have the
  lengths that \<open>amount\<close> and \<open>nr_vecs\<close> say.\<close>

definition views_wf :: "int \<Rightarrow> Views pfield \<Rightarrow> bool" where
  "views_wf n vf \<longleftrightarrow>
     (case vf of Wild \<Rightarrow> False | Null \<Rightarrow> True
      | To vs \<Rightarrow> vs_addr vs \<noteq> 0 \<and> length (vs_bufs vs) = nat n)"

definition linear_wf :: "PayloadOrigin \<Rightarrow> int \<Rightarrow> LinearArray pfield \<Rightarrow> bool" where
  "linear_wf origin n lf \<longleftrightarrow>
     (case lf of Wild \<Rightarrow> False | Null \<Rightarrow> True
      | To la \<Rightarrow> la_addr la \<noteq> 0 \<and> 0 < n \<and> length (la_elems la) = nat n \<and>
          views_wf n (views (hd (la_elems la))) \<and>
          (origin = PAYLOAD_RUNTIME \<longrightarrow> 0 \<notin> buffer ` set (la_elems la)))"

definition vector_wf :: "PayloadOrigin \<Rightarrow> int \<Rightarrow> VectoredBuffer pfield \<Rightarrow> bool" where
  "vector_wf origin n vf \<longleftrightarrow>
     (case vf of Wild \<Rightarrow> False | Null \<Rightarrow> True
      | To v \<Rightarrow> vec_addr v \<noteq> 0 \<and> iovecs_addr v \<noteq> 0 \<and> views_wf n (vec_views v) \<and>
          (origin = PAYLOAD_RUNTIME \<longrightarrow>
             0 \<notin> iov_base ` set (iovecs v) \<and> uint (nr_vecs v) = int (length (iovecs v))))"

definition payload_wf :: "BufferPayload \<Rightarrow> bool" where
  "payload_wf p \<longleftrightarrow>
     (\<exists>origin n. payload_origin p = Some origin \<and> amount p = Some n \<and>
        linear_wf origin n (linear p) \<and> vector_wf origin n (vector p))"

definition payload_units :: "BufferPayload \<Rightarrow> resource \<Rightarrow> int" where
  "payload_units p r =
     (case payload_origin p of
        None \<Rightarrow> 0
      | Some origin \<Rightarrow> linear_units origin (linear p) r + vector_units origin (vector p) r)"

lemmas wf_defs = views_wf_def linear_wf_def vector_wf_def
lemmas units_defs = views_units_def linear_units_def vector_units_def

section \<open>Freeing gives back what the payload owns\<close>

lemma free_views_ledger:
  assumes "views_wf n vf"
  obtains w' where "free_views (Some n) vf w = Some w'" "ext.more w' = ext.more w"
    "\<And>r. ledger (hist w') r = ledger (hist w) r - views_units vf r"
  using assms
  by (cases vf) (auto simp: views_wf_def free_views_def prefix_of_def views_units_def)

lemma free_linear_ledger:
  assumes "payload_origin p = Some origin" "amount p = Some n" "linear_wf origin n (linear p)"
  obtains w' where "free_linear p w = Some w'" "ext.more w' = ext.more w"
    "\<And>r. ledger (hist w') r = ledger (hist w) r - linear_units origin (linear p) r"
proof (cases "linear p")
  case (To la)
  let ?w1 = "if origin = PAYLOAD_RUNTIME then free_bufs (map buffer (la_elems la)) w else w"
  from To assms(3) obtain b bs where la: "la_elems la = b # bs"
    by (cases "la_elems la") (auto simp: linear_wf_def)
  from To assms(3) la have "views_wf n (views b)" by (simp add: linear_wf_def)
  from free_views_ledger [OF this, of ?w1] obtain w2 where
    w2: "free_views (Some n) (views b) ?w1 = Some w2" "ext.more w2 = ext.more ?w1"
    "\<And>r. ledger (hist w2) r = ledger (hist ?w1) r - views_units (views b) r" by blast
  have "free_linear p w = Some (pymem_free (la_addr la) w2)"
    using To assms la w2(1) by (auto simp: free_linear_def prefix_of_def linear_wf_def)
  moreover have "ledger (hist ?w1) r = ledger (hist w) r -
      (if origin = PAYLOAD_RUNTIME then block_units (map buffer (la_elems la)) r else 0)" for r
    using To assms(3) by (auto simp: linear_wf_def simp del: free_bufs_simps)
  ultimately show ?thesis
    using To assms(3) la w2 that [of "pymem_free (la_addr la) w2"]
    by (auto simp: linear_units_def linear_wf_def)
qed (use assms that [of w] in \<open>simp_all add: free_linear_def linear_units_def linear_wf_def\<close>)

lemma free_vector_ledger:
  assumes "payload_origin p = Some origin" "amount p = Some n" "vector_wf origin n (vector p)"
  obtains w' where "free_vector p w = Some w'" "ext.more w' = ext.more w"
    "\<And>r. ledger (hist w') r = ledger (hist w) r - vector_units origin (vector p) r"
proof (cases "vector p")
  case (To v)
  let ?w1 = "if origin = PAYLOAD_RUNTIME then free_bufs (map iov_base (iovecs v)) w else w"
  from To assms(3) have "views_wf n (vec_views v)" by (simp add: vector_wf_def)
  from free_views_ledger [OF this, of ?w1] obtain w2 where
    w2: "free_views (Some n) (vec_views v) ?w1 = Some w2" "ext.more w2 = ext.more ?w1"
    "\<And>r. ledger (hist w2) r = ledger (hist ?w1) r - views_units (vec_views v) r" by blast
  let ?w3 = "pymem_free (vec_addr v) (pymem_free (iovecs_addr v) w2)"
  have "free_vector p w = Some ?w3"
    using To assms w2(1) by (auto simp: free_vector_def prefix_of_def vector_wf_def)
  moreover have "ledger (hist ?w1) r = ledger (hist w) r -
      (if origin = PAYLOAD_RUNTIME then block_units (map iov_base (iovecs v)) r else 0)" for r
    using To assms(3) by (auto simp: vector_wf_def simp del: free_bufs_simps)
  ultimately show ?thesis
    using To assms(3) w2 that [of ?w3] by (auto simp: vector_units_def vector_wf_def)
qed (use assms that [of w] in \<open>simp_all add: free_vector_def vector_units_def vector_wf_def\<close>)

lemma free_buffer_payload_ledger:
  assumes "payloads w q = Some p" "payload_wf p" "force \<or> mode p = Some NORMAL_BUF" "q \<noteq> 0"
  obtains w' where "free_buffer_payload q force w = Some w'"
    "payloads w' = (payloads w)(q := None)" "bufst.more w' = bufst.more w"
    "\<And>r. ledger (hist w') r =
       ledger (hist w) r - payload_units p r - of_bool (r = Block q)"
proof -
  from assms(2) obtain origin n where p: "payload_origin p = Some origin" "amount p = Some n"
    "linear_wf origin n (linear p)" "vector_wf origin n (vector p)"
    by (auto simp: payload_wf_def)
  from free_linear_ledger [OF p(1-3), of w] obtain w1 where
    w1: "free_linear p w = Some w1" "ext.more w1 = ext.more w"
    "\<And>r. ledger (hist w1) r = ledger (hist w) r - linear_units origin (linear p) r" by blast
  from free_vector_ledger [OF p(1,2,4), of w1] obtain w2 where
    w2: "free_vector p w1 = Some w2" "ext.more w2 = ext.more w1"
    "\<And>r. ledger (hist w2) r = ledger (hist w1) r - vector_units origin (vector p) r" by blast
  let ?w3 = "(c_free q w2)\<lparr>payloads := (payloads w2)(q := None)\<rparr>"
  have "payloads w2 = payloads w"
    using w1(2) w2(2) by (metis payloads_more)
  moreover have "bufst.more ?w3 = bufst.more w"
    using w1(2) w2(2) by (cases w, cases w2) (simp add: c_free_def libc_def)
  moreover have "free_buffer_payload q force w = Some ?w3"
    using assms w1(1) w2(1) by (auto simp: free_buffer_payload_def)
  ultimately show ?thesis
    using that [of ?w3] w1(3) w2(3) p(1) assms(4) by (simp add: payload_units_def)
qed

section \<open>The contract of the buffer constructors\<close>

text \<open>
  A constructor fills the payload at \<open>p\<close> with \<open>n\<close> buffers of the given origin.  It is defined for
  every positive count; a failure changes neither the ledger nor the store; a success writes the
  two pointer fields only, and the ledger grows by what the payload now owns.
\<close>

definition ctor_outcome ::
    "PayloadOrigin \<Rightarrow> int \<Rightarrow> ptr \<Rightarrow> 'a bufst_scheme \<Rightarrow> (bool \<times> 'a bufst_scheme) option \<Rightarrow> bool" where
  "ctor_outcome origin n p w res \<longleftrightarrow>
     (case res of
        None \<Rightarrow> n \<le> 0
      | Some (b, w') \<Rightarrow>
          if \<not> b then ledger (hist w') = ledger (hist w) \<and> ext.more w' = ext.more w
          else dom (payloads w') = dom (payloads w) \<and>
            (0 < n \<longrightarrow> is_c_int n \<longrightarrow>
             (\<exists>l v. payloads w' =
                 (payloads w)(p := map_option (\<lambda>x. x\<lparr>linear := l, vector := v\<rparr>) (payloads w p)) \<and>
               bufst.more w' = bufst.more w \<and> linear_wf origin n l \<and> vector_wf origin n v \<and>
               (\<forall>r. ledger (hist w') r =
                  ledger (hist w) r + linear_units origin l r + vector_units origin v r))))"

locale payload_ctor =
  fixes op :: "env \<Rightarrow> ptr \<Rightarrow> 'a bufst_scheme \<Rightarrow> (bool \<times> 'a bufst_scheme) option"
    and origin :: PayloadOrigin
    and cnt :: "env \<Rightarrow> 'a bufst_scheme \<Rightarrow> int"
  assumes outcome: "ctor_outcome origin (cnt E w) p w (op E p w)"
begin

lemma total: "0 < cnt E w \<Longrightarrow> \<exists>b w'. op E p w = Some (b, w')"
  using outcome [of E w p] by (cases "op E p w") (auto simp: ctor_outcome_def)

text \<open>A failed constructor leaks nothing and frees nothing it did not allocate.\<close>

lemma fails:
  assumes "op E p w = Some (False, w')"
  shows "ledger (hist w') = ledger (hist w) \<and> ext.more w' = ext.more w"
  using outcome [of E w p] assms by (simp add: ctor_outcome_def)

lemma keeps_dom: "op E p w = Some (True, w') \<Longrightarrow> dom (payloads w') = dom (payloads w)"
  using outcome [of E w p] by (simp add: ctor_outcome_def)

text \<open>Once its header is written, a payload that was filled can be freed, and freeing it leaves
  the ledger as it was before the constructor ran, less the payload's own block.\<close>

lemma fill_then_free:
  assumes "op E p w = Some (True, w1)" and "0 < cnt E w" and "is_c_int (cnt E w)"
    and "payloads w p = Some x" and "p \<noteq> 0"
  shows "\<exists>w2. free_buffer_payload p True (finish_payload (cnt E w) origin m pt p w1) = Some w2 \<and>
     payloads w2 = (payloads w)(p := None) \<and> bufst.more w2 = bufst.more w \<and>
     (\<forall>r. ledger (hist w2) r = ledger (hist w) r - of_bool (r = Block p))"
proof -
  from outcome [of E w p] assms obtain l v where
    w1: "payloads w1 = (payloads w)(p \<mapsto> x\<lparr>linear := l, vector := v\<rparr>)"
    "bufst.more w1 = bufst.more w"
    "linear_wf origin (cnt E w) l" "vector_wf origin (cnt E w) v"
    "\<And>r. ledger (hist w1) r =
       ledger (hist w) r + linear_units origin l r + vector_units origin v r"
    by (auto simp: ctor_outcome_def)
  let ?x = "x\<lparr>linear := l, vector := v, amount := Some (cnt E w),
              payload_origin := Some origin, mode := Some m, payload_type := Some pt\<rparr>"
  let ?w = "finish_payload (cnt E w) origin m pt p w1"
  have store: "payloads ?w = (payloads w)(p \<mapsto> ?x)"
    using w1(1) by (simp add: finish_payload_def)
  have "payloads ?w p = Some ?x" and "payload_wf ?x"
    using store w1(3,4) by (simp_all add: payload_wf_def)
  from free_buffer_payload_ledger [OF this, of True] assms(5) obtain w2 where
    w2: "free_buffer_payload p True ?w = Some w2" "payloads w2 = (payloads ?w)(p := None)"
    "bufst.more w2 = bufst.more ?w"
    "\<And>r. ledger (hist w2) r =
       ledger (hist ?w) r - payload_units ?x r - of_bool (r = Block p)" by blast
  have "ledger (hist w2) r = ledger (hist w) r - of_bool (r = Block p)" for r
    using w2(4) [of r] w1(5) [of r] by (simp add: finish_payload_def payload_units_def)
  moreover have "bufst.more ?w = bufst.more w"
    using w1(2) by (simp add: finish_payload_def upd_payload_def)
  ultimately show ?thesis
    using w2 store by simp
qed

end

section \<open>The four constructors keep the contract\<close>

lemma more_upd_payload [simp]: "bufst.more (upd_payload p f w) = bufst.more w"
  by (simp add: upd_payload_def)

lemma bufst_more_eq: "ext.more v = ext.more w \<Longrightarrow> bufst.more v = bufst.more w"
  for v w :: "'a bufst_scheme"
  by (cases v, cases w) simp

lemma bufst_more_put [simp]: "bufst.more (put_payload p x w) = bufst.more w"
  by (simp add: put_payload_def)

lemma bufst_more_calls [simp]:
  "bufst.more (py c w) = bufst.more w" "bufst.more (libc l w) = bufst.more w"
  "bufst.more (lu u w) = bufst.more w" "bufst.more (c_free p w) = bufst.more w"
  "bufst.more (pymem_free p w) = bufst.more w"
  by (rule bufst_more_eq; simp)+

lemma alloc_all_ledger:
  assumes "alloc_upto E k n [] w = ((ok, bs), w')"
  shows "0 \<notin> set bs" "ok \<Longrightarrow> length bs = n" "ext.more w' = ext.more w"
    "ledger (hist w') r = ledger (hist w) r + block_units bs r"
  using alloc_upto_ledger [OF assms] by (metis append_Nil)+

lemma export_all_ledger:
  assumes "export_items E q 0 n [] w = ((ok, vs), w')"
  shows "ok \<Longrightarrow> length vs = n" "ext.more w' = ext.more w"
    "ledger (hist w') r = ledger (hist w) r + export_units vs r"
  using export_items_ledger [OF assms] by (metis append_Nil)+

lemma export_all_fast_ledger:
  assumes "export_fast E its [] w = ((ok, vs), w')"
  shows "ok \<Longrightarrow> length vs = length its" "ext.more w' = ext.more w"
    "ledger (hist w') r = ledger (hist w) r + export_units vs r"
  using export_fast_ledger [OF assms] by (metis append_Nil)+

text \<open>The two successful outcomes: linear buffers only, or a vector only.\<close>

lemma upd_vector_linear: "x\<lparr>vector := v, linear := l\<rparr> = x\<lparr>linear := l, vector := v\<rparr>"
  for x :: BufferPayload
  by simp

lemma outcome_filled:
  assumes "payloads w' =
      (payloads w)(p := map_option (\<lambda>x. x\<lparr>linear := l, vector := v\<rparr>) (payloads w p))"
    "bufst.more w' = bufst.more w"
    "0 < n \<Longrightarrow> is_c_int n \<Longrightarrow> linear_wf origin n l \<and> vector_wf origin n v"
    "\<And>r. ledger (hist w') r =
       ledger (hist w) r + linear_units origin l r + vector_units origin v r"
  shows "ctor_outcome origin n p w (Some (True, w'))"
  using assms unfolding ctor_outcome_def option.case prod.case by (auto simp: dom_def)

lemma outcome_linear:
  assumes "linear_wf origin n (To la)" "ext.more w2 = ext.more w"
    "\<And>r. ledger (hist w2) r = ledger (hist w) r + linear_units origin (To la) r"
  shows "ctor_outcome origin n p w
     (Some (True, upd_payload p (\<lambda>x. x\<lparr>linear := To la, vector := Null\<rparr>) w2))"
  using assms payloads_more [OF assms(2)] bufst_more_eq [OF assms(2)]
  by (intro outcome_filled [where l = "To la" and v = Null])
    (simp_all add: vector_wf_def vector_units_def)

lemma outcome_vector:
  assumes "0 < n \<Longrightarrow> is_c_int n \<Longrightarrow> vector_wf origin n (To v)" "ext.more w2 = ext.more w"
    "\<And>r. ledger (hist w2) r = ledger (hist w) r + vector_units origin (To v) r"
  shows "ctor_outcome origin n p w
     (Some (True, upd_payload p (\<lambda>x. x\<lparr>vector := To v, linear := Null\<rparr>) w2))"
  using assms payloads_more [OF assms(2)] bufst_more_eq [OF assms(2)]
  by (intro outcome_filled [where l = Null and v = "To v"])
    (simp_all add: linear_wf_def linear_units_def upd_vector_linear)

lemma outcome_failed:
  assumes "ext.more w' = ext.more w" "\<And>r. ledger (hist w') r = ledger (hist w) r"
  shows "ctor_outcome origin n p w (Some (False, w'))"
  using assms by (simp add: ctor_outcome_def fun_eq_iff)

lemma outcome_None: "n \<le> 0 \<Longrightarrow> ctor_outcome origin n p w None"
  by (simp add: ctor_outcome_def)

lemma create_linear_buffers_eq:
  assumes "alloc_upto E (size_t bufsize) (nat n) []
      (py (PyMem_malloc (size_mult sizeof_LinearBuffer (size_t n)) addr) w) = ((ok, bs), w2)"
    and "addr = e_pymem_malloc E (hist w) (size_mult sizeof_LinearBuffer (size_t n))"
  shows "create_linear_buffers E n bufsize p w =
    (if addr = 0
     then Some (False, py (Err_set MemoryError)
            (py (PyMem_malloc (size_mult sizeof_LinearBuffer (size_t n)) 0) w))
     else if \<not> ok then Some (False, py (Err_set MemoryError) (pymem_free addr (free_bufs bs w2)))
     else if bs = [] then None
     else Some (True, upd_payload p (\<lambda>x. x\<lparr>linear := To \<lparr>la_addr = addr,
            la_elems = map (\<lambda>b. \<lparr>buffer = b, len = size_t bufsize, views = Null\<rparr>) bs\<rparr>,
            vector := Null\<rparr>) w2))"
  using assms by (simp add: create_linear_buffers_def pymem_malloc_def Let_def)

interpretation linear_ctor: payload_ctor
    "\<lambda>E p w. create_linear_buffers E n bufsize p w" PAYLOAD_RUNTIME "\<lambda>E w. n"
  for n bufsize
proof
  fix E :: env and p :: ptr and w :: "'a bufst_scheme"
  let ?k = "size_mult sizeof_LinearBuffer (size_t n)"
  let ?addr = "e_pymem_malloc E (hist w) ?k"
  let ?w1 = "py (PyMem_malloc ?k ?addr) w"
  obtain ok bs w2 where al: "alloc_upto E (size_t bufsize) (nat n) [] ?w1 = ((ok, bs), w2)"
    by (metis surj_pair)
  note bs = alloc_all_ledger [OF al]
  let ?la = "\<lparr>la_addr = ?addr,
      la_elems = map (\<lambda>b. \<lparr>buffer = b, len = size_t bufsize, views = Null\<rparr>) bs\<rparr>"
  have "linear_wf PAYLOAD_RUNTIME n (To ?la)" if "?addr \<noteq> 0" "ok" "bs \<noteq> []"
    using that bs(1,2) by (auto simp: wf_defs hd_map simp flip: length_greater_0_conv)
  moreover have "linear_units PAYLOAD_RUNTIME (To ?la) r =
      of_bool (r = PyBlock ?addr) + block_units bs r" if "bs \<noteq> []" for r
    using that by (cases bs) (simp_all add: units_defs comp_def)
  moreover have "n \<le> 0" if "ok" "bs = []" using that bs(2) by auto
  ultimately show "ctor_outcome PAYLOAD_RUNTIME n p w (create_linear_buffers E n bufsize p w)"
    unfolding create_linear_buffers_eq [OF al refl] using bs(1,3,4)
    by (auto intro!: outcome_linear outcome_failed outcome_None)
qed

lemma serialize_linear_buffers_eq:
  assumes "vaddr = e_pymem_malloc E (hist w) (size_mult sizeof_Py_buffer (size_t n))"
    and "w1 = py (PyMem_malloc (size_mult sizeof_Py_buffer (size_t n)) vaddr) w"
    and "baddr = e_pymem_malloc E (hist w1) (size_mult sizeof_LinearBuffer (size_t n))"
    and "w2 = py (PyMem_malloc (size_mult sizeof_LinearBuffer (size_t n)) baddr) w1"
    and "export_items E buffers_obj 0 (nat n) [] w2 = ((ok, vs), w3)"
  shows "serialize_linear_buffers E buffers_obj n p w =
    (if vaddr = 0 \<or> baddr = 0
     then Some (False, py (Err_set MemoryError) (pymem_free baddr (pymem_free vaddr w2)))
     else if \<not> ok then Some (False, pymem_free baddr (pymem_free vaddr (release_bufs vs w3)))
     else if vs = [] then None
     else Some (True, upd_payload p (\<lambda>x. x\<lparr>linear := To \<lparr>la_addr = baddr,
            la_elems = \<lparr>buffer = fst (hd vs), len = snd (hd vs),
                        views = To \<lparr>vs_addr = vaddr, vs_bufs = vs\<rparr>\<rparr> #
                       map (\<lambda>(b, k). \<lparr>buffer = b, len = k, views = Null\<rparr>) (tl vs)\<rparr>,
            vector := Null\<rparr>) w3))"
  using assms
  by (cases vs) (simp_all add: serialize_linear_buffers_def pymem_malloc_def Let_def case_prod_beta)

interpretation linear_export: payload_ctor
    "\<lambda>E p w. serialize_linear_buffers E buffers_obj n p w" PAYLOAD_USER "\<lambda>E w. n"
  for buffers_obj n
proof
  fix E :: env and p :: ptr and w :: "'a bufst_scheme"
  obtain vaddr w1 baddr w2 ok vs w3 where
    eqs: "vaddr = e_pymem_malloc E (hist w) (size_mult sizeof_Py_buffer (size_t n))"
      "w1 = py (PyMem_malloc (size_mult sizeof_Py_buffer (size_t n)) vaddr) w"
      "baddr = e_pymem_malloc E (hist w1) (size_mult sizeof_LinearBuffer (size_t n))"
      "w2 = py (PyMem_malloc (size_mult sizeof_LinearBuffer (size_t n)) baddr) w1"
      "export_items E buffers_obj 0 (nat n) [] w2 = ((ok, vs), w3)"
    by (metis surj_pair)
  note vs = export_all_ledger [OF eqs(5)]
  let ?la = "\<lparr>la_addr = baddr,
      la_elems = \<lparr>buffer = fst (hd vs), len = snd (hd vs),
                  views = To \<lparr>vs_addr = vaddr, vs_bufs = vs\<rparr>\<rparr> #
                 map (\<lambda>(b, k). \<lparr>buffer = b, len = k, views = Null\<rparr>) (tl vs)\<rparr>"
  have "linear_wf PAYLOAD_USER n (To ?la)" if "vaddr \<noteq> 0" "baddr \<noteq> 0" "ok" "vs \<noteq> []"
    using that vs(1) by (cases vs) (auto simp: wf_defs)
  moreover have "linear_units PAYLOAD_USER (To ?la) r =
      of_bool (r = PyBlock baddr) + of_bool (r = PyBlock vaddr) + export_units vs r" for r
    by (simp add: units_defs)
  moreover have "n \<le> 0" if "ok" "vs = []" using that vs(1) by auto
  ultimately show "ctor_outcome PAYLOAD_USER n p w
      (serialize_linear_buffers E buffers_obj n p w)"
    unfolding serialize_linear_buffers_eq [OF eqs] using vs(2,3) eqs(2,4)
    by (auto intro!: outcome_linear outcome_failed outcome_None)
qed

text \<open>Vectors of fresh buffers; a count that does not fit a C \<open>int\<close> cannot be passed.\<close>

lemma create_vectored_buffers_eq:
  assumes "vec = e_pymem_malloc E (hist w) sizeof_VectoredBuffer"
    and "w1 = py (PyMem_malloc sizeof_VectoredBuffer vec) w"
    and "iaddr = e_pymem_malloc E (hist w1) (size_mult sizeof_iovec (size_t n))"
    and "w2 = py (PyMem_malloc (size_mult sizeof_iovec (size_t n)) iaddr) w1"
    and "alloc_upto E (size_t bufsize) (nat n) [] w2 = ((ok, bs), w3)"
  shows "create_vectored_buffers E n bufsize p w =
    (if vec = 0 then Some (False, py (Err_set MemoryError) w1)
     else if iaddr = 0 then Some (False, py (Err_set MemoryError) (pymem_free vec w2))
     else if \<not> ok then Some (False, py (Err_set MemoryError)
            (pymem_free vec (pymem_free iaddr (free_bufs bs w3))))
     else Some (True, upd_payload p (\<lambda>x. x\<lparr>vector := To \<lparr>vec_addr = vec, iovecs_addr = iaddr,
            iovecs = map (\<lambda>b. \<lparr>iov_base = b, iov_len = size_t bufsize\<rparr>) bs,
            nr_vecs = word_of_int n, vec_views = Null\<rparr>, linear := Null\<rparr>) w3))"
  using assms by (simp add: create_vectored_buffers_def pymem_malloc_def Let_def)

interpretation vector_ctor: payload_ctor
    "\<lambda>E p w. create_vectored_buffers E n bufsize p w" PAYLOAD_RUNTIME "\<lambda>E w. n"
  for n bufsize
proof
  fix E :: env and p :: ptr and w :: "'a bufst_scheme"
  obtain vec w1 iaddr w2 ok bs w3 where
    eqs: "vec = e_pymem_malloc E (hist w) sizeof_VectoredBuffer"
      "w1 = py (PyMem_malloc sizeof_VectoredBuffer vec) w"
      "iaddr = e_pymem_malloc E (hist w1) (size_mult sizeof_iovec (size_t n))"
      "w2 = py (PyMem_malloc (size_mult sizeof_iovec (size_t n)) iaddr) w1"
      "alloc_upto E (size_t bufsize) (nat n) [] w2 = ((ok, bs), w3)"
    by (metis surj_pair)
  note bs = alloc_all_ledger [OF eqs(5)]
  let ?v = "\<lparr>vec_addr = vec, iovecs_addr = iaddr,
      iovecs = map (\<lambda>b. \<lparr>iov_base = b, iov_len = size_t bufsize\<rparr>) bs,
      nr_vecs = word_of_int n, vec_views = Null\<rparr>"
  have "vector_wf PAYLOAD_RUNTIME n (To ?v)"
    if "vec \<noteq> 0" "iaddr \<noteq> 0" "ok" "0 < n" "is_c_int n"
  proof -
    have "uint (word_of_int n :: 32 word) = n"
      using that(4,5) by (simp add: is_c_int_def take_bit_int_eq_self unsigned_of_int)
    then show ?thesis using that bs(1,2) by (auto simp: wf_defs)
  qed
  moreover have "vector_units PAYLOAD_RUNTIME (To ?v) r =
      of_bool (r = PyBlock vec) + of_bool (r = PyBlock iaddr) + block_units bs r" for r
    by (simp add: units_defs comp_def)
  ultimately show "ctor_outcome PAYLOAD_RUNTIME n p w (create_vectored_buffers E n bufsize p w)"
    unfolding create_vectored_buffers_eq [OF eqs] using bs(1,3,4) eqs(2,4)
    by (auto intro!: outcome_vector outcome_failed)
qed

text \<open>Vectors over the caller's sequence: as many entries as the sequence has.\<close>

definition fast_count :: "obj \<Rightarrow> env \<Rightarrow> 'a ext_scheme \<Rightarrow> int" where
  "fast_count q E w =
     (case e_seq_fast E (hist w) q of None \<Rightarrow> 0 | Some (f, items) \<Rightarrow> c_int (int (length items)))"

lemma serialize_vectored_buffers_eq:
  assumes "e_seq_fast E (hist w) q = Some (fast, items)"
    and "n = c_int (int (length items))"
    and "w0 = py (Seq_fast q (Some fast)) w"
    and "vaddr = e_pymem_malloc E (hist w0) (size_mult sizeof_Py_buffer (size_t n))"
    and "w1 = py (PyMem_malloc (size_mult sizeof_Py_buffer (size_t n)) vaddr) w0"
    and "vec = e_pymem_malloc E (hist w1) sizeof_VectoredBuffer"
    and "w2 = py (PyMem_malloc sizeof_VectoredBuffer vec) w1"
    and "iaddr = e_pymem_malloc E (hist w2) (size_mult sizeof_iovec (size_t n))"
    and "w3 = py (PyMem_malloc (size_mult sizeof_iovec (size_t n)) iaddr) w2"
    and "export_fast E (take (nat n) items) [] w3 = ((ok, vs), w4)"
  shows "serialize_vectored_buffers E q p w =
    (if vaddr = 0 \<or> vec = 0
     then Some (False, py (Err_set MemoryError) (py (Decref fast)
            (pymem_free vec (pymem_free vaddr w2))))
     else if iaddr = 0
     then Some (False, py (Err_set MemoryError) (py (Decref fast)
            (pymem_free vec (pymem_free vaddr w3))))
     else if \<not> ok
     then Some (False, py (Decref fast) (pymem_free vec
            (pymem_free iaddr (pymem_free vaddr (release_bufs vs w4)))))
     else Some (True, py (Decref fast) (upd_payload p (\<lambda>x. x\<lparr>vector := To \<lparr>vec_addr = vec,
            iovecs_addr = iaddr, iovecs = map (\<lambda>(b, k). \<lparr>iov_base = b, iov_len = k\<rparr>) vs,
            nr_vecs = word_of_int n, vec_views = To \<lparr>vs_addr = vaddr, vs_bufs = vs\<rparr>\<rparr>,
            linear := Null\<rparr>) w4)))"
  using assms by (simp add: serialize_vectored_buffers_def pymem_malloc_def Let_def)

text \<open>Narrowing a nonnegative number to \<open>int\<close> never makes it larger.\<close>

lemma c_int_le: "0 \<le> i \<Longrightarrow> c_int i \<le> i"
proof -
  assume "0 \<le> i"
  have "c_int i \<le> take_bit 32 i"
    using signed_take_bit_eq_take_bit_minus [of 31 i] by (simp add: c_int_def)
  also have "\<dots> \<le> i" using \<open>0 \<le> i\<close> by (simp add: take_bit_int_less_eq_self_iff)
  finally show ?thesis .
qed

lemma upd_payload_py: "py c (upd_payload p f w) = upd_payload p f (py c w)"
  by (simp add: py_def upd_payload_def)

interpretation vector_export: payload_ctor
    "\<lambda>E p w. serialize_vectored_buffers E q p w" PAYLOAD_USER "\<lambda>E w. fast_count q E w"
  for q
proof
  fix E :: env and p :: ptr and w :: "'a bufst_scheme"
  show "ctor_outcome PAYLOAD_USER (fast_count q E w) p w (serialize_vectored_buffers E q p w)"
  proof (cases "e_seq_fast E (hist w) q")
    case None
    then show ?thesis
      by (auto simp: serialize_vectored_buffers_def intro!: outcome_failed)
  next
    case (Some fi)
    obtain fast items n w0 vaddr w1 vec w2 iaddr w3 ok vs w4 where
      eqs: "e_seq_fast E (hist w) q = Some (fast, items)" "n = c_int (int (length items))"
        "w0 = py (Seq_fast q (Some fast)) w"
        "vaddr = e_pymem_malloc E (hist w0) (size_mult sizeof_Py_buffer (size_t n))"
        "w1 = py (PyMem_malloc (size_mult sizeof_Py_buffer (size_t n)) vaddr) w0"
        "vec = e_pymem_malloc E (hist w1) sizeof_VectoredBuffer"
        "w2 = py (PyMem_malloc sizeof_VectoredBuffer vec) w1"
        "iaddr = e_pymem_malloc E (hist w2) (size_mult sizeof_iovec (size_t n))"
        "w3 = py (PyMem_malloc (size_mult sizeof_iovec (size_t n)) iaddr) w2"
        "export_fast E (take (nat n) items) [] w3 = ((ok, vs), w4)"
      using Some by (metis surj_pair)
    note vs = export_all_fast_ledger [OF eqs(10)]
    let ?v = "\<lparr>vec_addr = vec, iovecs_addr = iaddr,
        iovecs = map (\<lambda>(b, k). \<lparr>iov_base = b, iov_len = k\<rparr>) vs, nr_vecs = word_of_int n,
        vec_views = To \<lparr>vs_addr = vaddr, vs_bufs = vs\<rparr>\<rparr>"
    have "vector_wf PAYLOAD_USER n (To ?v)"
      if "vaddr \<noteq> 0" "vec \<noteq> 0" "iaddr \<noteq> 0" "ok" "0 < n"
    proof -
      have "nat n \<le> length items" using c_int_le [of "int (length items)"] eqs(2) by simp
      then show ?thesis using that vs(1) by (simp add: wf_defs)
    qed
    moreover have "vector_units PAYLOAD_USER (To ?v) r = of_bool (r = PyBlock vec) +
        of_bool (r = PyBlock iaddr) + of_bool (r = PyBlock vaddr) + export_units vs r" for r
      by (simp add: units_defs)
    moreover have "fast_count q E w = n" using eqs(1,2) by (simp add: fast_count_def)
    ultimately show ?thesis
      unfolding serialize_vectored_buffers_eq [OF eqs] upd_payload_py
      using vs(2,3) eqs(3,5,7,9)
      by (auto intro!: outcome_vector outcome_failed)
  qed
qed

section \<open>Payloads around the caller's data\<close>

text \<open>A payload built by one of the two \<open>from\<close> functions: its own block and what it owns.\<close>

lemma store_freed: "payloads w p = None \<Longrightarrow> (payloads w)(p := None) = payloads w"
  by (simp add: fun_upd_idem)

lemma from_data_eq:
  assumes "p = e_malloc E (hist w) sizeof_BufferPayload" "p \<noteq> 0"
    and "w1 = put_payload p zero_payload (put_payload p raw_payload
                (libc (Malloc sizeof_BufferPayload p) w))"
    and "baddr = e_pymem_malloc E (hist w1) sizeof_LinearBuffer"
    and "w2 = py (PyMem_malloc sizeof_LinearBuffer baddr) w1"
    and "vaddr = e_pymem_malloc E (hist w2) sizeof_Py_buffer"
    and "w3 = py (PyMem_malloc sizeof_Py_buffer vaddr) w2"
    and "give_back = (\<lambda>w. (c_free p w)\<lparr>payloads := (payloads w)(p := None)\<rparr>)"
  shows "create_buffer_payload_from_data E data w =
    (if baddr = 0 then (0, py (Err_set MemoryError) (give_back w2))
     else if vaddr = 0 then (0, py (Err_set MemoryError) (give_back (pymem_free baddr w3)))
     else case e_get_buffer E (hist w3) data of
        None \<Rightarrow> (0, give_back (pymem_free baddr (pymem_free vaddr (py (GetBuffer data None) w3))))
      | Some v \<Rightarrow> (p, upd_payload p (\<lambda>x. x\<lparr>
                   payload_type := Some PAYLOAD_LINEAR, vector := Null, amount := Some 1,
                   linear := To \<lparr>la_addr = baddr, la_elems = [\<lparr>buffer = fst v, len = snd v,
                       views = To \<lparr>vs_addr = vaddr, vs_bufs = [v]\<rparr>\<rparr>]\<rparr>,
                   payload_origin := Some PAYLOAD_USER\<rparr>) (py (GetBuffer data (Some v)) w3)))"
  using assms
  by (cases "e_get_buffer E (hist w3) data")
    (simp_all add: create_buffer_payload_from_data_def malloc_payload_def c_malloc_def
      pymem_malloc_def Let_def)

text \<open>A payload that is in the store, belongs to its request and owns what was taken for it.\<close>

definition built :: "'a bufst_scheme \<Rightarrow> ptr \<Rightarrow> 'a bufst_scheme \<Rightarrow> bool" where
  "built w q w1 \<longleftrightarrow> q \<noteq> 0 \<and>
     (\<exists>x. payloads w1 q = Some x \<and> mode x = Some NORMAL_BUF \<and> payload_wf x \<and>
        (\<forall>r. ledger (hist w1) r = ledger (hist w) r + payload_units x r + of_bool (r = Block q)))"

lemma built_freed:
  assumes "built w q w1"
  shows "\<exists>w2. free_buffer_payload q False w1 = Some w2 \<and> ledger (hist w2) = ledger (hist w)"
proof -
  from assms obtain x where x: "payloads w1 q = Some x" "payload_wf x" "False \<or> mode x = Some NORMAL_BUF"
    "q \<noteq> 0"
    and led: "\<And>r. ledger (hist w1) r = ledger (hist w) r + payload_units x r + of_bool (r = Block q)"
    by (auto simp: built_def)
  from free_buffer_payload_ledger [OF x] obtain w2 where
    "free_buffer_payload q False w1 = Some w2"
    "\<And>r. ledger (hist w2) r = ledger (hist w1) r - payload_units x r - of_bool (r = Block q)" by blast
  then show ?thesis by (auto simp: led)
qed

lemma from_data_built:
  assumes "create_buffer_payload_from_data E data w = (q, w1)"
  shows "bufst.more w1 = bufst.more w \<and>
     (if q = 0 then ledger (hist w1) = ledger (hist w)
      else built w q w1 \<and> (\<exists>x la b. payloads w1 q = Some x \<and> linear x = To la \<and> la_elems la = [b]))"
proof (cases "e_malloc E (hist w) sizeof_BufferPayload = 0")
  case True
  with assms show ?thesis
    by (auto simp: create_buffer_payload_from_data_def malloc_payload_def c_malloc_def Let_def
        fun_eq_iff)
next
  case False
  define p where "p = e_malloc E (hist w) sizeof_BufferPayload"
  define w1' where "w1' = put_payload p zero_payload (put_payload p raw_payload
      (libc (Malloc sizeof_BufferPayload p) w))"
  define baddr where "baddr = e_pymem_malloc E (hist w1') sizeof_LinearBuffer"
  define w2 where "w2 = py (PyMem_malloc sizeof_LinearBuffer baddr) w1'"
  define vaddr where "vaddr = e_pymem_malloc E (hist w2) sizeof_Py_buffer"
  define w3 where "w3 = py (PyMem_malloc sizeof_Py_buffer vaddr) w2"
  note ws = w3_def w2_def w1'_def
  note eq = from_data_eq [OF p_def False [folded p_def] w1'_def baddr_def w2_def vaddr_def w3_def
      refl, of data]
  have more: "bufst.more w3 = bufst.more w" by (simp add: ws)
  have led: "ledger (hist w3) r = ledger (hist w) r + of_bool (r = Block p) +
      of_bool (baddr \<noteq> 0 \<and> r = PyBlock baddr) + of_bool (vaddr \<noteq> 0 \<and> r = PyBlock vaddr)" for r
    using False by (simp add: ws p_def)
  show ?thesis
  proof (cases "baddr = 0 \<or> vaddr = 0 \<or> e_get_buffer E (hist w3) data = None")
    case fail: True
    with assms False show ?thesis
      unfolding eq by (auto simp: ws p_def fun_eq_iff split: if_splits)
  next
    case ok: False
    then obtain v where v: "e_get_buffer E (hist w3) data = Some v" by auto
    let ?la = "\<lparr>la_addr = baddr, la_elems = [\<lparr>buffer = fst v, len = snd v,
        views = To \<lparr>vs_addr = vaddr, vs_bufs = [v]\<rparr>\<rparr>]\<rparr>"
    let ?x = "zero_payload\<lparr>payload_type := Some PAYLOAD_LINEAR, vector := Null, amount := Some 1,
        linear := To ?la, payload_origin := Some PAYLOAD_USER\<rparr>"
    from assms ok v have q: "q = p" and w1: "w1 = upd_payload p (\<lambda>x. x\<lparr>payload_type :=
        Some PAYLOAD_LINEAR, vector := Null, amount := Some 1, linear := To ?la,
        payload_origin := Some PAYLOAD_USER\<rparr>) (py (GetBuffer data (Some v)) w3)"
      unfolding eq by auto
    then have x: "payloads w1 p = Some ?x" by (simp add: ws)
    have "payload_wf ?x" using ok by (simp add: payload_wf_def wf_defs)
    moreover have "mode ?x = Some NORMAL_BUF" by (simp add: zero_payload_def)
    moreover have "ledger (hist w1) r = ledger (hist w) r + payload_units ?x r + of_bool (r = Block p)"
      for r
      using led ok w1 by (simp add: payload_units_def units_defs case_prod_beta)
    ultimately have "built w q w1" using x q False by (auto simp: built_def p_def)
    moreover have "bufst.more w1 = bufst.more w" using w1 more by simp
    ultimately show ?thesis using x q False by (simp add: p_def)
  qed
qed

text \<open>C20: a payload built around the caller's data object costs nothing in the end: when the
  construction fails, at any of its four steps, everything taken is given back, and when it
  succeeds freeing the payload releases the export and every block.\<close>

theorem payload_from_data_roundtrip:
  assumes "create_buffer_payload_from_data E data w = (q, w1)"
  shows "if q = 0 then ledger (hist w1) = ledger (hist w)
     else \<exists>w2. free_buffer_payload q False w1 = Some w2 \<and> ledger (hist w2) = ledger (hist w)"
  using from_data_built [OF assms] built_freed [of w q w1] by auto

theorem payload_from_data_roundtrip_witness:
  "\<exists>q w1 w2. create_buffer_payload_from_data sample_env 5 \<lparr>hist = [], payloads = Map.empty\<rparr> = (q, w1) \<and>
     q \<noteq> 0 \<and> free_buffer_payload q False w1 = Some w2 \<and> ledger (hist w2) = ledger []"
proof -
  obtain q w1 where run:
    "create_buffer_payload_from_data sample_env 5 \<lparr>hist = [], payloads = Map.empty\<rparr> = (q, w1)"
    by (metis surj_pair)
  moreover from this have "q \<noteq> 0"
    by (auto simp: create_buffer_payload_from_data_def malloc_payload_def c_malloc_def
        pymem_malloc_def Let_def fresh_ptr_def)
  ultimately show ?thesis
    using payload_from_data_roundtrip [OF run] by auto
qed

section \<open>Properties of the constructors\<close>

text \<open>C21: fresh linear buffers that a payload was filled with are given back by
  \<open>free_buffer_payload\<close>, each exactly once: filling and freeing leaves the ledger as it was, less
  the payload's own block, and the payload is gone from the store.\<close>

theorem linear_buffers_roundtrip:
  assumes "create_linear_buffers E n bufsize p w = Some (True, w1)"
    and "0 < n" "is_c_int n" "payloads w p = Some x" "p \<noteq> 0"
  shows "\<exists>w2. free_buffer_payload p True (finish_payload n PAYLOAD_RUNTIME m pt p w1) = Some w2 \<and>
     payloads w2 = (payloads w)(p := None) \<and> bufst.more w2 = bufst.more w \<and>
     (\<forall>r. ledger (hist w2) r = ledger (hist w) r - of_bool (r = Block p))"
  by (rule linear_ctor.fill_then_free [OF assms])

abbreviation sample_store :: bufst where
  "sample_store \<equiv> \<lparr>hist = [], payloads = [1 \<mapsto> raw_payload]\<rparr>"

theorem linear_buffers_roundtrip_witness:
  "\<exists>w1 w2. create_linear_buffers sample_env 2 64 1 sample_store = Some (True, w1) \<and>
     free_buffer_payload 1 True (finish_payload 2 PAYLOAD_RUNTIME NORMAL_BUF PAYLOAD_LINEAR 1 w1) =
       Some w2 \<and> ledger (hist w2) (PyBlock 1) = 0"
proof -
  obtain w1 where run: "create_linear_buffers sample_env 2 64 1 sample_store = Some (True, w1)"
    by (simp add: create_linear_buffers_def pymem_malloc_def Let_def fresh_ptr_def
        eval_nat_numeral)
  from linear_buffers_roundtrip [OF run, of raw_payload NORMAL_BUF PAYLOAD_LINEAR] run
  show ?thesis by (auto simp: is_c_int_def)
qed

text \<open>C22: the same for a vector over the buffers of a Python sequence: the exports, the views and
  both blocks of the vector are given back exactly once.\<close>

theorem vectored_export_roundtrip:
  assumes "serialize_vectored_buffers E q p w = Some (True, w1)"
    and "0 < fast_count q E w" "is_c_int (fast_count q E w)" "payloads w p = Some x" "p \<noteq> 0"
  shows "\<exists>w2. free_buffer_payload p True
       (finish_payload (fast_count q E w) PAYLOAD_USER m pt p w1) = Some w2 \<and>
     payloads w2 = (payloads w)(p := None) \<and> bufst.more w2 = bufst.more w \<and>
     (\<forall>r. ledger (hist w2) r = ledger (hist w) r - of_bool (r = Block p))"
  by (rule vector_export.fill_then_free [OF assms])

theorem vectored_export_roundtrip_witness:
  "\<exists>w1 w2. serialize_vectored_buffers sample_env 4 1 sample_store = Some (True, w1) \<and>
     free_buffer_payload 1 True
       (finish_payload 1 PAYLOAD_USER NORMAL_BUF PAYLOAD_IOVEC 1 w1) = Some w2 \<and>
     ledger (hist w2) (Export 8000 16) = 0"
proof -
  obtain w1 where run: "serialize_vectored_buffers sample_env 4 1 sample_store = Some (True, w1)"
    by (simp add: serialize_vectored_buffers_def pymem_malloc_def Let_def fresh_ptr_def
        is_c_int_def)
  have "fast_count 4 sample_env sample_store = 1"
    by (simp add: fast_count_def is_c_int_def)
  with vectored_export_roundtrip [OF run, of raw_payload NORMAL_BUF PAYLOAD_IOVEC] run
  show ?thesis by (auto simp: is_c_int_def)
qed

text \<open>C23: none of the four constructors leaks when it fails: whichever allocation or export
  fails, and however many buffers it had taken by then, the ledger and the store are as before
  the call.\<close>

theorem constructors_fail_cleanly:
  assumes "res \<in> {create_linear_buffers E n bufsize p w, create_vectored_buffers E n bufsize p w,
      serialize_linear_buffers E q n p w, serialize_vectored_buffers E q p w}"
    and "res = Some (False, w')"
  shows "ledger (hist w') = ledger (hist w) \<and> ext.more w' = ext.more w"
  using assms linear_ctor.fails vector_ctor.fails linear_export.fails vector_export.fails
  by (metis insertE singletonD)

definition poor_env :: env where
  "poor_env = sample_env\<lparr>e_pymem_malloc := (\<lambda>h n. if length h < 3 then fresh_ptr h else 0)\<rparr>"

theorem constructors_fail_cleanly_witness:
  "\<exists>w'. create_linear_buffers poor_env 3 64 1 sample_store = Some (False, w') \<and>
     length (hist w') = 8 \<and> ledger (hist w') = ledger []"
proof -
  obtain w' where run: "create_linear_buffers poor_env 3 64 1 sample_store = Some (False, w')"
    and "length (hist w') = 8"
    by (simp add: create_linear_buffers_def pymem_malloc_def Let_def fresh_ptr_def poor_env_def
        eval_nat_numeral)
  with constructors_fail_cleanly [OF _ run, of poor_env 3 64 1 sample_store 4]
  show ?thesis by (auto simp: fun_eq_iff)
qed

text \<open>What \<open>make_buffers\<close> leaves behind when it succeeds.\<close>

definition wild_vector :: "BufferPayload \<Rightarrow> bool" where
  "wild_vector x \<longleftrightarrow> (\<exists>v. vector x = To v \<and> vec_views v = Wild)"

lemma fail_payload_not_True: "fail_payload p w \<noteq> Some (True, w')"
  by (simp add: fail_payload_def)

lemma make_buffers_success:
  assumes "make_buffers E n k p w = Some (True, w')" and "payloads w p = Some x"
  shows "\<exists>y. payloads w' p = Some y \<and> wild_vector y"
proof -
  define w0 where "w0 = upd_payload p (\<lambda>x. x\<lparr>linear := Null, vector := Null\<rparr>) w"
  obtain baddr w1 where 1: "pymem_malloc E (size_mult (size_t n) sizeof_LinearBuffer) w0 = (baddr, w1)"
    by (metis surj_pair)
  define w1' where "w1' = upd_payload p (\<lambda>x. x\<lparr>linear := To \<lparr>la_addr = baddr,
      la_elems = replicate (nat n) \<lparr>buffer = 0, len = 0, views = Null\<rparr>\<rparr>\<rparr>) w1"
  obtain vec w2 where 2: "pymem_malloc E sizeof_VectoredBuffer w1' = (vec, w2)" by (metis surj_pair)
  obtain iaddr w3 where 3: "pymem_malloc E (size_mult sizeof_iovec (size_t n)) w2 = (iaddr, w3)"
    by (metis surj_pair)
  define w3' where "w3' = upd_payload p (\<lambda>x. x\<lparr>vector := To (raw_vector vec iaddr)\<rparr>) w3"
  obtain ok bs w4 where 4: "alloc_upto E k (nat n) [] w3' = ((ok, bs), w4)" by (metis surj_pair)
  from assms(1) 1 2 3 4 have w': "w' = upd_payload p (\<lambda>x. x\<lparr>
      linear := To \<lparr>la_addr = baddr,
        la_elems = map (\<lambda>b. \<lparr>buffer = b, len = k, views = Null\<rparr>) bs @
          replicate (nat n - length bs) \<lparr>buffer = 0, len = 0, views = Null\<rparr>\<rparr>,
      vector := To ((raw_vector vec iaddr)\<lparr>iovecs := map (\<lambda>b. \<lparr>iov_base = b, iov_len = k\<rparr>) bs,
        nr_vecs := word_of_int n\<rparr>)\<rparr>) w4"
    by (simp add: make_buffers_def Let_def fail_payload_not_True w0_def w1'_def w3'_def
        split: if_splits)
  have "ext.more w4 = ext.more w3'" by (rule alloc_all_ledger(3) [OF 4])
  then have "payloads w4 p \<noteq> None"
    using payloads_more [of w4 w3'] 1 2 3 assms(2)
    by (auto simp: w3'_def w1'_def w0_def pymem_malloc_def Let_def)
  then show ?thesis
    by (auto simp: w' wild_vector_def raw_vector_def)
qed

lemma free_wild_vector:
  assumes "payloads w p = Some x" "wild_vector x" "p \<noteq> 0"
  shows "free_buffer_payload p True w = None"
proof -
  have "free_vector x v = None" for v :: "'a bufst_scheme"
    using assms(2) by (auto simp: wild_vector_def free_vector_def free_views_def bind_eq_None_conv)
  then show ?thesis
    using assms by (cases "free_linear x w") (simp_all add: free_buffer_payload_def)
qed

text \<open>The steps of \<open>create_buffer_payload\<close> for fresh buffers in the two modes.\<close>

lemma normal_case_keeps:
  assumes "normal_case E pt PAYLOAD_RUNTIME None n bufsize p w = Some (True, w1)"
    and "payloads w p = Some x"
  shows "\<exists>y. payloads w1 p = Some y"
proof (cases pt)
  case PAYLOAD_LINEAR
  with assms(1) have "dom (payloads w1) = dom (payloads w)"
    using linear_ctor.keeps_dom by (simp add: normal_case_def linear_case_def)
  then show ?thesis using assms(2) by blast
next
  case PAYLOAD_IOVEC
  with assms(1) have "dom (payloads w1) = dom (payloads w)"
    using vector_ctor.keeps_dom by (simp add: normal_case_def vectored_case_def)
  then show ?thesis using assms(2) by blast
next
  case PAYLOAD_LINEAR_AND_IOVEC
  with assms make_buffers_success show ?thesis
    by (fastforce simp: normal_case_def both_case_def)
next
  case PAYLOAD_TYPE_NO_VAL
  with assms show ?thesis by (simp add: normal_case_def)
qed

lemma runtime_payload_steps:
  assumes "create_buffer_payload E m pt None n bufsize w = Some (p, w')"
    and "p \<noteq> 0" and "m = NORMAL_BUF \<or> m = FIXED"
  shows "\<exists>w1 w2 x. both_case E PAYLOAD_RUNTIME None n bufsize p w1 = Some (True, w2) \<and>
    payloads w1 p = Some x \<and>
    w' = finish_payload n PAYLOAD_RUNTIME m PAYLOAD_LINEAR_AND_IOVEC p w2"
proof -
  obtain q w0 where q: "malloc_payload E w = (q, w0)" by (metis surj_pair)
  define v where "v = upd_payload q (\<lambda>x. x\<lparr>bgid := Some 0\<rparr>) w0"
  have qnz: "q \<noteq> 0"
    by (rule notI) (use assms(1,2) q in
        \<open>simp add: create_buffer_payload_def get_buffer_metadata_def Let_def\<close>)
  then have v: "payloads v q = Some (raw_payload\<lparr>bgid := Some 0\<rparr>)"
    using q by (auto simp: v_def malloc_payload_def c_malloc_def Let_def split: if_splits)
  have both: "\<exists>w2. both_case E PAYLOAD_RUNTIME None n bufsize q u = Some (True, w2) \<and> p = q \<and>
      w' = finish_payload n PAYLOAD_RUNTIME m PAYLOAD_LINEAR_AND_IOVEC q w2"
    if "both_case E PAYLOAD_RUNTIME None n bufsize q u \<bind>
        (\<lambda>(ok, w). Some (if ok
           then (q, finish_payload n PAYLOAD_RUNTIME m PAYLOAD_LINEAR_AND_IOVEC q w)
           else (0, w))) = Some (p, w')" for u
    using that assms(2) by (auto simp: bind_eq_Some_conv split: if_splits)
  show ?thesis
  proof (cases "m = FIXED")
    case True
    have "both_case E PAYLOAD_RUNTIME None n bufsize q v \<bind>
        (\<lambda>(ok, w). Some (if ok
           then (q, finish_payload n PAYLOAD_RUNTIME m PAYLOAD_LINEAR_AND_IOVEC q w)
           else (0, w))) = Some (p, w')"
      using assms(1) q qnz unfolding True
      by (simp add: create_buffer_payload_def get_buffer_metadata_def Let_def v_def)
    from both [OF this] v show ?thesis by blast
  next
    case False
    with assms(3) have m: "m = NORMAL_BUF" by simp
    let ?both = "\<lambda>u. both_case E PAYLOAD_RUNTIME None n bufsize q u \<bind>
        (\<lambda>(ok, w). Some (if ok
           then (q, finish_payload n PAYLOAD_RUNTIME m PAYLOAD_LINEAR_AND_IOVEC q w)
           else (0, w)))"
    have "normal_case E pt PAYLOAD_RUNTIME None n bufsize q v \<bind>
        (\<lambda>(ok, u). if ok then ?both u else Some (0, u)) = Some (p, w')"
      using assms(1) q qnz unfolding m
      by (simp add: create_buffer_payload_def get_buffer_metadata_def Let_def v_def)
    then obtain ok w1 where
      "normal_case E pt PAYLOAD_RUNTIME None n bufsize q v = Some (ok, w1)"
      "(if ok then ?both w1 else Some (0, w1)) = Some (p, w')"
      by (auto simp: bind_eq_Some_conv)
    then have w1: "normal_case E pt PAYLOAD_RUNTIME None n bufsize q v = Some (True, w1)"
      "?both w1 = Some (p, w')"
      using assms(2) by (cases ok; simp)+
    from normal_case_keeps [OF w1(1) v] both [OF w1(2)] show ?thesis by blast
  qed
qed

text \<open>C40: a payload of fresh buffers in the normal (or fixed) mode never has the type the caller
  asked for, because the case \<open>NORMAL_BUF\<close> runs on into the case \<open>FIXED\<close>: it has both kinds of
  buffers, and freeing it is undefined, since \<open>make_buffers\<close> leaves the vector's \<open>views\<close>
  indeterminate.\<close>

theorem runtime_payload_not_freeable:
  assumes "create_buffer_payload E m pt None n bufsize w = Some (p, w')"
    and "p \<noteq> 0" and "m = NORMAL_BUF \<or> m = FIXED"
  shows "\<exists>x. payloads w' p = Some x \<and> payload_type x = Some PAYLOAD_LINEAR_AND_IOVEC \<and>
     free_buffer_payload p True w' = None"
proof -
  from assms obtain w1 w2 x where
    both: "both_case E PAYLOAD_RUNTIME None n bufsize p w1 = Some (True, w2)"
    and x: "payloads w1 p = Some x"
    and w': "w' = finish_payload n PAYLOAD_RUNTIME m PAYLOAD_LINEAR_AND_IOVEC p w2"
    using runtime_payload_steps by blast
  from both have "make_buffers E n (size_t bufsize) p w1 = Some (True, w2)"
    by (simp add: both_case_def)
  from make_buffers_success [OF this x] obtain y where y: "payloads w2 p = Some y" "wild_vector y"
    by blast
  let ?y = "y\<lparr>amount := Some n, payload_origin := Some PAYLOAD_RUNTIME, mode := Some m,
      payload_type := Some PAYLOAD_LINEAR_AND_IOVEC\<rparr>"
  have "payloads w' p = Some ?y" using y(1) by (simp add: w' finish_payload_def)
  moreover have "wild_vector ?y" using y(2) by (simp add: wild_vector_def)
  ultimately show ?thesis using free_wild_vector [of w' p] assms(2) by simp
qed

theorem runtime_payload_not_freeable_witness:
  "\<exists>p w' x. create_buffer_payload sample_env NORMAL_BUF PAYLOAD_LINEAR None 1 64
       \<lparr>hist = [], payloads = Map.empty\<rparr> = Some (p, w') \<and>
     payloads w' p = Some x \<and> payload_type x = Some PAYLOAD_LINEAR_AND_IOVEC \<and>
     free_buffer_payload p True w' = None"
proof -
  let ?w = "\<lparr>hist = [], payloads = Map.empty\<rparr>"
  let ?run = "create_buffer_payload sample_env NORMAL_BUF PAYLOAD_LINEAR None 1 64 ?w"
  obtain p w' where run: "?run = Some (p, w')" and p: "p \<noteq> 0"
    by (simp add: create_buffer_payload_def get_buffer_metadata_def malloc_payload_def c_malloc_def
        pymem_malloc_def normal_case_def linear_case_def create_linear_buffers_def both_case_def
        make_buffers_def Let_def)
  from runtime_payload_not_freeable [OF run p] run show ?thesis by blast
qed

end
