(* ===== verification/Request_Registry.thy ===== *)
theory Request_Registry
  imports Buffer_Ownership
begin

text \<open>
  The registry of pending requests (\<open>src/registry\<close>): a table of slots and a stack of the free
  slot numbers.  The number of a slot is the request index that travels through the kernel as
  the entry's user data.  The second half shows that the registry is an \<open>index_pool\<close>, that it
  implements a finite map from request indices to requests, and that the references and blocks
  a slot holds are given back when the request is removed.
\<close>

section \<open>Structures\<close>

datatype StreamStrategy = ONESHOT | MULTISHOT

datatype TransferMode = NORMAL_TRANSFER | ZERO_COPY

text \<open>The opcodes the extension registers; 0 is \<open>IORING_OP_NOP\<close>.\<close>

datatype (plugins only: code size) Opcode =
    IORING_OP_NOP | IORING_OP_OPENAT2 | IORING_OP_READ | IORING_OP_READV | IORING_OP_WRITE
  | IORING_OP_WRITEV | IORING_OP_FSYNC | IORING_OP_SPLICE | IORING_OP_CLOSE | IORING_OP_SOCKET
  | IORING_OP_BIND | IORING_OP_CONNECT | IORING_OP_LISTEN | IORING_OP_ACCEPT | IORING_OP_SEND
  | IORING_OP_RECV | IORING_OP_SENDMSG | IORING_OP_RECVMSG | IORING_OP_TIMEOUT

record RequestSlot =
  user_data :: "64 word"
  future :: "obj option"
  stream_strategy :: StreamStrategy
  buffer_payload :: ptr
  opcode :: Opcode
  slot_file :: "obj option"
  slot_socket :: "obj option"
  slot_addr :: ptr
  slot_msghdr :: ptr

record RequestRegistry =
  reg_addr :: ptr
  slots_addr :: ptr
  slots :: "RequestSlot list"
  avail_addr :: ptr
  available_indices :: "int list"
  top :: int
  reg_size :: "32 word"

abbreviation DEFAULT_REGISTRY_SIZE :: "32 word" where "DEFAULT_REGISTRY_SIZE \<equiv> 25000"
abbreviation sizeof_RequestRegistry :: nat where "sizeof_RequestRegistry \<equiv> 24"
abbreviation sizeof_RequestSlot :: nat where "sizeof_RequestSlot \<equiv> 72"

text \<open>A slot of the \<open>calloc\<close>ed table.\<close>

definition zero_slot :: RequestSlot where
  "zero_slot = \<lparr>user_data = 0, future = None, stream_strategy = ONESHOT, buffer_payload = 0,
     opcode = IORING_OP_NOP, slot_file = None, slot_socket = None, slot_addr = 0,
     slot_msghdr = 0\<rparr>"

section \<open>registry.c\<close>

definition registry_new ::
    "env \<Rightarrow> 32 word \<Rightarrow> 'a ext_scheme \<Rightarrow> RequestRegistry option \<times> 'a ext_scheme" where
  "registry_new E sz w =
     (let (registry, w) = c_malloc E sizeof_RequestRegistry w
      in if registry = 0 then (None, w)
         else let sz = (if sz = 0 then DEFAULT_REGISTRY_SIZE else sz);
                  (sl, w) = c_malloc E (unat sz * sizeof_RequestSlot) w
              in if sl = 0 then (None, c_free registry w)
                 else let (av, w) = c_malloc E (unat sz * 4) w
                      in if av = 0 then (None, c_free registry (c_free sl w))
                         else (Some \<lparr>reg_addr = registry, slots_addr = sl,
                                     slots = replicate (unat sz) zero_slot,
                                     avail_addr = av, available_indices = index_array sz,
                                     top = sint sz - 1, reg_size = sz\<rparr>, w))"

definition opt_decref :: "obj option \<Rightarrow> 'a ext_scheme \<Rightarrow> 'a ext_scheme" where
  "opt_decref x w = (case x of None \<Rightarrow> w | Some y \<Rightarrow> py (Decref y) w)"

definition opt_incref :: "obj option \<Rightarrow> 'a ext_scheme \<Rightarrow> 'a ext_scheme" where
  "opt_incref x w = (case x of None \<Rightarrow> w | Some y \<Rightarrow> py (Incref y) w)"

text \<open>The loop of \<open>registry_destroy\<close> over the slots.\<close>

fun destroy_slots :: "RequestSlot list \<Rightarrow> 'a bufst_scheme \<Rightarrow> 'a bufst_scheme option" where
  "destroy_slots [] w = Some w"
| "destroy_slots (s # ss) w = do {
     let w = opt_decref (future s) w;
     w \<leftarrow> (if buffer_payload s \<noteq> 0 then free_buffer_payload (buffer_payload s) True w else Some w);
     destroy_slots ss (opt_decref (slot_file s) (opt_decref (slot_socket s) w))
   }"

definition registry_destroy ::
    "RequestRegistry option \<Rightarrow> 'a bufst_scheme \<Rightarrow> 'a bufst_scheme option" where
  "registry_destroy reg w =
     (case reg of
        None \<Rightarrow> Some w
      | Some r \<Rightarrow> do {
          w \<leftarrow> (if slots_addr r \<noteq> 0
               then map_option (c_free (slots_addr r))
                      (destroy_slots (take (unat (reg_size r)) (slots r)) w)
               else Some w);
          let w = (if avail_addr r \<noteq> 0 then c_free (avail_addr r) w else w);
          Some (c_free (reg_addr r) w)
        })"

text \<open>
  Taking and giving back a slot number.  \<open>registry_pop\<close> is the head of \<open>registry_add\<close>,
  \<open>registry_push\<close> the tail of \<open>registry_remove\<close>, and \<open>registry_full\<close> the test before which it
  aborts.
\<close>

definition registry_pop :: "RequestRegistry \<Rightarrow> (int \<times> RequestRegistry) option" where
  "registry_pop reg =
     (if top reg < 0 then Some (-1, reg)
      else if nat (top reg) < length (available_indices reg)
           then Some (available_indices reg ! nat (top reg), reg\<lparr>top := top reg - 1\<rparr>)
           else None)"

definition registry_push :: "RequestRegistry \<Rightarrow> int \<Rightarrow> RequestRegistry option" where
  "registry_push reg index =
     (let t = top reg + 1
      in if 0 \<le> t \<and> nat t < length (available_indices reg)
         then Some (reg\<lparr>top := t, available_indices := (available_indices reg)[nat t := index]\<rparr>)
         else None)"

definition registry_full :: "RequestRegistry \<Rightarrow> bool" where
  "registry_full reg \<longleftrightarrow> top reg \<ge> sint (reg_size reg) - 1"

definition registry_add ::
    "RequestRegistry \<Rightarrow> obj \<Rightarrow> ptr \<Rightarrow> StreamStrategy \<Rightarrow> Opcode \<Rightarrow> obj option \<Rightarrow> obj option \<Rightarrow>
     ptr \<Rightarrow> ptr \<Rightarrow> 'a ext_scheme \<Rightarrow> (int \<times> RequestRegistry \<times> 'a ext_scheme) option" where
  "registry_add reg fut payload strategy opc file socket sockaddr msghdr w =
     (if top reg < 0 then Some (-1, reg, w)
      else do {
        (index, reg) \<leftarrow> registry_pop reg;
        if 0 \<le> index \<and> nat index < length (slots reg)
        then let slot = (slots reg ! nat index)
                   \<lparr>user_data := word_of_int index, opcode := opc, future := Some fut,
                    buffer_payload := payload, slot_socket := socket, slot_file := file,
                    slot_addr := sockaddr, stream_strategy := strategy, slot_msghdr := msghdr\<rparr>;
                 w = opt_incref file (opt_incref socket (py (Incref fut) w))
             in Some (index, reg\<lparr>slots := (slots reg)[nat index := slot]\<rparr>, w)
        else None
      })"

definition registry_get :: "RequestRegistry \<Rightarrow> int \<Rightarrow> RequestSlot option" where
  "registry_get reg index =
     (if index < 0 \<or> index \<ge> sint (reg_size reg) then None
      else Some (slots reg ! nat index))"

definition registry_remove ::
    "RequestRegistry \<Rightarrow> int \<Rightarrow> 'a bufst_scheme \<Rightarrow> (RequestRegistry \<times> 'a bufst_scheme) option" where
  "registry_remove reg index w =
     (if index < 0 \<or> index \<ge> sint (reg_size reg) then Some (reg, w)
      else if registry_full reg then None
      else let slot = slots reg ! nat index
           in do {
             let w = opt_decref (future slot) w;
             w \<leftarrow> (if buffer_payload slot \<noteq> 0
                  then free_buffer_payload (buffer_payload slot) False w else Some w);
             let w = c_free (slot_msghdr slot)
                       (opt_decref (slot_file slot) (opt_decref (slot_socket slot) w));
             let slot = slot\<lparr>future := None, buffer_payload := 0, slot_socket := None,
                             slot_file := None, slot_msghdr := 0, opcode := IORING_OP_NOP\<rparr>;
             reg \<leftarrow> registry_push (reg\<lparr>slots := (slots reg)[nat index := slot]\<rparr>) index;
             Some (reg, w)
           })"

section \<open>The invariant\<close>

definition reg_free :: "RequestRegistry \<Rightarrow> int list" where
  "reg_free reg = stack_free (available_indices reg) (top reg)"

text \<open>A slot that holds nothing: no reference, no payload, no message header.\<close>

definition idle :: "RequestSlot \<Rightarrow> bool" where
  "idle s \<longleftrightarrow> future s = None \<and> buffer_payload s = 0 \<and> slot_file s = None \<and>
     slot_socket s = None \<and> slot_msghdr s = 0 \<and> opcode s = IORING_OP_NOP"

definition pool_ok :: "RequestRegistry \<Rightarrow> bool" where
  "pool_ok reg \<longleftrightarrow> stack_ok (available_indices reg) (top reg) (reg_size reg)"

text \<open>The free slots are idle, and exactly the others carry a future.\<close>

definition reg_ok :: "RequestRegistry \<Rightarrow> bool" where
  "reg_ok reg \<longleftrightarrow>
     pool_ok reg \<and> length (slots reg) = nat (sint (reg_size reg)) \<and>
     (\<forall>i < nat (sint (reg_size reg)).
        if int i \<in> set (reg_free reg) then idle (slots reg ! i)
        else future (slots reg ! i) \<noteq> None)"

interpretation req_pool: index_pool
    pool_ok reg_free "\<lambda>r. sint (reg_size r)" registry_pop registry_push
proof
  fix r i "is"
  assume "pool_ok r"
  then have ok: "stack_ok (available_indices r) (top r) (reg_size r)" by (simp add: pool_ok_def)
  show "distinct (reg_free r)" and "set (reg_free r) \<subseteq> {0..<sint (reg_size r)}"
    using ok by (simp_all add: reg_free_def stack_ok_def)
  show "registry_pop r = Some (-1, r)" if "reg_free r = []"
    using that stack_free_empty_iff [OF ok] by (simp add: reg_free_def registry_pop_def)
  show "\<exists>r'. registry_pop r = Some (i, r') \<and> pool_ok r' \<and> reg_free r' = is \<and>
        sint (reg_size r') = sint (reg_size r)" if "reg_free r = i # is"
  proof -
    have t: "0 \<le> top r" using that stack_free_empty_iff [OF ok] by (simp add: reg_free_def)
    then have "nat (top r) < length (available_indices r)" using ok by (simp add: stack_ok_def)
    then show ?thesis
      using that t stack_free_pop [OF ok t] stack_ok_pop [OF ok t]
      by (simp add: registry_pop_def reg_free_def pool_ok_def)
  qed
  show "\<exists>r'. registry_push r i = Some r' \<and> pool_ok r' \<and> reg_free r' = i # reg_free r \<and>
        sint (reg_size r') = sint (reg_size r)"
    if "i \<in> {0..<sint (reg_size r)} - set (reg_free r)"
  proof -
    have i: "i \<notin> set (stack_free (available_indices r) (top r))" "0 \<le> i" "i < sint (reg_size r)"
      using that by (simp_all add: reg_free_def)
    have room: "top r + 1 < sint (reg_size r)" by (rule stack_room [OF ok i])
    then have "0 \<le> top r + 1" "nat (top r + 1) < length (available_indices r)"
      using ok by (simp_all add: stack_ok_def)
    then show ?thesis
      using room stack_free_push [OF ok room, of i] stack_ok_push [OF ok room i]
      by (simp add: registry_push_def reg_free_def pool_ok_def Let_def)
  qed
qed

section \<open>The abstract request table\<close>

text \<open>The pending requests as a finite map: what \<open>registry_get\<close> returns where the slot has a
  future.\<close>

definition requests :: "RequestRegistry \<Rightarrow> int \<Rightarrow> RequestSlot option" where
  "requests reg i =
     (case registry_get reg i of
        None \<Rightarrow> None
      | Some s \<Rightarrow> if future s = None then None else Some s)"

text \<open>Every field of the slot is written, so nothing of an earlier request is left.\<close>

definition new_request ::
    "int \<Rightarrow> obj \<Rightarrow> ptr \<Rightarrow> StreamStrategy \<Rightarrow> Opcode \<Rightarrow> obj option \<Rightarrow> obj option \<Rightarrow> ptr \<Rightarrow> ptr \<Rightarrow>
     RequestSlot" where
  "new_request i fut payload strategy opc file socket sockaddr msghdr =
     \<lparr>user_data = word_of_int i, future = Some fut, stream_strategy = strategy,
      buffer_payload = payload, opcode = opc, slot_file = file, slot_socket = socket,
      slot_addr = sockaddr, slot_msghdr = msghdr\<rparr>"

lemma requests_in_range: "requests reg i = Some s \<Longrightarrow> 0 \<le> i \<and> i < sint (reg_size reg)"
  by (auto simp: requests_def registry_get_def split: if_splits)

lemma requests_Some_iff:
  assumes "0 \<le> i" "i < sint (reg_size reg)"
  shows "requests reg i = Some s \<longleftrightarrow>
     slots reg ! nat i = s \<and> future (slots reg ! nat i) \<noteq> None"
  using assms by (auto simp: requests_def registry_get_def)

lemma reg_okD:
  assumes "reg_ok reg"
  shows "pool_ok reg" "length (slots reg) = nat (sint (reg_size reg))"
    "\<And>i. i \<in> set (reg_free reg) \<Longrightarrow> idle (slots reg ! nat i)"
    "\<And>i. i \<in> req_pool.used reg \<Longrightarrow> future (slots reg ! nat i) \<noteq> None"
proof -
  show ok: "pool_ok reg" "length (slots reg) = nat (sint (reg_size reg))"
    using assms by (simp_all add: reg_ok_def)
  have all: "if int n \<in> set (reg_free reg) then idle (slots reg ! n)
      else future (slots reg ! n) \<noteq> None" if "n < nat (sint (reg_size reg))" for n
    using assms that by (simp add: reg_ok_def)
  show "idle (slots reg ! nat i)" if "i \<in> set (reg_free reg)" for i
    using that req_pool.free_range [OF ok(1)] all [of "nat i"] by (auto simp: subset_iff)
  show "future (slots reg ! nat i) \<noteq> None" if "i \<in> req_pool.used reg" for i
    using that all [of "nat i"] by (simp add: req_pool.used_def)
qed

text \<open>Under the invariant a number is in use exactly when its request is pending.\<close>

lemma dom_requests:
  assumes "reg_ok reg"
  shows "dom (requests reg) = req_pool.used reg"
proof -
  have "i \<in> dom (requests reg) \<longleftrightarrow> i \<in> req_pool.used reg" for i
  proof (cases "0 \<le> i \<and> i < sint (reg_size reg)")
    case True
    show ?thesis
    proof (cases "i \<in> set (reg_free reg)")
      case free: True
      from reg_okD(3) [OF assms free] True free show ?thesis
        by (auto simp: requests_def registry_get_def idle_def req_pool.used_def)
    next
      case False
      with True have "i \<in> req_pool.used reg" by (simp add: req_pool.used_def)
      from this reg_okD(4) [OF assms this] True show ?thesis
        by (auto simp: requests_def registry_get_def)
    qed
  next
    case False
    then show ?thesis
      by (auto simp: requests_def registry_get_def req_pool.used_def)
  qed
  then show ?thesis by blast
qed

lemma reg_okI:
  assumes "pool_ok reg" "length (slots reg) = nat (sint (reg_size reg))"
    "\<And>i. i \<in> set (reg_free reg) \<Longrightarrow> idle (slots reg ! nat i)"
    "\<And>i. i \<in> req_pool.used reg \<Longrightarrow> future (slots reg ! nat i) \<noteq> None"
  shows "reg_ok reg"
  unfolding reg_ok_def
proof (intro conjI allI impI)
  fix i assume i: "i < nat (sint (reg_size reg))"
  show "if int i \<in> set (reg_free reg) then idle (slots reg ! i)
      else future (slots reg ! i) \<noteq> None"
    using assms(3,4) [of "int i"] i by (simp add: req_pool.used_def)
qed (use assms in simp_all)

section \<open>The operations on the request table\<close>

lemma registry_new_ok:
  assumes "registry_new E sz w = (Some reg, w')" and "0 \<le> sint sz"
  shows "reg_ok reg \<and> requests reg = Map.empty \<and>
     reg_size reg = (if sz = 0 then 25000 else sz)"
proof -
  define n where "n = (if sz = 0 then 25000 else sz)"
  have pos: "0 < sint n"
    using assms(2) signed_eq_0_iff [of sz] by (auto simp: n_def order_less_le)
  from assms(1) have reg: "available_indices reg = index_array n" "top reg = sint n - 1"
    "reg_size reg = n" "slots reg = replicate (unat n) zero_slot"
    by (auto simp: registry_new_def c_malloc_def Let_def n_def split: if_splits)
  have len: "unat n = nat (sint n)" using pos by (simp add: unat_nat_sint)
  have free: "set (reg_free reg) = {0..<sint n}"
    using stack_ok_index_array(2) [OF pos] reg(1,2) pos
    by (simp add: reg_free_def image_int_atLeastLessThan)
  have "reg_ok reg"
  proof (rule reg_okI)
    show "pool_ok reg"
      using stack_ok_index_array(1) [OF pos] reg by (simp add: pool_ok_def)
    show "idle (slots reg ! nat i)" if "i \<in> set (reg_free reg)" for i
      using that free reg(4) len by (simp add: idle_def zero_slot_def)
  qed (use free reg len in \<open>simp_all add: req_pool.used_def\<close>)
  moreover from this have "dom (requests reg) = {}"
    using free reg(3) by (simp add: dom_requests req_pool.used_def)
  ultimately show ?thesis using reg(3) by (simp add: n_def)
qed

lemma pool_slots [simp]:
  "pool_ok (reg\<lparr>slots := ss\<rparr>) = pool_ok reg" "reg_free (reg\<lparr>slots := ss\<rparr>) = reg_free reg"
  "req_pool.used (reg\<lparr>slots := ss\<rparr>) = req_pool.used reg"
  "registry_full (reg\<lparr>slots := ss\<rparr>) = registry_full reg"
  by (simp_all add: pool_ok_def reg_free_def req_pool.used_def registry_full_def)

lemma top_negative_iff:
  assumes "reg_ok reg"
  shows "top reg < 0 \<longleftrightarrow> dom (requests reg) = {0..<sint (reg_size reg)}"
proof -
  have "top reg < 0 \<longleftrightarrow> reg_free reg = []"
    using stack_free_empty_iff reg_okD(1) [OF assms] by (simp add: pool_ok_def reg_free_def)
  also have "\<dots> \<longleftrightarrow> req_pool.used reg = {0..<sint (reg_size reg)}"
    using req_pool.free_range [OF reg_okD(1) [OF assms]]
    by (cases "reg_free reg") (auto simp: req_pool.used_def)
  finally show ?thesis by (simp add: dom_requests [OF assms])
qed

text \<open>\<open>registry_add\<close> refuses when every request index is taken, and then changes nothing.\<close>

lemma registry_add_refuses:
  assumes "reg_ok reg" "dom (requests reg) = {0..<sint (reg_size reg)}"
  shows "registry_add reg fut payload strategy opc file socket sockaddr msghdr w =
    Some (-1, reg, w)"
  using assms top_negative_iff [OF assms(1)] by (simp add: registry_add_def)

text \<open>Writing one slot of a well-formed registry, as the abstract map sees it.\<close>

lemma requests_update:
  assumes "length (slots reg) = nat (sint (reg_size reg))" "0 \<le> i" "i < sint (reg_size reg)"
  shows "requests (reg\<lparr>slots := (slots reg)[nat i := s]\<rparr>) =
    (requests reg)(i := if future s = None then None else Some s)"
proof
  fix j
  show "requests (reg\<lparr>slots := (slots reg)[nat i := s]\<rparr>) j =
      ((requests reg)(i := if future s = None then None else Some s)) j"
    using assms by (cases "0 \<le> j") (auto simp: requests_def registry_get_def nth_list_update)
qed

lemma requests_top [simp]:
  "requests (reg\<lparr>top := t\<rparr>) = requests reg"
  "requests (reg\<lparr>top := t, available_indices := av\<rparr>) = requests reg"
  by (simp_all add: requests_def registry_get_def fun_eq_iff)

text \<open>Replacing one slot keeps the invariant when the slot fits what the stack says of its index and the
  stack agrees with the old one about the others.\<close>

lemma reg_ok_slot:
  assumes "reg_ok reg" "0 \<le> i" "i < sint (reg_size reg)" "pool_ok r"
    "slots r = (slots reg)[nat i := s]" "reg_size r = reg_size reg"
    "set (reg_free r) - {i} = set (reg_free reg) - {i}"
    "if i \<in> set (reg_free r) then idle s else future s \<noteq> None"
  shows "reg_ok r"
proof (rule reg_okI)
  note ok = reg_okD [OF assms(1)]
  have len: "nat i < length (slots reg)" using assms(2,3) ok(2) by simp
  show "pool_ok r" by (rule assms(4))
  show "length (slots r) = nat (sint (reg_size r))" using ok(2) assms(5,6) by simp
  fix j
  show "idle (slots r ! nat j)" if "j \<in> set (reg_free r)"
  proof (cases "j = i")
    case True
    with that assms(5,8) len show ?thesis by simp
  next
    case False
    with that assms(7) have j: "j \<in> set (reg_free reg)" by auto
    then have "0 \<le> j" using req_pool.free_range [OF ok(1)] by auto
    with ok(3) [OF j] False assms(2,5) show ?thesis by (simp add: nth_list_update nat_eq_iff2)
  qed
  show "future (slots r ! nat j) \<noteq> None" if "j \<in> req_pool.used r"
  proof (cases "j = i")
    case True
    with that assms(5,8) len show ?thesis by (simp add: req_pool.used_def)
  next
    case False
    with that assms(6,7) have "j \<in> req_pool.used reg" "0 \<le> j" by (auto simp: req_pool.used_def)
    with ok(4) [of j] False assms(2,5) show ?thesis by (simp add: nth_list_update nat_eq_iff2)
  qed
qed

lemma new_request_eq:
  "s\<lparr>user_data := word_of_int i, opcode := opc, future := Some fut, buffer_payload := payload,
     slot_socket := socket, slot_file := file, slot_addr := sockaddr,
     stream_strategy := strategy, slot_msghdr := msghdr\<rparr> =
   new_request i fut payload strategy opc file socket sockaddr msghdr"
  by (cases s) (simp add: new_request_def)

lemma registry_add_accepts:
  assumes "reg_ok reg" "dom (requests reg) \<noteq> {0..<sint (reg_size reg)}"
  obtains i reg' where
    "registry_add reg fut payload strategy opc file socket sockaddr msghdr w =
       Some (i, reg', opt_incref file (opt_incref socket (py (Incref fut) w)))"
    "0 \<le> i" "i < sint (reg_size reg)" "requests reg i = None" "reg_ok reg'"
    "requests reg' =
       (requests reg)(i \<mapsto> new_request i fut payload strategy opc file socket sockaddr msghdr)"
    "reg_size reg' = reg_size reg"
proof -
  note ok = reg_okD [OF assms(1)]
  have t: "\<not> top reg < 0" using assms top_negative_iff by simp
  then have "reg_free reg \<noteq> []"
    using stack_free_empty_iff ok(1) by (auto simp: pool_ok_def reg_free_def)
  then obtain i "is" where free: "reg_free reg = i # is" by (cases "reg_free reg") auto
  from req_pool.acquire_next [OF ok(1) free] obtain r1 where
    r1: "registry_pop reg = Some (i, r1)" "pool_ok r1" "reg_free r1 = is" by blast
  then have r1_eq: "r1 = reg\<lparr>top := top reg - 1\<rparr>"
    using t by (auto simp: registry_pop_def split: if_splits)
  have i: "0 \<le> i" "i < sint (reg_size reg)"
    using req_pool.free_range [OF ok(1)] free by auto
  let ?s = "new_request i fut payload strategy opc file socket sockaddr msghdr"
  let ?reg = "r1\<lparr>slots := (slots r1)[nat i := ?s]\<rparr>"
  have len: "nat i < length (slots reg)" using i ok(2) by simp
  have add: "registry_add reg fut payload strategy opc file socket sockaddr msghdr w =
      Some (i, ?reg, opt_incref file (opt_incref socket (py (Incref fut) w)))"
    using t r1(1) i len by (simp add: registry_add_def r1_eq new_request_eq)
  have "i \<notin> set is" using req_pool.free_distinct [OF ok(1)] free by simp
  then have "reg_ok ?reg"
    using r1(2,3) free by (intro reg_ok_slot [OF assms(1) i]) (auto simp: r1_eq new_request_def)
  moreover have "requests ?reg = (requests reg)(i \<mapsto> ?s)"
    using requests_update [of r1 i ?s] i ok(2) by (simp add: r1_eq new_request_def)
  moreover have "requests reg i = None"
    using ok(3) [of i] free i by (simp add: requests_def registry_get_def idle_def)
  ultimately show ?thesis using that [OF add i] by (simp add: r1_eq)
qed

section \<open>Removal\<close>

text \<open>A payload that \<open>free_buffer_payload(\<dots>, false)\<close> can deal with: none, one that belongs to an
  execution context and is kept, or a well-formed one of the request's own.\<close>

definition releasable :: "'a bufst_scheme \<Rightarrow> ptr \<Rightarrow> bool" where
  "releasable w q \<longleftrightarrow> q = 0 \<or>
     (\<exists>p. payloads w q = Some p \<and>
        (case mode p of None \<Rightarrow> False | Some m \<Rightarrow> m = NORMAL_BUF \<longrightarrow> payload_wf p))"

definition ref_units :: "obj option \<Rightarrow> resource \<Rightarrow> int" where
  "ref_units x r = (case x of None \<Rightarrow> 0 | Some y \<Rightarrow> of_bool (r = Reference y))"

text \<open>What removing a request gives back of its payload.\<close>

definition freed_units :: "'a bufst_scheme \<Rightarrow> ptr \<Rightarrow> resource \<Rightarrow> int" where
  "freed_units w q r =
     (case payloads w q of
        Some p \<Rightarrow> if q \<noteq> 0 \<and> mode p = Some NORMAL_BUF
                  then payload_units p r + of_bool (r = Block q) else 0
      | None \<Rightarrow> 0)"

definition freed_store :: "'a bufst_scheme \<Rightarrow> ptr \<Rightarrow> ptr \<Rightarrow> BufferPayload option" where
  "freed_store w q =
     (case payloads w q of
        Some p \<Rightarrow> if q \<noteq> 0 \<and> mode p = Some NORMAL_BUF then (payloads w)(q := None) else payloads w
      | None \<Rightarrow> payloads w)"

text \<open>What removing a request gives back: its references, its payload and its message header.  The peer's
  address (\<open>slot_addr\<close>) is not part of it: \<open>registry_remove\<close> does not free it.\<close>

definition slot_units :: "'a bufst_scheme \<Rightarrow> RequestSlot \<Rightarrow> resource \<Rightarrow> int" where
  "slot_units w s r =
     ref_units (future s) r + ref_units (slot_file s) r + ref_units (slot_socket s) r +
     freed_units w (buffer_payload s) r +
     of_bool (slot_msghdr s \<noteq> 0 \<and> r = Block (slot_msghdr s))"

lemma ledger_opt_decref [simp]:
  "ledger (hist (opt_decref x w)) r = ledger (hist w) r - ref_units x r"
  by (cases x) (simp_all add: opt_decref_def ref_units_def)

lemma ledger_opt_incref [simp]:
  "ledger (hist (opt_incref x w)) r = ledger (hist w) r + ref_units x r"
  by (cases x) (simp_all add: opt_incref_def ref_units_def)

lemma more_opt_ref [simp]:
  "ext.more (opt_decref x w) = ext.more w" "ext.more (opt_incref x w) = ext.more w"
  by (cases x; simp add: opt_decref_def opt_incref_def)+

lemma payloads_opt_ref [simp]:
  "payloads (opt_decref x w) = payloads w" "payloads (opt_incref x w) = payloads w"
  by (rule payloads_more; simp)+

lemma bufst_more_opt_ref [simp]:
  "bufst.more (opt_decref x w) = bufst.more w" "bufst.more (opt_incref x w) = bufst.more w"
  by (rule bufst_more_eq; simp)+

lemma bufst_more_c_free [simp]: "bufst.more (c_free p w) = bufst.more w"
  by (rule bufst_more_eq) simp

lemma freed_opt_decref [simp]:
  "freed_store (opt_decref x w) q = freed_store w q"
  "freed_units (opt_decref x w) q r = freed_units w q r"
  by (simp_all add: freed_store_def freed_units_def split: option.split)

lemma free_releasable:
  assumes "releasable w q"
  obtains w' where "free_buffer_payload q False w = Some w'"
    "payloads w' = freed_store w q" "bufst.more w' = bufst.more w"
    "\<And>r. ledger (hist w') r = ledger (hist w) r - freed_units w q r"
proof (cases "q = 0")
  case True
  then show ?thesis
    using that [of w]
    by (simp add: free_buffer_payload_def freed_store_def freed_units_def split: option.splits)
next
  case False
  with assms obtain p m where p: "payloads w q = Some p" "mode p = Some m"
    "m = NORMAL_BUF \<longrightarrow> payload_wf p"
    by (auto simp: releasable_def split: option.splits)
  show ?thesis
  proof (cases "m = NORMAL_BUF")
    case True
    with p have "payload_wf p" and "False \<or> mode p = Some NORMAL_BUF" by simp_all
    from free_buffer_payload_ledger [OF p(1) this False] obtain w' where
      w': "free_buffer_payload q False w = Some w'" "payloads w' = (payloads w)(q := None)"
      "bufst.more w' = bufst.more w"
      "\<And>r. ledger (hist w') r = ledger (hist w) r - payload_units p r - of_bool (r = Block q)"
      by blast
    then show ?thesis
      using that [OF w'(1)] p True False by (simp add: freed_store_def freed_units_def)
  next
    case m: False
    show ?thesis
    proof (rule that [of w])
      show "free_buffer_payload q False w = Some w"
        using m p False by (simp add: free_buffer_payload_def)
    qed (use m p in \<open>simp_all add: freed_store_def freed_units_def\<close>)
  qed
qed

lemma registry_remove_pending:
  assumes "reg_ok reg" "requests reg i = Some s" "releasable w (buffer_payload s)"
  obtains reg' w' where
    "registry_remove reg i w = Some (reg', w')" "reg_ok reg'"
    "requests reg' = (requests reg)(i := None)" "reg_size reg' = reg_size reg"
    "payloads w' = freed_store w (buffer_payload s)" "bufst.more w' = bufst.more w"
    "\<And>r. ledger (hist w') r = ledger (hist w) r - slot_units w s r"
proof -
  note ok = reg_okD [OF assms(1)]
  have i: "0 \<le> i" "i < sint (reg_size reg)" using requests_in_range [OF assms(2)] by auto
  have used: "i \<in> req_pool.used reg" using dom_requests [OF assms(1)] assms(2) by blast
  have s: "slots reg ! nat i = s" using assms(2) requests_Some_iff [OF i] by simp
  have "\<not> registry_full reg"
    using stack_room [of "available_indices reg" "top reg" "reg_size reg" i] used ok(1) i
    by (simp add: registry_full_def pool_ok_def req_pool.used_def reg_free_def)
  have "releasable (opt_decref (future s) w) (buffer_payload s)"
    using assms(3) by (simp add: releasable_def)
  from free_releasable [OF this, simplified] obtain w1 where
    w1: "free_buffer_payload (buffer_payload s) False (opt_decref (future s) w) = Some w1"
    "payloads w1 = freed_store w (buffer_payload s)" "bufst.more w1 = bufst.more w"
    "\<And>r. ledger (hist w1) r = ledger (hist w) r - ref_units (future s) r -
       freed_units w (buffer_payload s) r"
    by blast
  let ?w2 = "c_free (slot_msghdr s) (opt_decref (slot_file s) (opt_decref (slot_socket s) w1))"
  let ?s = "s\<lparr>future := None, buffer_payload := 0, slot_socket := None, slot_file := None,
              slot_msghdr := 0, opcode := IORING_OP_NOP\<rparr>"
  let ?r1 = "reg\<lparr>slots := (slots reg)[nat i := ?s]\<rparr>"
  have "pool_ok ?r1" "i \<in> req_pool.used ?r1" using ok(1) used by simp_all
  then have "pool_ok ?r1" "i \<in> {0..<sint (reg_size ?r1)} - set (reg_free ?r1)"
    by (simp_all add: req_pool.used_def)
  from req_pool.release_used [OF this] obtain r2 where
    r2: "registry_push ?r1 i = Some r2" "pool_ok r2" "reg_free r2 = i # reg_free reg" by auto
  then obtain t av where r2_eq: "r2 = ?r1\<lparr>top := t, available_indices := av\<rparr>"
    by (auto simp: registry_push_def Let_def split: if_splits)
  have rem: "registry_remove reg i w = Some (r2, ?w2)"
    using i \<open>\<not> registry_full reg\<close> s w1(1) r2(1)
    by (cases "buffer_payload s = 0")
      (auto simp: registry_remove_def Let_def free_buffer_payload_def)
  have "reg_ok r2"
    using r2(2,3) used
    by (intro reg_ok_slot [OF assms(1) i, where s = ?s]) (auto simp: r2_eq idle_def req_pool.used_def)
  moreover have "requests r2 = (requests reg)(i := None)"
    using requests_update [of reg i ?s] i ok(2) by (simp add: r2_eq)
  ultimately show ?thesis
    using that [OF rem] w1(2-4) by (simp add: r2_eq slot_units_def)
qed

text \<open>Removing an index that is not pending hands the index out twice: the callers must check the
  future first.\<close>

lemma registry_remove_idle:
  assumes "reg_ok reg" "0 \<le> i" "i < sint (reg_size reg)" "requests reg i = None"
    "\<not> registry_full reg"
  shows "\<exists>reg' w'. registry_remove reg i w = Some (reg', w') \<and> reg_free reg' = i # reg_free reg \<and>
     i \<in> set (reg_free reg) \<and> \<not> reg_ok reg'"
proof -
  note ok = reg_okD [OF assms(1)]
  have "i \<notin> dom (requests reg)" using assms(4) by blast
  then have free: "i \<in> set (reg_free reg)"
    using assms(2,3) dom_requests [OF assms(1)] by (simp add: req_pool.used_def)
  have st: "stack_ok (available_indices reg) (top reg) (reg_size reg)"
    using ok(1) by (simp add: pool_ok_def)
  define s where "s = (slots reg ! nat i)\<lparr>future := None, buffer_payload := 0, slot_socket := None,
    slot_file := None, slot_msghdr := 0, opcode := IORING_OP_NOP\<rparr>"
  let ?r1 = "reg\<lparr>slots := (slots reg)[nat i := s]\<rparr>"
  let ?r2 = "?r1\<lparr>top := top reg + 1,
      available_indices := (available_indices reg)[nat (top reg + 1) := i]\<rparr>"
  have room: "top reg + 1 < sint (reg_size reg)" using assms(5) by (simp add: registry_full_def)
  with st have "registry_push ?r1 i = Some ?r2"
    by (simp add: registry_push_def stack_ok_def Let_def)
  then have "registry_remove reg i w = Some (?r2, c_free 0 w)"
    using ok(3) [OF free] assms(2,3,5)
    by (simp add: registry_remove_def idle_def opt_decref_def Let_def s_def)
  moreover have fr: "reg_free ?r2 = i # reg_free reg"
    using room stack_free_push [OF st room, of i] by (simp add: reg_free_def)
  moreover have "\<not> reg_ok ?r2"
  proof
    assume "reg_ok ?r2"
    from req_pool.free_distinct [OF reg_okD(1) [OF this]] fr free show False by simp
  qed
  ultimately show ?thesis using free by blast
qed

section \<open>Destruction\<close>

text \<open>The slots' payloads, and when they can all be freed: none is shared.\<close>

definition slot_payloads :: "RequestSlot list \<Rightarrow> ptr list" where
  "slot_payloads ss = filter (\<lambda>q. q \<noteq> 0) (map buffer_payload ss)"

text \<open>What a slot holds: the references and the payload, which \<open>registry_destroy\<close> gives back, and the
  message header and (while the request is pending) the peer's address, which it forgets.\<close>

definition released_units :: "'a bufst_scheme \<Rightarrow> RequestSlot \<Rightarrow> resource \<Rightarrow> int" where
  "released_units w s r =
     ref_units (future s) r + ref_units (slot_file s) r + ref_units (slot_socket s) r +
     (case payloads w (buffer_payload s) of
        Some p \<Rightarrow> if buffer_payload s \<noteq> 0
                  then payload_units p r + of_bool (r = Block (buffer_payload s)) else 0
      | None \<Rightarrow> 0)"

definition leaked_units :: "RequestSlot \<Rightarrow> resource \<Rightarrow> int" where
  "leaked_units s r =
     of_bool (slot_msghdr s \<noteq> 0 \<and> r = Block (slot_msghdr s)) +
     of_bool (future s \<noteq> None \<and> slot_addr s \<noteq> 0 \<and> r = Block (slot_addr s))"

definition owned_units :: "'a bufst_scheme \<Rightarrow> RequestSlot \<Rightarrow> resource \<Rightarrow> int" where
  "owned_units w s r = released_units w s r + leaked_units s r"

lemma slot_payloads_Cons [simp]:
  "slot_payloads (s # ss) =
     (if buffer_payload s = 0 then slot_payloads ss else buffer_payload s # slot_payloads ss)"
  by (simp add: slot_payloads_def)

lemma released_units_other:
  assumes "q \<notin> set (slot_payloads ss)" "payloads w' = (payloads w)(q := None)"
  shows "(\<Sum>s\<leftarrow>ss. released_units w' s r) = (\<Sum>s\<leftarrow>ss. released_units w s r)"
proof (rule arg_cong [where f = sum_list], rule map_cong [OF refl])
  fix s assume "s \<in> set ss"
  with assms(1) have "buffer_payload s = 0 \<or> buffer_payload s \<noteq> q"
    by (auto simp: slot_payloads_def)
  then show "released_units w' s r = released_units w s r"
    using assms(2) by (auto simp: released_units_def split: option.split)
qed

lemma released_units_decref [simp]: "released_units (opt_decref x w) = released_units w"
  by (simp add: released_units_def fun_eq_iff)

lemma destroy_slots_ledger:
  assumes "distinct (slot_payloads ss)"
    and "\<And>q. q \<in> set (slot_payloads ss) \<Longrightarrow> \<exists>p. payloads w q = Some p \<and> payload_wf p"
  shows "\<exists>w'. destroy_slots ss w = Some w' \<and> bufst.more w' = bufst.more w \<and>
    (\<forall>r. ledger (hist w') r = ledger (hist w) r - (\<Sum>s\<leftarrow>ss. released_units w s r))"
  using assms
proof (induction ss arbitrary: w)
  case (Cons s ss)
  let ?q = "buffer_payload s"
  let ?w0 = "opt_decref (future s) w"
  let ?dec = "\<lambda>w. opt_decref (slot_file s) (opt_decref (slot_socket s) w)"
  show ?case
  proof (cases "?q = 0")
    case True
    have "\<exists>w'. destroy_slots ss (?dec ?w0) = Some w' \<and> bufst.more w' = bufst.more (?dec ?w0) \<and>
      (\<forall>r. ledger (hist w') r = ledger (hist (?dec ?w0)) r -
         (\<Sum>s\<leftarrow>ss. released_units (?dec ?w0) s r))"
      using Cons.prems True by (intro Cons.IH) auto
    then show ?thesis
      using True by (auto simp: released_units_def [of w s] split: option.split)
  next
    case False
    with Cons.prems(2) [of ?q] obtain p where p: "payloads ?w0 ?q = Some p" "payload_wf p" by auto
    from free_buffer_payload_ledger [OF p disjI1 [OF TrueI] False] obtain w1 where
      w1: "free_buffer_payload ?q True ?w0 = Some w1" "payloads w1 = (payloads ?w0)(?q := None)"
      "bufst.more w1 = bufst.more ?w0"
      "\<And>r. ledger (hist w1) r = ledger (hist ?w0) r - payload_units p r - of_bool (r = Block ?q)"
      by blast
    have notin: "?q \<notin> set (slot_payloads ss)" using Cons.prems(1) False by simp
    have "\<exists>w'. destroy_slots ss (?dec w1) = Some w' \<and> bufst.more w' = bufst.more (?dec w1) \<and>
      (\<forall>r. ledger (hist w') r = ledger (hist (?dec w1)) r -
         (\<Sum>s\<leftarrow>ss. released_units (?dec w1) s r))"
    proof (rule Cons.IH)
      show "distinct (slot_payloads ss)" using Cons.prems(1) False by simp
      show "\<exists>p. payloads (?dec w1) q = Some p \<and> payload_wf p" if "q \<in> set (slot_payloads ss)" for q
        using that Cons.prems(2) [of q] w1(2) notin False by auto
    qed
    moreover have "(\<Sum>s\<leftarrow>ss. released_units (?dec w1) s r) = (\<Sum>s\<leftarrow>ss. released_units w s r)" for r
      using released_units_other [OF notin, of w1 w r] w1(2) by simp
    moreover have "released_units w s r = ref_units (future s) r + ref_units (slot_file s) r +
        ref_units (slot_socket s) r + payload_units p r + of_bool (r = Block ?q)" for r
      using p False by (simp add: released_units_def)
    ultimately show ?thesis using w1 False by auto
  qed
qed simp

text \<open>A payload that two slots share is freed twice.\<close>

lemma free_null_payload [simp]: "free_buffer_payload 0 force w = Some w"
  by (simp add: free_buffer_payload_def)

lemma free_views_more: "free_views n vf w = Some w' \<Longrightarrow> ext.more w' = ext.more w"
  by (auto simp: free_views_def bind_eq_Some_conv split: pfield.splits)

lemma free_parts_more:
  "free_linear p w = Some w' \<Longrightarrow> ext.more w' = ext.more w"
  "free_vector p w = Some w' \<Longrightarrow> ext.more w' = ext.more w"
  by (auto simp: free_linear_def free_vector_def bind_eq_Some_conv
      dest!: free_views_more split: pfield.splits if_splits list.splits)

lemma free_buffer_payload_store:
  assumes "free_buffer_payload q True w = Some w'" "q \<noteq> 0"
  shows "payloads w' = (payloads w)(q := None)"
proof -
  from assms obtain p w1 w2 where "free_linear p w = Some w1" "free_vector p w1 = Some w2"
    "w' = (c_free q w2)\<lparr>payloads := (payloads w2)(q := None)\<rparr>"
    by (auto simp: free_buffer_payload_def bind_eq_Some_conv)
  moreover from this have "ext.more w2 = ext.more w" using free_parts_more by metis
  ultimately show ?thesis using payloads_more by fastforce
qed

lemma destroy_slots_dangling:
  assumes "payloads w q = None" "q \<in> set (slot_payloads ss)"
  shows "destroy_slots ss w = None"
  using assms
proof (induction ss arbitrary: w)
  case (Cons s ss)
  let ?p = "buffer_payload s"
  show ?case
  proof (cases "?p = 0")
    case True
    with Cons show ?thesis by simp
  next
    case False
    show ?thesis
    proof (cases "free_buffer_payload ?p True (opt_decref (future s) w)")
      case None
      with False show ?thesis by simp
    next
      case (Some w1)
      note store = free_buffer_payload_store [OF Some False]
      have "?p \<noteq> q"
        using Some Cons.prems(1) False by (auto simp: free_buffer_payload_def)
      with Cons.prems False have "q \<in> set (slot_payloads ss)" by auto
      with Cons.IH store Cons.prems(1) Some False show ?thesis by simp
    qed
  qed
qed (simp add: slot_payloads_def)

lemma destroy_slots_shared:
  assumes "\<not> distinct (slot_payloads ss)"
  shows "destroy_slots ss w = None"
  using assms
proof (induction ss arbitrary: w)
  case (Cons s ss)
  let ?p = "buffer_payload s"
  show ?case
  proof (cases "free_buffer_payload ?p True (opt_decref (future s) w)")
    case None
    then show ?thesis by (cases "?p = 0") simp_all
  next
    case (Some w1)
    show ?thesis
    proof (cases "?p \<noteq> 0 \<and> ?p \<in> set (slot_payloads ss)")
      case True
      with free_buffer_payload_store [OF Some] have "payloads w1 ?p = None" by simp
      with destroy_slots_dangling [of
          "opt_decref (slot_file s) (opt_decref (slot_socket s) w1)" ?p ss] True Some
      show ?thesis by simp
    next
      case False
      with Cons.prems have "\<not> distinct (slot_payloads ss)" by (auto split: if_splits)
      with Cons.IH Some show ?thesis by (cases "?p = 0") simp_all
    qed
  qed
qed (simp add: slot_payloads_def)

section \<open>Properties of the registry\<close>

text \<open>C34: a new registry of a size below \<open>2 ^ 31\<close> is empty and well formed, of the size asked for or, when
  that is zero, 25000.\<close>

theorem registry_starts_empty:
  assumes "registry_new E sz w = (Some reg, w')" and "0 \<le> sint sz"
  shows "reg_ok reg \<and> requests reg = Map.empty \<and>
     reg_size reg = (if sz = 0 then DEFAULT_REGISTRY_SIZE else sz)"
  by (rule registry_new_ok [OF assms])

abbreviation sample_bufst :: bufst where
  "sample_bufst \<equiv> \<lparr>hist = [], payloads = Map.empty\<rparr>"

lemma sample_registry:
  obtains reg w' where "registry_new sample_env 2 sample_bufst = (Some reg, w')" "reg_ok reg"
    "requests reg = Map.empty" "sint (reg_size reg) = 2"
proof -
  obtain reg w' where new: "registry_new sample_env 2 sample_bufst = (Some reg, w')"
    by (simp add: registry_new_def c_malloc_def Let_def)
  from registry_new_ok [OF new] have "reg_ok reg" "requests reg = Map.empty" "reg_size reg = 2"
    by simp_all
  with new that show ?thesis by simp
qed

theorem registry_starts_empty_witness:
  "\<exists>reg w'. registry_new sample_env 0 sample_bufst = (Some reg, w') \<and>
     requests reg = Map.empty \<and> sint (reg_size reg) = 25000"
proof -
  obtain reg w' where new: "registry_new sample_env 0 sample_bufst = (Some reg, w')"
    by (simp add: registry_new_def c_malloc_def Let_def)
  from registry_starts_empty [OF new] new show ?thesis by simp
qed

text \<open>C5: \<open>registry_add\<close> implements insertion into the table of pending requests: it refuses, with
  \<open>-1\<close> and without effect, exactly when every index is pending; otherwise it picks an index that
  is not pending, stores the request there and nowhere else, keeps the invariant, and takes one
  reference to the future and to the file or socket.\<close>

theorem registry_add_inserts:
  assumes "reg_ok reg"
  shows "if dom (requests reg) = {0..<sint (reg_size reg)}
     then registry_add reg fut payload strategy opc file socket sockaddr msghdr w =
            Some (-1, reg, w)
     else \<exists>i reg'. registry_add reg fut payload strategy opc file socket sockaddr msghdr w =
              Some (i, reg', opt_incref file (opt_incref socket (py (Incref fut) w))) \<and>
            requests reg i = None \<and> 0 \<le> i \<and> i < sint (reg_size reg) \<and> reg_ok reg' \<and>
            requests reg' = (requests reg)
              (i \<mapsto> new_request i fut payload strategy opc file socket sockaddr msghdr)"
proof (cases "dom (requests reg) = {0..<sint (reg_size reg)}")
  case True
  with registry_add_refuses [OF assms True] show ?thesis by simp
next
  case False
  from registry_add_accepts [OF assms False] show ?thesis using False by (metis (no_types))
qed

theorem registry_add_inserts_witness:
  "\<exists>reg i reg' w w'. requests reg = Map.empty \<and>
     registry_add reg 900 0 ONESHOT IORING_OP_CLOSE None (Some 7) 0 0 (w :: bufst) =
       Some (i, reg', w') \<and> i \<in> {0, 1} \<and> dom (requests reg') = {i}"
proof -
  obtain reg w where reg: "reg_ok reg" "requests reg = Map.empty" "sint (reg_size reg) = 2"
    and "registry_new sample_env 2 sample_bufst = (Some reg, w)" by (rule sample_registry)
  have "{} \<noteq> {0..<2::int}" by (simp add: atLeastLessThan_empty_iff)
  with registry_add_inserts [OF reg(1), of 900 0 ONESHOT IORING_OP_CLOSE None "Some 7" 0 0 w] reg
  obtain i reg' w' where
    "registry_add reg 900 0 ONESHOT IORING_OP_CLOSE None (Some 7) 0 0 w = Some (i, reg', w')"
    "0 \<le> i" "i < 2" "dom (requests reg') = {i}" by auto
  moreover from this have "i \<in> {0, 1}" by auto
  ultimately show ?thesis using reg(2) by metis
qed

text \<open>C6: \<open>registry_remove\<close> implements deletion: of a pending request whose payload can be
  released it never aborts, deletes exactly that request, keeps the invariant, and gives back the
  references, the payload (unless an execution context owns it) and the message header, each
  exactly once.\<close>

theorem registry_remove_deletes:
  assumes "reg_ok reg" "requests reg i = Some s" "releasable w (buffer_payload s)"
  shows "\<exists>reg' w'. registry_remove reg i w = Some (reg', w') \<and> reg_ok reg' \<and>
     requests reg' = (requests reg)(i := None) \<and> bufst.more w' = bufst.more w \<and>
     payloads w' = freed_store w (buffer_payload s) \<and>
     (\<forall>r. ledger (hist w') r = ledger (hist w) r - slot_units w s r)"
  using registry_remove_pending [OF assms] by metis

theorem registry_remove_deletes_witness:
  "\<exists>reg i reg' w w'. requests reg i \<noteq> None \<and>
     registry_remove reg i (w :: bufst) = Some (reg', w') \<and> requests reg' i = None \<and>
     ledger (hist w') (Reference 900) = ledger (hist w) (Reference 900) - 1"
proof -
  obtain reg w where reg: "reg_ok reg" "requests reg = Map.empty" "sint (reg_size reg) = 2"
    and "registry_new sample_env 2 sample_bufst = (Some reg, w)" by (rule sample_registry)
  have "{} \<noteq> {0..<2::int}" by (simp add: atLeastLessThan_empty_iff)
  with reg have "dom (requests reg) \<noteq> {0..<sint (reg_size reg)}" by simp
  from registry_add_accepts [OF reg(1) this, of 900 0 ONESHOT IORING_OP_CLOSE None "Some 7" 0 0 w]
  obtain i reg' where "reg_ok reg'" "requests reg' = (requests reg)
      (i \<mapsto> new_request i 900 0 ONESHOT IORING_OP_CLOSE None (Some 7) 0 0)" by blast
  then have r: "reg_ok reg'"
    "requests reg' i = Some (new_request i 900 0 ONESHOT IORING_OP_CLOSE None (Some 7) 0 0)"
    by simp_all
  have "releasable w (buffer_payload (new_request i 900 0 ONESHOT IORING_OP_CLOSE None (Some 7) 0 0))"
    by (simp add: releasable_def new_request_def)
  from registry_remove_deletes [OF r this] obtain reg2 w2 where
    rem: "registry_remove reg' i w = Some (reg2, w2)" "requests reg2 = (requests reg')(i := None)"
    "\<And>r. ledger (hist w2) r = ledger (hist w) r -
       slot_units w (new_request i 900 0 ONESHOT IORING_OP_CLOSE None (Some 7) 0 0) r" by blast
  have "slot_units w (new_request i 900 0 ONESHOT IORING_OP_CLOSE None (Some 7) 0 0)
      (Reference 900) = 1"
    by (simp add: slot_units_def new_request_def ref_units_def freed_units_def split: option.split)
  with rem(3) [of "Reference 900"] rem(1,2) r(2) show ?thesis
    by (intro exI [of _ reg'] exI [of _ i] exI [of _ reg2] exI [of _ w] exI [of _ w2]) simp
qed

text \<open>C35: removing an index that is not pending.  Outside the table it does nothing; inside, it aborts the
  process whenever every index is free, and otherwise puts the index on the free stack a second
  time, which breaks the invariant, so that two later requests share one slot.\<close>

theorem registry_remove_needs_pending:
  "(i < 0 \<or> sint (reg_size reg) \<le> i \<longrightarrow> registry_remove reg i w = Some (reg, w)) \<and>
   (0 \<le> i \<and> i < sint (reg_size reg) \<and> registry_full reg \<longrightarrow> registry_remove reg i w = None) \<and>
   (reg_ok reg \<and> 0 \<le> i \<and> i < sint (reg_size reg) \<and> requests reg i = None \<and>
      \<not> registry_full reg \<longrightarrow>
      (\<exists>reg' w'. registry_remove reg i w = Some (reg', w') \<and> reg_free reg' = i # reg_free reg \<and>
         i \<in> set (reg_free reg) \<and> \<not> reg_ok reg'))"
  using registry_remove_idle [of reg i w] by (auto simp: registry_remove_def)

lemma sample_half_full:
  obtains reg i where "reg_ok reg" "0 \<le> i" "i < sint (reg_size reg)" "requests reg i = None"
    "\<not> registry_full reg"
proof -
  obtain reg w where reg: "reg_ok reg" "requests reg = Map.empty" "sint (reg_size reg) = 2"
    and "registry_new sample_env 2 sample_bufst = (Some reg, w)" by (rule sample_registry)
  have "{} \<noteq> {0..<2::int}" by (simp add: atLeastLessThan_empty_iff)
  with reg have "dom (requests reg) \<noteq> {0..<sint (reg_size reg)}" by simp
  from registry_add_accepts [OF reg(1) this, of 900 0 ONESHOT IORING_OP_CLOSE None "Some 7" 0 0 w]
  obtain i reg' where r: "0 \<le> i" "i < sint (reg_size reg)" "reg_ok reg'"
      "reg_size reg' = reg_size reg" "requests reg' = (requests reg)
      (i \<mapsto> new_request i 900 0 ONESHOT IORING_OP_CLOSE None (Some 7) 0 0)" by blast
  have "1 - i \<noteq> i" by presburger
  then have none: "requests reg' (1 - i) = None" using r(5) reg(2) by simp
  have st: "stack_ok (available_indices reg') (top reg') (reg_size reg')"
    using reg_okD(1) [OF r(3)] by (simp add: pool_ok_def)
  have "i \<in> req_pool.used reg'" using r(5) dom_requests [OF r(3)] by auto
  then have "i \<notin> set (stack_free (available_indices reg') (top reg'))"
    by (simp add: req_pool.used_def reg_free_def)
  from stack_room [OF st this] have "\<not> registry_full reg'" using r(1,2,4) by (simp add: registry_full_def)
  then show ?thesis using that [of reg' "1 - i"] none r reg(3) by simp
qed

theorem registry_remove_needs_pending_witness:
  "(\<exists>reg w. reg_ok reg \<and> registry_remove reg 0 (w :: bufst) = None \<and>
      registry_remove reg 7 w = Some (reg, w)) \<and>
   (\<exists>reg i reg' w w'. reg_ok reg \<and> requests reg i = None \<and>
      registry_remove reg i (w :: bufst) = Some (reg', w') \<and> \<not> distinct (reg_free reg') \<and>
      \<not> reg_ok reg')"
proof
  obtain reg w where new: "registry_new sample_env 2 sample_bufst = (Some reg, w)"
    and reg: "reg_ok reg" "sint (reg_size reg) = 2" by (rule sample_registry)
  from new have "top reg = 1" by (auto simp: registry_new_def c_malloc_def Let_def split: if_splits)
  with reg have "registry_full reg" by (simp add: registry_full_def)
  with reg registry_remove_needs_pending [of 0 reg w] registry_remove_needs_pending [of 7 reg w]
  have "registry_remove reg 0 w = None" "registry_remove reg 7 w = Some (reg, w)" by simp_all
  with reg(1) show "\<exists>reg w. reg_ok reg \<and> registry_remove reg 0 (w :: bufst) = None \<and>
      registry_remove reg 7 w = Some (reg, w)" by blast
next
  obtain reg i where r: "reg_ok reg" "0 \<le> i" "i < sint (reg_size reg)" "requests reg i = None"
    "\<not> registry_full reg" by (rule sample_half_full)
  with registry_remove_needs_pending [of i reg sample_bufst] obtain reg' w' where
    "registry_remove reg i sample_bufst = Some (reg', w')" "reg_free reg' = i # reg_free reg"
    "i \<in> set (reg_free reg)" "\<not> reg_ok reg'" by blast
  with r show "\<exists>reg i reg' w w'. reg_ok reg \<and> requests reg i = None \<and>
      registry_remove reg i (w :: bufst) = Some (reg', w') \<and> \<not> distinct (reg_free reg') \<and>
      \<not> reg_ok reg'" by (metis distinct.simps(2))
qed

text \<open>C33: destroying a registry when no payload is shared between slots gives back what its slots own
  (futures, files, sockets, payloads) and the tables themselves, except for the message headers
  and the peer addresses of pending requests: those it never frees.  When two slots share a
  payload, destroying is a double free (undefined).\<close>

theorem registry_destroy_releases:
  assumes "slots_addr reg \<noteq> 0" "avail_addr reg \<noteq> 0" "reg_addr reg \<noteq> 0"
    and "length (slots reg) = unat (reg_size reg)"
    and "\<And>q. q \<in> set (slot_payloads (slots reg)) \<Longrightarrow> \<exists>p. payloads w q = Some p \<and> payload_wf p"
  shows "if distinct (slot_payloads (slots reg))
     then \<exists>w'. registry_destroy (Some reg) w = Some w' \<and>
       (\<forall>r. ledger (hist w') r = ledger (hist w) r -
          ((\<Sum>s\<leftarrow>slots reg. owned_units w s r) - (\<Sum>s\<leftarrow>slots reg. leaked_units s r)) -
          of_bool (r = Block (slots_addr reg)) - of_bool (r = Block (avail_addr reg)) -
          of_bool (r = Block (reg_addr reg)))
     else registry_destroy (Some reg) w = None"
proof (cases "distinct (slot_payloads (slots reg))")
  case True
  from destroy_slots_ledger [OF True assms(5)] obtain w' where
    w': "destroy_slots (slots reg) w = Some w'"
    "\<And>r. ledger (hist w') r = ledger (hist w) r - (\<Sum>s\<leftarrow>slots reg. released_units w s r)" by blast
  have "(\<Sum>s\<leftarrow>slots reg. owned_units w s r) - (\<Sum>s\<leftarrow>slots reg. leaked_units s r) =
      (\<Sum>s\<leftarrow>slots reg. released_units w s r)" for r
    by (simp add: owned_units_def sum_list_addf)
  with True assms(1-4) w' show ?thesis by (simp add: registry_destroy_def)
next
  case False
  with assms(1,4) destroy_slots_shared [OF False, of w] show ?thesis by (simp add: registry_destroy_def)
qed

text \<open>A pending \<open>recvmsg\<close>: its future is given back, its message header is not.\<close>

theorem registry_destroy_releases_witness:
  "\<exists>w'. registry_destroy (Some \<lparr>reg_addr = 1, slots_addr = 2,
        slots = [new_request 0 900 0 ONESHOT IORING_OP_RECVMSG None (Some 7) 0 16],
        avail_addr = 3, available_indices = [0], top = -1, reg_size = 1\<rparr>) sample_bufst = Some w' \<and>
     ledger (hist w') (Reference 900) = -1 \<and> ledger (hist w') (Block 16) = 0 \<and>
     owned_units sample_bufst (new_request 0 900 0 ONESHOT IORING_OP_RECVMSG None (Some 7) 0 16)
       (Block 16) = 1"
proof -
  let ?r = "\<lparr>reg_addr = 1, slots_addr = 2,
      slots = [new_request 0 900 0 ONESHOT IORING_OP_RECVMSG None (Some 7) 0 16],
      avail_addr = 3, available_indices = [0], top = -1, reg_size = 1\<rparr> :: RequestRegistry"
  have nil: "slot_payloads (slots ?r) = []" by (simp add: new_request_def slot_payloads_def)
  from registry_destroy_releases [of ?r sample_bufst] nil show ?thesis
    by (auto simp: owned_units_def released_units_def leaked_units_def new_request_def ref_units_def)
qed

end
