(* ===== verification/Loop_State.thy ===== *)
theory Loop_State
  imports Complex_Main Ops_Contract Request_Registry
begin

text \<open>
  The state of a loop object and what the Python-facing functions share: \<open>UringioLoop\<close> of
  \<open>src/python_api/loop/loop.h\<close>, the file and socket objects, the guards of
  \<open>src/python_api/python_macroses.h\<close>, \<open>create_future\<close>, and the parsing of timer and timeout
  parameters (\<open>src/python_api/timer\<close>).

  A Python-facing function returns an object or \<open>NULL\<close>, which is an \<open>obj option\<close>, together with
  the new state; the exception that goes with \<open>NULL\<close> is an \<open>Err_set\<close> event.  The whole is
  \<open>None\<close> where the C code has undefined behaviour.  Arguments come as CPython's argument parser
  leaves them; where parsing fails the function returns \<open>NULL\<close> and changes nothing, so each model
  starts from parsed arguments, with the defaults of the source for the omitted ones.
\<close>

section \<open>Objects\<close>

text \<open>\<open>PyObject_GC_New\<close> does not initialise the fields: the descriptor of a file is \<open>None\<close> until the
  open completes.\<close>

record UringioFile =
  file_fd :: "int option"
  file_closed :: bool

record UringioSocket =
  sock_fd :: "int option"
  sock_domain :: "int option"
  sock_addr :: "ptr option"
  sock_closed :: bool

record ExecutionContext =
  ctx_buffer_mode :: BufferMode
  ctx_stream :: StreamStrategy
  ctx_transfer_mode :: TransferMode
  ctx_payload :: ptr

text \<open>The value of the context variable: unset, \<open>None\<close>, or a capsule object around the address of an
  \<open>ExecutionContext\<close>.  A token is its object and the value it remembers.\<close>

datatype ctx_value = Ctx_unset | Ctx_none | Ctx_capsule obj ptr

type_synonym ctx_token = "obj \<times> ctx_value"

text \<open>A \<open>sockaddr_storage\<close>: family, port in network order and the address as \<open>inet_pton\<close> wrote it (zero
  where nothing was written).  \<open>None\<close> in the store stands for memory the kernel fills in.\<close>

record sockaddr =
  sa_family :: int
  sa_port :: "16 word"
  sa_addr :: nat

text \<open>
  The module keeps one context variable and each file and socket refers to one loop: the
  state of that loop, the objects on it and the variable.  \<open>contexts\<close> is the heap of execution
  contexts, where \<open>None\<close> is memory that holds none (any more), and \<open>ctx_tokens\<close> are the tokens that
  have not been given up: with the variable they keep capsules alive.  The last fields are what the code reads
  and writes of asyncio's base loop, \<open>_ready\<close>, \<open>_scheduled\<close> and \<open>_stopping\<close>, and of its handles,
  \<open>_when\<close>, \<open>_cancelled\<close> and \<open>_scheduled\<close>.\<close>

record loopst = bufst +
  loop_obj :: obj
  ring :: ptr
  loop_tid :: int
  wakeup_fd :: int
  wakeup_buf :: ptr
  registry :: "RequestRegistry option"
  readers :: "obj option"
  writers :: "obj option"
  loop_context_var :: "obj option"
  initialized :: bool
  context_var :: "obj option"
  context_value :: ctx_value
  ctx_tokens :: "ctx_token list"
  contexts :: "ptr \<Rightarrow> ExecutionContext option"
  files :: "obj \<Rightarrow> UringioFile option"
  sockets :: "obj \<Rightarrow> UringioSocket option"
  addrs :: "ptr \<Rightarrow> sockaddr option"
  ready_q :: "obj list"
  scheduled_q :: "obj list"
  stopping :: bool
  handle_when :: "obj \<Rightarrow> rat"
  handle_cancelled :: "obj \<Rightarrow> bool"
  handle_scheduled :: "obj \<Rightarrow> bool"

type_synonym 'r api = "('r option \<times> loopst) option"

text \<open>Return \<open>NULL\<close> with an exception set.\<close>

definition raise_exc :: "pyexc \<Rightarrow> loopst \<Rightarrow> 'r api" where
  "raise_exc e w = Some (None, py (Err_set e) w)"

definition py_new :: "env \<Rightarrow> 'a ext_scheme \<Rightarrow> obj option \<times> 'a ext_scheme" where
  "py_new E w = (let x = e_new_object E (hist w) in (x, py (New_object x) w))"

text \<open>The two messages that all request functions share.\<close>

abbreviation sqe_unavailable :: pyexc where
  "sqe_unavailable \<equiv> RuntimeError (''SQE is not awailable'' @ [CHR 0x0A])"

abbreviation submission_failed :: pyexc where
  "submission_failed \<equiv> RuntimeError (''SQE submission failed'' @ [CHR 0x0A])"

section \<open>python\_macroses.h\<close>

text \<open>A message that \<open>PyErr_Format\<close> completes with an object's text is its constant part.\<close>

definition ASSERT_LOOP_THREAD :: "env \<Rightarrow> (loopst \<Rightarrow> 'r api) \<Rightarrow> loopst \<Rightarrow> 'r api" where
  "ASSERT_LOOP_THREAD E rest w =
     (if loop_tid w \<noteq> e_gettid E (hist w)
      then raise_exc (RuntimeError ''io_uring operation called from wrong thread'') w
      else rest w)"

definition ASSERT_RING_LOOP_IS_CLOSING :: "env \<Rightarrow> (loopst \<Rightarrow> 'r api) \<Rightarrow> loopst \<Rightarrow> 'r api" where
  "ASSERT_RING_LOOP_IS_CLOSING E rest w =
     (if e_loop_closed E (hist w)
      then raise_exc (RuntimeError ''Ring Event Loop is closing - '') w
      else rest w)"

text \<open>\<open>ASSERT_PYTHON_THREAD\<close>: the attribute \<open>_thread_id\<close>, the module \<open>threading\<close> and the result of
  \<open>get_ident\<close> are objects taken and given back in turn.\<close>

definition ASSERT_PYTHON_THREAD :: "env \<Rightarrow> (loopst \<Rightarrow> 'r api) \<Rightarrow> loopst \<Rightarrow> 'r api" where
  "ASSERT_PYTHON_THREAD E rest w =
     (let (thread_id, w) = py_new E w
      in case thread_id of
           None \<Rightarrow> Some (None, w)
         | Some t \<Rightarrow>
             let w = py (Decref t) w; (threading, w) = py_new E w
             in case threading of
                  None \<Rightarrow> Some (None, w)
                | Some m \<Rightarrow>
                    let (ident, w) = py_new E w; w = py (Decref m) w
                    in case ident of
                         None \<Rightarrow> Some (None, w)
                       | Some i \<Rightarrow>
                           let w = py (Decref i) w
                           in if \<not> e_same_thread E (hist w)
                              then raise_exc (RuntimeError ''Event loop called from wrong thread'') w
                              else rest w)"

section \<open>Exceptions of a body and of its close\<close>

text \<open>
  The two \<open>_raise_\<dots>_exception_group\<close> functions join the exception that the close left set
  (\<open>pending\<close>) with the one the body raised; with no exception set they raise the body's again.
  They return \<open>NULL\<close> always.  The references that the exception state, the list and the group own
  are theirs and not counted.
\<close>

definition raise_exception_group :: "env \<Rightarrow> bool \<Rightarrow> obj \<Rightarrow> loopst \<Rightarrow> 'r api" where
  "raise_exception_group E pending body_exc_val w =
     (if \<not> pending then raise_exc (Reraised body_exc_val) w
      else let (builtins, w) = py_new E w
           in case builtins of
                None \<Rightarrow> Some (None, w)
              | Some b \<Rightarrow>
                  let (eg_type, w) = py_new E w; w = py (Decref b) w
                  in case eg_type of
                       None \<Rightarrow> Some (None, w)
                     | Some g \<Rightarrow>
                         let (exc_list, w) = py_new E w
                         in case exc_list of
                              None \<Rightarrow> Some (None, py (Decref g) w)
                            | Some l \<Rightarrow>
                                let (eg, w) = py_new E w;
                                    w = py (Decref l) (py (Decref g) w)
                                in case eg of
                                     None \<Rightarrow> Some (None, w)
                                   | Some x \<Rightarrow>
                                       Some (None, py (Decref x) (py (Err_set ExceptionGroup) w)))"

section \<open>future.c\<close>

definition create_future :: "env \<Rightarrow> 'a ext_scheme \<Rightarrow> obj option \<times> 'a ext_scheme" where
  "create_future E w = (let x = e_create_future E (hist w) in (x, py (Create_future x) w))"

section \<open>timer/\_helpers.c\<close>

text \<open>A parameter object as \<open>PyDict_GetItemString\<close> and the type checks see it.  A Python
  \<open>bool\<close> passes \<open>PyLong_Check\<close>; an integer beyond 64 bits reads as \<open>-1\<close>.\<close>

datatype dict_value = D_int int | D_bool bool | D_other

datatype py_param = P_missing | P_none | P_dict "string \<Rightarrow> dict_value option" | P_other

fun as_long :: "dict_value option \<Rightarrow> int option" where
  "as_long (Some (D_int i)) = Some (if - (2 ^ 63) \<le> i \<and> i < 2 ^ 63 then i else -1)"
| "as_long (Some (D_bool b)) = Some (of_bool b)"
| "as_long _ = None"

fun as_bool :: "dict_value option \<Rightarrow> bool option" where
  "as_bool (Some (D_bool b)) = Some b"
| "as_bool _ = None"

definition parse_timer_params ::
    "py_param \<Rightarrow> StreamStrategy \<Rightarrow> TimerParams \<Rightarrow> 'a ext_scheme \<Rightarrow>
     int \<times> TimerParams \<times> 'a ext_scheme" where
  "parse_timer_params obj strategy out w =
     (case obj of
        P_missing \<Rightarrow> (-1, out, w)
      | P_none \<Rightarrow> (-1, out, w)
      | P_other \<Rightarrow> (-1, out, py (Err_set (TypeError ''timer_params must be a dict'')) w)
      | P_dict d \<Rightarrow>
          (case (as_long (d ''sec''), as_long (d ''nsec''), as_long (d ''count'')) of
             (Some s, Some n, Some c) \<Rightarrow>
               (1, out\<lparr>timer_sec := c_int s, timer_nsec := c_int n, timer_count := c_int c,
                       is_multishot :=
                         (case as_bool (d ''is_multishot'') of
                            Some b \<Rightarrow> strategy = MULTISHOT \<and> b
                          | None \<Rightarrow> False)\<rparr>, w)
           | _ \<Rightarrow> (-1, out, py (Err_set
                     (TypeError ''timer_params requires int fields: sec, nsec, count'')) w)))"

definition parse_timeout_params ::
    "py_param \<Rightarrow> TimeoutParams \<Rightarrow> 'a ext_scheme \<Rightarrow> int \<times> TimeoutParams \<times> 'a ext_scheme" where
  "parse_timeout_params obj out w =
     (case obj of
        P_missing \<Rightarrow> (0, out, w)
      | P_none \<Rightarrow> (0, out, w)
      | P_other \<Rightarrow> (-1, out, py (Err_set (TypeError ''timeout_params must be a dict'')) w)
      | P_dict d \<Rightarrow>
          (case as_long (d ''sec'') of
             None \<Rightarrow> (-1, out, py (Err_set (TypeError
                        ''timeout_params['sec'] is required and must be an int'')) w)
           | Some s \<Rightarrow>
               (case as_long (d ''nsec'') of
                  None \<Rightarrow> (-1, out, py (Err_set (TypeError
                             ''timeout_params['nsec'] is required and must be an int'')) w)
                | Some n \<Rightarrow>
                    (case as_bool (d ''is_required'') of
                       None \<Rightarrow> (-1, out, py (Err_set (TypeError
                                  ''timeout_params['is_required'] is required and must be a bool''))
                                  w)
                     | Some r \<Rightarrow>
                         (0, out\<lparr>sec := c_int s, nsec := c_int n, is_required := r\<rparr>, w)))))"

text \<open>\<open>TimeoutParams timeout_params = {0}; if (parse_timeout_params(obj, &timeout_params) < 0) return
  NULL;\<close> with which the request functions start.\<close>

definition with_timeout ::
    "py_param \<Rightarrow> (TimeoutParams \<Rightarrow> loopst \<Rightarrow> 'r api) \<Rightarrow> loopst \<Rightarrow> 'r api" where
  "with_timeout obj rest w =
     (let (r, tp, w) = parse_timeout_params obj no_timeout w
      in if r < 0 then Some (None, w) else rest tp w)"

text \<open>\<open>PyObject *future = create_future(loop); if (!future) return NULL;\<close>\<close>

definition with_future ::
    "env \<Rightarrow> (obj \<Rightarrow> loopst \<Rightarrow> 'r api) \<Rightarrow> loopst \<Rightarrow> 'r api" where
  "with_future E rest w =
     (let (f, w) = create_future E w
      in case f of None \<Rightarrow> Some (None, w) | Some fut \<Rightarrow> rest fut w)"

section \<open>Requests on the loop's registry\<close>

definition loop_registry_add ::
    "obj \<Rightarrow> ptr \<Rightarrow> StreamStrategy \<Rightarrow> Opcode \<Rightarrow> obj option \<Rightarrow> obj option \<Rightarrow> ptr \<Rightarrow> ptr \<Rightarrow> loopst \<Rightarrow>
     (int \<times> loopst) option" where
  "loop_registry_add fut payload strategy opc file socket sockaddr msghdr w = do {
     reg \<leftarrow> registry w;
     (idx, reg, w) \<leftarrow> registry_add reg fut payload strategy opc file socket sockaddr msghdr w;
     Some (idx, w\<lparr>registry := Some reg\<rparr>)
   }"

definition loop_registry_remove :: "int \<Rightarrow> loopst \<Rightarrow> loopst option" where
  "loop_registry_remove idx w = do {
     reg \<leftarrow> registry w;
     (reg, w) \<leftarrow> registry_remove reg idx w;
     Some (w\<lparr>registry := Some reg\<rparr>)
   }"

end
