(* ===== verification/Exec_Context.thy ===== *)
theory Exec_Context
  imports Loop_State
begin

text \<open>
  The buffer modes of the kernel (\<open>src/buffer_controllers/buffer_modes.c\<close>), the context variable
  (\<open>src/python_api/execution_context/contextvar.c\<close>), the four context managers
  (\<open>execution_context.c\<close>) and the two functions of \<open>buffers.c\<close> that look for a payload in the
  current context.  A context manager object is a record passed in and returned.
\<close>

section \<open>buffer\_modes.c\<close>

definition init_fixed_mode ::
    "env \<Rightarrow> ptr \<Rightarrow> 32 word \<Rightarrow> 'a ext_scheme \<Rightarrow> int \<times> 'a ext_scheme" where
  "init_fixed_mode E iov nr_iovecs w =
     (let result = e_register_buffers E (hist w);
          w = lu (Register_buffers iov nr_iovecs result) w
      in if result < 0 then (-1, w) else (1, w))"

definition close_fixed_mode :: "env \<Rightarrow> 'a ext_scheme \<Rightarrow> int \<times> 'a ext_scheme" where
  "close_fixed_mode E w =
     (let result = e_unregister_buffers E (hist w); w = lu (Unregister_buffers result) w
      in if result < 0 then (-1, w) else (1, w))"

text \<open>The two provided-buffer requests submit without user data.\<close>

definition init_provided_mode ::
    "env \<Rightarrow> ptr \<Rightarrow> int \<Rightarrow> int \<Rightarrow> int \<Rightarrow> 'a ext_scheme \<Rightarrow> int \<times> 'a ext_scheme" where
  "init_provided_mode E addr blen nr bg =
     SQE_WITH_OPTIONAL_TIMEOUT E None (\<lambda>sqe w.
       let w = lu (Prep sqe (Prep_provide_buffers addr blen nr bg 0)) w;
           (result, w) = io_uring_submit E w
       in if result < 0 then (-1, w) else (1, w))"

definition close_provided_mode ::
    "env \<Rightarrow> int \<Rightarrow> int \<Rightarrow> 'a ext_scheme \<Rightarrow> int \<times> 'a ext_scheme" where
  "close_provided_mode E nr bg =
     SQE_WITH_OPTIONAL_TIMEOUT E None (\<lambda>sqe w.
       let w = lu (Prep sqe (Prep_remove_buffers nr bg)) w;
           (result, w) = io_uring_submit E w
       in if result < 0 then (-1, w) else (1, w))"

definition init_buf_ring_mode ::
    "env \<Rightarrow> ptr \<Rightarrow> int \<Rightarrow> int \<Rightarrow> int \<Rightarrow> 'a ext_scheme \<Rightarrow> ptr \<times> 'a ext_scheme" where
  "init_buf_ring_mode E addr blen nentries bg w =
     (let buffer_ring = e_setup_buf_ring E (hist w);
          w = lu (Setup_buf_ring (word_of_int nentries) bg 0 buffer_ring) w
      in if buffer_ring = 0 then (0, w)
         else let w = lu (Buf_ring_init buffer_ring) w;
                  mask = e_buf_ring_mask E (word_of_int nentries);
                  w = fold (\<lambda>i. lu (Buf_ring_add buffer_ring (int addr + i * blen)
                              (word_of_int blen) (word_of_int i) mask i))
                        (map int [0..<nat nentries]) w
              in (buffer_ring, lu (Buf_ring_advance buffer_ring nentries) w))"

definition close_buf_ring_mode ::
    "ptr \<Rightarrow> int \<Rightarrow> int \<Rightarrow> 'a ext_scheme \<Rightarrow> int \<times> 'a ext_scheme" where
  "close_buf_ring_mode buffer_ring nentries bg w =
     (if buffer_ring = 0 then (-1, w)
      else (1, lu (Free_buf_ring buffer_ring (word_of_int nentries) bg) w))"

section \<open>contextvar.c\<close>

text \<open>
  CPython's \<open>ContextVar\<close>: \<open>set\<close> stores a value and returns a token that remembers the previous one,
  \<open>reset\<close> restores it, \<open>get\<close> fails when nothing is stored.
\<close>

abbreviation sizeof_ExecutionContext :: nat where "sizeof_ExecutionContext \<equiv> 24"

definition default_context :: ExecutionContext where
  "default_context = \<lparr>ctx_buffer_mode = NORMAL_BUF, ctx_stream = ONESHOT,
     ctx_transfer_mode = NORMAL_TRANSFER, ctx_payload = 0\<rparr>"

text \<open>Reading through a pointer to a context: undefined when it is null or the context was freed.\<close>

definition deref_ctx :: "loopst \<Rightarrow> ptr \<Rightarrow> ExecutionContext option" where
  "deref_ctx w p = (if p = 0 then None else contexts w p)"

definition write_ctx :: "ptr \<Rightarrow> (ExecutionContext \<Rightarrow> ExecutionContext) \<Rightarrow> loopst \<Rightarrow> loopst" where
  "write_ctx p f w = w\<lparr>contexts := (contexts w)(p := map_option f (contexts w p))\<rparr>"

text \<open>\<open>free_exec_context\<close>, the capsule's destructor.\<close>

definition free_exec_context :: "ptr \<Rightarrow> loopst \<Rightarrow> loopst" where
  "free_exec_context p w =
     (if p \<noteq> 0 then c_free p (w\<lparr>contexts := (contexts w)(p := None)\<rparr>) else w)"

text \<open>
  A capsule lives as long as the variable or a live token holds it.  When a holder lets go of a
  value that is not held any more, the destructor of the capsule runs.
\<close>

definition held_value :: "ctx_value \<Rightarrow> loopst \<Rightarrow> bool" where
  "held_value v w \<longleftrightarrow> context_value w = v \<or> v \<in> snd ` set (ctx_tokens w)"

definition let_go :: "ctx_value \<Rightarrow> loopst \<Rightarrow> loopst" where
  "let_go v w =
     (case v of Ctx_capsule k p \<Rightarrow> if held_value v w then w else free_exec_context p w | _ \<Rightarrow> w)"

text \<open>\<open>Py_DECREF\<close> of a token whose only reference it is.\<close>

definition give_up_token :: "ctx_token \<Rightarrow> loopst \<Rightarrow> loopst" where
  "give_up_token t w =
     let_go (snd t) ((py (Decref (fst t)) w)\<lparr>ctx_tokens := remove1 t (ctx_tokens w)\<rparr>)"

text \<open>The first part of \<open>ContextVar_init\<close>: find or make the variable.\<close>

definition context_var_object :: "env \<Rightarrow> loopst \<Rightarrow> obj option \<times> loopst" where
  "context_var_object E w =
     (case context_var w of
        Some v \<Rightarrow> (Some v, py (Incref v) w)
      | None \<Rightarrow>
          let (contextvars, w) = py_new E w
          in case contextvars of
               None \<Rightarrow> (None, w)
             | Some m \<Rightarrow>
                 let (cls, w) = py_new E w; w = py (Decref m) w
                 in case cls of
                      None \<Rightarrow> (None, w)
                    | Some c \<Rightarrow>
                        let (var, w) = py_new E w; w = py (Decref c) w
                        in (var, w\<lparr>context_var := var\<rparr>))"

definition ContextVar_init :: "env \<Rightarrow> loopst \<Rightarrow> obj option \<times> loopst" where
  "ContextVar_init E w =
     (let (var, w) = context_var_object E w
      in case var of
           None \<Rightarrow> (None, w)
         | Some v \<Rightarrow>
             let (p, w) = c_malloc E sizeof_ExecutionContext w
             in if p = 0 then (None, py (Err_set MemoryError) w)
                else let (capsule, w) = py_new E w
                     in case capsule of
                          None \<Rightarrow> (None, c_free p w)
                        | Some c \<Rightarrow>
                            let (token, w) = py_new E w
                            in case token of
                                 None \<Rightarrow> (None, free_exec_context p (py (Decref c) w))
                               | Some t \<Rightarrow>
                                   let old = context_value w;
                                       w = w\<lparr>context_value := Ctx_capsule c p,
                                             ctx_tokens := (t, old) # ctx_tokens w,
                                             contexts := (contexts w)(p \<mapsto> default_context)\<rparr>;
                                       w = py (Decref c) w
                                   in (Some v, give_up_token (t, old) w))"

definition ContextVar_set :: "env \<Rightarrow> ctx_value \<Rightarrow> loopst \<Rightarrow> ctx_token option \<times> loopst" where
  "ContextVar_set E v w =
     (if context_var w = None
      then (None, py (Err_set (RuntimeError ''ContextVar not initialized'')) w)
      else let (name, w) = py_new E w
           in case name of
                None \<Rightarrow> (None, w)
              | Some n \<Rightarrow>
                  let (token, w) = py_new E w; w = py (Decref n) w
                  in case token of
                       None \<Rightarrow> (None, w)
                     | Some t \<Rightarrow>
                         let old = context_value w
                         in (Some (t, old), w\<lparr>context_value := v,
                                             ctx_tokens := (t, old) # ctx_tokens w\<rparr>))"

definition ContextVar_reset :: "env \<Rightarrow> ctx_token option \<Rightarrow> loopst \<Rightarrow> int \<times> loopst" where
  "ContextVar_reset E token w =
     (if context_var w = None
      then (-1, py (Err_set (RuntimeError ''ContextVar not initialized'')) w)
      else let (name, w) = py_new E w
           in case name of
                None \<Rightarrow> (-1, w)
              | Some n \<Rightarrow>
                  (case token of
                     None \<Rightarrow> (-1, py (Decref n) w)
                   | Some (t, old) \<Rightarrow>
                       let (result, w) = py_new E w; w = py (Decref n) w
                       in case result of
                            None \<Rightarrow> (-1, w)
                          | Some r \<Rightarrow> (0, py (Decref r)
                                        (let_go (context_value w) (w\<lparr>context_value := old\<rparr>)))))"

definition ContextVar_get ::
    "env \<Rightarrow> ctx_value option \<Rightarrow> loopst \<Rightarrow> ptr option \<times> loopst" where
  "ContextVar_get E default_val w =
     (if context_var w = None
      then (None, py (Err_set (RuntimeError ''ContextVar not initialized'')) w)
      else let (name, w) = py_new E w
           in case name of
                None \<Rightarrow> (None, w)
              | Some n \<Rightarrow>
                  let w = py (Decref n) w;
                      v = (case context_value w of
                             Ctx_unset \<Rightarrow> (case default_val of None \<Rightarrow> Ctx_unset | Some d \<Rightarrow> d)
                           | v \<Rightarrow> v)
                  in case v of
                       Ctx_unset \<Rightarrow> (None, w)
                     | Ctx_none \<Rightarrow> (None, py (Err_set (TypeError
                                    ''execution_context_var does not hold a capsule'')) w)
                     | Ctx_capsule k p \<Rightarrow> (Some p, w))"

text \<open>The context a value of the variable leads to, and the current one.\<close>

definition pointee :: "loopst \<Rightarrow> ctx_value \<Rightarrow> ExecutionContext option" where
  "pointee w v = (case v of Ctx_capsule k p \<Rightarrow> deref_ctx w p | _ \<Rightarrow> None)"

definition current :: "loopst \<Rightarrow> ExecutionContext option" where
  "current w = pointee w (context_value w)"

text \<open>The three readers of the current context dereference what \<open>ContextVar_get\<close> returns, null or
  not, live or not.\<close>

definition current_field ::
    "env \<Rightarrow> (ExecutionContext \<Rightarrow> 'r) \<Rightarrow> loopst \<Rightarrow> ('r \<times> loopst) option" where
  "current_field E field w =
     (let (p, w) = ContextVar_get E None w
      in do { p \<leftarrow> p; c \<leftarrow> deref_ctx w p; Some (field c, w) })"

definition get_buffer :: "env \<Rightarrow> loopst \<Rightarrow> (ptr \<times> loopst) option" where
  "get_buffer E w = current_field E ctx_payload w"

definition get_transfer_mode :: "env \<Rightarrow> loopst \<Rightarrow> (TransferMode \<times> loopst) option" where
  "get_transfer_mode E w = current_field E ctx_transfer_mode w"

definition get_stream_strategy :: "env \<Rightarrow> loopst \<Rightarrow> (StreamStrategy \<times> loopst) option" where
  "get_stream_strategy E w = current_field E ctx_stream w"

definition clone_execution_context ::
    "env \<Rightarrow> ptr \<Rightarrow> loopst \<Rightarrow> ptr api" where
  "clone_execution_context E src w =
     (let (new_ctx, w) = c_malloc E sizeof_ExecutionContext w
      in if new_ctx = 0 then Some (None, py (Err_set MemoryError) w)
         else do {
           c \<leftarrow> deref_ctx w src;
           Some (Some new_ctx, w\<lparr>contexts := (contexts w)(new_ctx \<mapsto> c)\<rparr>)
         })"

section \<open>Payloads of the current context\<close>

definition drop_payload :: "ptr \<Rightarrow> 'a bufst_scheme \<Rightarrow> 'a bufst_scheme" where
  "drop_payload p w = (c_free p w)\<lparr>payloads := (payloads w)(p := None)\<rparr>"

definition is_null :: "'b pfield \<Rightarrow> bool option" where
  "is_null f = (case f of Wild \<Rightarrow> None | Null \<Rightarrow> Some True | To _ \<Rightarrow> Some False)"

definition get_or_create_linear_buffer ::
    "env \<Rightarrow> obj option \<Rightarrow> int \<Rightarrow> loopst \<Rightarrow> (ptr \<times> loopst) option" where
  "get_or_create_linear_buffer E buffers_obj bufsize w = do {
     (bp, w) \<leftarrow> get_buffer E w;
     reuse \<leftarrow> (if buffers_obj = None \<and> bp \<noteq> 0
       then do {
         p \<leftarrow> payloads w bp;
         pt \<leftarrow> payload_type p;
         if pt = PAYLOAD_LINEAR then map_option Not (is_null (linear p)) else Some False
       }
       else Some False);
     if reuse then Some (bp, w)
     else
       let (p, w) = malloc_payload E w
       in if p = 0 then Some (0, w)
          else (case buffers_obj of
                  Some b \<Rightarrow> do {
                    (ok, w) \<leftarrow> serialize_linear_buffers E b 1 p w;
                    Some (p, finish_payload 1 PAYLOAD_USER NORMAL_BUF PAYLOAD_LINEAR p w)
                  }
                | None \<Rightarrow> do {
                    (ok, w) \<leftarrow> create_linear_buffers E 1 bufsize p w;
                    Some (p, finish_payload 1 PAYLOAD_RUNTIME NORMAL_BUF PAYLOAD_LINEAR p w)
                  })
   }"

text \<open>\<open>(int)vectored_buffers->nr_vecs\<close>.\<close>

definition vector_count :: "BufferPayload \<Rightarrow> int option" where
  "vector_count p = (case vector p of To v \<Rightarrow> Some (sint (nr_vecs v)) | _ \<Rightarrow> None)"

definition get_or_create_vectored_buffer ::
    "env \<Rightarrow> obj option \<Rightarrow> loopst \<Rightarrow> (ptr \<times> loopst) option" where
  "get_or_create_vectored_buffer E buffers_obj w = do {
     (bp, w) \<leftarrow> get_buffer E w;
     reuse \<leftarrow> (if buffers_obj = None \<and> bp \<noteq> 0
       then do {
         p \<leftarrow> payloads w bp;
         pt \<leftarrow> payload_type p;
         if pt = PAYLOAD_IOVEC then map_option Not (is_null (vector p)) else Some False
       }
       else Some False);
     if reuse then Some (bp, w)
     else
       let (p, w) = malloc_payload E w
       in if p = 0 then Some (0, w)
          else do {
            let w = put_payload p zero_payload w;
            (origin, ok, w) \<leftarrow> (case buffers_obj of
               Some b \<Rightarrow> map_option (Pair PAYLOAD_USER) (serialize_vectored_buffers E b p w)
             | None \<Rightarrow> map_option (Pair PAYLOAD_RUNTIME) (create_vectored_buffers E 1 1024 p w));
            if \<not> ok then Some (0, drop_payload p w)
            else do {
              x \<leftarrow> payloads w p;
              n \<leftarrow> vector_count x;
              Some (p, finish_payload n origin NORMAL_BUF PAYLOAD_IOVEC p w)
            }
          }
   }"

section \<open>execution\_context.c: making the managers\<close>

text \<open>The enumerations arrive as C \<open>int\<close>s; a value outside the enumeration is refused.\<close>

definition validate_buffer_mode :: "int \<Rightarrow> 'a ext_scheme \<Rightarrow> BufferMode \<times> 'a ext_scheme" where
  "validate_buffer_mode m w =
     (if m = 0 then (NORMAL_BUF, w) else if m = 1 then (FIXED, w)
      else if m = 2 then (PROVIDED, w) else if m = 3 then (BUF_RING, w)
      else (BUF_NO_VAL, py (Err_set (ValueError ''Wrong value for buffer mode'')) w))"

definition validate_payload_type :: "int \<Rightarrow> 'a ext_scheme \<Rightarrow> PayloadType \<times> 'a ext_scheme" where
  "validate_payload_type t w =
     (if t = 0 then (PAYLOAD_LINEAR, w) else if t = 1 then (PAYLOAD_IOVEC, w)
      else if t = 2 then (PAYLOAD_LINEAR_AND_IOVEC, w)
      else (PAYLOAD_TYPE_NO_VAL, py (Err_set (ValueError ''Wrong value for payload type'')) w))"

definition stream_of_int :: "int \<Rightarrow> StreamStrategy option" where
  "stream_of_int s = (if s = 0 then Some ONESHOT else if s = 1 then Some MULTISHOT else None)"

definition transfer_of_int :: "int \<Rightarrow> TransferMode option" where
  "transfer_of_int t =
     (if t = 0 then Some NORMAL_TRANSFER else if t = 1 then Some ZERO_COPY else None)"

text \<open>The token of the stream and transfer managers is not initialised before \<open>__enter__\<close>.\<close>

record BufferModeCtx =
  bm_obj :: obj
  bm_mode :: BufferMode
  bm_token :: "ctx_token pfield"
  bm_payload :: ptr

record StreamStrategyCtx =
  ss_obj :: obj
  ss_stream :: StreamStrategy
  ss_token :: "ctx_token pfield"

record TransferModeCtx =
  tm_obj :: obj
  tm_mode :: TransferMode
  tm_token :: "ctx_token pfield"

record ExecutionContextCtx =
  ec_obj :: obj
  ec_context :: ptr
  ec_token :: "ctx_token pfield"
  ec_payload :: ptr

definition UringioLoop_buffer_mode ::
    "env \<Rightarrow> int \<Rightarrow> obj option \<Rightarrow> int \<Rightarrow> int \<Rightarrow> int \<Rightarrow> loopst \<Rightarrow> BufferModeCtx api" where
  "UringioLoop_buffer_mode E m buffers_obj pt amt bufsize =
     ASSERT_LOOP_THREAD E (ASSERT_RING_LOOP_IS_CLOSING E (\<lambda>w.
       let (buffer_mode, w) = validate_buffer_mode m w
       in if buffer_mode = BUF_NO_VAL then Some (None, w)
          else let (ptype, w) = validate_payload_type pt w
               in if ptype = PAYLOAD_TYPE_NO_VAL then Some (None, w)
                  else do {
                    (bp, w) \<leftarrow> create_buffer_payload E buffer_mode ptype buffers_obj amt bufsize w;
                    if bp = 0 then Some (None, w)
                    else let (self, w) = py_new E w
                         in case self of
                              None \<Rightarrow> do {
                                w \<leftarrow> free_buffer_payload bp True w;
                                raise_exc MemoryError w
                              }
                            | Some s \<Rightarrow> Some (Some \<lparr>bm_obj = s, bm_mode = buffer_mode,
                                         bm_token = Null, bm_payload = bp\<rparr>, w)
                  }))"

definition UringioLoop_stream_strategy ::
    "env \<Rightarrow> int \<Rightarrow> loopst \<Rightarrow> StreamStrategyCtx api" where
  "UringioLoop_stream_strategy E s =
     ASSERT_LOOP_THREAD E (ASSERT_RING_LOOP_IS_CLOSING E (\<lambda>w.
       case stream_of_int s of
         None \<Rightarrow> raise_exc (ValueError ''Wrong value for stream strategy'') w
       | Some strategy \<Rightarrow>
           let (self, w) = py_new E w
           in case self of
                None \<Rightarrow> raise_exc MemoryError w
              | Some o1 \<Rightarrow> Some (Some \<lparr>ss_obj = o1, ss_stream = strategy, ss_token = Wild\<rparr>, w)))"

definition UringioLoop_transfer_mode ::
    "env \<Rightarrow> int \<Rightarrow> loopst \<Rightarrow> TransferModeCtx api" where
  "UringioLoop_transfer_mode E t =
     ASSERT_LOOP_THREAD E (ASSERT_RING_LOOP_IS_CLOSING E (\<lambda>w.
       case transfer_of_int t of
         None \<Rightarrow> raise_exc (ValueError ''Wrong value for transfer mode'') w
       | Some m \<Rightarrow>
           let (self, w) = py_new E w
           in case self of
                None \<Rightarrow> raise_exc MemoryError w
              | Some o1 \<Rightarrow> Some (Some \<lparr>tm_obj = o1, tm_mode = m, tm_token = Wild\<rparr>, w)))"

definition UringioLoop_execution_context ::
    "env \<Rightarrow> int \<Rightarrow> int \<Rightarrow> int \<Rightarrow> obj option \<Rightarrow> int \<Rightarrow> int \<Rightarrow> int \<Rightarrow> loopst \<Rightarrow>
     ExecutionContextCtx api" where
  "UringioLoop_execution_context E m s t buffers_obj pt amt bufsize =
     ASSERT_LOOP_THREAD E (ASSERT_RING_LOOP_IS_CLOSING E (\<lambda>w.
       let (buffer_mode, w) = validate_buffer_mode m w
       in if buffer_mode = BUF_NO_VAL then Some (None, w)
          else let (ptype, w) = validate_payload_type pt w
               in if ptype = PAYLOAD_TYPE_NO_VAL then Some (None, w)
                  else do {
                    (bp, w) \<leftarrow> create_buffer_payload E buffer_mode ptype buffers_obj amt bufsize w;
                    if bp = 0 then Some (None, w)
                    else (case stream_of_int s of
                            None \<Rightarrow> raise_exc (ValueError ''Wrong value for stream strategy'') w
                          | Some strategy \<Rightarrow>
                      (case transfer_of_int t of
                         None \<Rightarrow> raise_exc (ValueError ''Wrong value for transfer mode'') w
                       | Some tmode \<Rightarrow>
                      (let (self, w) = py_new E w
                       in case self of
                            None \<Rightarrow> raise_exc MemoryError w
                          | Some o1 \<Rightarrow>
                              let w = py (Incref (loop_obj w)) w;
                                  (p, w) = c_malloc E sizeof_ExecutionContext w
                              in if p = 0
                                 then Some (None, py (Decref o1) (py (Err_set MemoryError) w))
                                 else let w = w\<lparr>contexts := (contexts w)(p \<mapsto>
                                            \<lparr>ctx_buffer_mode = buffer_mode, ctx_stream = strategy,
                                             ctx_transfer_mode = tmode, ctx_payload = bp\<rparr>)\<rparr>
                                      in Some (Some \<lparr>ec_obj = o1, ec_context = p,
                                           ec_token = Null, ec_payload = bp\<rparr>, w))))
                  }))"

section \<open>execution\_context.c: entering and leaving\<close>

text \<open>\<open>switch (self->buffer_payload->mode)\<close> of the two \<open>__enter__\<close> functions that carry a payload:
  the result says whether the mode could be set up, and if not which message goes with it.\<close>

definition linear_head :: "BufferPayload \<Rightarrow> LinearBuffer option" where
  "linear_head p = (case linear p of To la \<Rightarrow> (case la_elems la of b # _ \<Rightarrow> Some b | [] \<Rightarrow> None)
                    | _ \<Rightarrow> None)"

definition fail_enter ::
    "env \<Rightarrow> ctx_token \<Rightarrow> string \<Rightarrow> loopst \<Rightarrow> (bool \<times> loopst) option" where
  "fail_enter E token msg w =
     (let (_, w) = ContextVar_reset E (Some token) w; w = give_up_token token w
      in Some (False, py (Err_set (RuntimeWarning msg)) w))"

definition enter_mode ::
    "env \<Rightarrow> ctx_token \<Rightarrow> ptr \<Rightarrow> loopst \<Rightarrow> (bool \<times> loopst) option" where
  "enter_mode E token bp w = do {
     p \<leftarrow> payloads w bp;
     m \<leftarrow> mode p;
     (case m of
        FIXED \<Rightarrow> (case vector p of
            To v \<Rightarrow>
              let (r, w) = init_fixed_mode E (iovecs_addr v) (nr_vecs v) w
              in if r < 0 then fail_enter E token ''Can not initialize fixed buffers'' w
                 else do {
                   n \<leftarrow> amount p;
                   let (reg, w) = buffer_idx_registry_create E (word_of_int n) w;
                   (case reg of
                      None \<Rightarrow> fail_enter E token ''Can not initialize provided buffers'' w
                    | Some r \<Rightarrow> Some (True, upd_payload bp (\<lambda>x. x\<lparr>idx_registry := To r,
                                  vector := Null, payload_type := Some PAYLOAD_LINEAR\<rparr>) w))
                 }
          | _ \<Rightarrow> None)
      | PROVIDED \<Rightarrow> do {
          b \<leftarrow> linear_head p;
          n \<leftarrow> amount p;
          g \<leftarrow> bgid p;
          let (r, w) = init_provided_mode E (buffer b) (c_int (int (len b))) n g w;
          if r < 0
          then let w = py (Err_set (RuntimeWarning ''Can not initialize provided buffers'')) w;
                   (_, w) = ContextVar_reset E (Some token) w
               in Some (False, give_up_token token w)
          else Some (True, w)
        }
      | BUF_RING \<Rightarrow> do {
          b \<leftarrow> linear_head p;
          n \<leftarrow> amount p;
          g \<leftarrow> bgid p;
          let (br, w) = init_buf_ring_mode E (buffer b) (c_int (int (len b))) n g w;
          Some (True, upd_payload bp (\<lambda>x. x\<lparr>buf_ring := Some br\<rparr>) w)
        }
      | _ \<Rightarrow> Some (True, w))
   }"

text \<open>
  Storing a new context: capsule, \<open>ContextVar_set\<close>, and the reference to the capsule given up.
  When the variable cannot be set, giving up the last reference runs the capsule's destructor;
  with \<open>again\<close> the caller then frees the same context itself.
\<close>

definition store_context ::
    "env \<Rightarrow> bool \<Rightarrow> bool \<Rightarrow> ptr \<Rightarrow> loopst \<Rightarrow> ctx_token option \<times> loopst" where
  "store_context E free_no_capsule again p w =
     (let (capsule, w) = py_new E w
      in case capsule of
           None \<Rightarrow> (None, if free_no_capsule then c_free p w else w)
         | Some k \<Rightarrow>
             let (token, w) = ContextVar_set E (Ctx_capsule k p) w; w = py (Decref k) w
             in case token of
                  None \<Rightarrow> (None, let w = free_exec_context p w in if again then c_free p w else w)
                | Some t \<Rightarrow> (Some t, w))"

definition BufferModeCtx_enter ::
    "env \<Rightarrow> BufferModeCtx \<Rightarrow> loopst \<Rightarrow> BufferModeCtx api" where
  "BufferModeCtx_enter E self w =
     (let (cur, w) = ContextVar_get E None w
      in case cur of
           None \<Rightarrow> Some (None, w)
         | Some src \<Rightarrow> do {
             (new, w) \<leftarrow> clone_execution_context E src w;
             (case new of
                None \<Rightarrow> Some (None, w)
              | Some p \<Rightarrow>
                  let w = write_ctx p (\<lambda>c. c\<lparr>ctx_buffer_mode := bm_mode self,
                              ctx_payload := bm_payload self\<rparr>) w;
                      (token, w) = store_context E False True p w
                  in case token of
                       None \<Rightarrow> Some (None, w)
                     | Some t \<Rightarrow> do {
                         (ok, w) \<leftarrow> enter_mode E t (bm_payload self) w;
                         Some (if ok then (Some (self\<lparr>bm_token := To t\<rparr>),
                                           py (Incref (bm_obj self)) w)
                               else (None, w))
                       })
           })"

definition StreamStrategyCtx_enter ::
    "env \<Rightarrow> StreamStrategyCtx \<Rightarrow> loopst \<Rightarrow> StreamStrategyCtx api" where
  "StreamStrategyCtx_enter E self w =
     (let (cur, w) = ContextVar_get E None w
      in case cur of
           None \<Rightarrow> Some (None, w)
         | Some src \<Rightarrow> do {
             (new, w) \<leftarrow> clone_execution_context E src w;
             (case new of
                None \<Rightarrow> Some (None, w)
              | Some p \<Rightarrow>
                  let w = write_ctx p (\<lambda>c. c\<lparr>ctx_stream := ss_stream self\<rparr>) w;
                      (token, w) = store_context E True True p w
                  in case token of
                       None \<Rightarrow> Some (None, w)
                     | Some t \<Rightarrow> Some (Some (self\<lparr>ss_token := To t\<rparr>), py (Incref (ss_obj self)) w))
           })"

definition TransferModeCtx_enter ::
    "env \<Rightarrow> TransferModeCtx \<Rightarrow> loopst \<Rightarrow> TransferModeCtx api" where
  "TransferModeCtx_enter E self w =
     (let (cur, w) = ContextVar_get E None w
      in case cur of
           None \<Rightarrow> Some (None, w)
         | Some src \<Rightarrow> do {
             (new, w) \<leftarrow> clone_execution_context E src w;
             (case new of
                None \<Rightarrow> Some (None, w)
              | Some p \<Rightarrow>
                  let w = write_ctx p (\<lambda>c. c\<lparr>ctx_transfer_mode := tm_mode self\<rparr>) w;
                      (token, w) = store_context E True True p w
                  in case token of
                       None \<Rightarrow> Some (None, w)
                     | Some t \<Rightarrow> Some (Some (self\<lparr>tm_token := To t\<rparr>), py (Incref (tm_obj self)) w))
           })"

definition ExecutionContextCtx_enter ::
    "env \<Rightarrow> ExecutionContextCtx \<Rightarrow> loopst \<Rightarrow> ExecutionContextCtx api" where
  "ExecutionContextCtx_enter E self w =
     (let (capsule, w) = py_new E w
      in case capsule of
           None \<Rightarrow> Some (None, w)
         | Some k \<Rightarrow>
             let (token, w) = ContextVar_set E (Ctx_capsule k (ec_context self)) w;
                 w = py (Decref k) w
             in case token of
                  None \<Rightarrow> raise_exc (ValueError ''Error while setting contextvar'')
                            (free_exec_context (ec_context self) w)
                | Some t \<Rightarrow> do {
                    (ok, w) \<leftarrow> enter_mode E t (ec_payload self) w;
                    Some (if ok then (Some (self\<lparr>ec_token := To t\<rparr>),
                                      py (Incref (ec_obj self)) w)
                          else (None, w))
                  })"

text \<open>\<open>ContextVar_reset(self->token); Py_CLEAR(self->token); if (result < 0) \<dots>\<close>; an exit without an
  enter reads an uninitialised token.\<close>

definition reset_token :: "env \<Rightarrow> ctx_token pfield \<Rightarrow> loopst \<Rightarrow> (bool \<times> loopst) option" where
  "reset_token E token w =
     (case token of
        Wild \<Rightarrow> None
      | Null \<Rightarrow>
          let (result, w) = ContextVar_reset E None w
          in Some (if result < 0
                   then (False, py (Err_set (ValueError ''Error while resetting contextvar'')) w)
                   else (True, w))
      | To t \<Rightarrow>
          let (result, w) = ContextVar_reset E (Some t) w; w = give_up_token t w
          in Some (if result < 0
                   then (False, py (Err_set (ValueError ''Error while resetting contextvar'')) w)
                   else (True, w)))"

text \<open>The exits return Python's \<open>False\<close> (here the value \<open>False\<close>) or \<open>NULL\<close>.\<close>

definition exit_mode :: "env \<Rightarrow> ptr \<Rightarrow> loopst \<Rightarrow> loopst option" where
  "exit_mode E bp w = do {
     p \<leftarrow> payloads w bp;
     m \<leftarrow> mode p;
     (case m of
        FIXED \<Rightarrow>
          let (_, w) = close_fixed_mode E w
          in (case idx_registry p of
                To r \<Rightarrow> let (r, w) = buffer_idx_registry_destroy r w
                       in Some (upd_payload bp (\<lambda>x. x\<lparr>idx_registry := To r\<rparr>) w)
              | Null \<Rightarrow> None
              | Wild \<Rightarrow> None)
      | PROVIDED \<Rightarrow> do {
          n \<leftarrow> amount p;
          g \<leftarrow> bgid p;
          let (_, w) = close_provided_mode E n g w;
          Some w
        }
      | BUF_RING \<Rightarrow> do {
          n \<leftarrow> amount p;
          g \<leftarrow> bgid p;
          br \<leftarrow> buf_ring p;
          let (_, w) = close_buf_ring_mode br n g w;
          Some (upd_payload bp (\<lambda>x. x\<lparr>buf_ring := Some 0\<rparr>) w)
        }
      | _ \<Rightarrow> Some w)
   }"

definition BufferModeCtx_exit ::
    "env \<Rightarrow> BufferModeCtx \<Rightarrow> loopst \<Rightarrow> (BufferModeCtx \<times> bool option \<times> loopst) option" where
  "BufferModeCtx_exit E self w = do {
     (ok, w) \<leftarrow> reset_token E (bm_token self) w;
     let self = self\<lparr>bm_token := Null\<rparr>;
     if \<not> ok then Some (self, None, w)
     else do {
       w \<leftarrow> exit_mode E (bm_payload self) w;
       Some (self, Some False, w)
     }
   }"

definition StreamStrategyCtx_exit ::
    "env \<Rightarrow> StreamStrategyCtx \<Rightarrow> loopst \<Rightarrow> (StreamStrategyCtx \<times> bool option \<times> loopst) option" where
  "StreamStrategyCtx_exit E self w = do {
     (ok, w) \<leftarrow> reset_token E (ss_token self) w;
     Some (self\<lparr>ss_token := Null\<rparr>, if ok then Some False else None, w)
   }"

definition TransferModeCtx_exit ::
    "env \<Rightarrow> TransferModeCtx \<Rightarrow> loopst \<Rightarrow> (TransferModeCtx \<times> bool option \<times> loopst) option" where
  "TransferModeCtx_exit E self w = do {
     (ok, w) \<leftarrow> reset_token E (tm_token self) w;
     Some (self\<lparr>tm_token := Null\<rparr>, if ok then Some False else None, w)
   }"

definition ExecutionContextCtx_exit ::
    "env \<Rightarrow> ExecutionContextCtx \<Rightarrow> loopst \<Rightarrow>
     (ExecutionContextCtx \<times> bool option \<times> loopst) option" where
  "ExecutionContextCtx_exit E self w = do {
     (ok, w) \<leftarrow> reset_token E (ec_token self) w;
     Some (self\<lparr>ec_token := Null\<rparr>, if ok then Some False else None, w)
   }"

end
