(* ===== verification/File_Api.thy ===== *)
theory File_Api
  imports Exec_Context
begin

text \<open>
  The file object (\<open>src/python_api/ops/files\<close>): its dispatchers, which choose the C-layer operation
  by the buffer mode of the payload, and its methods.  Every method ends in \<open>file_request\<close>: register
  the request, run the operation, and undo the registration when it was not submitted.
\<close>

section \<open>file\_ops\_dispatcher.c\<close>

definition file_fd_of :: "loopst \<Rightarrow> obj \<Rightarrow> int option" where
  "file_fd_of w self = Option.bind (files w self) file_fd"

definition vector_of :: "BufferPayload \<Rightarrow> VectoredBuffer option" where
  "vector_of p = (case vector p of To v \<Rightarrow> Some v | _ \<Rightarrow> None)"

text \<open>\<open>buf_idx = get_buffer_idx(payload->idx_registry); payload->buf_idx = buf_idx;\<close>\<close>

definition take_buffer_index ::
    "ptr \<Rightarrow> BufferPayload \<Rightarrow> 'a bufst_scheme \<Rightarrow> (int \<times> 'a bufst_scheme) option" where
  "take_buffer_index bp p w =
     (case idx_registry p of
        To r \<Rightarrow> do {
          (i, r) \<leftarrow> get_buffer_idx r;
          Some (i, upd_payload bp (\<lambda>x. x\<lparr>idx_registry := To r, buf_idx := Some i\<rparr>) w)
        }
      | _ \<Rightarrow> None)"

definition read_dispatcher ::
    "env \<Rightarrow> obj \<Rightarrow> ptr \<Rightarrow> StreamStrategy \<Rightarrow> int \<Rightarrow> int \<Rightarrow> int \<Rightarrow> TimeoutParams \<Rightarrow> loopst \<Rightarrow>
     (int \<times> loopst) option" where
  "read_dispatcher E self bp stream request_idx sz offset tp w = do {
     p \<leftarrow> payloads w bp;
     m \<leftarrow> mode p;
     fd \<leftarrow> file_fd_of w self;
     (case m of
        FIXED \<Rightarrow> do {
          (i, w) \<leftarrow> take_buffer_index bp p w;
          b \<leftarrow> linear_head p;
          Some (uringio_read_fixed E request_idx fd (buffer b) (word_of_int sz) offset i tp w)
        }
      | PROVIDED \<Rightarrow> do {
          g \<leftarrow> bgid p;
          Some (if stream = MULTISHOT then uringio_read_multishot E request_idx fd offset g tp w
                else uringio_read_buffer_select E request_idx fd (word_of_int sz) offset g tp w)
        }
      | BUF_RING \<Rightarrow> do {
          g \<leftarrow> bgid p;
          Some (if stream = MULTISHOT then uringio_read_multishot E request_idx fd offset g tp w
                else uringio_read_buffer_select E request_idx fd (word_of_int sz) offset g tp w)
        }
      | _ \<Rightarrow> do {
          b \<leftarrow> linear_head p;
          Some (uringio_read E request_idx fd (buffer b) (word_of_int sz) offset tp w)
        })
   }"

definition readv_dispatcher ::
    "env \<Rightarrow> obj \<Rightarrow> ptr \<Rightarrow> int \<Rightarrow> int \<Rightarrow> int \<Rightarrow> TimeoutParams \<Rightarrow> loopst \<Rightarrow> (int \<times> loopst) option" where
  "readv_dispatcher E self bp request_idx offset nowait tp w = do {
     p \<leftarrow> payloads w bp;
     m \<leftarrow> mode p;
     fd \<leftarrow> file_fd_of w self;
     (if m = PROVIDED \<or> m = BUF_RING
      then do {
        b \<leftarrow> linear_head p;
        g \<leftarrow> bgid p;
        Some (uringio_readv_buffer_select E request_idx fd (word_of_nat (len b)) offset g nowait tp w)
      }
      else do {
        v \<leftarrow> vector_of p;
        Some (uringio_readv E request_idx fd (iovecs_addr v) (nr_vecs v) offset nowait tp w)
      })
   }"

definition write_dispatcher ::
    "env \<Rightarrow> obj \<Rightarrow> ptr \<Rightarrow> int \<Rightarrow> int \<Rightarrow> TimeoutParams \<Rightarrow> loopst \<Rightarrow> (int \<times> loopst) option" where
  "write_dispatcher E self bp request_idx offset tp w = do {
     p \<leftarrow> payloads w bp;
     m \<leftarrow> mode p;
     fd \<leftarrow> file_fd_of w self;
     (if m = FIXED
      then do {
        (i, w) \<leftarrow> take_buffer_index bp p w;
        b \<leftarrow> linear_head p;
        Some (uringio_write_fixed E request_idx fd (buffer b) (word_of_nat (len b)) offset i tp w)
      }
      else do {
        b \<leftarrow> linear_head p;
        Some (uringio_write E request_idx fd (buffer b) (word_of_nat (len b)) offset tp w)
      })
   }"

section \<open>files.c\<close>

definition check_file_result :: "int \<Rightarrow> int \<Rightarrow> obj \<Rightarrow> loopst \<Rightarrow> obj api" where
  "check_file_result result request_idx fut w =
     (if result < 1
      then do {
        let w = (if result = -1
                 then py (Err_set sqe_unavailable) w
                 else if result = 0
                 then py (Err_set submission_failed) w
                 else w);
        let w = py (Decref fut) w;
        w \<leftarrow> loop_registry_remove request_idx w;
        Some (None, w)
      }
      else Some (Some fut, w))"

text \<open>From \<open>registry_add\<close> to the end of a method; \<open>free_buffer_payload\<close> of a null payload does
  nothing, so methods without a payload fit too.\<close>

definition file_request ::
    "obj \<Rightarrow> obj \<Rightarrow> ptr \<Rightarrow> StreamStrategy \<Rightarrow> Opcode \<Rightarrow> (int \<Rightarrow> loopst \<Rightarrow> (int \<times> loopst) option) \<Rightarrow>
     loopst \<Rightarrow> obj api" where
  "file_request self fut bp strategy opc run w = do {
     (request_idx, w) \<leftarrow> loop_registry_add fut bp strategy opc (Some self) None 0 0 w;
     if request_idx < 0
     then do {
       w \<leftarrow> free_buffer_payload bp False (py (Decref fut) w);
       raise_exc (RuntimeError ''Registry is full'') w
     }
     else do {
       (result, w) \<leftarrow> run request_idx w;
       check_file_result result request_idx fut w
     }
   }"

text \<open>The guards every method starts with.\<close>

definition file_guard :: "env \<Rightarrow> obj \<Rightarrow> (loopst \<Rightarrow> 'r api) \<Rightarrow> loopst \<Rightarrow> 'r api" where
  "file_guard E self rest =
     ASSERT_LOOP_THREAD E (ASSERT_RING_LOOP_IS_CLOSING E (\<lambda>w. do {
       f \<leftarrow> files w self;
       if file_closed f then raise_exc (BrokenPipeError ''File is closed'') w else rest w
     }))"

text \<open>\<open>create_future\<close> in the methods that hold a payload already.\<close>

definition with_future_or_free ::
    "env \<Rightarrow> ptr \<Rightarrow> (obj \<Rightarrow> loopst \<Rightarrow> 'r api) \<Rightarrow> loopst \<Rightarrow> 'r api" where
  "with_future_or_free E bp rest w =
     (let (f, w) = create_future E w
      in case f of
           None \<Rightarrow> map_option (Pair None) (free_buffer_payload bp False w)
         | Some fut \<Rightarrow> rest fut w)"

definition UringioFile_read ::
    "env \<Rightarrow> obj \<Rightarrow> int \<Rightarrow> int \<Rightarrow> py_param \<Rightarrow> loopst \<Rightarrow> obj api" where
  "UringioFile_read E self offset size_i tobj =
     file_guard E self (with_timeout tobj (\<lambda>tp. with_future E (\<lambda>fut w. do {
       (bp, w) \<leftarrow> get_or_create_linear_buffer E None size_i w;
       if bp = 0 then Some (None, py (Decref fut) w)
       else do {
         (strategy, w) \<leftarrow> get_stream_strategy E w;
         file_request self fut bp strategy IORING_OP_READ
           (\<lambda>i w. read_dispatcher E self bp strategy i size_i offset tp w) w
       }
     })))"

definition UringioFile_readv ::
    "env \<Rightarrow> obj \<Rightarrow> obj option \<Rightarrow> int \<Rightarrow> int \<Rightarrow> py_param \<Rightarrow> loopst \<Rightarrow> obj api" where
  "UringioFile_readv E self buffers_obj offset nowait tobj =
     file_guard E self (with_timeout tobj (\<lambda>tp w. do {
       (bp, w) \<leftarrow> get_buffer E w;
       select \<leftarrow> (if bp = 0 then Some False
         else do {
           p \<leftarrow> payloads w bp;
           m \<leftarrow> mode p;
           Some (m = PROVIDED \<or> m = BUF_RING)
         });
       (bp, w) \<leftarrow> (if select then Some (bp, w) else get_or_create_vectored_buffer E buffers_obj w);
       if bp = 0 then Some (None, w)
       else with_future_or_free E bp (\<lambda>fut w.
              file_request self fut bp ONESHOT IORING_OP_READV
                (\<lambda>i w. readv_dispatcher E self bp i offset nowait tp w) w) w
     }))"

text \<open>The raw variants take an object whose buffer is an array of \<open>iovec\<close>s; \<open>contiguous\<close> is what
  \<open>PyBuffer_IsContiguous\<close> says of it.\<close>

definition raw_run ::
    "(env \<Rightarrow> int \<Rightarrow> int \<Rightarrow> ptr \<Rightarrow> 32 word \<Rightarrow> int \<Rightarrow> int \<Rightarrow> TimeoutParams \<Rightarrow> loopst \<Rightarrow> int \<times> loopst) \<Rightarrow>
     env \<Rightarrow> obj \<Rightarrow> ptr \<Rightarrow> int \<Rightarrow> int \<Rightarrow> TimeoutParams \<Rightarrow> int \<Rightarrow> loopst \<Rightarrow> (int \<times> loopst) option" where
  "raw_run op E self bp offset flag tp i w = do {
     p \<leftarrow> payloads w bp;
     v \<leftarrow> vector_of p;
     fd \<leftarrow> file_fd_of w self;
     Some (op E i fd (iovecs_addr v) (nr_vecs v) offset flag tp w)
   }"

definition UringioFile_readv_raw ::
    "env \<Rightarrow> obj \<Rightarrow> obj \<Rightarrow> bool \<Rightarrow> int \<Rightarrow> int \<Rightarrow> py_param \<Rightarrow> loopst \<Rightarrow> obj api" where
  "UringioFile_readv_raw E self iovecs_obj contiguous offset nowait tobj =
     file_guard E self (with_timeout tobj (\<lambda>tp w.
       let b = e_get_buffer E (hist w) iovecs_obj; w = py (GetBuffer iovecs_obj b) w
       in case b of
            None \<Rightarrow> Some (None, w)
          | Some (addr, n) \<Rightarrow>
              if n mod sizeof_iovec \<noteq> 0
              then raise_exc (ValueError ''iovecs buffer has invalid size'')
                     (py (Buffer_release addr n) w)
              else if \<not> contiguous
              then raise_exc (ValueError ''iovecs must be contiguous'')
                     (py (Buffer_release addr n) w)
              else let (bp, w) = create_buffer_payload_from_pybuffer E (addr, n) w
                   in if bp = 0 then Some (None, w)
                      else with_future_or_free E bp (\<lambda>fut w.
                             file_request self fut bp ONESHOT IORING_OP_READV
                               (raw_run uringio_readv E self bp offset nowait tp) w) w))"

definition UringioFile_write ::
    "env \<Rightarrow> obj \<Rightarrow> obj \<Rightarrow> int \<Rightarrow> py_param \<Rightarrow> loopst \<Rightarrow> obj api" where
  "UringioFile_write E self data offset tobj =
     file_guard E self (with_timeout tobj (\<lambda>tp. with_future E (\<lambda>fut w.
       let (bp, w) = create_buffer_payload_from_data E data w
       in if bp = 0 then Some (None, py (Decref fut) w)
          else file_request self fut bp ONESHOT IORING_OP_WRITE
                 (\<lambda>i w. write_dispatcher E self bp i offset tp w) w)))"

definition UringioFile_writev ::
    "env \<Rightarrow> obj \<Rightarrow> obj \<Rightarrow> int \<Rightarrow> int \<Rightarrow> py_param \<Rightarrow> loopst \<Rightarrow> obj api" where
  "UringioFile_writev E self buffers_obj flags offset tobj =
     file_guard E self (with_timeout tobj (\<lambda>tp w. do {
       (bp, w) \<leftarrow> get_or_create_vectored_buffer E (Some buffers_obj) w;
       if bp = 0 then Some (None, w)
       else with_future_or_free E bp (\<lambda>fut w.
              file_request self fut bp ONESHOT IORING_OP_WRITEV
                (raw_run uringio_writev E self bp offset flags tp) w) w
     }))"

definition UringioFile_writev_raw ::
    "env \<Rightarrow> obj \<Rightarrow> obj \<Rightarrow> bool \<Rightarrow> int \<Rightarrow> int \<Rightarrow> py_param \<Rightarrow> loopst \<Rightarrow> obj api" where
  "UringioFile_writev_raw E self buffers_obj contiguous flags offset tobj =
     file_guard E self (with_timeout tobj (\<lambda>tp w.
       let b = e_get_buffer E (hist w) buffers_obj; w = py (GetBuffer buffers_obj b) w
       in case b of
            None \<Rightarrow> Some (None, w)
          | Some (addr, n) \<Rightarrow>
              if n mod sizeof_iovec \<noteq> 0
              then raise_exc (ValueError ''iovecs buffer has invalid size'')
                     (py (Buffer_release addr n) w)
              else if \<not> contiguous
              then raise_exc (ValueError ''iovecs must be contiguous'')
                     (py (Buffer_release addr n) w)
              else let (bp, w) = create_buffer_payload_from_pybuffer E (addr, n) w
                   in if bp = 0 then Some (None, py (Buffer_release addr n) w)
                      else with_future_or_free E bp (\<lambda>fut w.
                             file_request self fut bp ONESHOT IORING_OP_WRITEV
                               (raw_run uringio_writev E self bp offset flags tp) w) w))"

text \<open>An operation on the descriptor alone.\<close>

definition fd_run ::
    "(env \<Rightarrow> int \<Rightarrow> int \<Rightarrow> TimeoutParams \<Rightarrow> loopst \<Rightarrow> int \<times> loopst) \<Rightarrow> env \<Rightarrow> obj \<Rightarrow> TimeoutParams \<Rightarrow>
     int \<Rightarrow> loopst \<Rightarrow> (int \<times> loopst) option" where
  "fd_run op E self tp i w = map_option (\<lambda>fd. op E i fd tp w) (file_fd_of w self)"

definition UringioFile_fsync :: "env \<Rightarrow> obj \<Rightarrow> py_param \<Rightarrow> loopst \<Rightarrow> obj api" where
  "UringioFile_fsync E self tobj =
     file_guard E self (with_timeout tobj (\<lambda>tp. with_future E (\<lambda>fut.
       file_request self fut 0 ONESHOT IORING_OP_FSYNC (fd_run uringio_fsync E self tp))))"

definition UringioFile_fdatasync :: "env \<Rightarrow> obj \<Rightarrow> py_param \<Rightarrow> loopst \<Rightarrow> obj api" where
  "UringioFile_fdatasync E self tobj =
     file_guard E self (with_timeout tobj (\<lambda>tp. with_future E (\<lambda>fut.
       file_request self fut 0 ONESHOT IORING_OP_FSYNC (fd_run uringio_fdatasync E self tp))))"

definition UringioFile_splice ::
    "env \<Rightarrow> obj \<Rightarrow> int \<Rightarrow> int \<Rightarrow> int \<Rightarrow> int \<Rightarrow> int \<Rightarrow> int \<Rightarrow> py_param \<Rightarrow> loopst \<Rightarrow> obj api" where
  "UringioFile_splice E self src dst cnt offset_src offset_dst flag tobj =
     file_guard E self (with_timeout tobj (\<lambda>tp. with_future E (\<lambda>fut.
       file_request self fut 0 ONESHOT IORING_OP_SPLICE
         (\<lambda>i w. Some (uringio_splice E i src offset_src dst offset_dst cnt flag tp w)))))"

definition UringioFile_close :: "env \<Rightarrow> obj \<Rightarrow> py_param \<Rightarrow> loopst \<Rightarrow> obj api" where
  "UringioFile_close E self tobj =
     file_guard E self (with_timeout tobj (\<lambda>tp. with_future E (\<lambda>fut.
       file_request self fut 0 ONESHOT IORING_OP_CLOSE (fd_run uringio_close_file E self tp))))"

section \<open>Opening, context management and deallocation\<close>

text \<open>\<open>ASSERT_LOOP_IS_URINGIO\<close>: what \<open>asyncio.get_running_loop()\<close> gives.\<close>

datatype running = No_running_loop | Other_loop | This_loop

definition ASSERT_LOOP_IS_URINGIO :: "running \<Rightarrow> (loopst \<Rightarrow> 'r api) \<Rightarrow> loopst \<Rightarrow> 'r api" where
  "ASSERT_LOOP_IS_URINGIO r rest w =
     (case r of
        No_running_loop \<Rightarrow> Some (None, w)
      | Other_loop \<Rightarrow>
          raise_exc (RuntimeError ''Uring-based methods requires uring-based loop'') w
      | This_loop \<Rightarrow> rest w)"

text \<open>The path argument as \<open>PyOS_FSPath\<close> and \<open>PyUnicode_AsUTF8\<close> see it, and \<open>None\<close> for arguments
  that do not parse: by then the file object exists.\<close>

datatype path_arg = Path_unparsed | Path_error | Path_not_utf8 | Path string

definition upd_file :: "obj \<Rightarrow> (UringioFile \<Rightarrow> UringioFile) \<Rightarrow> loopst \<Rightarrow> loopst" where
  "upd_file x f w = w\<lparr>files := (files w)(x := map_option f (files w x))\<rparr>"

definition Uringio_open ::
    "env \<Rightarrow> running \<Rightarrow> path_arg \<Rightarrow> int \<Rightarrow> int \<Rightarrow> int \<Rightarrow> int \<Rightarrow> py_param \<Rightarrow> loopst \<Rightarrow> obj api" where
  "Uringio_open E r path dfd flags resolve md tobj =
     ASSERT_LOOP_IS_URINGIO r (ASSERT_LOOP_THREAD E (ASSERT_RING_LOOP_IS_CLOSING E (\<lambda>w.
       let (file, w) = py_new E w
       in case file of
            None \<Rightarrow> raise_exc MemoryError w
          | Some f \<Rightarrow>
              let w = w\<lparr>files := (files w)(f \<mapsto> \<lparr>file_fd = None, file_closed = False\<rparr>)\<rparr>;
                  w = py (Incref (loop_obj w)) w
              in (case path of
                    Path_unparsed \<Rightarrow> Some (None, py (Decref f) w)
                  | Path_error \<Rightarrow> Some (None, py (Decref f) w)
                  | Path_not_utf8 \<Rightarrow> raise_exc (TypeError ''Failed to convert path to UTF-8'')
                                       (py (Decref f) w)
                  | Path s \<Rightarrow>
                      (let (res, tp, w) = parse_timeout_params tobj no_timeout w
                       in if res < 0 then Some (None, py (Decref f) w)
                          else let (fut, w) = create_future E w
                               in case fut of
                                    None \<Rightarrow> Some (None, py (Decref f) w)
                                  | Some fu \<Rightarrow> do {
                      (idx, w) \<leftarrow> loop_registry_add fu 0 ONESHOT IORING_OP_OPENAT2 (Some f) None 0 0 w;
                      if idx < 0
                      then raise_exc (RuntimeError ''Registry is full'')
                             (py (Decref fu) (py (Decref f) w))
                      else
                        let (result, w) = open_file E idx dfd s flags resolve (word_of_int md) tp w
                        in if result = -1
                           then do {
                             w \<leftarrow> loop_registry_remove idx (py (Decref fu) (py (Decref f) w));
                             raise_exc sqe_unavailable w
                           }
                           else if result = 0
                           then do {
                             w \<leftarrow> loop_registry_remove idx (py (Decref fu) (py (Decref f) w));
                             raise_exc submission_failed w
                           }
                           else Some (Some fu, w)
                    })))))"

definition UringioFile_clear :: "loopst \<Rightarrow> loopst" where
  "UringioFile_clear w = py (Decref (loop_obj w)) w"

text \<open>\<open>tp_dealloc\<close>: the object is gone afterwards.\<close>

definition UringioFile_dealloc :: "obj \<Rightarrow> loopst \<Rightarrow> loopst" where
  "UringioFile_dealloc self w = UringioFile_clear (w\<lparr>files := (files w)(self := None)\<rparr>)"

definition UringioFile_aenter :: "env \<Rightarrow> obj \<Rightarrow> loopst \<Rightarrow> obj api" where
  "UringioFile_aenter E self =
     with_future E (\<lambda>fut w. Some (Some fut, py (Set_result fut (PyObj self)) w))"

text \<open>The exception of the body is its value, \<open>None\<close> when there was none.  Nothing has set an
  exception yet when the registry turns out to be full.\<close>

definition UringioFile_aexit :: "env \<Rightarrow> obj \<Rightarrow> obj option \<Rightarrow> loopst \<Rightarrow> obj api" where
  "UringioFile_aexit E self body_exc w =
     (let (f, w) = create_future E w
      in case f of
           None \<Rightarrow> (case body_exc of
               Some e \<Rightarrow> raise_exception_group E True e w | None \<Rightarrow> Some (None, w))
         | Some fut \<Rightarrow> do {
             (idx, w) \<leftarrow> loop_registry_add fut 0 ONESHOT IORING_OP_CLOSE (Some self) None 0 0 w;
             if idx < 0
             then let w = py (Decref fut) w
                  in (case body_exc of
                        Some e \<Rightarrow> raise_exception_group E False e w
                      | None \<Rightarrow> raise_exc (RuntimeError ''Registry is full'') w)
             else do {
               let w = upd_file self (\<lambda>x. x\<lparr>file_closed := True\<rparr>) w;
               (result, w) \<leftarrow> fd_run uringio_close_file E self no_timeout idx w;
               (res, w) \<leftarrow> check_file_result result idx fut w;
               (case res of
                  Some x \<Rightarrow> Some (Some x, w)
                | None \<Rightarrow>
                    let w = upd_file self (\<lambda>x. x\<lparr>file_closed := False\<rparr>) w
                    in (case body_exc of
                          Some e \<Rightarrow> raise_exception_group E True e w | None \<Rightarrow> Some (None, w)))
             }
           })"

end
