(* ===== verification/Api_Contract.thy ===== *)
theory Api_Contract
  imports File_Api
begin

text \<open>
  What a Python-facing method promises: it is never undefined, when it returns \<open>NULL\<close> no request is
  left behind and nothing is leaked, and when it returns a future exactly one request was added
  to the table, with that future, and its entry was submitted with its index.
\<close>

section \<open>Marks of the objects\<close>

lemma upd_file_same [simp]:
  "hist (upd_file x f w) = hist w" "payloads (upd_file x f w) = payloads w"
  "registry (upd_file x f w) = registry w" "sockets (upd_file x f w) = sockets w"
  by (simp_all add: upd_file_def)

section \<open>Null payloads\<close>

lemma freed_units_null [simp]: "freed_units w 0 r = 0"
  by (simp add: freed_units_def split: option.split)

lemma releasable_null [simp]: "releasable w 0"
  by (simp add: releasable_def)

section \<open>The pending requests of a loop\<close>

definition loop_ok :: "loopst \<Rightarrow> bool" where
  "loop_ok w \<longleftrightarrow> (case registry w of None \<Rightarrow> False | Some reg \<Rightarrow> reg_ok reg)"

definition pending :: "loopst \<Rightarrow> int \<Rightarrow> RequestSlot option" where
  "pending w = (case registry w of None \<Rightarrow> Map.empty | Some reg \<Rightarrow> requests reg)"

definition registry_full_of :: "loopst \<Rightarrow> bool" where
  "registry_full_of w \<longleftrightarrow>
     (case registry w of
        None \<Rightarrow> True
      | Some reg \<Rightarrow> dom (requests reg) = {0..<sint (reg_size reg)})"

text \<open>Functions that only add events keep every component of the loop's state.\<close>

lemma ext_more_conv: "ext.more v = ext.more w \<Longrightarrow> v = w\<lparr>hist := hist v\<rparr>"
  by (rule ext_eqI) simp_all

lemma bufst_more_conv:
  "bufst.more v = bufst.more w \<Longrightarrow> v = w\<lparr>hist := hist v, payloads := payloads v\<rparr>"
  for v w :: "'a bufst_scheme"
  by (cases v, cases w) simp

lemma loop_ok_upd [simp]:
  "loop_ok (w\<lparr>hist := h\<rparr>) = loop_ok w" "pending (w\<lparr>hist := h\<rparr>) = pending w"
  "loop_ok (w\<lparr>hist := h, payloads := ps\<rparr>) = loop_ok w"
  "pending (w\<lparr>hist := h, payloads := ps\<rparr>) = pending w"
  by (simp_all add: loop_ok_def pending_def)

lemma loopst_more:
  assumes "ext.more v = ext.more (w :: loopst)"
  shows "payloads v = payloads w" "registry v = registry w" "files v = files w"
    "sockets v = sockets w" "context_value v = context_value w" "context_var v = context_var w"
    "loop_ok v = loop_ok w" "pending v = pending w" "loop_tid v = loop_tid w"
    "loop_obj v = loop_obj w" "contexts v = contexts w" "ctx_tokens v = ctx_tokens w"
  by (subst ext_more_conv [OF assms], simp)+

lemma loopst_py [simp]:
  "registry (py c w) = registry w" "files (py c w) = files w" "sockets (py c w) = sockets w"
  "context_value (py c w) = context_value w" "context_var (py c w) = context_var w"
  "loop_ok (py c w) = loop_ok w" "pending (py c w) = pending w" "loop_tid (py c w) = loop_tid w"
  "loop_obj (py c w) = loop_obj w" "contexts (py c w) = contexts w"
  "ctx_tokens (py c w) = ctx_tokens w"
  by (rule loopst_more; simp)+

lemma loopst_opt_ref [simp]:
  "registry (opt_incref x w) = registry w" "files (opt_incref x w) = files w"
  "sockets (opt_incref x w) = sockets w" "pending (opt_incref x w) = pending w"
  by (rule loopst_more; simp)+

lemma upd_file_pending [simp]:
  "loop_ok (upd_file x f w) = loop_ok w" "pending (upd_file x f w) = pending w"
  by (simp_all add: loop_ok_def pending_def)

text \<open>The parts of the state that the buffers do not touch.\<close>

lemma loopst_bufst_more:
  assumes "bufst.more v = bufst.more (w :: loopst)"
  shows "registry v = registry w" "files v = files w" "sockets v = sockets w"
    "context_value v = context_value w" "context_var v = context_var w"
    "loop_ok v = loop_ok w" "pending v = pending w" "loop_tid v = loop_tid w"
    "loop_obj v = loop_obj w" "contexts v = contexts w" "ctx_tokens v = ctx_tokens w"
  by (subst bufst_more_conv [OF assms], simp)+

section \<open>Giving back makes releasing calls only\<close>

fun releasing :: "call \<Rightarrow> bool" where
  "releasing (Py (Decref x)) = True"
| "releasing (Py (PyMem_free p)) = True"
| "releasing (Py (Buffer_release p n)) = True"
| "releasing (Libc (Free p)) = True"
| "releasing c = False"

definition releases :: "'a ext_scheme \<Rightarrow> 'b ext_scheme \<Rightarrow> bool" where
  "releases w w' \<longleftrightarrow> (\<exists>es. hist w' = hist w @ es \<and> (\<forall>e \<in> set es. releasing e))"

lemma releases_refl [simp, intro]: "releases w w"
  by (simp add: releases_def)

lemma releases_trans [trans]: "releases w w' \<Longrightarrow> releases w' w'' \<Longrightarrow> releases w w''"
  unfolding releases_def by (metis append.assoc set_append UnE)

lemma hist_bufs:
  "hist (free_bufs bs w) = hist w @ map (\<lambda>b. Py (PyMem_free b)) (filter (\<lambda>b. b \<noteq> 0) bs)"
  "hist (release_bufs vs w) = hist w @ map (\<lambda>(b, n). Py (Buffer_release b n)) vs"
  by (induction bs arbitrary: w, simp_all add: free_bufs_def)
    (induction vs arbitrary: w, simp_all add: release_bufs_def case_prod_beta)

lemma releases_next [intro]:
  assumes "releases w v"
  shows "releases w (c_free p v)" "releases w (pymem_free p v)" "releases w (opt_decref x v)"
    "releases w (free_bufs bs v)" "releases w (release_bufs vs v)"
proof -
  have "releases v (c_free p v)" "releases v (pymem_free p v)" "releases v (opt_decref x v)"
    "releases v (free_bufs bs v)" "releases v (release_bufs vs v)"
    by (auto simp: releases_def opt_decref_def hist_bufs split: option.split)
  then show "releases w (c_free p v)" "releases w (pymem_free p v)" "releases w (opt_decref x v)"
    "releases w (free_bufs bs v)" "releases w (release_bufs vs v)"
    using releases_trans [OF assms] by blast+
qed

lemma releases_first:
  "releases (free_bufs bs w) v \<Longrightarrow> releases w v" "releases (opt_decref x w) v \<Longrightarrow> releases w v"
  by (rule releases_trans, rule releases_next, rule releases_refl, assumption)+

lemma free_views_releases: "free_views n v w = Some w' \<Longrightarrow> releases w w'"
  by (auto simp: free_views_def bind_eq_Some_conv split: pfield.splits)

lemma free_linear_releases:
  assumes "free_linear p w = Some w'"
  shows "releases w w'"
proof (cases "linear p")
  case (To la)
  with assms obtain origin v u where
    v: "(if origin = PAYLOAD_RUNTIME
         then do { n \<leftarrow> amount p; bs \<leftarrow> prefix_of n (la_elems la); Some (free_bufs (map buffer bs) w) }
         else Some w) = Some v"
    and u: "(case la_elems la of [] \<Rightarrow> None | b # _ \<Rightarrow> free_views (amount p) (views b) v) = Some u"
    and w': "w' = pymem_free (la_addr la) u"
    unfolding free_linear_def by (auto simp: bind_eq_Some_conv simp del: if_split)
  have "releases w v" using v by (auto simp: bind_eq_Some_conv split: if_split_asm)
  also have "releases v u" using u by (auto split: list.splits dest: free_views_releases)
  finally show ?thesis unfolding w' by (rule releases_next)
qed (use assms in \<open>simp_all add: free_linear_def\<close>)

lemma free_vector_releases:
  assumes "free_vector p w = Some w'"
  shows "releases w w'"
proof (cases "vector p")
  case (To x)
  with assms obtain origin v u where
    v: "(if origin = PAYLOAD_RUNTIME
         then do { bs \<leftarrow> prefix_of (uint (nr_vecs x)) (iovecs x); Some (free_bufs (map iov_base bs) w) }
         else Some w) = Some v"
    and u: "free_views (amount p) (vec_views x) v = Some u"
    and w': "w' = pymem_free (vec_addr x) (pymem_free (iovecs_addr x) u)"
    unfolding free_vector_def by (auto simp: bind_eq_Some_conv simp del: if_split)
  have "releases w v" using v by (auto simp: bind_eq_Some_conv split: if_split_asm)
  also have "releases v u" using u by (rule free_views_releases)
  finally show ?thesis unfolding w' by (intro releases_next)
qed (use assms in \<open>simp_all add: free_vector_def\<close>)

lemma releases_payloads [simp]: "releases w (v\<lparr>payloads := f\<rparr>) = releases w v"
  by (simp add: releases_def)

lemma free_payload_releases: "free_buffer_payload q b w = Some w' \<Longrightarrow> releases w w'"
  unfolding free_buffer_payload_def
  by (auto simp: bind_eq_Some_conv split: if_split_asm
      intro!: releases_next intro: releases_trans [OF free_linear_releases free_vector_releases])

lemma registry_remove_releases: "registry_remove reg i w = Some (reg', w') \<Longrightarrow> releases w w'"
  unfolding registry_remove_def Let_def
  by (auto simp: bind_eq_Some_conv dest!: free_payload_releases
      intro!: releases_next dest: releases_first split: if_split_asm)

lemma loop_remove_releases: "loop_registry_remove i w = Some w' \<Longrightarrow> releases w w'"
  by (auto simp: loop_registry_remove_def bind_eq_Some_conv releases_def
      dest!: registry_remove_releases)

section \<open>The C layer makes liburing calls only\<close>

lemma ledger_map_Lu [simp]: "ledger (map Lu cs) r = 0"
  by (induction cs) simp_all

lemma ledger_timeout_events [simp]: "ledger (timeout_events E s tp h) r = 0"
  by (simp add: timeout_events_def Let_def)

lemma issue_state:
  assumes "issue E body i tp w = (result, w')"
  shows "ext.more w' = ext.more w" "\<And>r. ledger (hist w') r = ledger (hist w) r"
    "result \<in> {-1, 0, 1}"
proof -
  obtain h where h: "issue_events E body i tp (hist w) = (result, h)" "w' = w\<lparr>hist := h\<rparr>"
    using assms by (auto simp: issue_eq split: prod.splits)
  then show "ext.more w' = ext.more w" by simp
  show "result \<in> {-1, 0, 1}" using h(1) by (auto simp: issue_events_def Let_def split: if_splits)
  show "ledger (hist w') r = ledger (hist w) r" for r
    using h by (auto simp: issue_events_def Let_def split: if_splits)
qed

section \<open>Registering and undoing\<close>

lemma loopst_registry_upd [simp]:
  "pending (w\<lparr>registry := Some reg\<rparr>) = requests reg"
  "loop_ok (w\<lparr>registry := Some reg\<rparr>) = reg_ok reg"
  by (simp_all add: pending_def loop_ok_def)

lemma loop_add_full:
  assumes "loop_ok w" "registry_full_of w"
  shows "loop_registry_add fut bp strategy opc file socket sockaddr msghdr w = Some (-1, w)"
proof -
  from assms obtain reg where reg: "registry w = Some reg" "reg_ok reg"
    "dom (requests reg) = {0..<sint (reg_size reg)}"
    by (auto simp: loop_ok_def registry_full_of_def split: option.splits)
  then show ?thesis
    using registry_add_refuses [OF reg(2,3), where w = w]
    by (simp add: loop_registry_add_def)
qed

lemma loop_add_room:
  assumes "loop_ok w" "\<not> registry_full_of w"
  obtains i w' where
    "loop_registry_add fut bp strategy opc file socket sockaddr msghdr w = Some (i, w')"
    "0 \<le> i" "is_c_int i" "pending w i = None" "loop_ok w'"
    "pending w' =
       (pending w)(i \<mapsto> new_request i fut bp strategy opc file socket sockaddr msghdr)"
    "payloads w' = payloads w" "files w' = files w" "sockets w' = sockets w"
    "context_value w' = context_value w" "context_var w' = context_var w"
    "\<And>r. ledger (hist w') r =
       ledger (hist w) r + of_bool (r = Reference fut) + ref_units file r + ref_units socket r"
proof -
  from assms obtain reg where reg: "registry w = Some reg" "reg_ok reg"
    "dom (requests reg) \<noteq> {0..<sint (reg_size reg)}"
    by (auto simp: loop_ok_def registry_full_of_def split: option.splits)
  let ?w = "opt_incref file (opt_incref socket (py (Incref fut) w))"
  from registry_add_accepts [OF reg(2,3),
      of fut bp strategy opc "file" socket sockaddr msghdr w]
  obtain i reg' where
    add: "registry_add reg fut bp strategy opc file socket sockaddr msghdr w = Some (i, reg', ?w)"
    and i: "0 \<le> i" "i < sint (reg_size reg)" "requests reg i = None" "reg_ok reg'"
      "requests reg' =
         (requests reg)(i \<mapsto> new_request i fut bp strategy opc file socket sockaddr msghdr)"
    by blast
  have "ext.more ?w = ext.more w" by simp
  note same = loopst_more [OF this]
  have pend: "pending w = requests reg" using reg(1) by (simp add: pending_def)
  show ?thesis
  proof (rule that [of i "?w\<lparr>registry := Some reg'\<rparr>"])
    show "loop_registry_add fut bp strategy opc file socket sockaddr msghdr w =
        Some (i, ?w\<lparr>registry := Some reg'\<rparr>)"
      using reg(1) add by (simp add: loop_registry_add_def)
    show "is_c_int i"
      using i(1,2) sint_lt [of "reg_size reg"] by (simp add: is_c_int_def)
  qed (simp_all add: i same pend)
qed

lemma loop_remove_pending:
  assumes "loop_ok w" "pending w i = Some s" "releasable w (buffer_payload s)"
  obtains w' where "loop_registry_remove i w = Some w'" "loop_ok w'"
    "pending w' = (pending w)(i := None)" "files w' = files w" "sockets w' = sockets w"
    "context_value w' = context_value w" "context_var w' = context_var w"
    "payloads w' = freed_store w (buffer_payload s)"
    "\<And>r. ledger (hist w') r = ledger (hist w) r - slot_units w s r"
proof -
  from assms(1,2) obtain reg where reg: "registry w = Some reg" "reg_ok reg"
    "requests reg i = Some s"
    by (auto simp: loop_ok_def pending_def split: option.splits)
  obtain reg' w1 where
    rem: "registry_remove reg i w = Some (reg', w1)" "reg_ok reg'"
    "requests reg' = (requests reg)(i := None)" "reg_size reg' = reg_size reg"
    "payloads w1 = freed_store w (buffer_payload s)" "bufst.more w1 = bufst.more w"
    "\<And>r. ledger (hist w1) r = ledger (hist w) r - slot_units w s r"
    by (rule registry_remove_pending [OF reg(2,3) assms(3)], rule that; assumption?)
  note same = loopst_bufst_more [OF rem(6)]
  have pend: "pending w = requests reg" using reg(1) by (simp add: pending_def)
  show ?thesis
  proof (rule that [of "w1\<lparr>registry := Some reg'\<rparr>"])
    show "loop_registry_remove i w = Some (w1\<lparr>registry := Some reg'\<rparr>)"
      using reg(1) rem(1) by (simp add: loop_registry_remove_def)
  qed (simp_all add: rem same pend)
qed

lemma check_file_result_undo:
  assumes "result < 1" "loop_ok w" "pending w i = Some s" "releasable w (buffer_payload s)"
  obtains w' where "check_file_result result i fut w = Some (None, w')" "loop_ok w'"
    "pending w' = (pending w)(i := None)" "files w' = files w" "sockets w' = sockets w"
    "context_value w' = context_value w" "context_var w' = context_var w"
    "\<And>r. ledger (hist w') r =
       ledger (hist w) r - of_bool (r = Reference fut) - slot_units w s r"
proof -
  define e where "e = (if result = -1
      then py (Err_set sqe_unavailable) w
      else if result = 0 then py (Err_set submission_failed) w else w)"
  define v where "v = py (Decref fut) e"
  have more: "ext.more v = ext.more w" by (simp add: v_def e_def)
  note same = loopst_more [OF more]
  have units: "slot_units v s r = slot_units w s r" for r
    by (simp add: slot_units_def freed_units_def same)
  have led: "ledger (hist v) r = ledger (hist w) r - of_bool (r = Reference fut)" for r
    by (simp add: v_def e_def)
  have st: "loop_ok v" "pending v i = Some s" "releasable v (buffer_payload s)"
    using assms by (simp_all add: releasable_def same)
  obtain w' where
    w': "loop_registry_remove i v = Some w'" "loop_ok w'" "pending w' = (pending v)(i := None)"
    "files w' = files v" "sockets w' = sockets v" "context_value w' = context_value v"
    "context_var w' = context_var v" "payloads w' = freed_store v (buffer_payload s)"
    "\<And>r. ledger (hist w') r = ledger (hist v) r - slot_units v s r"
    by (rule loop_remove_pending [OF st], rule that; assumption?)
  have "check_file_result result i fut w = Some (None, w')"
    using assms(1) w'(1) by (simp add: check_file_result_def v_def e_def Let_def)
  then show ?thesis
    using that [of w'] w' by (simp add: same units led)
qed

section \<open>The contract of a method\<close>

text \<open>The last submission of a history is the one of request \<open>i\<close>: an entry that was prepared and
  carries its index; after it resources were given back at most.\<close>

definition submitted :: "int \<Rightarrow> loopst \<Rightarrow> bool" where
  "submitted i w \<longleftrightarrow>
     (\<exists>h n q es. hist w = h @ [Lu (Submit n)] @ es \<and> 0 \<le> n \<and> (\<forall>e \<in> set es. releasing e) \<and>
        v_prep (sqe_view h q) \<noteq> None \<and> v_data (sqe_view h q) = Some (user_data_of i))"

lemma issue_submitted:
  assumes "issue E body i tp w = (1, v)" "body_ok body" "releases v w'"
  shows "submitted i w'"
proof -
  have op: "request_op (\<lambda>E i tp w. issue E body i tp w) body"
    by unfold_locales (simp_all add: assms(2))
  obtain q h n where h: "hist v = h @ [Lu (Submit n)]" "0 \<le> n"
    "v_data (sqe_view h q) = Some (user_data_of i)" "v_prep (sqe_view h q) \<noteq> None"
    by (rule request_op.success [OF op assms(1)])
  from assms(3) obtain es where "hist w' = hist v @ es" "\<forall>e \<in> set es. releasing e"
    unfolding releases_def by blast
  with h show ?thesis
    unfolding submitted_def by (intro exI [of _ h] exI [of _ n] exI [of _ q] exI [of _ es]) simp
qed

text \<open>
  What a method may do: raise, with the table and the ledger as they were, or return a future
  after it has added exactly one request, for that future, and submitted it.  What the program then
  holds more is the caller's reference to the future and what the request's slot holds.  \<open>Q\<close> is
  what is known of the slot: the opcode, the object and whether there is a payload.
\<close>

definition request_of :: "Opcode \<Rightarrow> bool \<Rightarrow> obj option \<Rightarrow> obj option \<Rightarrow> RequestSlot \<Rightarrow> bool" where
  "request_of opc loaded file socket s \<longleftrightarrow>
     opcode s = opc \<and> (buffer_payload s \<noteq> 0) = loaded \<and> slot_file s = file \<and> slot_socket s = socket"

lemma request_of_new [simp]:
  "request_of opc loaded file socket (new_request i fut bp strategy opc' file' socket' sockaddr msghdr) \<longleftrightarrow>
     opc' = opc \<and> (bp \<noteq> 0) = loaded \<and> file' = file \<and> socket' = socket"
  by (auto simp: request_of_def new_request_def)

text \<open>A payload in the plain mode, which any completion gives back whole.\<close>

definition plain_payload :: "'a bufst_scheme \<Rightarrow> ptr \<Rightarrow> bool" where
  "plain_payload w q \<longleftrightarrow>
     q = 0 \<or> (\<exists>p. payloads w q = Some p \<and> mode p = Some NORMAL_BUF \<and> payload_wf p)"

lemma plain_payload_null [simp]: "plain_payload w 0"
  by (simp add: plain_payload_def)

lemma plain_releasable: "plain_payload w q \<Longrightarrow> releasable w q"
  by (auto simp: plain_payload_def releasable_def)

definition api_outcome :: "(RequestSlot \<Rightarrow> bool) \<Rightarrow> loopst \<Rightarrow> obj api \<Rightarrow> bool" where
  "api_outcome Q w res \<longleftrightarrow>
     (\<exists>r w'. res = Some (r, w') \<and> loop_ok w' \<and>
        (case r of
           None \<Rightarrow> pending w' = pending w \<and> ledger (hist w') = ledger (hist w)
         | Some fut \<Rightarrow> \<exists>i s.
             pending w i = None \<and> is_c_int i \<and> pending w' = (pending w)(i \<mapsto> s) \<and>
             future s = Some fut \<and> Q s \<and> plain_payload w' (buffer_payload s) \<and> submitted i w' \<and>
             (\<forall>x. ledger (hist w') x =
                ledger (hist w) x + of_bool (x = Reference fut) + slot_units w' s x)))"

lemma outcome_returns_NULL:
  "loop_ok w' \<Longrightarrow> pending w' = pending w \<Longrightarrow> (\<And>r. ledger (hist w') r = ledger (hist w) r) \<Longrightarrow>
   api_outcome Q w (Some (None, w'))"
  by (simp add: api_outcome_def fun_eq_iff)

section \<open>A request from registration to submission\<close>

text \<open>What every method ends with; \<open>file_request\<close> and \<open>socket_request\<close> are instances.\<close>

definition registered ::
    "(int \<Rightarrow> int \<Rightarrow> obj \<Rightarrow> loopst \<Rightarrow> obj api) \<Rightarrow> obj \<Rightarrow> ptr \<Rightarrow> StreamStrategy \<Rightarrow> Opcode \<Rightarrow> obj option \<Rightarrow> obj option \<Rightarrow> ptr \<Rightarrow> ptr \<Rightarrow>
     (loopst \<Rightarrow> obj api) \<Rightarrow> (int \<Rightarrow> loopst \<Rightarrow> (int \<times> loopst) option) \<Rightarrow> loopst \<Rightarrow> obj api" where
  "registered check fut bp strategy opc file socket sockaddr msghdr full run w = do {
     (i, w) \<leftarrow> loop_registry_add fut bp strategy opc file socket sockaddr msghdr w;
     if i < 0 then full w
     else do {
       (result, w) \<leftarrow> run i w;
       check result i fut w
     }
   }"

text \<open>How the code reacts to the result of an operation: every variant of the check agrees with the
  file's on the results an operation has.\<close>

definition checks :: "(int \<Rightarrow> int \<Rightarrow> obj \<Rightarrow> loopst \<Rightarrow> obj api) \<Rightarrow> bool" where
  "checks check \<longleftrightarrow> (\<forall>r \<in> {-1, 0, 1}. check r = check_file_result r)"

text \<open>A method's operation: it issues one entry and may then give back \<open>d\<close>, a resource the request
  does not need any more.\<close>

definition ran ::
    "env \<Rightarrow> (ptr \<Rightarrow> lu_call list) \<Rightarrow> TimeoutParams \<Rightarrow> (resource \<Rightarrow> int) \<Rightarrow> int \<Rightarrow> loopst \<Rightarrow>
     (int \<times> loopst) option \<Rightarrow> bool" where
  "ran E body tp d i w res \<longleftrightarrow> body_ok body \<and>
     (\<exists>result v w'. issue E body i tp w = (result, v) \<and> res = Some (result, w') \<and> releases v w' \<and>
        payloads w' = payloads w \<and> registry w' = registry w \<and>
        (\<forall>r. ledger (hist w') r = ledger (hist w) r - d r))"

lemma ran_issue:
  assumes "res = Some (issue E body i tp w)" "body_ok body"
  shows "ran E body tp (\<lambda>r. 0) i w res"
proof -
  obtain result v where v: "issue E body i tp w = (result, v)" by (metis surj_pair)
  from issue_state [OF v] loopst_more [OF issue_state(1) [OF v]] show ?thesis
    using assms v by (auto simp: ran_def)
qed

lemma ran_perform:
  "res = Some (perform_framed rq E i tp w) \<Longrightarrow> ran E (framed_body rq) tp (\<lambda>r. 0) i w res"
  by (rule ran_issue) (simp_all add: request.op_issue request.body_wf)

text \<open>The end of a method: the request is in the table, the operation has run, and the result is
  checked.\<close>

lemma outcome_checked:
  assumes st: "loop_ok w3" "pending w3 = (pending w)(i \<mapsto> s)" "pending w i = None" "is_c_int i"
      "future s = Some fut" "plain_payload w3 (buffer_payload s)" "Q s"
    and led: "\<And>r. ledger (hist w3) r =
       ledger (hist w) r + of_bool (r = Reference fut) + slot_units w3 s r"
    and result: "result \<in> {-1, 0, 1}" "result = 1 \<Longrightarrow> submitted i w3"
  shows "api_outcome Q w (check_file_result result i fut w3)"
proof (cases "result = 1")
  case True
  then have "check_file_result result i fut w3 = Some (Some fut, w3)"
    by (simp add: check_file_result_def)
  then show ?thesis
    using st led result(2) [OF True] by (auto simp: api_outcome_def)
next
  case False
  with result(1) have "result < 1" by auto
  from check_file_result_undo [OF this st(1), of i s fut] st(2) plain_releasable [OF st(6)] obtain w' where
    w': "check_file_result result i fut w3 = Some (None, w')" "loop_ok w'"
    "pending w' = (pending w3)(i := None)"
    "\<And>r. ledger (hist w') r =
       ledger (hist w3) r - of_bool (r = Reference fut) - slot_units w3 s r"
    by auto
  show ?thesis
    unfolding w'(1)
    by (rule outcome_returns_NULL) (use w' st led in \<open>simp_all add: fun_upd_idem\<close>)
qed

lemma outcome_registered:
  assumes w1: "loop_ok w1" "pending w1 = pending w" "plain_payload w1 bp"
    and led: "\<And>r. ledger (hist w1) r = ledger (hist w) r + of_bool (r = Reference fut) +
       freed_units w1 bp r + of_bool (msghdr \<noteq> 0 \<and> r = Block msghdr) + d r"
    and run: "\<And>i w2. payloads w2 = payloads w1 \<Longrightarrow> files w2 = files w1 \<Longrightarrow> sockets w2 = sockets w1 \<Longrightarrow>
       ran E body tp d i w2 (run i w2)"
    and full: "registry_full_of w1 \<Longrightarrow> api_outcome Q w (full w1)"
    and check: "checks check"
    and Q: "\<And>i. Q (new_request i fut bp strategy opc file socket sockaddr msghdr)"
  shows "api_outcome Q w (registered check fut bp strategy opc file socket sockaddr msghdr full run w1)"
proof (cases "registry_full_of w1")
  case True
  then show ?thesis
    using loop_add_full [OF w1(1) True] full by (simp add: registered_def)
next
  case False
  let ?s = "\<lambda>i. new_request i fut bp strategy opc file socket sockaddr msghdr"
  obtain i w2 where
    add: "loop_registry_add fut bp strategy opc file socket sockaddr msghdr w1 = Some (i, w2)"
    and i: "0 \<le> i" "is_c_int i" "pending w1 i = None" "loop_ok w2"
      "pending w2 = (pending w1)(i \<mapsto> ?s i)" "payloads w2 = payloads w1" "files w2 = files w1"
      "sockets w2 = sockets w1" "context_value w2 = context_value w1"
      "context_var w2 = context_var w1"
    and led2: "\<And>r. ledger (hist w2) r =
       ledger (hist w1) r + of_bool (r = Reference fut) + ref_units file r + ref_units socket r"
    by (rule loop_add_room [OF w1(1) False, of fut bp strategy opc "file" socket sockaddr msghdr],
        rule that; assumption?)
  from run [OF i(6-8), of i] obtain result v w3 where
    v: "body_ok body" "issue E body i tp w2 = (result, v)" "run i w2 = Some (result, w3)"
      "releases v w3" "payloads w3 = payloads w2" "registry w3 = registry w2"
    and led3: "\<And>r. ledger (hist w3) r = ledger (hist w2) r - d r"
    by (auto simp: ran_def)
  have st: "loop_ok w3" "pending w3 = (pending w1)(i \<mapsto> ?s i)"
    using i(4,5) v(6) by (simp_all add: loop_ok_def pending_def)
  have rel: "plain_payload w3 bp" using w1(3) i(6) v(5) by (simp add: plain_payload_def)
  have units: "slot_units w3 (?s i) r = of_bool (r = Reference fut) + ref_units file r +
      ref_units socket r + freed_units w1 bp r + of_bool (msghdr \<noteq> 0 \<and> r = Block msghdr)" for r
    using i(6) v(5) by (simp add: slot_units_def new_request_def ref_units_def freed_units_def)
  have "check result = check_file_result result"
    using check issue_state(3) [OF v(2)] by (auto simp: checks_def)
  then have step: "registered check fut bp strategy opc file socket sockaddr msghdr full run w1 =
      check_file_result result i fut w3"
    using add i(1) v(3) by (simp add: registered_def)
  have "api_outcome Q w (check_file_result result i fut w3)"
  proof (rule outcome_checked [where s = "?s i"])
    show "ledger (hist w3) r = ledger (hist w) r + of_bool (r = Reference fut) + slot_units w3 (?s i) r"
      for r using led [of r] led2 [of r] led3 [of r] units [of r] by simp
    show "submitted i w3" if "result = 1"
      using that issue_submitted [OF _ v(1,4), of E i tp w2] v(2) by simp
    show "result \<in> {-1, 0, 1}" using issue_state(3) [OF v(2)] by auto
  qed (use st i(2,3) w1(2) rel Q in \<open>simp_all add: new_request_def\<close>)
  then show ?thesis unfolding step .
qed

lemma checks_file [simp]: "checks check_file_result"
  by (simp add: checks_def)

lemma file_request_registered:
  "file_request self fut bp strategy opc run =
     registered check_file_result fut bp strategy opc (Some self) None 0 0
       (\<lambda>w. do {
          w \<leftarrow> free_buffer_payload bp False (py (Decref fut) w);
          raise_exc (RuntimeError ''Registry is full'') w
        }) run"
  by (simp add: file_request_def registered_def fun_eq_iff)

text \<open>The full table: the future and the payload are given back.\<close>

lemma outcome_full:
  assumes "loop_ok w1" "pending w1 = pending w" "plain_payload w1 bp"
    and led: "\<And>r. ledger (hist w1) r =
       ledger (hist w) r + of_bool (r = Reference fut) + freed_units w1 bp r + d r"
    and gb: "\<And>v. loop_ok (give_back v) = loop_ok v \<and> pending (give_back v) = pending v"
      "\<And>v r. ledger (hist (give_back v)) r = ledger (hist v) r - d r"
  shows "api_outcome Q w (do {
     w \<leftarrow> free_buffer_payload bp False (py (Decref fut) w1);
     raise_exc e (give_back w)
   })"
proof -
  let ?w = "py (Decref fut) w1"
  have rel: "releasable ?w bp" using plain_releasable [OF assms(3)] by (simp add: releasable_def)
  obtain v where
    v: "free_buffer_payload bp False ?w = Some v" "bufst.more v = bufst.more ?w"
    "\<And>r. ledger (hist v) r = ledger (hist ?w) r - freed_units ?w bp r"
    by (rule free_releasable [OF rel], rule that; assumption?)
  note same = loopst_bufst_more [OF v(2)]
  have "freed_units ?w bp r = freed_units w1 bp r" for r by (simp add: freed_units_def)
  then have "api_outcome Q w (raise_exc e (give_back v))"
    unfolding raise_exc_def
    by (intro outcome_returns_NULL) (use assms(1,2) v(3) led in \<open>simp_all add: same gb\<close>)
  then show ?thesis using v(1) by simp
qed

lemma outcome_file_request:
  assumes "loop_ok w1" "pending w1 = pending w" "plain_payload w1 bp"
    and led: "\<And>r. ledger (hist w1) r =
       ledger (hist w) r + of_bool (r = Reference fut) + freed_units w1 bp r"
    and run: "\<And>i w2. payloads w2 = payloads w1 \<Longrightarrow> files w2 = files w1 \<Longrightarrow> sockets w2 = sockets w1 \<Longrightarrow>
       run i w2 = Some (perform_framed rq E i tp w2)"
    and "\<And>i. Q (new_request i fut bp strategy opc (Some self) None 0 0)"
  shows "api_outcome Q w (file_request self fut bp strategy opc run w1)"
  unfolding file_request_registered
proof (rule outcome_registered [where d = "\<lambda>r. 0"])
  fix i and w2 :: loopst
  assume "payloads w2 = payloads w1" "files w2 = files w1" "sockets w2 = sockets w1"
  then show "ran E (framed_body rq) tp (\<lambda>r. 0) i w2 (run i w2)"
    by (intro ran_perform run)
next
  show "api_outcome Q w (do {
      w \<leftarrow> free_buffer_payload bp False (py (Decref fut) w1);
      raise_exc (RuntimeError ''Registry is full'') w
    })"
    using outcome_full [OF assms(1-3), where Q = Q and give_back = "\<lambda>w. w" and d = "\<lambda>r. 0"] led by simp
qed (use assms in simp_all)

section \<open>Requests that mark their object\<close>

text \<open>The closing methods set \<open>closed\<close> between the registration and the submission and clear it when
  the request was not submitted; \<open>run\<close> includes the mark and \<open>undo\<close> is what follows a failure.\<close>

definition marked ::
    "(int \<Rightarrow> int \<Rightarrow> obj \<Rightarrow> loopst \<Rightarrow> obj api) \<Rightarrow> obj \<Rightarrow> obj option \<Rightarrow> obj option \<Rightarrow> (loopst \<Rightarrow> obj api) \<Rightarrow>
     (int \<Rightarrow> loopst \<Rightarrow> (int \<times> loopst) option) \<Rightarrow> (loopst \<Rightarrow> obj api) \<Rightarrow> loopst \<Rightarrow> obj api" where
  "marked check fut file socket full run undo w = do {
     (i, w) \<leftarrow> loop_registry_add fut 0 ONESHOT IORING_OP_CLOSE file socket 0 0 w;
     if i < 0 then full w
     else do {
       (result, w) \<leftarrow> run i w;
       (res, w) \<leftarrow> check result i fut w;
       (case res of Some x \<Rightarrow> Some (Some x, w) | None \<Rightarrow> undo w)
     }
   }"

lemma outcome_then:
  assumes "api_outcome Q w r"
    and "\<And>v. loop_ok v \<Longrightarrow> pending v = pending w \<Longrightarrow> ledger (hist v) = ledger (hist w) \<Longrightarrow>
      api_outcome Q w (undo v)"
  shows "api_outcome Q w (do { (res, v) \<leftarrow> r; (case res of Some x \<Rightarrow> Some (Some x, v) | None \<Rightarrow> undo v) })"
proof -
  from assms(1) obtain res v where v: "r = Some (res, v)" by (auto simp: api_outcome_def)
  show ?thesis
  proof (cases res)
    case None
    with assms(1) v have "loop_ok v" "pending v = pending w" "ledger (hist v) = ledger (hist w)"
      by (simp_all add: api_outcome_def)
    from assms(2) [OF this] show ?thesis using v None by simp
  next
    case (Some x)
    with assms(1) v show ?thesis by simp
  qed
qed

lemma ran_marked:
  assumes "res = Some (perform_framed rq E i tp v)" "hist v = hist w" "payloads v = payloads w"
    "registry v = registry w"
  shows "ran E (framed_body rq) tp (\<lambda>r. 0) i w res"
proof -
  obtain result u where u: "issue E (framed_body rq) i tp w = (result, u)" by (metis surj_pair)
  then have "issue E (framed_body rq) i tp v = (result, v\<lparr>hist := hist u\<rparr>)"
    using assms(2) by (auto simp: issue_eq split: prod.splits)
  with u assms issue_state(2) [OF u] show ?thesis
    by (simp add: ran_def request.op_issue request.body_wf releases_def)
qed

lemma outcome_marked:
  assumes w1: "loop_ok w1" "pending w1 = pending w"
    and led: "\<And>r. ledger (hist w1) r = ledger (hist w) r + of_bool (r = Reference fut)"
    and run: "\<And>i w2. files w2 = files w1 \<Longrightarrow> sockets w2 = sockets w1 \<Longrightarrow>
       ran E body tp (\<lambda>r. 0) i w2 (run i w2)"
    and full: "api_outcome Q w (full w1)" and check: "checks check"
    and Q: "\<And>i. Q (new_request i fut 0 ONESHOT IORING_OP_CLOSE file socket 0 0)"
    and undo: "\<And>v. loop_ok v \<Longrightarrow> pending v = pending w \<Longrightarrow> ledger (hist v) = ledger (hist w) \<Longrightarrow>
       api_outcome Q w (undo v)"
  shows "api_outcome Q w (marked check fut file socket full run undo w1)"
proof (cases "registry_full_of w1")
  case True
  with loop_add_full [OF w1(1) True] full show ?thesis by (simp add: marked_def)
next
  case False
  obtain i w2 where i: "0 \<le> i"
    "loop_registry_add fut 0 ONESHOT IORING_OP_CLOSE file socket 0 0 w1 = Some (i, w2)"
    by (rule loop_add_room [OF w1(1) False, of fut 0 ONESHOT IORING_OP_CLOSE "file" socket 0 0],
        rule that; assumption?)
  let ?reg = "registered check fut 0 ONESHOT IORING_OP_CLOSE file socket 0 0 full run w1"
  have "api_outcome Q w ?reg"
    by (rule outcome_registered [where d = "\<lambda>r. 0", OF _ _ _ _ run])
      (use w1 led full check Q in simp_all)
  moreover have "marked check fut file socket full run undo w1 =
      do { (res, v) \<leftarrow> ?reg; (case res of Some x \<Rightarrow> Some (Some x, v) | None \<Rightarrow> undo v) }"
    using i by (cases "run i w2") (auto simp: marked_def registered_def)
  ultimately show ?thesis by (simp only: outcome_then undo)
qed

lemma outcome_exception_group:
  assumes "loop_ok w1" "pending w1 = pending w" "\<And>r. ledger (hist w1) r = ledger (hist w) r"
  shows "api_outcome Q w (raise_exception_group E b e w1)"
  using assms unfolding raise_exception_group_def py_new_def raise_exc_def Let_def
  by (auto intro!: outcome_returns_NULL split: option.splits)

text \<open>How the two exits leave when the close could not be submitted.\<close>

definition leave_exit :: "env \<Rightarrow> obj option \<Rightarrow> loopst \<Rightarrow> obj api" where
  "leave_exit E body_exc w =
     (case body_exc of Some e \<Rightarrow> raise_exception_group E True e w | None \<Rightarrow> Some (None, w))"

lemma outcome_leave_exit:
  assumes "loop_ok w1" "pending w1 = pending w" "\<And>r. ledger (hist w1) r = ledger (hist w) r"
  shows "api_outcome Q w (leave_exit E body_exc w1)"
  unfolding leave_exit_def using outcome_exception_group [OF assms] outcome_returns_NULL [OF assms]
  by (simp split: option.split)

text \<open>The guards and the parsing of the parameters keep the contract of what follows them.\<close>

lemma outcome_raise: "loop_ok w \<Longrightarrow> api_outcome Q w (raise_exc e w)"
  unfolding raise_exc_def by (rule outcome_returns_NULL) simp_all

lemma outcome_loop_guards:
  assumes "loop_ok w" "api_outcome Q w (rest w)"
  shows "api_outcome Q w (ASSERT_LOOP_THREAD E (ASSERT_RING_LOOP_IS_CLOSING E rest) w)"
  using assms outcome_raise [OF assms(1)]
  by (simp add: ASSERT_LOOP_THREAD_def ASSERT_RING_LOOP_IS_CLOSING_def)

lemma outcome_file_guard:
  assumes "loop_ok w" "files w self = Some f" "\<not> file_closed f \<Longrightarrow> api_outcome Q w (rest w)"
  shows "api_outcome Q w (file_guard E self rest w)"
  unfolding file_guard_def
  by (rule outcome_loop_guards) (use assms outcome_raise [OF assms(1)] in simp_all)

lemma parse_timeout_state:
  "parse_timeout_params obj out w = (r, tp, w') \<Longrightarrow>
     (r = 0 \<and> w' = w) \<or> (r = -1 \<and> (\<exists>e. w' = py (Err_set e) w))"
  by (auto simp: parse_timeout_params_def split: py_param.splits option.splits)

lemma outcome_with_timeout:
  assumes "loop_ok w" "\<And>tp. api_outcome Q w (rest tp w)"
  shows "api_outcome Q w (with_timeout tobj rest w)"
proof -
  obtain r tp w' where p: "parse_timeout_params tobj no_timeout w = (r, tp, w')"
    by (metis surj_pair)
  from parse_timeout_state [OF this] show ?thesis
  proof (elim disjE conjE exE)
    assume "r = 0" "w' = w"
    with p assms(2) show ?thesis by (simp add: with_timeout_def)
  next
    fix e assume "r = -1" "w' = py (Err_set e) w"
    with p assms(1) show ?thesis
      by (auto simp: with_timeout_def intro!: outcome_returns_NULL)
  qed
qed

lemma outcome_with_future:
  assumes "loop_ok w"
    and "\<And>fut w1. ext.more w1 = ext.more w \<Longrightarrow>
      (\<And>r. ledger (hist w1) r = ledger (hist w) r + of_bool (r = Reference fut)) \<Longrightarrow>
      api_outcome Q w (rest fut w1)"
  shows "api_outcome Q w (with_future E rest w)"
proof (cases "e_create_future E (hist w)")
  case None
  with assms(1) show ?thesis
    by (auto simp: with_future_def create_future_def Let_def intro!: outcome_returns_NULL)
next
  case (Some fut)
  with assms(2) [of "py (Create_future (Some fut)) w" fut] show ?thesis
    by (simp add: with_future_def create_future_def Let_def)
qed

section \<open>What a method takes before it registers\<close>

lemma built_plain:
  assumes "built w q w1"
  shows "plain_payload w1 q" "\<And>r. ledger (hist w1) r = ledger (hist w) r + freed_units w1 q r"
  using assms by (auto simp: built_def plain_payload_def freed_units_def)

text \<open>A current context: the variable exists, holds a capsule around a context that has not been freed,
  and the names of its methods can be made.\<close>

definition context_ready :: "env \<Rightarrow> loopst \<Rightarrow> bool" where
  "context_ready E w \<longleftrightarrow> context_var w \<noteq> None \<and> current w \<noteq> None \<and>
     (\<forall>h. e_new_object E h \<noteq> None)"

lemma context_read:
  assumes "context_ready E w" "ext.more v = ext.more w \<or> bufst.more v = bufst.more w"
  obtains c u where "current w = Some c" "get_buffer E v = Some (ctx_payload c, u)"
    "get_transfer_mode E v = Some (ctx_transfer_mode c, u)"
    "get_stream_strategy E v = Some (ctx_stream c, u)"
    "ext.more u = ext.more v" "\<And>r. ledger (hist u) r = ledger (hist v) r"
proof -
  have same: "context_var v = context_var w" "context_value v = context_value w"
    "contexts v = contexts w"
    using assms(2) loopst_more [of v w] loopst_bufst_more [of v w] by auto
  from assms(1) obtain c where c: "context_var w \<noteq> None" "current w = Some c"
    by (auto simp: context_ready_def)
  then obtain k p where p: "context_value w = Ctx_capsule k p" "deref_ctx w p = Some c"
    by (auto simp: current_def pointee_def split: ctx_value.splits)
  from assms(1) obtain n where n: "e_new_object E (hist v) = Some n"
    unfolding context_ready_def by blast
  define u where "u = py (Decref n) (py (New_object (Some n)) v)"
  have "ContextVar_get E None v = (Some p, u)"
    using c(1) p(1) n same by (simp add: ContextVar_get_def py_new_def u_def Let_def)
  moreover have "deref_ctx u p = Some c"
    using p(2) same by (simp add: deref_ctx_def u_def split: if_splits)
  ultimately show ?thesis
    by (intro that [of c u])
      (simp_all add: get_buffer_def get_transfer_mode_def get_stream_strategy_def current_field_def
        c(2) u_def)
qed

section \<open>The interface of the methods\<close>

text \<open>
  A client of the extension calls methods that satisfy the contract in every state with a
  well-formed registry where the object it calls them on exists.
\<close>

locale api_method =
  fixes call :: "env \<Rightarrow> loopst \<Rightarrow> obj api"
    and ready :: "env \<Rightarrow> loopst \<Rightarrow> bool"
    and Q :: "RequestSlot \<Rightarrow> bool"
  assumes atomic: "loop_ok w \<Longrightarrow> ready E w \<Longrightarrow> api_outcome Q w (call E w)"
begin

lemma defined: "loop_ok w \<Longrightarrow> ready E w \<Longrightarrow> \<exists>r w'. call E w = Some (r, w') \<and> loop_ok w'"
  using atomic [of w E] by (auto simp: api_outcome_def)

text \<open>A refused call leaves no trace but the exception: no request, no leaked reference or
  block.\<close>

lemma refused:
  assumes "loop_ok w" "ready E w" "call E w = Some (None, w')"
  shows "pending w' = pending w \<and> ledger (hist w') = ledger (hist w)"
  using atomic [OF assms(1,2)] assms(3) by (simp add: api_outcome_def)

text \<open>An accepted call has submitted an entry whose user data lead a completion to the future that
  the call returned.\<close>

lemma accepted:
  assumes "loop_ok w" "ready E w" "call E w = Some (Some fut, w')"
  shows "\<exists>i s. pending w i = None \<and> is_c_int i \<and> pending w' = (pending w)(i \<mapsto> s) \<and>
     future s = Some fut \<and> Q s \<and> plain_payload w' (buffer_payload s) \<and> submitted i w' \<and>
     loop_ok w' \<and>
     (\<forall>x. ledger (hist w') x =
        ledger (hist w) x + of_bool (x = Reference fut) + slot_units w' s x)"
  using atomic [OF assms(1,2)] unfolding assms(3) api_outcome_def by simp

end

end
