(* ===== verification/File_Contract.thy ===== *)
theory File_Contract
  imports Api_Contract
begin

text \<open>
  The methods of the file object satisfy the contract of \<open>Api_Contract\<close>: one interpretation of
  \<open>api_method\<close> for each, and the properties of the file methods that follow.
\<close>

text \<open>A file object that exists and whose open has completed.\<close>

definition file_ready :: "obj \<Rightarrow> env \<Rightarrow> loopst \<Rightarrow> bool" where
  "file_ready self E w \<longleftrightarrow> file_fd_of w self \<noteq> None"

lemma file_readyE:
  assumes "file_ready self E w"
  obtains f fd where "files w self = Some f" "file_fd f = Some fd" "file_fd_of w self = Some fd"
  using assms by (auto simp: file_ready_def file_fd_of_def bind_eq_Some_conv)

section \<open>Methods without a payload\<close>

lemma outcome_plain_method:
  assumes "loop_ok w" "file_ready self E w"
    and run: "\<And>fd tp i w2. file_fd_of w2 self = Some fd \<Longrightarrow>
       run tp i w2 = Some (perform_framed (rq fd) E i tp w2)"
    and Q: "\<And>i fut. Q (new_request i fut 0 ONESHOT opc (Some self) None 0 0)"
  shows "api_outcome Q w (file_guard E self (with_timeout tobj (\<lambda>tp. with_future E (\<lambda>fut.
     file_request self fut 0 ONESHOT opc (run tp)))) w)"
proof -
  from assms(2) obtain f fd where f: "files w self = Some f" "file_fd_of w self = Some fd"
    by (rule file_readyE)
  show ?thesis
  proof (rule outcome_file_guard [OF assms(1) f(1)], rule outcome_with_timeout [OF assms(1)],
      rule outcome_with_future [OF assms(1)])
    fix tp fut w1
    assume more: "ext.more w1 = ext.more w"
      and led: "\<And>r. ledger (hist w1) r = ledger (hist w) r + of_bool (r = Reference fut)"
    note same = loopst_more [OF more]
    have run1: "run tp i w2 = Some (perform_framed (rq fd) E i tp w2)" if "files w2 = files w1" for i w2
      using f(2) that by (intro run) (simp add: file_fd_of_def same)
    show "api_outcome Q w (file_request self fut 0 ONESHOT opc (run tp) w1)"
      by (rule outcome_file_request [where rq = "rq fd" and tp = tp])
        (simp_all add: same assms(1) led run1 Q)
  qed
qed

interpretation file_fsync: api_method
  "\<lambda>E. UringioFile_fsync E self tobj" "file_ready self"
  "request_of IORING_OP_FSYNC False (Some self) None" for self tobj
  unfolding UringioFile_fsync_def
  by unfold_locales
    (rule outcome_plain_method [where rq = R_fsync]; simp add: fd_run_def)

interpretation file_fdatasync: api_method
  "\<lambda>E. UringioFile_fdatasync E self tobj" "file_ready self"
  "request_of IORING_OP_FSYNC False (Some self) None" for self tobj
  unfolding UringioFile_fdatasync_def
  by unfold_locales
    (rule outcome_plain_method [where rq = R_fdatasync]; simp add: fd_run_def)

interpretation file_close: api_method
  "\<lambda>E. UringioFile_close E self tobj" "file_ready self"
  "request_of IORING_OP_CLOSE False (Some self) None" for self tobj
  unfolding UringioFile_close_def
  by unfold_locales
    (rule outcome_plain_method [where rq = R_close_file]; simp add: fd_run_def)

interpretation file_splice: api_method
  "\<lambda>E. UringioFile_splice E self src dst cnt offset_src offset_dst flag tobj" "file_ready self"
  "request_of IORING_OP_SPLICE False (Some self) None"
  for self src dst cnt offset_src offset_dst flag tobj
  unfolding UringioFile_splice_def
  by unfold_locales
    (rule outcome_plain_method
      [where rq = "\<lambda>fd. R_splice src offset_src dst offset_dst cnt flag"]; simp)

section \<open>Methods with a payload of their own\<close>

interpretation file_write: api_method
  "\<lambda>E. UringioFile_write E self data offset tobj" "file_ready self"
  "request_of IORING_OP_WRITE True (Some self) None" for self data offset tobj
proof unfold_locales
  fix w E
  let ?Q = "request_of IORING_OP_WRITE True (Some self) None"
  assume ok: "loop_ok w" and "file_ready self E w"
  then obtain f fd where f: "files w self = Some f" "file_fd_of w self = Some fd"
    by (blast elim: file_readyE)
  show "api_outcome ?Q w (UringioFile_write E self data offset tobj w)"
    unfolding UringioFile_write_def
  proof (rule outcome_file_guard [OF ok f(1)], rule outcome_with_timeout [OF ok],
      rule outcome_with_future [OF ok])
    fix tp fut w1
    assume more: "ext.more w1 = ext.more w"
      and led: "\<And>r. ledger (hist w1) r = ledger (hist w) r + of_bool (r = Reference fut)"
    note same1 = loopst_more [OF more]
    obtain q w2 where mk: "create_buffer_payload_from_data E data w1 = (q, w2)" by (metis surj_pair)
    note mk2 = from_data_built [OF mk]
    note same2 = loopst_bufst_more [OF conjunct1 [OF mk2]]
    show "api_outcome ?Q w (let (bp, w) = create_buffer_payload_from_data E data w1
       in if bp = 0 then Some (None, py (Decref fut) w)
          else file_request self fut bp ONESHOT IORING_OP_WRITE
                 (\<lambda>i w. write_dispatcher E self bp i offset tp w) w)"
    proof (cases "q = 0")
      case True
      with mk mk2 same1 same2 ok led show ?thesis by (auto intro!: outcome_returns_NULL)
    next
      case False
      with mk2 obtain x la b where b: "built w1 q w2" "payloads w2 q = Some x" "linear x = To la"
        "la_elems la = [b]" by auto
      from b(1,2) have m: "mode x = Some NORMAL_BUF" by (auto simp: built_def)
      have run: "write_dispatcher E self q i offset tp w3 =
          Some (perform_framed (R_write fd (buffer b) (word_of_nat (len b)) offset) E i tp w3)"
        if "payloads w3 = payloads w2" "files w3 = files w2" for i w3
        using that b m f(2) same1 same2
        by (simp add: write_dispatcher_def linear_head_def file_fd_of_def)
      have "api_outcome ?Q w (file_request self fut q ONESHOT IORING_OP_WRITE
          (\<lambda>i w. write_dispatcher E self q i offset tp w) w2)"
        by (rule outcome_file_request [OF _ _ built_plain(1) [OF b(1)] _ run])
          (use False same1 same2 ok led built_plain(2) [OF b(1)] in simp_all)
      with False mk show ?thesis by simp
    qed
  qed
qed

section \<open>Methods with a vector of the caller's\<close>

lemma outcome_file_payload:
  assumes "loop_ok w1" "pending w1 = pending w" "plain_payload w1 bp"
    and led: "\<And>r. ledger (hist w1) r = ledger (hist w) r + freed_units w1 bp r"
    and run: "\<And>i w2. payloads w2 = payloads w1 \<Longrightarrow> files w2 = files w1 \<Longrightarrow>
       run i w2 = Some (perform_framed rq E i tp w2)"
    and "\<And>i fut. Q (new_request i fut bp strategy opc (Some self) None 0 0)"
  shows "api_outcome Q w
     (with_future_or_free E bp (\<lambda>fut. file_request self fut bp strategy opc run) w1)"
proof (cases "e_create_future E (hist w1)")
  case None
  let ?v = "py (Create_future None) w1"
  have rel: "releasable ?v bp" using plain_releasable [OF assms(3)] by (simp add: releasable_def)
  obtain v where v: "free_buffer_payload bp False ?v = Some v" "bufst.more v = bufst.more ?v"
    "\<And>r. ledger (hist v) r = ledger (hist ?v) r - freed_units ?v bp r"
    by (rule free_releasable [OF rel], rule that; assumption?)
  note same = loopst_bufst_more [OF v(2)]
  have "freed_units ?v bp r = freed_units w1 bp r" for r by (simp add: freed_units_def)
  then have "api_outcome Q w (Some (None, v))"
    by (intro outcome_returns_NULL) (use assms(1,2) v(3) led in \<open>simp_all add: same\<close>)
  with None v(1) show ?thesis by (simp add: with_future_or_free_def create_future_def Let_def)
next
  case (Some fut)
  let ?v = "py (Create_future (Some fut)) w1"
  have "api_outcome Q w (file_request self fut bp strategy opc run ?v)"
  proof (rule outcome_file_request)
    show "run i w2 = Some (perform_framed rq E i tp w2)"
      if "payloads w2 = payloads ?v" "files w2 = files ?v" for i w2
      using that by (intro run) simp_all
  qed (use assms in \<open>simp_all add: plain_payload_def freed_units_def\<close>)
  with Some show ?thesis by (simp add: with_future_or_free_def create_future_def Let_def)
qed

lemma raw_run_vector:
  assumes "payloads w q = Some x" "vector x = To v" "file_fd_of w self = Some fd"
  shows "raw_run uringio_writev E self q offset flags tp i w =
     Some (perform_framed (R_writev fd (iovecs_addr v) (nr_vecs v) offset flags) E i tp w)"
  using assms by (simp add: raw_run_def vector_of_def)

text \<open>The payload around an array of \<open>iovec\<close>s takes over the view that was exported before.\<close>

lemma from_pybuffer_built:
  assumes "create_buffer_payload_from_pybuffer E b (py (GetBuffer obj (Some b)) w) = (q, w1)"
  shows "bufst.more w1 = bufst.more w \<and>
     (if q = 0 then \<forall>r. ledger (hist w1) r = ledger (hist w) r + export_units [b] r
      else built w q w1 \<and> (\<exists>x v. payloads w1 q = Some x \<and> vector x = To v))"
proof -
  define u where "u = py (GetBuffer obj (Some b)) w"
  define p where "p = e_malloc E (hist u) sizeof_BufferPayload"
  define u1 where "u1 = put_payload p zero_payload (put_payload p raw_payload
      (libc (Malloc sizeof_BufferPayload p) u))"
  define n where "n = (word_of_nat (snd b div sizeof_iovec) :: 32 word)"
  define vec where "vec = e_pymem_malloc E (hist u1) sizeof_VectoredBuffer"
  define u2 where "u2 = py (PyMem_malloc sizeof_VectoredBuffer vec) u1"
  define k where "k = size_mult sizeof_iovec (unat n)"
  define ia where "ia = e_pymem_malloc E (hist u2) k"
  define u3 where "u3 = py (PyMem_malloc k ia) u2"
  define va where "va = e_pymem_malloc E (hist u3) sizeof_Py_buffer"
  define u4 where "u4 = py (PyMem_malloc sizeof_Py_buffer va) u3"
  note ws = u4_def u3_def u2_def u1_def u_def
  have led: "ledger (hist u4) r = ledger (hist w) r + export_units [b] r + of_bool (p \<noteq> 0 \<and> r = Block p) +
      of_bool (vec \<noteq> 0 \<and> r = PyBlock vec) + of_bool (ia \<noteq> 0 \<and> r = PyBlock ia) +
      of_bool (va \<noteq> 0 \<and> r = PyBlock va)" for r
    by (cases b) (simp add: ws)
  show ?thesis
  proof (cases "p = 0 \<or> vec = 0 \<or> ia = 0 \<or> va = 0")
    case True
    with assms show ?thesis
      by (cases b) (auto simp: create_buffer_payload_from_pybuffer_def malloc_payload_def c_malloc_def
          pymem_malloc_def Let_def p_def vec_def ia_def va_def ws n_def k_def split: if_splits)
  next
    case ok: False
    let ?x = "zero_payload\<lparr>payload_type := Some PAYLOAD_IOVEC, amount := Some 1, linear := Null,
      vector := To \<lparr>vec_addr = vec, iovecs_addr = ia,
        iovecs = read_iovecs (e_mem E (hist u3)) (fst b) (unat n), nr_vecs = n,
        vec_views = To \<lparr>vs_addr = va, vs_bufs = [b]\<rparr>\<rparr>,
      mode := Some NORMAL_BUF, payload_origin := Some PAYLOAD_USER\<rparr>"
    from assms ok have q: "q = p" "p \<noteq> 0" and w1: "payloads w1 p = Some ?x"
      "bufst.more w1 = bufst.more w" "hist w1 = hist u4"
      by (auto simp: create_buffer_payload_from_pybuffer_def malloc_payload_def c_malloc_def
          pymem_malloc_def Let_def p_def vec_def ia_def va_def ws n_def k_def)
    have "payload_wf ?x" using ok by (simp add: payload_wf_def wf_defs)
    moreover have "ledger (hist w1) r = ledger (hist w) r + payload_units ?x r + of_bool (r = Block p)"
      for r using led [of r] ok w1(3) by (simp add: payload_units_def units_defs)
    ultimately have "built w p w1" using q(2) w1(1) by (auto simp: built_def)
    with q w1(1,2) show ?thesis by simp
  qed
qed

interpretation file_writev_raw: api_method
  "\<lambda>E. UringioFile_writev_raw E self buffers_obj contiguous flags offset tobj" "file_ready self"
  "request_of IORING_OP_WRITEV True (Some self) None"
  for self buffers_obj contiguous flags offset tobj
proof unfold_locales
  fix w E
  let ?Q = "request_of IORING_OP_WRITEV True (Some self) None"
  assume ok: "loop_ok w" and "file_ready self E w"
  then obtain f fd where f: "files w self = Some f" "file_fd_of w self = Some fd"
    by (blast elim: file_readyE)
  show "api_outcome ?Q w (UringioFile_writev_raw E self buffers_obj contiguous flags offset tobj w)"
    unfolding UringioFile_writev_raw_def
  proof (rule outcome_file_guard [OF ok f(1)], rule outcome_with_timeout [OF ok])
    fix tp
    let ?b = "e_get_buffer E (hist w) buffers_obj"
    let ?w = "py (GetBuffer buffers_obj ?b) w"
    show "api_outcome ?Q w (let b = ?b; w = py (GetBuffer buffers_obj b) w
       in case b of
            None \<Rightarrow> Some (None, w)
          | Some (addr, n) \<Rightarrow>
              if n mod sizeof_iovec \<noteq> 0
              then raise_exc (ValueError ''iovecs buffer has invalid size'')
                     (py (Buffer_release addr n) w)
              else if \<not> contiguous
              then raise_exc (ValueError ''iovecs must be contiguous'')
                     (py (Buffer_release addr n) w)
              else let (bp, w) = create_buffer_payload_from_pybuffer E (addr, n) w
                   in if bp = 0 then Some (None, py (Buffer_release addr n) w)
                      else with_future_or_free E bp (\<lambda>fut w.
                             file_request self fut bp ONESHOT IORING_OP_WRITEV
                               (raw_run uringio_writev E self bp offset flags tp) w) w)"
    proof (cases ?b)
      case None
      with ok show ?thesis by (auto intro!: outcome_returns_NULL)
    next
      case (Some b)
      obtain addr n where b: "b = (addr, n)" by (cases b)
      obtain q w1 where mk: "create_buffer_payload_from_pybuffer E b
          (py (GetBuffer buffers_obj (Some b)) w) = (q, w1)" by (metis surj_pair)
      note mk1 = from_pybuffer_built [OF mk]
      note same1 = loopst_bufst_more [OF conjunct1 [OF mk1]]
      have refuse: "api_outcome ?Q w (raise_exc e (py (Buffer_release addr n) ?w))" for e
        unfolding raise_exc_def
        by (rule outcome_returns_NULL) (simp_all add: ok Some b)
      have "api_outcome ?Q w (if q = 0 then Some (None, py (Buffer_release addr n) w1)
          else with_future_or_free E q (\<lambda>fut w. file_request self fut q ONESHOT IORING_OP_WRITEV
            (raw_run uringio_writev E self q offset flags tp) w) w1)"
      proof (cases "q = 0")
        case True
        with mk1 same1 ok b show ?thesis by (auto intro!: outcome_returns_NULL)
      next
        case False
        with mk1 obtain x v where x: "built w q w1" "payloads w1 q = Some x" "vector x = To v" by auto
        have run: "raw_run uringio_writev E self q offset flags tp i w2 =
            Some (perform_framed (R_writev fd (iovecs_addr v) (nr_vecs v) offset flags) E i tp w2)"
          if "payloads w2 = payloads w1" "files w2 = files w1" for i w2
          using that x(2,3) f(2) same1 by (intro raw_run_vector) (simp_all add: file_fd_of_def)
        have "api_outcome ?Q w (with_future_or_free E q (\<lambda>fut. file_request self fut q ONESHOT
            IORING_OP_WRITEV (raw_run uringio_writev E self q offset flags tp)) w1)"
          by (rule outcome_file_payload [OF _ _ built_plain(1) [OF x(1)] _ run])
            (use False same1 ok built_plain(2) [OF x(1)] in simp_all)
        with False show ?thesis by simp
      qed
      then show ?thesis using Some b mk refuse by (simp add: Let_def)
    qed
  qed
qed

text \<open>A sequence of fewer than \<open>2 ^ 31\<close> items, which is what \<open>(int)nr_vecs\<close> can count.\<close>

definition short_sequence :: "env \<Rightarrow> obj \<Rightarrow> bool" where
  "short_sequence E q \<longleftrightarrow>
     (\<forall>h fast items. e_seq_fast E h q = Some (fast, items) \<longrightarrow> length items < 2 ^ 31)"

lemma vector_written:
  assumes "serialize_vectored_buffers E q p w = Some (True, w')" "short_sequence E q"
  obtains v where "payloads w' =
      (payloads w)(p := map_option (\<lambda>x. x\<lparr>linear := Null, vector := To v\<rparr>) (payloads w p))"
    "bufst.more w' = bufst.more w" "vector_wf PAYLOAD_USER (sint (nr_vecs v)) (To v)"
    "\<And>r. ledger (hist w') r = ledger (hist w) r + vector_units PAYLOAD_USER (To v) r"
proof -
  have "e_seq_fast E (hist w) q \<noteq> None"
  proof
    assume "e_seq_fast E (hist w) q = None"
    with assms(1) show False by (simp add: serialize_vectored_buffers_def)
  qed
  then obtain fast items n w0 vaddr w1 vec w2 iaddr w3 ok vs w4 where
    eqs: "e_seq_fast E (hist w) q = Some (fast, items)" "n = c_int (int (length items))"
      "w0 = py (Seq_fast q (Some fast)) w"
      "vaddr = e_pymem_malloc E (hist w0) (size_mult sizeof_Py_buffer (size_t n))"
      "w1 = py (PyMem_malloc (size_mult sizeof_Py_buffer (size_t n)) vaddr) w0"
      "vec = e_pymem_malloc E (hist w1) sizeof_VectoredBuffer"
      "w2 = py (PyMem_malloc sizeof_VectoredBuffer vec) w1"
      "iaddr = e_pymem_malloc E (hist w2) (size_mult sizeof_iovec (size_t n))"
      "w3 = py (PyMem_malloc (size_mult sizeof_iovec (size_t n)) iaddr) w2"
      "export_fast E (take (nat n) items) [] w3 = ((ok, vs), w4)"
    by (metis surj_pair option.exhaust)
  note vs = export_all_fast_ledger [OF eqs(10)]
  let ?v = "\<lparr>vec_addr = vec, iovecs_addr = iaddr,
      iovecs = map (\<lambda>(b, k). \<lparr>iov_base = b, iov_len = k\<rparr>) vs, nr_vecs = word_of_int n,
      vec_views = To \<lparr>vs_addr = vaddr, vs_bufs = vs\<rparr>\<rparr>"
  from assms(1) serialize_vectored_buffers_eq [OF eqs, of p]
  have ok: "vaddr \<noteq> 0" "vec \<noteq> 0" "iaddr \<noteq> 0" "ok"
    and w': "w' = upd_payload p (\<lambda>x. x\<lparr>vector := To ?v, linear := Null\<rparr>) (py (Decref fast) w4)"
    by (auto simp: upd_payload_py split: if_splits)
  have "length items < 2 ^ 31" using assms(2) eqs(1) unfolding short_sequence_def by blast
  then have n: "n = int (length items)" "is_c_int n"
    unfolding eqs(2) by (simp_all add: is_c_int_def)
  have "sint (nr_vecs ?v) = c_int n" by (simp add: c_int_def sint_sbintrunc')
  with n(2) have count: "sint (nr_vecs ?v) = n" by simp
  have more: "ext.more w4 = ext.more w" using vs(2) eqs(3,5,7,9) by simp
  show ?thesis
  proof (rule that [of ?v])
    show "payloads w' =
        (payloads w)(p := map_option (\<lambda>x. x\<lparr>linear := Null, vector := To ?v\<rparr>) (payloads w p))"
      using payloads_more [OF more] by (simp add: w' upd_vector_linear)
    show "bufst.more w' = bufst.more w" using bufst_more_eq [OF more] by (simp add: w')
    show "vector_wf PAYLOAD_USER (sint (nr_vecs ?v)) (To ?v)"
      unfolding count using ok vs(1) n(1) by (simp add: wf_defs)
    show "ledger (hist w') r = ledger (hist w) r + vector_units PAYLOAD_USER (To ?v) r" for r
      using vs(3) ok eqs(3,5,7,9) by (simp add: w' units_defs)
  qed
qed

lemma fresh_vector:
  assumes "context_ready E w" "short_sequence E q"
  obtains p u where "get_or_create_vectored_buffer E (Some q) w = Some (p, u)"
    "bufst.more u = bufst.more w" "if p = 0 then ledger (hist u) = ledger (hist w)
     else built w p u \<and> (\<exists>x v. payloads u p = Some x \<and> vector x = To v)"
proof -
  obtain c u1 where c: "current w = Some c" "get_buffer E w = Some (ctx_payload c, u1)"
    "ext.more u1 = ext.more w" "\<And>r. ledger (hist u1) r = ledger (hist w) r"
    by (rule context_read [OF assms(1) disjI1 [OF refl]], rule that; assumption?)
  have same: "bufst.more u1 = bufst.more w" using c(3) by (rule bufst_more_eq)
  define p where "p = e_malloc E (hist u1) sizeof_BufferPayload"
  define u2 where "u2 = put_payload p zero_payload (put_payload p raw_payload
      (libc (Malloc sizeof_BufferPayload p) u1))"
  have led2: "ledger (hist u2) r = ledger (hist w) r + of_bool (p \<noteq> 0 \<and> r = Block p)" for r
    using c(4) by (simp add: u2_def)
  have st2: "bufst.more u2 = bufst.more w" "payloads u2 p = Some zero_payload"
    using same by (simp_all add: u2_def)
  show ?thesis
  proof (cases "p = 0")
    case True
    with c same that [of 0 "libc (Malloc sizeof_BufferPayload 0) u1"] show ?thesis
      by (simp add: get_or_create_vectored_buffer_def malloc_payload_def c_malloc_def
          p_def [symmetric] Let_def fun_eq_iff)
  next
    case False
    obtain b u3 where s: "serialize_vectored_buffers E q p u2 = Some (b, u3)"
      by (cases "serialize_vectored_buffers E q p u2")
        (auto simp: serialize_vectored_buffers_def Let_def split: option.splits prod.splits if_splits)
    have get: "get_or_create_vectored_buffer E (Some q) w =
        (if \<not> b then Some (0, drop_payload p u3)
         else do {
           x \<leftarrow> payloads u3 p;
           n \<leftarrow> vector_count x;
           Some (p, finish_payload n PAYLOAD_USER NORMAL_BUF PAYLOAD_IOVEC p u3)
         })"
      using c(2) False s by (simp add: get_or_create_vectored_buffer_def malloc_payload_def
          c_malloc_def p_def [symmetric] Let_def u2_def [symmetric])
    show ?thesis
    proof (cases b)
      case b: False
      with s have "serialize_vectored_buffers E q p u2 = Some (False, u3)" by simp
      from vector_export.fails [OF this]
      have u3: "ledger (hist u3) = ledger (hist u2)" "ext.more u3 = ext.more u2" by simp_all
      have "bufst.more (drop_payload p u3) = bufst.more w"
        using bufst_more_eq [OF u3(2)] st2(1) by (simp add: drop_payload_def)
      moreover have "ledger (hist (drop_payload p u3)) = ledger (hist w)"
        using False u3(1) led2 by (simp add: drop_payload_def fun_eq_iff)
      ultimately show ?thesis using that [of 0] get b by simp
    next
      case b: True
      from s b have s': "serialize_vectored_buffers E q p u2 = Some (True, u3)" by simp
      obtain v where v: "payloads u3 = (payloads u2)
          (p := map_option (\<lambda>x. x\<lparr>linear := Null, vector := To v\<rparr>) (payloads u2 p))"
        "bufst.more u3 = bufst.more u2" "vector_wf PAYLOAD_USER (sint (nr_vecs v)) (To v)"
        "\<And>r. ledger (hist u3) r = ledger (hist u2) r + vector_units PAYLOAD_USER (To v) r"
        by (rule vector_written [OF s' assms(2)], rule that; assumption?)
      let ?u = "finish_payload (sint (nr_vecs v)) PAYLOAD_USER NORMAL_BUF PAYLOAD_IOVEC p u3"
      let ?x = "zero_payload\<lparr>linear := Null, vector := To v, amount := Some (sint (nr_vecs v)),
        payload_origin := Some PAYLOAD_USER, mode := Some NORMAL_BUF,
        payload_type := Some PAYLOAD_IOVEC\<rparr>"
      have x: "payloads ?u p = Some ?x" using v(1) st2(2) by (simp add: finish_payload_def)
      have "get_or_create_vectored_buffer E (Some q) w = Some (p, ?u)"
        using get b v(1) st2(2) by (simp add: vector_count_def)
      moreover have "bufst.more ?u = bufst.more w" using v(2) st2(1) by (simp add: finish_payload_def)
      moreover have "payload_wf ?x" using v(3) by (simp add: payload_wf_def linear_wf_def)
      then have "built w p ?u"
        using False x v(4) led2
        by (auto simp: built_def payload_units_def linear_units_def finish_payload_def)
      ultimately show ?thesis using that [of p ?u] False x by simp
    qed
  qed
qed

interpretation file_writev: api_method
  "\<lambda>E. UringioFile_writev E self buffers_obj flags offset tobj"
  "\<lambda>E w. file_ready self E w \<and> context_ready E w \<and> short_sequence E buffers_obj"
  "request_of IORING_OP_WRITEV True (Some self) None"
  for self buffers_obj flags offset tobj
proof unfold_locales
  fix w E
  let ?Q = "request_of IORING_OP_WRITEV True (Some self) None"
  assume ok: "loop_ok w" and "file_ready self E w \<and> context_ready E w \<and> short_sequence E buffers_obj"
  then obtain f fd where f: "files w self = Some f" "file_fd_of w self = Some fd"
    and ctx: "context_ready E w" "short_sequence E buffers_obj"
    by (blast elim: file_readyE)
  obtain q w1 where mk: "get_or_create_vectored_buffer E (Some buffers_obj) w = Some (q, w1)"
    "bufst.more w1 = bufst.more w" "if q = 0 then ledger (hist w1) = ledger (hist w)
     else built w q w1 \<and> (\<exists>x v. payloads w1 q = Some x \<and> vector x = To v)"
    by (rule fresh_vector [OF ctx])
  note same1 = loopst_bufst_more [OF mk(2)]
  show "api_outcome ?Q w (UringioFile_writev E self buffers_obj flags offset tobj w)"
    unfolding UringioFile_writev_def
  proof (rule outcome_file_guard [OF ok f(1)], rule outcome_with_timeout [OF ok])
    fix tp
    show "api_outcome ?Q w (do {
        (bp, w) \<leftarrow> get_or_create_vectored_buffer E (Some buffers_obj) w;
        if bp = 0 then Some (None, w)
        else with_future_or_free E bp (\<lambda>fut w.
               file_request self fut bp ONESHOT IORING_OP_WRITEV
                 (raw_run uringio_writev E self bp offset flags tp) w) w
      })"
    proof (cases "q = 0")
      case True
      with mk same1 ok show ?thesis by (auto intro!: outcome_returns_NULL)
    next
      case False
      with mk(3) obtain x v where x: "built w q w1" "payloads w1 q = Some x" "vector x = To v" by auto
      have run: "raw_run uringio_writev E self q offset flags tp i w2 =
          Some (perform_framed (R_writev fd (iovecs_addr v) (nr_vecs v) offset flags) E i tp w2)"
        if "payloads w2 = payloads w1" "files w2 = files w1" for i w2
        using that x(2,3) f(2) same1 by (intro raw_run_vector) (simp_all add: file_fd_of_def)
      have "api_outcome ?Q w (with_future_or_free E q (\<lambda>fut. file_request self fut q ONESHOT
          IORING_OP_WRITEV (raw_run uringio_writev E self q offset flags tp)) w1)"
        by (rule outcome_file_payload [OF _ _ built_plain(1) [OF x(1)] _ run])
          (use False same1 ok built_plain(2) [OF x(1)] in simp_all)
      with False mk(1) show ?thesis by simp
    qed
  qed
qed

section \<open>Leaving the context manager\<close>

lemma file_aexit_marked:
  "UringioFile_aexit E self body_exc w =
     (let (f, w) = create_future E w
      in case f of
           None \<Rightarrow> leave_exit E body_exc w
         | Some fut \<Rightarrow> marked check_file_result fut (Some self) None
             (\<lambda>w. case body_exc of
                Some e \<Rightarrow> raise_exception_group E False e (py (Decref fut) w)
              | None \<Rightarrow> raise_exc (RuntimeError ''Registry is full'') (py (Decref fut) w))
             (\<lambda>i w. fd_run uringio_close_file E self no_timeout i
                (upd_file self (\<lambda>x. x\<lparr>file_closed := True\<rparr>) w))
             (\<lambda>w. leave_exit E body_exc (upd_file self (\<lambda>x. x\<lparr>file_closed := False\<rparr>) w)) w)"
proof (cases "create_future E w")
  case (Pair f v)
  then show ?thesis
    unfolding UringioFile_aexit_def marked_def leave_exit_def Let_def by (cases f) simp_all
qed

interpretation file_aexit: api_method
  "\<lambda>E. UringioFile_aexit E self body_exc" "file_ready self"
  "request_of IORING_OP_CLOSE False (Some self) None" for self body_exc
proof unfold_locales
  fix w E
  let ?Q = "request_of IORING_OP_CLOSE False (Some self) None"
  assume ok: "loop_ok w" and "file_ready self E w"
  then obtain f fd where f: "files w self = Some f" "file_fd f = Some fd" "file_fd_of w self = Some fd"
    by (blast elim: file_readyE)
  show "api_outcome ?Q w (UringioFile_aexit E self body_exc w)"
  proof (cases "e_create_future E (hist w)")
    case None
    then show ?thesis
      unfolding file_aexit_marked create_future_def
      by (auto simp: Let_def ok intro!: outcome_leave_exit)
  next
    case (Some fut)
    define w1 where "w1 = py (Create_future (Some fut)) w"
    have w1: "loop_ok w1" "pending w1 = pending w" "files w1 = files w"
      "\<And>r. ledger (hist w1) r = ledger (hist w) r + of_bool (r = Reference fut)"
      by (simp_all add: w1_def ok)
    let ?run = "\<lambda>i w. fd_run uringio_close_file E self no_timeout i
       (upd_file self (\<lambda>x. x\<lparr>file_closed := True\<rparr>) w)"
    have run: "ran E (framed_body (R_close_file fd)) no_timeout (\<lambda>r. 0) i w2 (?run i w2)"
      if "files w2 = files w1" for i w2
      using f that w1(3)
      by (intro ran_marked [where v = "upd_file self (\<lambda>x. x\<lparr>file_closed := True\<rparr>) w2"])
        (simp_all add: fd_run_def file_fd_of_def upd_file_def)
    have "api_outcome ?Q w (case body_exc of
        Some e \<Rightarrow> raise_exception_group E False e (py (Decref fut) w1)
      | None \<Rightarrow> raise_exc (RuntimeError ''Registry is full'') (py (Decref fut) w1))"
      using w1 unfolding raise_exc_def
      by (auto intro!: outcome_exception_group outcome_returns_NULL split: option.split)
    then have "api_outcome ?Q w (marked check_file_result fut (Some self) None
        (\<lambda>w. case body_exc of
           Some e \<Rightarrow> raise_exception_group E False e (py (Decref fut) w)
         | None \<Rightarrow> raise_exc (RuntimeError ''Registry is full'') (py (Decref fut) w)) ?run
        (\<lambda>w. leave_exit E body_exc (upd_file self (\<lambda>x. x\<lparr>file_closed := False\<rparr>) w)) w1)"
      by (intro outcome_marked [OF w1(1,2,4) run] outcome_leave_exit) simp_all
    with Some show ?thesis
      by (simp add: file_aexit_marked create_future_def w1_def Let_def)
  qed
qed

end
