(* ===== verification/Socket_Api.thy ===== *)
theory Socket_Api
  imports File_Api
begin

text \<open>
  The socket object (\<open>src/python_api/ops/sockets\<close>): address serialisation, the dispatchers and the
  methods.  Every method ends in \<open>socket_request\<close>, which registers the request, runs the operation
  and undoes the registration when it was not submitted; what a method gives back when the table
  is full differs from method to method and is an argument.
\<close>

unbundle bit_operations_syntax

section \<open>\_helpers.c\<close>

definition check_sockets_result :: "int \<Rightarrow> int \<Rightarrow> obj \<Rightarrow> loopst \<Rightarrow> obj api" where
  "check_sockets_result result request_idx fut w =
     (if result < 1
      then do {
        let w = (if result = -1 then py (Err_set sqe_unavailable) w
                 else if result = -2
                 then py (Err_set (RuntimeError (''Wrong socket status.'' @ [CHR 0x0A]))) w
                 else if result = 0 then py (Err_set submission_failed) w
                 else w);
        let w = py (Decref fut) w;
        w \<leftarrow> loop_registry_remove request_idx w;
        Some (None, w)
      }
      else Some (Some fut, w))"

text \<open>\<open>htons\<close> on a little-endian machine, applied to \<open>(uint16_t)port\<close>.\<close>

definition htons :: "16 word \<Rightarrow> 16 word" where
  "htons x = push_bit 8 x OR drop_bit 8 x"

definition put_addr :: "ptr \<Rightarrow> sockaddr \<Rightarrow> loopst \<Rightarrow> loopst" where
  "put_addr p a w = w\<lparr>addrs := (addrs w)(p \<mapsto> a)\<rparr>"

definition free_addr :: "ptr \<Rightarrow> loopst \<Rightarrow> loopst" where
  "free_addr p w = (c_free p w)\<lparr>addrs := (addrs w)(p := None)\<rparr>"

abbreviation sizeof_sockaddr_storage :: nat where "sizeof_sockaddr_storage \<equiv> 128"

text \<open>One family's branch of \<open>_serialize_address\<close>: without a host the address stays zero.\<close>

definition fill_address ::
    "env \<Rightarrow> string option \<Rightarrow> int \<Rightarrow> int \<Rightarrow> string \<Rightarrow> ptr \<Rightarrow> loopst \<Rightarrow> ptr \<times> loopst" where
  "fill_address E host port domain msg p w =
     (let a = \<lparr>sa_family = domain, sa_port = htons (word_of_int port), sa_addr = 0\<rparr>
      in case host of
           None \<Rightarrow> (p, put_addr p a w)
         | Some h \<Rightarrow>
             (case e_inet_pton E domain h of
                Some n \<Rightarrow> (p, put_addr p (a\<lparr>sa_addr := n\<rparr>) w)
              | None \<Rightarrow> (0, py (Err_set (ConnectionRefusedError msg)) (free_addr p w))))"

definition serialize_address ::
    "env \<Rightarrow> string option \<Rightarrow> int \<Rightarrow> int \<Rightarrow> loopst \<Rightarrow> ptr \<times> loopst" where
  "serialize_address E host port domain w =
     (let (p, w) = c_malloc E sizeof_sockaddr_storage w
      in if p = 0 then (0, py (Err_set MemoryError) w)
         else if domain = AF_INET
         then fill_address E host port domain ''Invalid IPv4 address'' p w
         else if domain = AF_INET6
         then fill_address E host port domain ''Invalid IPv6 address'' p w
         else (0, free_addr p w))"

definition get_socket_size :: "int \<Rightarrow> 32 word" where
  "get_socket_size domain = (if domain = AF_INET6 then 28 else 16)"

text \<open>The same steps as the file's function, with a message of its own.\<close>

definition raise_socket_exception_group :: "env \<Rightarrow> bool \<Rightarrow> obj \<Rightarrow> loopst \<Rightarrow> 'r api" where
  "raise_socket_exception_group = raise_exception_group"

section \<open>socket\_ops\_dispatcher.c\<close>

definition sock_fd_of :: "loopst \<Rightarrow> obj \<Rightarrow> int option" where
  "sock_fd_of w self = Option.bind (sockets w self) sock_fd"

definition accept_dispatcher ::
    "env \<Rightarrow> obj \<Rightarrow> StreamStrategy \<Rightarrow> int \<Rightarrow> ptr \<Rightarrow> ptr \<Rightarrow> TimeoutParams \<Rightarrow> loopst \<Rightarrow>
     (int \<times> loopst) option" where
  "accept_dispatcher E self strategy i addr alen tp w =
     map_option (\<lambda>fd.
       case strategy of
         MULTISHOT \<Rightarrow> uringio_accept_multishot E i fd addr alen 0 tp w
       | ONESHOT \<Rightarrow> uringio_accept E i fd addr alen 0 tp w) (sock_fd_of w self)"

definition recv_dispatcher ::
    "env \<Rightarrow> obj \<Rightarrow> ptr \<Rightarrow> StreamStrategy \<Rightarrow> int \<Rightarrow> int \<Rightarrow> TimeoutParams \<Rightarrow> loopst \<Rightarrow>
     (int \<times> loopst) option" where
  "recv_dispatcher E self bp strategy i is_poll_first tp w = do {
     p \<leftarrow> payloads w bp;
     m \<leftarrow> mode p;
     fd \<leftarrow> sock_fd_of w self;
     b \<leftarrow> linear_head p;
     (if m = PROVIDED \<or> m = BUF_RING
      then do {
        g \<leftarrow> bgid p;
        Some (if strategy = MULTISHOT
              then uringio_recv_multishot E i fd (len b) g is_poll_first tp w
              else uringio_recv_buffer_select E i fd (len b) g is_poll_first tp w)
      }
      else Some (uringio_recv E i fd (buffer b) (len b) is_poll_first tp w))
   }"

text \<open>\<open>uringio_recvmsg_buffer_select\<close> takes \<open>is_poll_first\<close> before the group; the call passes the group
  first.\<close>

definition recvmsg_dispatcher ::
    "env \<Rightarrow> obj \<Rightarrow> ptr \<Rightarrow> StreamStrategy \<Rightarrow> int \<Rightarrow> int \<Rightarrow> ptr \<Rightarrow> TimeoutParams \<Rightarrow> loopst \<Rightarrow>
     (int \<times> loopst) option" where
  "recvmsg_dispatcher E self bp strategy i is_poll_first msghdr tp w = do {
     p \<leftarrow> payloads w bp;
     m \<leftarrow> mode p;
     fd \<leftarrow> sock_fd_of w self;
     (if m = PROVIDED \<or> m = BUF_RING
      then do {
        g \<leftarrow> bgid p;
        Some (if strategy = MULTISHOT
              then uringio_recvmsg_multishot E i fd g is_poll_first msghdr tp w
              else uringio_recvmsg_buffer_select E i fd g is_poll_first tp w)
      }
      else do {
        v \<leftarrow> vector_of p;
        Some (uringio_recvmsg E i fd (iovecs_addr v) (nr_vecs v) is_poll_first tp w)
      })
   }"

text \<open>\<open>(unsigned)linear->len\<close> of the plain send.\<close>

definition send_dispatcher ::
    "env \<Rightarrow> obj \<Rightarrow> ptr \<Rightarrow> TransferMode \<Rightarrow> int \<Rightarrow> int \<Rightarrow> TimeoutParams \<Rightarrow> loopst \<Rightarrow>
     (int \<times> loopst) option" where
  "send_dispatcher E self bp transfer i is_poll_first tp w = do {
     p \<leftarrow> payloads w bp;
     fd \<leftarrow> sock_fd_of w self;
     (if transfer = ZERO_COPY
      then do {
        m \<leftarrow> mode p;
        (if m = FIXED
         then do {
           (k, w) \<leftarrow> take_buffer_index bp p w;
           b \<leftarrow> linear_head p;
           Some (uringio_send_zc_fixed E i fd (buffer b) (len b) is_poll_first k tp w)
         }
         else do {
           b \<leftarrow> linear_head p;
           Some (uringio_send_zc E i fd (buffer b) (len b) is_poll_first tp w)
         })
      }
      else do {
        b \<leftarrow> linear_head p;
        Some (uringio_send E i fd (buffer b) (len b mod 2 ^ 32) is_poll_first tp w)
      })
   }"

definition sendmsg_dispatcher ::
    "env \<Rightarrow> obj \<Rightarrow> ptr \<Rightarrow> TransferMode \<Rightarrow> int \<Rightarrow> ptr \<Rightarrow> nat \<Rightarrow> int \<Rightarrow> TimeoutParams \<Rightarrow> loopst \<Rightarrow>
     (int \<times> loopst) option" where
  "sendmsg_dispatcher E self bp transfer i addr addrlen is_poll_first tp w = do {
     p \<leftarrow> payloads w bp;
     fd \<leftarrow> sock_fd_of w self;
     (case transfer of
        ZERO_COPY \<Rightarrow> do {
          (k, w) \<leftarrow> take_buffer_index bp p w;
          v \<leftarrow> vector_of p;
          Some (uringio_sendmsg_zc E i fd (iovecs_addr v) (nr_vecs v) addr addrlen is_poll_first k
                  tp w)
        }
      | NORMAL_TRANSFER \<Rightarrow> do {
          v \<leftarrow> vector_of p;
          Some (uringio_sendmsg E i fd (iovecs_addr v) (nr_vecs v) addr addrlen is_poll_first tp w)
        })
   }"

section \<open>sockets.c\<close>

definition upd_socket :: "obj \<Rightarrow> (UringioSocket \<Rightarrow> UringioSocket) \<Rightarrow> loopst \<Rightarrow> loopst" where
  "upd_socket x f w = w\<lparr>sockets := (sockets w)(x := map_option f (sockets w x))\<rparr>"

text \<open>The guards every method starts with.\<close>

definition socket_guard :: "env \<Rightarrow> obj \<Rightarrow> (loopst \<Rightarrow> 'r api) \<Rightarrow> loopst \<Rightarrow> 'r api" where
  "socket_guard E self rest =
     ASSERT_LOOP_THREAD E (ASSERT_RING_LOOP_IS_CLOSING E (\<lambda>w. do {
       s \<leftarrow> sockets w self;
       if sock_closed s then raise_exc (BrokenPipeError ''Socket is closed'') w else rest w
     }))"

text \<open>From \<open>registry_add\<close> to the end of a method.\<close>

definition socket_request ::
    "obj \<Rightarrow> obj \<Rightarrow> ptr \<Rightarrow> StreamStrategy \<Rightarrow> Opcode \<Rightarrow> ptr \<Rightarrow> ptr \<Rightarrow> (loopst \<Rightarrow> obj api) \<Rightarrow>
     (int \<Rightarrow> loopst \<Rightarrow> (int \<times> loopst) option) \<Rightarrow> loopst \<Rightarrow> obj api" where
  "socket_request self fut bp strategy opc sockaddr msghdr full run w = do {
     (request_idx, w) \<leftarrow> loop_registry_add fut bp strategy opc None (Some self) sockaddr msghdr w;
     if request_idx < 0 then full w
     else do {
       (result, w) \<leftarrow> run request_idx w;
       check_sockets_result result request_idx fut w
     }
   }"

abbreviation registry_is_full :: pyexc where
  "registry_is_full \<equiv> RuntimeError ''Registry is full''"

definition full_plain :: "obj \<Rightarrow> loopst \<Rightarrow> obj api" where
  "full_plain fut w = raise_exc registry_is_full (py (Decref fut) w)"

definition full_payload :: "obj \<Rightarrow> ptr \<Rightarrow> (loopst \<Rightarrow> loopst) \<Rightarrow> loopst \<Rightarrow> obj api" where
  "full_payload fut bp give_back w = do {
     w \<leftarrow> free_buffer_payload bp False (py (Decref fut) w);
     raise_exc registry_is_full (give_back w)
   }"

text \<open>\<open>free_buffer_payload\<close> and more when the future cannot be made.\<close>

definition with_future_or ::
    "env \<Rightarrow> (loopst \<Rightarrow> loopst option) \<Rightarrow> (obj \<Rightarrow> loopst \<Rightarrow> obj api) \<Rightarrow> loopst \<Rightarrow> obj api" where
  "with_future_or E undo rest w =
     (let (f, w) = create_future E w
      in case f of
           None \<Rightarrow> map_option (Pair None) (undo w)
         | Some fut \<Rightarrow> rest fut w)"

definition Uringio_prep_socket ::
    "env \<Rightarrow> running \<Rightarrow> bool \<Rightarrow> int \<Rightarrow> int \<Rightarrow> py_param \<Rightarrow> loopst \<Rightarrow> obj api" where
  "Uringio_prep_socket E r parsed domain socktype tobj =
     ASSERT_LOOP_IS_URINGIO r (ASSERT_LOOP_THREAD E (ASSERT_RING_LOOP_IS_CLOSING E (\<lambda>w.
       let (sock, w) = py_new E w
       in case sock of
            None \<Rightarrow> raise_exc MemoryError w
          | Some s \<Rightarrow>
              let w = w\<lparr>sockets := (sockets w)(s \<mapsto> \<lparr>sock_fd = None, sock_domain = None,
                          sock_addr = Some 0, sock_closed = False\<rparr>)\<rparr>;
                  w = py (Incref (loop_obj w)) w
              in if \<not> parsed then Some (None, py (Decref s) w)
                 else let (res, tp, w) = parse_timeout_params tobj no_timeout w
                      in if res < 0 then Some (None, py (Decref s) w)
                         else let (fut, w) = create_future E w
                              in case fut of
                                   None \<Rightarrow> Some (None, py (Decref s) w)
                                 | Some fu \<Rightarrow> do {
                      let w = upd_socket s (\<lambda>y. y\<lparr>sock_domain := Some domain\<rparr>) w;
                      (i, w) \<leftarrow> loop_registry_add fu 0 ONESHOT IORING_OP_SOCKET None (Some s) 0 0 w;
                      if i < 0
                      then raise_exc registry_is_full (py (Decref fu) (py (Decref s) w))
                      else
                        let (result, w) = prep_socket E i domain socktype tp w
                        in if result < 1
                           then do {
                             let w = (if result = -1 then py (Err_set sqe_unavailable) w
                                      else if result = -2
                                      then py (Err_set (RuntimeError
                                         (''Passed socket domain values are not awailable'' @
                                          [CHR 0x0A]))) w
                                      else if result = 0 then py (Err_set submission_failed) w
                                      else w);
                             w \<leftarrow> loop_registry_remove i (py (Decref fu) (py (Decref s) w));
                             Some (None, w)
                           }
                           else Some (Some fu, w)
                    })))"

text \<open>An operation on the socket's descriptor alone.\<close>

definition sock_run ::
    "(env \<Rightarrow> int \<Rightarrow> int \<Rightarrow> TimeoutParams \<Rightarrow> loopst \<Rightarrow> int \<times> loopst) \<Rightarrow> env \<Rightarrow> obj \<Rightarrow> TimeoutParams \<Rightarrow>
     int \<Rightarrow> loopst \<Rightarrow> (int \<times> loopst) option" where
  "sock_run op E self tp i w = map_option (\<lambda>fd. op E i fd tp w) (sock_fd_of w self)"

definition UringioSocket_clear :: "loopst \<Rightarrow> loopst" where
  "UringioSocket_clear w = py (Decref (loop_obj w)) w"

definition UringioSocket_aenter :: "env \<Rightarrow> obj \<Rightarrow> loopst \<Rightarrow> obj api" where
  "UringioSocket_aenter E self =
     with_future E (\<lambda>fut w. Some (Some fut, py (Set_result fut (PyObj self)) w))"

definition UringioSocket_aexit :: "env \<Rightarrow> obj \<Rightarrow> obj option \<Rightarrow> loopst \<Rightarrow> obj api" where
  "UringioSocket_aexit E self body_exc w =
     (let (f, w) = create_future E w
      in case f of
           None \<Rightarrow> (case body_exc of
               Some e \<Rightarrow> raise_socket_exception_group E True e w | None \<Rightarrow> Some (None, w))
         | Some fut \<Rightarrow> do {
             (idx, w) \<leftarrow> loop_registry_add fut 0 ONESHOT IORING_OP_CLOSE None (Some self) 0 0 w;
             if idx < 0
             then let w = py (Decref fut) w
                  in (case body_exc of
                        Some e \<Rightarrow> raise_socket_exception_group E False e w
                      | None \<Rightarrow> raise_exc registry_is_full w)
             else do {
               let w = upd_socket self (\<lambda>x. x\<lparr>sock_closed := True\<rparr>) w;
               (result, w) \<leftarrow> sock_run uringio_close_socket E self no_timeout idx w;
               (res, w) \<leftarrow> check_sockets_result result idx fut w;
               (case res of
                  Some x \<Rightarrow> Some (Some x, w)
                | None \<Rightarrow>
                    let w = upd_socket self (\<lambda>x. x\<lparr>sock_closed := False\<rparr>) w
                    in (case body_exc of
                          Some e \<Rightarrow> raise_socket_exception_group E True e w | None \<Rightarrow> Some (None, w)))
             }
           })"

definition UringioSocket_dealloc :: "obj \<Rightarrow> loopst \<Rightarrow> loopst option" where
  "UringioSocket_dealloc self w = do {
     s \<leftarrow> sockets w self;
     a \<leftarrow> sock_addr s;
     Some (UringioSocket_clear ((if a \<noteq> 0 then free_addr a w else w)
             \<lparr>sockets := (sockets w)(self := None)\<rparr>))
   }"

text \<open>\<open>bind\<close> and \<open>connect\<close> give the address back as soon as the entry has been submitted.\<close>

definition address_request ::
    "(env \<Rightarrow> int \<Rightarrow> int \<Rightarrow> ptr \<Rightarrow> 32 word \<Rightarrow> TimeoutParams \<Rightarrow> loopst \<Rightarrow> int \<times> loopst) \<Rightarrow> Opcode \<Rightarrow>
     (ptr \<Rightarrow> obj \<Rightarrow> loopst \<Rightarrow> obj api) \<Rightarrow> env \<Rightarrow> obj \<Rightarrow> string \<Rightarrow> int \<Rightarrow> py_param \<Rightarrow> loopst \<Rightarrow>
     obj api" where
  "address_request op opc full E self host port tobj =
     socket_guard E self (with_timeout tobj (\<lambda>tp w. do {
       s \<leftarrow> sockets w self;
       domain \<leftarrow> sock_domain s;
       let (addr, w) = serialize_address E (Some host) port domain w;
       if addr = 0 then Some (None, w)
       else with_future_or E (\<lambda>w. Some (free_addr addr w)) (\<lambda>fut w.
              socket_request self fut 0 ONESHOT opc 0 0 (full addr fut)
                (\<lambda>i w. map_option (\<lambda>fd.
                   let (result, w) = op E i fd addr (get_socket_size domain) tp w
                   in (result, free_addr addr w)) (sock_fd_of w self)) w) w
     }))"

definition UringioSocket_bind ::
    "env \<Rightarrow> obj \<Rightarrow> string \<Rightarrow> int \<Rightarrow> py_param \<Rightarrow> loopst \<Rightarrow> obj api" where
  "UringioSocket_bind =
     address_request uringio_bind IORING_OP_BIND
       (\<lambda>addr fut w. raise_exc registry_is_full (free_addr addr (py (Decref fut) w)))"

definition UringioSocket_connect ::
    "env \<Rightarrow> obj \<Rightarrow> string \<Rightarrow> int \<Rightarrow> py_param \<Rightarrow> loopst \<Rightarrow> obj api" where
  "UringioSocket_connect =
     address_request uringio_connect IORING_OP_CONNECT
       (\<lambda>addr fut w. Some (None, free_addr addr (py (Err_set registry_is_full) (py (Decref fut) w))))"

definition UringioSocket_listen ::
    "env \<Rightarrow> obj \<Rightarrow> int \<Rightarrow> py_param \<Rightarrow> loopst \<Rightarrow> obj api" where
  "UringioSocket_listen E self backlog tobj =
     socket_guard E self (with_timeout tobj (\<lambda>tp. with_future E (\<lambda>fut.
       socket_request self fut 0 ONESHOT IORING_OP_LISTEN 0 0 (full_plain fut)
         (sock_run (\<lambda>E i fd. uringio_listen E i fd backlog) E self tp))))"

text \<open>The new address and its length stay allocated for the kernel to write; \<open>calloc\<close>'s answer is
  not checked.\<close>

definition UringioSocket_accept :: "env \<Rightarrow> obj \<Rightarrow> py_param \<Rightarrow> loopst \<Rightarrow> obj api" where
  "UringioSocket_accept E self tobj =
     socket_guard E self (with_timeout tobj (\<lambda>tp. with_future E (\<lambda>fut w.
       let (addrlen, w) = c_malloc E 4 w
       in if addrlen = 0 then raise_exc MemoryError w
          else let (peer_addr, w) = c_malloc E sizeof_sockaddr_storage w
               in do {
                 (strategy, w) \<leftarrow> get_stream_strategy E w;
                 socket_request self fut 0 strategy IORING_OP_ACCEPT peer_addr 0
                   (\<lambda>w. raise_exc registry_is_full (c_free addrlen (py (Decref fut) w)))
                   (\<lambda>i w. accept_dispatcher E self strategy i peer_addr addrlen tp w) w
               })))"

definition UringioSocket_close :: "env \<Rightarrow> obj \<Rightarrow> py_param \<Rightarrow> loopst \<Rightarrow> obj api" where
  "UringioSocket_close E self tobj =
     socket_guard E self (with_timeout tobj (\<lambda>tp. with_future E (\<lambda>fut w. do {
       (i, w) \<leftarrow> loop_registry_add fut 0 ONESHOT IORING_OP_CLOSE None (Some self) 0 0 w;
       if i < 0 then full_plain fut w
       else do {
         let w = upd_socket self (\<lambda>x. x\<lparr>sock_closed := True\<rparr>) w;
         (result, w) \<leftarrow> sock_run uringio_close_socket E self tp i w;
         (res, w) \<leftarrow> check_sockets_result result i fut w;
         Some (res, if res = None then upd_socket self (\<lambda>x. x\<lparr>sock_closed := False\<rparr>) w else w)
       }
     })))"

definition UringioSocket_send ::
    "env \<Rightarrow> obj \<Rightarrow> obj \<Rightarrow> int \<Rightarrow> py_param \<Rightarrow> loopst \<Rightarrow> obj api" where
  "UringioSocket_send E self data is_poll_first tobj =
     socket_guard E self (with_timeout tobj (\<lambda>tp w.
       let (bp, w) = create_buffer_payload_from_data E data w
       in if bp = 0 then Some (None, w)
          else do {
            (transfer, w) \<leftarrow> get_transfer_mode E w;
            with_future_or E (free_buffer_payload bp False) (\<lambda>fut w.
              socket_request self fut bp ONESHOT IORING_OP_SEND 0 0 (full_payload fut bp id)
                (\<lambda>i w. send_dispatcher E self bp transfer i is_poll_first tp w) w) w
          }))"

definition UringioSocket_recv ::
    "env \<Rightarrow> obj \<Rightarrow> int \<Rightarrow> obj option \<Rightarrow> int \<Rightarrow> py_param \<Rightarrow> loopst \<Rightarrow> obj api" where
  "UringioSocket_recv E self bufsize buffer_obj is_poll_first tobj =
     socket_guard E self (with_timeout tobj (\<lambda>tp w. do {
       (bp, w) \<leftarrow> get_or_create_linear_buffer E buffer_obj bufsize w;
       if bp = 0 then Some (None, w)
       else do {
         (strategy, w) \<leftarrow> get_stream_strategy E w;
         with_future_or E (free_buffer_payload bp False) (\<lambda>fut w.
           socket_request self fut bp strategy IORING_OP_RECV 0 0 (full_payload fut bp id)
             (\<lambda>i w. recv_dispatcher E self bp strategy i is_poll_first tp w) w) w
       }
     }))"

text \<open>The payload of \<open>sendto\<close> is not handed to the registry.\<close>

definition UringioSocket_sendto ::
    "env \<Rightarrow> obj \<Rightarrow> obj \<Rightarrow> string \<Rightarrow> int \<Rightarrow> int \<Rightarrow> int \<Rightarrow> py_param \<Rightarrow> loopst \<Rightarrow> obj api" where
  "UringioSocket_sendto E self data host port domain is_poll_first tobj =
     socket_guard E self (with_timeout tobj (\<lambda>tp w.
       let (addr, w) = serialize_address E (Some host) port domain w
       in if addr = 0 then Some (None, w)
          else let (bp, w) = create_buffer_payload_from_data E data w
               in if bp = 0 then Some (None, free_addr addr w)
                  else with_future_or E
                         (\<lambda>w. free_buffer_payload bp False (free_addr addr w)) (\<lambda>fut w.
                    socket_request self fut 0 ONESHOT IORING_OP_SENDMSG 0 0
                      (\<lambda>w. do {
                         w \<leftarrow> free_buffer_payload bp False (free_addr addr (py (Decref fut) w));
                         raise_exc registry_is_full w
                       })
                      (\<lambda>i w. do {
                         p \<leftarrow> payloads w bp;
                         b \<leftarrow> linear_head p;
                         fd \<leftarrow> sock_fd_of w self;
                         let (result, w) = uringio_sendto E i fd (buffer b) (len b mod 2 ^ 32) addr
                               (unat (get_socket_size domain)) is_poll_first tp w;
                         Some (result, free_addr addr w)
                       }) w) w))"

text \<open>Host, port and domain are not initialised when the caller leaves them out (\<open>None\<close>).\<close>

definition UringioSocket_recvfrom ::
    "env \<Rightarrow> obj \<Rightarrow> int \<Rightarrow> obj option \<Rightarrow> (string \<times> int \<times> int) option \<Rightarrow> int \<Rightarrow> py_param \<Rightarrow> loopst \<Rightarrow>
     obj api" where
  "UringioSocket_recvfrom E self bufsize buffer_obj target is_poll_first tobj =
     socket_guard E self (with_timeout tobj (\<lambda>tp w. do {
       (host, port, domain) \<leftarrow> target;
       let (addr, w) = serialize_address E (Some host) port domain w;
       if addr = 0 then Some (None, w)
       else do {
         (bp, w) \<leftarrow> get_or_create_linear_buffer E buffer_obj bufsize w;
         if bp = 0 then Some (None, free_addr addr w)
         else let (msg, w) = c_malloc E (sizeof_msghdr + sizeof_iovec) w
              in if msg = 0
                 then do {
                   w \<leftarrow> free_buffer_payload bp False w;
                   Some (None, py (Err_set MemoryError) (free_addr addr w))
                 }
                 else with_future_or E
                        (\<lambda>w. map_option (\<lambda>w. c_free msg (free_addr addr w))
                               (free_buffer_payload bp False w)) (\<lambda>fut w.
                   socket_request self fut bp ONESHOT IORING_OP_RECVMSG addr msg
                     (full_payload fut bp (\<lambda>w. c_free msg (free_addr addr w)))
                     (\<lambda>i w. do {
                        p \<leftarrow> payloads w bp;
                        b \<leftarrow> linear_head p;
                        fd \<leftarrow> sock_fd_of w self;
                        Some (uringio_recvfrom E i fd (buffer b) (len b) addr
                                (get_socket_size domain) is_poll_first msg tp w)
                      }) w) w
       }
     }))"

definition UringioSocket_sendmsg ::
    "env \<Rightarrow> obj \<Rightarrow> obj \<Rightarrow> string option \<Rightarrow> int \<Rightarrow> int \<Rightarrow> int \<Rightarrow> py_param \<Rightarrow> loopst \<Rightarrow> obj api" where
  "UringioSocket_sendmsg E self buffers_obj host port domain is_poll_first tobj =
     socket_guard E self (with_timeout tobj (\<lambda>tp w.
       let (addr, w) = (if host = None then (0, w) else serialize_address E host port domain w)
       in if host \<noteq> None \<and> addr = 0 then Some (None, w)
          else do {
            let addrlen = (if addr = 0 then 0 else unat (get_socket_size domain));
            (bp, w) \<leftarrow> get_or_create_vectored_buffer E (Some buffers_obj) w;
            if bp = 0 then Some (None, w)
            else do {
              (transfer, w) \<leftarrow> get_transfer_mode E w;
              with_future_or E
                (\<lambda>w. map_option (free_addr addr) (free_buffer_payload bp False w)) (\<lambda>fut w.
                socket_request self fut bp ONESHOT IORING_OP_SENDMSG 0 0
                  (full_payload fut bp (free_addr addr))
                  (\<lambda>i w. map_option (\<lambda>(r, w). (r, free_addr addr w))
                     (sendmsg_dispatcher E self bp transfer i addr addrlen is_poll_first tp w)) w) w
            }
          }))"

text \<open>\<open>buffers_obj\<close> is not initialised when the caller leaves it out; the message header's \<open>malloc\<close> is
  not checked.\<close>

definition UringioSocket_recvmsg ::
    "env \<Rightarrow> obj \<Rightarrow> obj option \<Rightarrow> int \<Rightarrow> py_param \<Rightarrow> loopst \<Rightarrow> obj api" where
  "UringioSocket_recvmsg E self buffers_obj is_poll_first tobj =
     socket_guard E self (with_timeout tobj (\<lambda>tp w. do {
       b \<leftarrow> buffers_obj;
       (bp, w) \<leftarrow> get_or_create_vectored_buffer E (Some b) w;
       if bp = 0 then Some (None, w)
       else do {
         (strategy, w) \<leftarrow> get_stream_strategy E w;
         with_future_or E (free_buffer_payload bp False) (\<lambda>fut w.
           let (msghdr, w) = c_malloc E sizeof_msghdr w
           in socket_request self fut bp strategy IORING_OP_RECVMSG 0 msghdr (full_payload fut bp id)
                (\<lambda>i w. recvmsg_dispatcher E self bp strategy i is_poll_first msghdr tp w) w) w
       }
     }))"

end
