(* ===== verification/Socket_Contract.thy ===== *)
theory Socket_Contract
  imports Api_Contract Socket_Api
begin

text \<open>
  The methods of the socket object satisfy the contract of \<open>Api_Contract\<close>: one interpretation of
  \<open>api_method\<close> for each of listen, bind, connect, send and close.
\<close>

section \<open>Marks of the sockets\<close>

lemma upd_socket_same [simp]:
  "hist (upd_socket x f w) = hist w" "payloads (upd_socket x f w) = payloads w"
  "registry (upd_socket x f w) = registry w" "files (upd_socket x f w) = files w"
  by (simp_all add: upd_socket_def)

lemma upd_socket_pending [simp]:
  "loop_ok (upd_socket x f w) = loop_ok w" "pending (upd_socket x f w) = pending w"
  by (simp_all add: loop_ok_def pending_def)

section \<open>Frames\<close>

text \<open>Steps that only add events and write or free addresses.\<close>

definition framed :: "loopst \<Rightarrow> loopst \<Rightarrow> bool" where
  "framed w v \<longleftrightarrow> v = w\<lparr>hist := hist v, addrs := addrs v\<rparr>"

lemma framed_refl [simp, intro]: "framed w w"
  by (simp add: framed_def)

lemma framed_trans [trans]: "framed w v \<Longrightarrow> framed v u \<Longrightarrow> framed w u"
  unfolding framed_def by (cases w, cases v, cases u) simp

lemma framed_more: "ext.more v = ext.more w \<Longrightarrow> framed w v"
  unfolding framed_def by (cases w, cases v) simp

lemma framed_addr [intro]: "framed w (put_addr p a w)" "framed w (free_addr p w)"
  by (simp_all add: framed_def put_addr_def free_addr_def c_free_def libc_def)

lemma framed_same:
  assumes "framed w v"
  shows "payloads v = payloads w" "registry v = registry w" "files v = files w"
    "sockets v = sockets w" "context_value v = context_value w" "context_var v = context_var w"
    "loop_ok v = loop_ok w" "pending v = pending w"
  by (subst assms [unfolded framed_def], simp add: loop_ok_def pending_def)+

lemma hist_addr [simp]:
  "hist (put_addr p a w) = hist w"
  "hist (free_addr p w) = hist w @ (if p = 0 then [] else [Libc (Free p)])"
  by (simp_all add: put_addr_def free_addr_def)

lemma releases_free_addr: "releases w v \<Longrightarrow> releases w (free_addr p v)"
  using releases_next(1) [of w v p] by (simp add: releases_def)

section \<open>\_helpers.c\<close>

lemma checks_sockets [simp]: "checks check_sockets_result"
  by (simp add: checks_def check_sockets_result_def check_file_result_def fun_eq_iff)

lemma fill_address_frame:
  assumes "fill_address E host port domain msg p w = (q, v)" "p \<noteq> 0"
  shows "framed w v \<and> (q = p \<and> hist v = hist w \<or>
     q = 0 \<and> (\<forall>r. ledger (hist v) r = ledger (hist w) r - of_bool (r = Block p)))"
proof (cases host)
  case None
  with assms show ?thesis by (auto simp: fill_address_def Let_def)
next
  case (Some h)
  have f: "framed w (py (Err_set e) (free_addr p w))" for e
    by (rule framed_trans [OF framed_addr(2) framed_more]) simp
  from Some assms f show ?thesis
    by (cases "e_inet_pton E domain h") (auto simp: fill_address_def Let_def)
qed

text \<open>A new address is one block; a refused one leaves nothing.\<close>

lemma serialize_address_frame:
  assumes "serialize_address E host port domain w = (q, v)"
  shows "framed w v" "\<And>r. ledger (hist v) r = ledger (hist w) r + of_bool (q \<noteq> 0 \<and> r = Block q)"
proof -
  let ?p = "e_malloc E (hist w) sizeof_sockaddr_storage"
  let ?u = "libc (Malloc sizeof_sockaddr_storage ?p) w"
  have u: "framed w ?u" "framed w (py (Err_set MemoryError) ?u)"
    by (rule framed_more, simp)+
  have all: "framed w v \<and> (\<forall>r. ledger (hist v) r = ledger (hist w) r + of_bool (q \<noteq> 0 \<and> r = Block q))"
  proof (cases "?p = 0")
    case True
    with assms u show ?thesis by (auto simp: serialize_address_def c_malloc_def Let_def)
  next
    case False
    show ?thesis
    proof (cases "domain = AF_INET \<or> domain = AF_INET6")
      case True
      then obtain msg where "fill_address E host port domain msg ?p ?u = (q, v)"
        using assms False by (auto simp: serialize_address_def c_malloc_def Let_def)
      from fill_address_frame [OF this False] framed_trans [OF u(1)] False show ?thesis by auto
    next
      case no: False
      with assms False have "(q, v) = (0, free_addr ?p ?u)"
        by (simp add: serialize_address_def c_malloc_def Let_def)
      with framed_trans [OF u(1) framed_addr(2)] False show ?thesis by simp
    qed
  qed
  from all show "framed w v"
    "\<And>r. ledger (hist v) r = ledger (hist w) r + of_bool (q \<noteq> 0 \<and> r = Block q)" by auto
qed

section \<open>What the methods share\<close>

definition socket_ready :: "obj \<Rightarrow> env \<Rightarrow> loopst \<Rightarrow> bool" where
  "socket_ready self E w \<longleftrightarrow>
     (case sockets w self of None \<Rightarrow> False | Some s \<Rightarrow> sock_fd s \<noteq> None \<and> sock_domain s \<noteq> None)"

lemma socket_readyE:
  assumes "socket_ready self E w"
  obtains s fd domain where "sockets w self = Some s" "sock_fd s = Some fd"
    "sock_domain s = Some domain" "sock_fd_of w self = Some fd"
  using assms by (auto simp: socket_ready_def sock_fd_of_def split: option.splits)

lemma socket_request_registered:
  "socket_request self fut bp strategy opc sockaddr msghdr full run =
     registered check_sockets_result fut bp strategy opc None (Some self) sockaddr msghdr full run"
  by (simp add: socket_request_def registered_def fun_eq_iff)

lemma outcome_socket_guard:
  assumes "loop_ok w" "sockets w self = Some s" "\<not> sock_closed s \<Longrightarrow> api_outcome Q w (rest w)"
  shows "api_outcome Q w (socket_guard E self rest w)"
  unfolding socket_guard_def
  by (rule outcome_loop_guards) (use assms outcome_raise [OF assms(1)] in simp_all)

lemma outcome_with_future_or:
  assumes "loop_ok w1" "pending w1 = pending w"
    and undo: "\<And>v. framed w1 v \<Longrightarrow> (\<And>r. ledger (hist v) r = ledger (hist w1) r) \<Longrightarrow>
       api_outcome Q w (map_option (Pair None) (undo v))"
    and rest: "\<And>fut v. framed w1 v \<Longrightarrow>
       (\<And>r. ledger (hist v) r = ledger (hist w1) r + of_bool (r = Reference fut)) \<Longrightarrow>
       api_outcome Q w (rest fut v)"
  shows "api_outcome Q w (with_future_or E undo rest w1)"
proof (cases "e_create_future E (hist w1)")
  case None
  with undo [of "py (Create_future None) w1"] show ?thesis
    by (simp add: with_future_or_def create_future_def Let_def framed_more)
next
  case (Some fut)
  with rest [of "py (Create_future (Some fut)) w1" fut] show ?thesis
    by (simp add: with_future_or_def create_future_def Let_def framed_more)
qed

lemma outcome_full_plain:
  assumes "loop_ok w1" "pending w1 = pending w"
    "\<And>r. ledger (hist w1) r = ledger (hist w) r + of_bool (r = Reference fut)"
  shows "api_outcome Q w (full_plain fut w1)"
  unfolding full_plain_def raise_exc_def
  by (rule outcome_returns_NULL) (use assms in simp_all)

section \<open>listen\<close>

interpretation socket_listen: api_method
  "\<lambda>E. UringioSocket_listen E self backlog tobj" "socket_ready self"
  "request_of IORING_OP_LISTEN False None (Some self)" for self backlog tobj
proof unfold_locales
  fix w E
  let ?Q = "request_of IORING_OP_LISTEN False None (Some self)"
  assume ok: "loop_ok w" and "socket_ready self E w"
  then obtain s fd where s: "sockets w self = Some s" "sock_fd_of w self = Some fd"
    by (blast elim: socket_readyE)
  show "api_outcome ?Q w (UringioSocket_listen E self backlog tobj w)"
    unfolding UringioSocket_listen_def socket_request_registered
  proof (rule outcome_socket_guard [OF ok s(1)], rule outcome_with_timeout [OF ok],
      rule outcome_with_future [OF ok])
    fix tp fut w1
    assume more: "ext.more w1 = ext.more w"
      and led: "\<And>r. ledger (hist w1) r = ledger (hist w) r + of_bool (r = Reference fut)"
    note same = loopst_more [OF more]
    let ?run = "sock_run (\<lambda>E i fd. uringio_listen E i fd backlog) E self tp"
    have run: "ran E (framed_body (R_listen fd backlog)) tp (\<lambda>r. 0) i w2 (?run i w2)"
      if "sockets w2 = sockets w1" for i w2
      using s(2) that by (intro ran_perform) (simp add: sock_run_def sock_fd_of_def same)
    show "api_outcome ?Q w (registered check_sockets_result fut 0 ONESHOT IORING_OP_LISTEN None (Some self)
        0 0 (full_plain fut) ?run w1)"
      by (rule outcome_registered [where d = "\<lambda>r. 0", OF _ _ _ _ run])
        (simp_all add: same ok led outcome_full_plain)
  qed
qed

section \<open>bind and connect\<close>

text \<open>The address is given back after the submission: a step of the operation.\<close>

lemma ran_perform_free:
  assumes "addr \<noteq> 0"
  shows "ran E (framed_body rq) tp (\<lambda>r. of_bool (r = Block addr)) i w
    (Some (case perform_framed rq E i tp w of (result, w) \<Rightarrow> (result, free_addr addr w)))"
proof -
  obtain result v where v: "issue E (framed_body rq) i tp w = (result, v)" by (metis surj_pair)
  note st = issue_state [OF v] and same = loopst_more [OF issue_state(1) [OF v]]
  have f: "payloads (free_addr addr v) = payloads w" "registry (free_addr addr v) = registry w"
    using framed_same [OF framed_addr(2), of addr v] same by simp_all
  have "releases v (free_addr addr v)" by (rule releases_free_addr) simp
  with assms v f st(2) show ?thesis
    by (simp add: ran_def request.op_issue request.body_wf)
qed

text \<open>A request over an address, from the future on: whatever happens, the address is freed.\<close>

lemma outcome_address_future:
  assumes w1: "loop_ok w1" "pending w1 = pending w" "addr \<noteq> 0"
    and led1: "\<And>r. ledger (hist w1) r = ledger (hist w) r + of_bool (r = Block addr)"
    and run: "\<And>i w2. sockets w2 = sockets w1 \<Longrightarrow>
       ran E body tp (\<lambda>r. of_bool (r = Block addr)) i w2 (run i w2)"
    and full: "\<And>fut v. loop_ok v \<Longrightarrow> pending v = pending w \<Longrightarrow>
       (\<And>r. ledger (hist v) r =
          ledger (hist w) r + of_bool (r = Reference fut) + of_bool (r = Block addr)) \<Longrightarrow>
       api_outcome Q w (full fut v)"
    and Q: "\<And>i fut. Q (new_request i fut 0 ONESHOT opc None (Some self) 0 0)"
  shows "api_outcome Q w (with_future_or E (\<lambda>w. Some (free_addr addr w)) (\<lambda>fut w.
     registered check_sockets_result fut 0 ONESHOT opc None (Some self) 0 0 (full fut) run w) w1)"
proof (rule outcome_with_future_or [OF w1(1,2)])
  fix v assume "framed w1 v" "\<And>r. ledger (hist v) r = ledger (hist w1) r"
  then have "api_outcome Q w (Some (None, free_addr addr v))"
    using w1 led1 framed_same [OF framed_addr(2), of addr v] framed_same [of w1 v]
    by (intro outcome_returns_NULL) simp_all
  then show "api_outcome Q w (map_option (Pair None) (Some (free_addr addr v)))" by simp
next
  fix fut v
  assume f: "framed w1 v"
    and led: "\<And>r. ledger (hist v) r = ledger (hist w1) r + of_bool (r = Reference fut)"
  note v = framed_same [OF f]
  show "api_outcome Q w (registered check_sockets_result fut 0 ONESHOT opc None (Some self) 0 0
      (full fut) run v)"
  proof (rule outcome_registered [where d = "\<lambda>r. of_bool (r = Block addr)", OF _ _ _ _ run])
    show "api_outcome Q w (full fut v)"
      by (rule full) (use led led1 w1 in \<open>simp_all add: v\<close>)
  qed (use led led1 w1 Q in \<open>simp_all add: v\<close>)
qed

lemma outcome_address_request:
  assumes "loop_ok w" "socket_ready self E w"
    and op: "\<And>fd a n i tp v. op E i fd a n tp v = perform_framed (rq fd a n) E i tp v"
    and full: "\<And>a fut v. a \<noteq> 0 \<Longrightarrow> loop_ok v \<Longrightarrow> pending v = pending w \<Longrightarrow>
       (\<And>r. ledger (hist v) r =
          ledger (hist w) r + of_bool (r = Reference fut) + of_bool (r = Block a)) \<Longrightarrow>
       api_outcome Q w (full a fut v)"
    and Q: "\<And>i fut. Q (new_request i fut 0 ONESHOT opc None (Some self) 0 0)"
  shows "api_outcome Q w (address_request op opc full E self host port tobj w)"
proof -
  from assms(2) obtain s fd domain where s: "sockets w self = Some s" "sock_domain s = Some domain"
    "sock_fd_of w self = Some fd" by (rule socket_readyE)
  show ?thesis
    unfolding address_request_def socket_request_registered
  proof (rule outcome_socket_guard [OF assms(1) s(1)], rule outcome_with_timeout [OF assms(1)])
    fix tp
    obtain addr w1 where a: "serialize_address E (Some host) port domain w = (addr, w1)"
      by (metis surj_pair)
    note a1 = serialize_address_frame [OF a] and same = framed_same [OF a1(1)]
    let ?run = "\<lambda>i w. map_option (\<lambda>fd. let (result, w) = op E i fd addr (get_socket_size domain) tp w
       in (result, free_addr addr w)) (sock_fd_of w self)"
    have "api_outcome Q w (with_future_or E (\<lambda>w. Some (free_addr addr w)) (\<lambda>fut w.
        registered check_sockets_result fut 0 ONESHOT opc None (Some self) 0 0 (full addr fut) ?run w)
        w1)" if nz: "addr \<noteq> 0"
    proof (rule outcome_address_future [OF _ _ nz])
      fix i and w2 :: loopst assume "sockets w2 = sockets w1"
      then show "ran E (framed_body (rq fd addr (get_socket_size domain))) tp
          (\<lambda>r. of_bool (r = Block addr)) i w2 (?run i w2)"
        using s(3) ran_perform_free [OF nz] by (simp add: op sock_fd_of_def same)
    qed (use nz a1(2) full Q in \<open>simp_all add: same assms(1)\<close>)
    moreover have "api_outcome Q w (Some (None, w1))" if "addr = 0"
      using that a1(2) by (intro outcome_returns_NULL) (simp_all add: same assms(1))
    ultimately show "api_outcome Q w (do {
        s \<leftarrow> sockets w self;
        domain \<leftarrow> sock_domain s;
        let (addr, w) = serialize_address E (Some host) port domain w;
        if addr = 0 then Some (None, w)
        else with_future_or E (\<lambda>w. Some (free_addr addr w)) (\<lambda>fut w.
          registered check_sockets_result fut 0 ONESHOT opc None (Some self) 0 0 (full addr fut)
            (\<lambda>i w. map_option (\<lambda>fd. let (result, w) = op E i fd addr (get_socket_size domain) tp w
               in (result, free_addr addr w)) (sock_fd_of w self)) w) w
      })"
      using s a by simp
  qed
qed

interpretation socket_bind: api_method
  "\<lambda>E. UringioSocket_bind E self host port tobj" "socket_ready self"
  "request_of IORING_OP_BIND False None (Some self)" for self host port tobj
  unfolding UringioSocket_bind_def
proof (unfold_locales, rule outcome_address_request [where rq = R_bind])
  fix self w v a fut
  assume "a \<noteq> 0" "loop_ok v" "pending v = pending w" "\<And>r. ledger (hist v) r =
    ledger (hist w) r + of_bool (r = Reference fut) + of_bool (r = Block a)"
  then show "api_outcome (request_of IORING_OP_BIND False None (Some self)) w (raise_exc registry_is_full (free_addr a (py (Decref fut) v)))"
    unfolding raise_exc_def using framed_same [OF framed_addr(2), of a "py (Decref fut) v"]
    by (intro outcome_returns_NULL) simp_all
qed simp_all

interpretation socket_connect: api_method
  "\<lambda>E. UringioSocket_connect E self host port tobj" "socket_ready self"
  "request_of IORING_OP_CONNECT False None (Some self)" for self host port tobj
  unfolding UringioSocket_connect_def
proof (unfold_locales, rule outcome_address_request [where rq = R_connect])
  fix self w v a fut
  assume "a \<noteq> 0" "loop_ok v" "pending v = pending w" "\<And>r. ledger (hist v) r =
    ledger (hist w) r + of_bool (r = Reference fut) + of_bool (r = Block a)"
  then show "api_outcome (request_of IORING_OP_CONNECT False None (Some self)) w
      (Some (None, free_addr a (py (Err_set registry_is_full) (py (Decref fut) v))))"
    using framed_same [OF framed_addr(2), of a "py (Err_set registry_is_full) (py (Decref fut) v)"]
    by (intro outcome_returns_NULL) simp_all
qed simp_all

section \<open>send\<close>

lemma outcome_full_payload:
  assumes "loop_ok w1" "pending w1 = pending w" "plain_payload w1 bp"
    "\<And>r. ledger (hist w1) r =
       ledger (hist w) r + of_bool (r = Reference fut) + freed_units w1 bp r"
  shows "api_outcome Q w (full_payload fut bp id w1)"
  unfolding full_payload_def
  by (rule outcome_full [where d = "\<lambda>r. 0"]) (use assms in simp_all)

text \<open>Without a future the payload is given back.\<close>

lemma outcome_undo_payload:
  assumes "loop_ok v" "pending v = pending w" "plain_payload v bp"
    "\<And>r. ledger (hist v) r = ledger (hist w) r + freed_units v bp r"
  shows "api_outcome Q w (map_option (Pair None) (free_buffer_payload bp False v))"
proof -
  obtain u where u: "free_buffer_payload bp False v = Some u" "bufst.more u = bufst.more v"
    "\<And>r. ledger (hist u) r = ledger (hist v) r - freed_units v bp r"
    by (rule free_releasable [OF plain_releasable [OF assms(3)]], rule that; assumption?)
  have "api_outcome Q w (Some (None, u))"
    by (rule outcome_returns_NULL) (use assms u(3) in \<open>simp_all add: loopst_bufst_more [OF u(2)]\<close>)
  then show ?thesis using u(1) by simp
qed

text \<open>A request whose payload belongs to the slot, from the future on.\<close>

lemma outcome_payload_request:
  assumes w1: "loop_ok w1" "pending w1 = pending w" "plain_payload w1 bp"
    and led: "\<And>r. ledger (hist w1) r = ledger (hist w) r + freed_units w1 bp r"
    and run: "\<And>i w2. payloads w2 = payloads w1 \<Longrightarrow> sockets w2 = sockets w1 \<Longrightarrow>
       run i w2 = Some (perform_framed rq E i tp w2)"
    and Q: "\<And>i fut. Q (new_request i fut bp strategy opc None (Some self) 0 0)"
  shows "api_outcome Q w (with_future_or E (free_buffer_payload bp False) (\<lambda>fut.
     socket_request self fut bp strategy opc 0 0 (full_payload fut bp id) run) w1)"
proof (rule outcome_with_future_or [OF w1(1,2)])
  fix v assume f: "framed w1 v" and "\<And>r. ledger (hist v) r = ledger (hist w1) r"
  with framed_same [OF f] w1 led
  show "api_outcome Q w (map_option (Pair None) (free_buffer_payload bp False v))"
    by (intro outcome_undo_payload) (simp_all add: plain_payload_def freed_units_def)
next
  fix fut v
  assume f: "framed w1 v"
    and l: "\<And>r. ledger (hist v) r = ledger (hist w1) r + of_bool (r = Reference fut)"
  note v = framed_same [OF f]
  have rel: "plain_payload v bp" using w1(3) by (simp add: plain_payload_def v)
  have fu: "freed_units v bp r = freed_units w1 bp r" for r by (simp add: freed_units_def v)
  show "api_outcome Q w (socket_request self fut bp strategy opc 0 0 (full_payload fut bp id) run v)"
    unfolding socket_request_registered
  proof (rule outcome_registered [where d = "\<lambda>r. 0"])
    fix i and w2 :: loopst
    assume "payloads w2 = payloads v" "sockets w2 = sockets v"
    then show "ran E (framed_body rq) tp (\<lambda>r. 0) i w2 (run i w2)"
      by (intro ran_perform run) (simp_all add: v)
  next
    show "api_outcome Q w (full_payload fut bp id v)"
      by (rule outcome_full_payload) (use w1 rel l led fu in \<open>simp_all add: v\<close>)
  qed (use w1 rel l led fu Q in \<open>simp_all add: v\<close>)
qed

interpretation socket_send: api_method
  "\<lambda>E. UringioSocket_send E self data is_poll_first tobj"
  "\<lambda>E w. socket_ready self E w \<and> context_ready E w"
  "request_of IORING_OP_SEND True None (Some self)" for self data is_poll_first tobj
proof (unfold_locales, elim conjE)
  fix w E
  let ?Q = "request_of IORING_OP_SEND True None (Some self)"
  assume ok: "loop_ok w" and ctx: "context_ready E w" and "socket_ready self E w"
  then obtain s fd where s: "sockets w self = Some s" "sock_fd_of w self = Some fd"
    by (blast elim: socket_readyE)
  show "api_outcome ?Q w (UringioSocket_send E self data is_poll_first tobj w)"
    unfolding UringioSocket_send_def
  proof (rule outcome_socket_guard [OF ok s(1)], rule outcome_with_timeout [OF ok])
    fix tp
    obtain q w1 where mk: "create_buffer_payload_from_data E data w = (q, w1)" by (metis surj_pair)
    note mk1 = from_data_built [OF mk] and same1 = loopst_bufst_more [OF conjunct1 [OF mk1]]
    obtain c :: ExecutionContext and w2 where c: "get_transfer_mode E w1 = Some (ctx_transfer_mode c, w2)"
      "ext.more w2 = ext.more w1" "\<And>r. ledger (hist w2) r = ledger (hist w1) r"
      by (rule context_read [OF ctx disjI2 [OF conjunct1 [OF mk1]]], rule that; assumption?)
    note same2 = loopst_more [OF c(2)]
    let ?req = "with_future_or E (free_buffer_payload q False) (\<lambda>fut.
       socket_request self fut q ONESHOT IORING_OP_SEND 0 0 (full_payload fut q id)
         (\<lambda>i w. send_dispatcher E self q (ctx_transfer_mode c) i is_poll_first tp w)) w2"
    show "api_outcome ?Q w (let (bp, w) = create_buffer_payload_from_data E data w
       in if bp = 0 then Some (None, w)
          else do {
            (transfer, w) \<leftarrow> get_transfer_mode E w;
            with_future_or E (free_buffer_payload bp False) (\<lambda>fut w.
              socket_request self fut bp ONESHOT IORING_OP_SEND 0 0 (full_payload fut bp id)
                (\<lambda>i w. send_dispatcher E self bp transfer i is_poll_first tp w) w) w
          })"
    proof (cases "q = 0")
      case True
      with mk mk1 same1 ok show ?thesis by (auto intro!: outcome_returns_NULL)
    next
      case False
      with mk1 obtain x la b where b: "built w q w1" "payloads w1 q = Some x" "linear x = To la"
        "la_elems la = [b]" by auto
      from b(1,2) have m: "mode x = Some NORMAL_BUF" by (auto simp: built_def)
      let ?rq = "if ctx_transfer_mode c = ZERO_COPY then R_send_zc fd (buffer b) (len b) is_poll_first
         else R_send fd (buffer b) (len b mod 2 ^ 32) is_poll_first"
      have run: "send_dispatcher E self q (ctx_transfer_mode c) i is_poll_first tp w3 =
          Some (perform_framed ?rq E i tp w3)"
        if "payloads w3 = payloads w2" "sockets w3 = sockets w2" for i w3
        using that b m s(2) same1 same2
        by (simp add: send_dispatcher_def linear_head_def sock_fd_of_def)
      have "api_outcome ?Q w ?req"
        by (rule outcome_payload_request [OF _ _ _ _ run])
          (use False same1 same2 ok c(3) built_plain [OF b(1)] in
            \<open>simp_all add: plain_payload_def freed_units_def\<close>)
      with False mk c(1) show ?thesis by simp
    qed
  qed
qed

section \<open>close and leaving the context manager\<close>

abbreviation mark_closed :: "obj \<Rightarrow> bool \<Rightarrow> loopst \<Rightarrow> loopst" where
  "mark_closed self b \<equiv> upd_socket self (\<lambda>x. x\<lparr>sock_closed := b\<rparr>)"

lemma ran_socket_close:
  assumes "sock_fd_of w self = Some fd"
  shows "ran E (framed_body (R_close_socket fd)) tp (\<lambda>r. 0) i w
    (sock_run uringio_close_socket E self tp i (mark_closed self True w))"
  using assms
  by (intro ran_marked [where v = "mark_closed self True w"])
    (auto simp: sock_run_def sock_fd_of_def upd_socket_def bind_eq_Some_conv)

lemma socket_close_marked:
  "UringioSocket_close E self tobj =
     socket_guard E self (with_timeout tobj (\<lambda>tp. with_future E (\<lambda>fut.
       marked check_sockets_result fut None (Some self) (full_plain fut)
         (\<lambda>i w. sock_run uringio_close_socket E self tp i (mark_closed self True w))
         (\<lambda>w. Some (None, mark_closed self False w)))))"
proof -
  have same: "Some (res, if res = None then mark_closed self False w else w) =
      (case res of Some x \<Rightarrow> Some (Some x, w) | None \<Rightarrow> Some (None, mark_closed self False w))"
    for res :: "obj option" and w by (cases res) simp_all
  show ?thesis unfolding UringioSocket_close_def marked_def Let_def same ..
qed

interpretation socket_close: api_method
  "\<lambda>E. UringioSocket_close E self tobj" "socket_ready self"
  "request_of IORING_OP_CLOSE False None (Some self)" for self tobj
proof unfold_locales
  fix w E
  let ?Q = "request_of IORING_OP_CLOSE False None (Some self)"
  assume ok: "loop_ok w" and "socket_ready self E w"
  then obtain s fd where s: "sockets w self = Some s" "sock_fd_of w self = Some fd"
    by (blast elim: socket_readyE)
  have undo: "api_outcome ?Q w (Some (None, mark_closed self False v))"
    if "loop_ok v" "pending v = pending w" "ledger (hist v) = ledger (hist w)" for v
    using that by (intro outcome_returns_NULL) simp_all
  show "api_outcome ?Q w (UringioSocket_close E self tobj w)"
    unfolding socket_close_marked
  proof (rule outcome_socket_guard [OF ok s(1)], rule outcome_with_timeout [OF ok],
      rule outcome_with_future [OF ok])
    fix tp fut w1
    assume more: "ext.more w1 = ext.more w"
      and led: "\<And>r. ledger (hist w1) r = ledger (hist w) r + of_bool (r = Reference fut)"
    note same = loopst_more [OF more]
    have run: "ran E (framed_body (R_close_socket fd)) tp (\<lambda>r. 0) i w2
        (sock_run uringio_close_socket E self tp i (mark_closed self True w2))"
      if "sockets w2 = sockets w1" for i w2
      using s(2) that by (intro ran_socket_close) (simp add: sock_fd_of_def same)
    show "api_outcome ?Q w (marked check_sockets_result fut None (Some self) (full_plain fut)
        (\<lambda>i w. sock_run uringio_close_socket E self tp i (mark_closed self True w))
        (\<lambda>w. Some (None, mark_closed self False w)) w1)"
      by (rule outcome_marked [OF _ _ led run _ _ _ undo])
        (simp_all add: same ok led outcome_full_plain)
  qed
qed

lemma socket_aexit_marked:
  "UringioSocket_aexit E self body_exc w =
     (let (f, w) = create_future E w
      in case f of
           None \<Rightarrow> leave_exit E body_exc w
         | Some fut \<Rightarrow> marked check_sockets_result fut None (Some self)
             (\<lambda>w. case body_exc of
                Some e \<Rightarrow> raise_exception_group E False e (py (Decref fut) w)
              | None \<Rightarrow> raise_exc registry_is_full (py (Decref fut) w))
             (\<lambda>i w. sock_run uringio_close_socket E self no_timeout i (mark_closed self True w))
             (\<lambda>w. leave_exit E body_exc (mark_closed self False w)) w)"
proof (cases "create_future E w")
  case (Pair f v)
  then show ?thesis
    unfolding UringioSocket_aexit_def marked_def leave_exit_def raise_socket_exception_group_def Let_def
    by (cases f) simp_all
qed

interpretation socket_aexit: api_method
  "\<lambda>E. UringioSocket_aexit E self body_exc" "socket_ready self"
  "request_of IORING_OP_CLOSE False None (Some self)" for self body_exc
proof unfold_locales
  fix w E
  let ?Q = "request_of IORING_OP_CLOSE False None (Some self)"
  assume ok: "loop_ok w" and "socket_ready self E w"
  then obtain s fd where s: "sockets w self = Some s" "sock_fd_of w self = Some fd"
    by (blast elim: socket_readyE)
  show "api_outcome ?Q w (UringioSocket_aexit E self body_exc w)"
  proof (cases "e_create_future E (hist w)")
    case None
    then show ?thesis
      unfolding socket_aexit_marked create_future_def
      by (auto simp: Let_def ok intro!: outcome_leave_exit)
  next
    case (Some fut)
    define w1 where "w1 = py (Create_future (Some fut)) w"
    have w1: "loop_ok w1" "pending w1 = pending w" "sockets w1 = sockets w"
      "\<And>r. ledger (hist w1) r = ledger (hist w) r + of_bool (r = Reference fut)"
      by (simp_all add: w1_def ok)
    let ?full = "\<lambda>w. case body_exc of
        Some e \<Rightarrow> raise_exception_group E False e (py (Decref fut) w)
      | None \<Rightarrow> raise_exc registry_is_full (py (Decref fut) w)"
    have run: "ran E (framed_body (R_close_socket fd)) no_timeout (\<lambda>r. 0) i w2
        (sock_run uringio_close_socket E self no_timeout i (mark_closed self True w2))"
      if "sockets w2 = sockets w1" for i w2
      using s(2) that w1(3) by (intro ran_socket_close) (simp add: sock_fd_of_def)
    have "api_outcome ?Q w (?full w1)"
      using w1 unfolding raise_exc_def
      by (auto intro!: outcome_exception_group outcome_returns_NULL split: option.split)
    then have "api_outcome ?Q w (marked check_sockets_result fut None (Some self) ?full
        (\<lambda>i w. sock_run uringio_close_socket E self no_timeout i (mark_closed self True w))
        (\<lambda>w. leave_exit E body_exc (mark_closed self False w)) w1)"
      by (intro outcome_marked [OF w1(1,2,4) run] outcome_leave_exit) simp_all
    with Some show ?thesis
      by (simp add: socket_aexit_marked create_future_def w1_def Let_def)
  qed
qed

end
