(* ===== verification/Read_Contract.thy ===== *)
theory Read_Contract
  imports File_Contract Socket_Contract
begin

text \<open>
  The reading methods, \<open>read\<close> of a file and \<open>recv\<close> of a socket, satisfy the contract of
  \<open>Api_Contract\<close> when the current context has no payload of its own and \<open>PyMem_Malloc\<close>
  succeeds for the two blocks they ask for.  Where it fails the code goes on with a payload whose
  buffers are indeterminate, and the call is undefined: a negative size, which reads as more than
  \<open>PY_SSIZE_T_MAX\<close> bytes, always leads there.
\<close>

section \<open>A fresh linear buffer\<close>

definition plain_context :: "loopst \<Rightarrow> bool" where
  "plain_context w \<longleftrightarrow> (\<exists>c. current w = Some c \<and> ctx_payload c = 0)"

text \<open>The two allocations of a buffer of \<open>bufsize\<close> bytes succeed.\<close>

definition allocating :: "int \<Rightarrow> env \<Rightarrow> bool" where
  "allocating bufsize E \<longleftrightarrow> 0 \<le> bufsize \<and>
     (\<forall>h. e_pymem_malloc E h sizeof_LinearBuffer \<noteq> 0 \<and> e_pymem_malloc E h (size_t bufsize) \<noteq> 0)"

lemma create_one_linear:
  assumes "allocating bufsize E"
  obtains a b m n where "a \<noteq> 0" "b \<noteq> 0"
    "create_linear_buffers E 1 bufsize p w = Some (True,
       upd_payload p (\<lambda>x. x\<lparr>linear := To \<lparr>la_addr = a,
         la_elems = [\<lparr>buffer = b, len = size_t bufsize, views = Null\<rparr>]\<rparr>, vector := Null\<rparr>)
         (py (PyMem_malloc m b) (py (PyMem_malloc n a) w)))"
proof -
  let ?n = "size_mult sizeof_LinearBuffer (size_t 1)"
  let ?a = "e_pymem_malloc E (hist w) ?n"
  let ?b = "e_pymem_malloc E (hist w @ [Py (PyMem_malloc ?n ?a)]) (size_t bufsize)"
  have "?n = sizeof_LinearBuffer" by (simp add: size_mult_def size_t_def)
  then have nz: "?a \<noteq> 0" "?b \<noteq> 0" using assms by (simp_all add: allocating_def)
  then have "alloc_upto E (size_t bufsize) (nat 1) [] (py (PyMem_malloc ?n ?a) w) =
      ((True, [?b]), py (PyMem_malloc (size_t bufsize) ?b) (py (PyMem_malloc ?n ?a) w))"
    by (simp add: pymem_malloc_def Let_def)
  from create_linear_buffers_eq [OF this refl, of p] nz show ?thesis
    by (intro that [OF nz]) simp
qed

text \<open>The payload that a reading method makes for itself.\<close>

lemma fresh_linear:
  assumes "context_ready E w" "plain_context w" "allocating n E" "ext.more v = ext.more w"
  obtains q u where "get_or_create_linear_buffer E None n v = Some (q, u)"
    "bufst.more u = bufst.more v" "if q = 0 then ledger (hist u) = ledger (hist v)
     else built v q u \<and> (\<exists>x la b. payloads u q = Some x \<and> linear x = To la \<and> la_elems la = [b])"
proof -
  obtain c u1 where c: "current w = Some c" "get_buffer E v = Some (ctx_payload c, u1)"
    "ext.more u1 = ext.more v" "\<And>r. ledger (hist u1) r = ledger (hist v) r"
    by (rule context_read [OF assms(1) disjI1 [OF assms(4)]], rule that; assumption?)
  have "ctx_payload c = 0" using assms(2) c(1) by (auto simp: plain_context_def)
  with c(2) have get: "get_buffer E v = Some (0, u1)" by simp
  have same: "bufst.more u1 = bufst.more v" using c(3) by (rule bufst_more_eq)
  define q where "q = e_malloc E (hist u1) sizeof_BufferPayload"
  define u2 where "u2 = put_payload q raw_payload (libc (Malloc sizeof_BufferPayload q) u1)"
  show ?thesis
  proof (cases "q = 0")
    case True
    with get same c(4) that [of 0 "libc (Malloc sizeof_BufferPayload 0) u1"] show ?thesis
      by (simp add: get_or_create_linear_buffer_def malloc_payload_def c_malloc_def q_def [symmetric]
          Let_def fun_eq_iff)
  next
    case False
    obtain a b m k where ab: "a \<noteq> 0" "b \<noteq> 0"
      "create_linear_buffers E 1 n q u2 = Some (True,
         upd_payload q (\<lambda>x. x\<lparr>linear := To \<lparr>la_addr = a,
           la_elems = [\<lparr>buffer = b, len = size_t n, views = Null\<rparr>]\<rparr>, vector := Null\<rparr>)
           (py (PyMem_malloc m b) (py (PyMem_malloc k a) u2)))"
      by (rule create_one_linear [OF assms(3)])
    define u where "u = finish_payload 1 PAYLOAD_RUNTIME NORMAL_BUF PAYLOAD_LINEAR q
      (upd_payload q (\<lambda>x. x\<lparr>linear := To \<lparr>la_addr = a,
         la_elems = [\<lparr>buffer = b, len = size_t n, views = Null\<rparr>]\<rparr>, vector := Null\<rparr>)
         (py (PyMem_malloc m b) (py (PyMem_malloc k a) u2)))"
    show ?thesis
    proof (rule that [of q u])
      show "get_or_create_linear_buffer E None n v = Some (q, u)"
        using get False ab(3)
        by (simp add: get_or_create_linear_buffer_def malloc_payload_def c_malloc_def Let_def
            q_def [symmetric] u2_def u_def)
      show "bufst.more u = bufst.more v"
        using same by (simp add: u_def u2_def finish_payload_def)
      show "if q = 0 then ledger (hist u) = ledger (hist v)
        else built v q u \<and> (\<exists>x la b. payloads u q = Some x \<and> linear x = To la \<and> la_elems la = [b])"
        using False ab(1,2) c(4)
        by (auto simp: built_def u_def u2_def finish_payload_def payload_wf_def payload_units_def
            wf_defs units_defs)
    qed
  qed
qed

text \<open>What a reading method has before it makes its request: no buffer, or a buffer of its own and the
  current context.\<close>

lemma fresh_read:
  assumes "loop_ok w" "context_ready E w" "plain_context w" "allocating n E"
    and v: "ext.more v = ext.more w"
  obtains (none) u where "get_or_create_linear_buffer E None n v = Some (0, u)" "loop_ok u"
    "pending u = pending w" "ledger (hist u) = ledger (hist v)"
  | (some) q u strategy u' x la b where "get_or_create_linear_buffer E None n v = Some (q, u)" "q \<noteq> 0"
    "get_stream_strategy E u = Some (strategy, u')" "payloads u' q = Some x" "linear x = To la"
    "la_elems la = [b]" "mode x = Some NORMAL_BUF" "loop_ok u'" "pending u' = pending w"
    "files u' = files w" "sockets u' = sockets w" "plain_payload u' q"
    "\<And>r. ledger (hist u') r = ledger (hist v) r + freed_units u' q r"
proof -
  obtain q u where mk: "get_or_create_linear_buffer E None n v = Some (q, u)"
    "bufst.more u = bufst.more v" "if q = 0 then ledger (hist u) = ledger (hist v)
     else built v q u \<and> (\<exists>x la b. payloads u q = Some x \<and> linear x = To la \<and> la_elems la = [b])"
    by (rule fresh_linear [OF assms(2-5)])
  note same = loopst_more [OF v] loopst_bufst_more [OF mk(2)]
  show ?thesis
  proof (cases "q = 0")
    case True
    with mk assms(1) show ?thesis by (intro none [of u]) (simp_all add: same)
  next
    case False
    with mk(3) obtain x la b where b: "built v q u" "payloads u q = Some x" "linear x = To la"
      "la_elems la = [b]" by auto
    from b(1,2) have m: "mode x = Some NORMAL_BUF" by (auto simp: built_def)
    have uw: "bufst.more u = bufst.more w" using mk(2) bufst_more_eq [OF v] by simp
    obtain c :: ExecutionContext and u' where c: "get_stream_strategy E u = Some (ctx_stream c, u')"
      "ext.more u' = ext.more u" "\<And>r. ledger (hist u') r = ledger (hist u) r"
      by (rule context_read [OF assms(2) disjI2 [OF uw]], rule that; assumption?)
    note same' = same loopst_more [OF c(2)]
    show ?thesis
      by (rule some [OF mk(1) False c(1) _ b(3,4) m])
        (use b(2) assms(1) c(3) built_plain [OF b(1)] in
          \<open>simp_all add: same' plain_payload_def freed_units_def\<close>)
  qed
qed

section \<open>read\<close>

definition read_ready :: "(env \<Rightarrow> loopst \<Rightarrow> bool) \<Rightarrow> int \<Rightarrow> env \<Rightarrow> loopst \<Rightarrow> bool" where
  "read_ready obj_ready bufsize E w \<longleftrightarrow>
     obj_ready E w \<and> context_ready E w \<and> plain_context w \<and> allocating bufsize E"

lemma read_readyE:
  assumes "read_ready obj_ready bufsize E w"
  obtains "obj_ready E w" "context_ready E w" "plain_context w" "allocating bufsize E"
  using assms by (simp add: read_ready_def)

lemma read_dispatcher_plain:
  assumes "payloads w q = Some x" "linear x = To la" "la_elems la = [b]" "mode x = Some NORMAL_BUF"
    "file_fd_of w self = Some fd"
  shows "read_dispatcher E self q strategy i n offset tp w =
     Some (perform_framed (R_read fd (buffer b) (word_of_int n) offset) E i tp w)"
  using assms by (simp add: read_dispatcher_def linear_head_def)

interpretation file_read: api_method
  "\<lambda>E. UringioFile_read E self offset size_i tobj" "read_ready (file_ready self) size_i"
  "request_of IORING_OP_READ True (Some self) None"
  for self offset size_i tobj
proof (unfold_locales, erule read_readyE)
  fix w E
  let ?Q = "request_of IORING_OP_READ True (Some self) None"
  assume ok: "loop_ok w" and "file_ready self E w" and
    ctx: "context_ready E w" "plain_context w" "allocating size_i E"
  then obtain f fd where f: "files w self = Some f" "file_fd_of w self = Some fd"
    by (blast elim: file_readyE)
  show "api_outcome ?Q w (UringioFile_read E self offset size_i tobj w)"
    unfolding UringioFile_read_def
  proof (rule outcome_file_guard [OF ok f(1)], rule outcome_with_timeout [OF ok],
      rule outcome_with_future [OF ok])
    fix tp fut w1
    assume more: "ext.more w1 = ext.more w"
      and led: "\<And>r. ledger (hist w1) r = ledger (hist w) r + of_bool (r = Reference fut)"
    show "api_outcome ?Q w (do {
        (bp, w) \<leftarrow> get_or_create_linear_buffer E None size_i w1;
        if bp = 0 then Some (None, py (Decref fut) w)
        else do {
          (strategy, w) \<leftarrow> get_stream_strategy E w;
          file_request self fut bp strategy IORING_OP_READ
            (\<lambda>i w. read_dispatcher E self bp strategy i size_i offset tp w) w
        }
      })"
    proof (rule fresh_read [OF ok ctx more])
      fix u assume "get_or_create_linear_buffer E None size_i w1 = Some (0, u)" "loop_ok u"
        "pending u = pending w" "ledger (hist u) = ledger (hist w1)"
      then show ?thesis by (simp add: led outcome_returns_NULL)
    next
      fix q u and strategy :: StreamStrategy and w3 x la b
      assume b: "get_or_create_linear_buffer E None size_i w1 = Some (q, u)" "q \<noteq> 0"
        "get_stream_strategy E u = Some (strategy, w3)" "payloads w3 q = Some x" "linear x = To la"
        "la_elems la = [b]" "mode x = Some NORMAL_BUF" "loop_ok w3" "pending w3 = pending w"
        "files w3 = files w" "sockets w3 = sockets w" "plain_payload w3 q"
        "\<And>r. ledger (hist w3) r = ledger (hist w1) r + freed_units w3 q r"
      have "api_outcome ?Q w (file_request self fut q strategy IORING_OP_READ
          (\<lambda>i w. read_dispatcher E self q strategy i size_i offset tp w) w3)"
        by (rule outcome_file_request [OF _ _ _ _ read_dispatcher_plain])
          (use b f(2) led in \<open>simp_all add: file_fd_of_def\<close>)
      then show ?thesis using b(1-3) by simp
    qed
  qed
qed

section \<open>read without memory\<close>

text \<open>When the buffer cannot be allocated \<open>get_or_create_linear_buffer\<close> returns the payload all the same,
  its fields indeterminate and an exception set.\<close>

lemma linear_without_memory:
  assumes "context_ready E w" "plain_context w" "ext.more v = ext.more w"
    and "\<forall>h. e_pymem_malloc E h (size_t n) = 0" "\<forall>h k. e_malloc E h k \<noteq> 0"
  obtains q u x where "get_or_create_linear_buffer E None n v = Some (q, u)" "q \<noteq> 0"
    "bufst.more u = bufst.more v" "payloads u q = Some x" "linear x = Wild"
    "mode x = Some NORMAL_BUF"
proof -
  obtain c u1 where c: "current w = Some c" "get_buffer E v = Some (ctx_payload c, u1)"
    "ext.more u1 = ext.more v" "\<And>r. ledger (hist u1) r = ledger (hist v) r"
    by (rule context_read [OF assms(1) disjI1 [OF assms(3)]], rule that; assumption?)
  have "ctx_payload c = 0" using assms(2) c(1) by (auto simp: plain_context_def)
  with c(2) have get: "get_buffer E v = Some (0, u1)" by simp
  define q where "q = e_malloc E (hist u1) sizeof_BufferPayload"
  define u2 where "u2 = put_payload q raw_payload (libc (Malloc sizeof_BufferPayload q) u1)"
  have q: "q \<noteq> 0" using assms(5) by (simp add: q_def)
  let ?n = "size_mult sizeof_LinearBuffer (size_t 1)"
  let ?a = "e_pymem_malloc E (hist u2) ?n"
  obtain ok bs u3 where a: "alloc_upto E (size_t n) (nat 1) [] (py (PyMem_malloc ?n ?a) u2) =
      ((ok, bs), u3)" by (metis surj_pair)
  then have bs: "\<not> ok" "bs = []" "ext.more u3 = ext.more u2"
    using assms(4) by (auto simp: pymem_malloc_def Let_def)
  have "\<exists>u4. create_linear_buffers E 1 n q u2 = Some (False, u4) \<and> ext.more u4 = ext.more u2"
    using bs create_linear_buffers_eq [OF a refl, of q] by (cases "?a = 0") (simp_all add: pymem_free_def)
  then obtain u4 where u4: "create_linear_buffers E 1 n q u2 = Some (False, u4)"
    "ext.more u4 = ext.more u2" by blast
  have same: "payloads u4 = payloads u2" "bufst.more u4 = bufst.more u2"
    by (rule payloads_more [OF u4(2)], rule bufst_more_eq [OF u4(2)])
  define u where "u = finish_payload 1 PAYLOAD_RUNTIME NORMAL_BUF PAYLOAD_LINEAR q u4"
  show ?thesis
  proof (rule that [of q u])
    show "get_or_create_linear_buffer E None n v = Some (q, u)"
      using get q u4(1) by (simp add: get_or_create_linear_buffer_def malloc_payload_def c_malloc_def
          Let_def q_def [symmetric] u2_def u_def)
    show "bufst.more u = bufst.more v"
      using bufst_more_eq [OF c(3)] by (simp add: u_def finish_payload_def same u2_def)
    show "payloads u q = Some (raw_payload\<lparr>amount := Some 1, payload_origin := Some PAYLOAD_RUNTIME,
        mode := Some NORMAL_BUF, payload_type := Some PAYLOAD_LINEAR\<rparr>)"
      by (simp add: u_def finish_payload_def same u2_def)
  qed (simp_all add: q raw_payload_def)
qed

lemma wild_read_undefined:
  assumes "loop_ok v" "payloads v q = Some x" "linear x = Wild" "mode x = Some NORMAL_BUF" "q \<noteq> 0"
  shows "file_request self fut q strategy opc
     (\<lambda>i w. read_dispatcher E self q strategy i n offset tp w) v = None"
proof (cases "registry_full_of v")
  case True
  with loop_add_full [OF assms(1) True] assms(2-5) show ?thesis
    by (simp add: file_request_def free_buffer_payload_def free_linear_def)
next
  case False
  obtain i u where u: "loop_registry_add fut q strategy opc (Some self) None 0 0 v = Some (i, u)"
    "0 \<le> i" "payloads u = payloads v"
    by (rule loop_add_room [OF assms(1) False, of fut q strategy opc "Some self" None 0 0],
        rule that; assumption?)
  then have "read_dispatcher E self q strategy i n offset tp u = None"
    using assms(2-4) by (cases "file_fd_of u self") (simp_all add: read_dispatcher_def linear_head_def)
  with u(1,2) show ?thesis by (simp add: file_request_def)
qed

theorem read_without_memory:
  assumes "loop_ok w" "context_ready E w" "plain_context w"
    and "files w self = Some f" "\<not> file_closed f" "loop_tid w = e_gettid E (hist w)"
    and "\<not> e_loop_closed E (hist w)" "\<forall>h. e_create_future E h \<noteq> None"
    and "\<forall>h. e_pymem_malloc E h (size_t size_i) = 0" "\<forall>h k. e_malloc E h k \<noteq> 0"
  shows "UringioFile_read E self offset size_i P_missing w = None"
proof -
  from assms(8) obtain fut where fut: "e_create_future E (hist w) = Some fut" by blast
  let ?v = "py (Create_future (Some fut)) w"
  have more: "ext.more ?v = ext.more w" by simp
  obtain q u x where u: "get_or_create_linear_buffer E None size_i ?v = Some (q, u)" "q \<noteq> 0"
    "bufst.more u = bufst.more ?v" "payloads u q = Some x" "linear x = Wild"
    "mode x = Some NORMAL_BUF"
    by (rule linear_without_memory [OF assms(2,3) more assms(9,10)])
  have uw: "bufst.more u = bufst.more w" using u(3) by simp
  obtain c :: ExecutionContext and u1 where c: "get_stream_strategy E u = Some (ctx_stream c, u1)"
    "ext.more u1 = ext.more u" "\<And>r. ledger (hist u1) r = ledger (hist u) r"
    by (rule context_read [OF assms(2) disjI2 [OF uw]], rule that; assumption?)
  note same = loopst_bufst_more [OF uw] loopst_more [OF c(2)]
  have "file_request self fut q (ctx_stream c) IORING_OP_READ
      (\<lambda>i w. read_dispatcher E self q (ctx_stream c) i size_i offset no_timeout w) u1 = None"
    by (rule wild_read_undefined) (use assms(1) u in \<open>simp_all add: same\<close>)
  then show ?thesis
    using assms(4-7) u(1,2) c(1) fut
    by (simp add: UringioFile_read_def file_guard_def ASSERT_LOOP_THREAD_def with_timeout_def
        ASSERT_RING_LOOP_IS_CLOSING_def parse_timeout_params_def with_future_def create_future_def
        Let_def)
qed

section \<open>recv\<close>

lemma recv_dispatcher_plain:
  assumes "payloads w q = Some x" "linear x = To la" "la_elems la = [b]" "mode x = Some NORMAL_BUF"
    "sock_fd_of w self = Some fd"
  shows "recv_dispatcher E self q strategy i is_poll_first tp w =
     Some (perform_framed (R_recv fd (buffer b) (len b) is_poll_first) E i tp w)"
  using assms by (simp add: recv_dispatcher_def linear_head_def)

interpretation socket_recv: api_method
  "\<lambda>E. UringioSocket_recv E self bufsize None is_poll_first tobj" "read_ready (socket_ready self) bufsize"
  "request_of IORING_OP_RECV True None (Some self)"
  for self bufsize is_poll_first tobj
proof (unfold_locales, erule read_readyE)
  fix w E
  let ?Q = "request_of IORING_OP_RECV True None (Some self)"
  assume ok: "loop_ok w" and "socket_ready self E w" and
    ctx: "context_ready E w" "plain_context w" "allocating bufsize E"
  then obtain s fd where s: "sockets w self = Some s" "sock_fd_of w self = Some fd"
    by (blast elim: socket_readyE)
  show "api_outcome ?Q w (UringioSocket_recv E self bufsize None is_poll_first tobj w)"
    unfolding UringioSocket_recv_def
  proof (rule outcome_socket_guard [OF ok s(1)], rule outcome_with_timeout [OF ok])
    fix tp
    show "api_outcome ?Q w (do {
        (bp, w) \<leftarrow> get_or_create_linear_buffer E None bufsize w;
        if bp = 0 then Some (None, w)
        else do {
          (strategy, w) \<leftarrow> get_stream_strategy E w;
          with_future_or E (free_buffer_payload bp False) (\<lambda>fut w.
            socket_request self fut bp strategy IORING_OP_RECV 0 0 (full_payload fut bp id)
              (\<lambda>i w. recv_dispatcher E self bp strategy i is_poll_first tp w) w) w
        }
      })"
    proof (rule fresh_read [OF ok ctx refl])
      fix u assume "get_or_create_linear_buffer E None bufsize w = Some (0, u)" "loop_ok u"
        "pending u = pending w" "ledger (hist u) = ledger (hist w)"
      then show ?thesis by (simp add: outcome_returns_NULL)
    next
      fix q u and strategy :: StreamStrategy and w3 x la b
      assume b: "get_or_create_linear_buffer E None bufsize w = Some (q, u)" "q \<noteq> 0"
        "get_stream_strategy E u = Some (strategy, w3)" "payloads w3 q = Some x" "linear x = To la"
        "la_elems la = [b]" "mode x = Some NORMAL_BUF" "loop_ok w3" "pending w3 = pending w"
        "files w3 = files w" "sockets w3 = sockets w" "plain_payload w3 q"
        "\<And>r. ledger (hist w3) r = ledger (hist w) r + freed_units w3 q r"
      have "api_outcome ?Q w (with_future_or E (free_buffer_payload q False) (\<lambda>fut.
          socket_request self fut q strategy IORING_OP_RECV 0 0 (full_payload fut q id)
            (\<lambda>i w. recv_dispatcher E self q strategy i is_poll_first tp w)) w3)"
        by (rule outcome_payload_request [OF _ _ _ _ recv_dispatcher_plain])
          (use b s(2) in \<open>simp_all add: sock_fd_of_def\<close>)
      then show ?thesis using b(1-3) by simp
    qed
  qed
qed

end
