(* ===== verification/Reader.thy ===== *)
theory Reader
  imports Api_Contract Socket_Api
begin

text \<open>
  The completion reader (\<open>src/python_api/reader/on_ready.c\<close>): it takes the completions off the
  ring, turns each into the result or the exception of the request's future and removes the
  request.  One case of the \<open>switch\<close> over the opcode is one definition, and \<open>handle_cqe\<close> is the body
  of the loop.  As elsewhere \<open>None\<close> is undefined behaviour of the C code.
\<close>

section \<open>Access to a pending slot\<close>

definition upd_slot :: "int \<Rightarrow> (RequestSlot \<Rightarrow> RequestSlot) \<Rightarrow> loopst \<Rightarrow> loopst" where
  "upd_slot i f w = w\<lparr>registry := map_option
     (\<lambda>reg. reg\<lparr>slots := (slots reg)[nat i := f (slots reg ! nat i)]\<rparr>) (registry w)\<rparr>"

definition deref_payload :: "ptr \<Rightarrow> 'a bufst_scheme \<Rightarrow> BufferPayload option" where
  "deref_payload bp w = (if bp = 0 then None else payloads w bp)"

text \<open>\<open>free_buffer_payload(slot->buffer_payload, force); slot->buffer_payload = NULL;\<close>\<close>

definition drop_slot_payload :: "int \<Rightarrow> RequestSlot \<Rightarrow> bool \<Rightarrow> loopst \<Rightarrow> loopst option" where
  "drop_slot_payload i s force w =
     map_option (upd_slot i (\<lambda>x. x\<lparr>buffer_payload := 0\<rparr>))
       (free_buffer_payload (buffer_payload s) force w)"

text \<open>\<open>if (payload->mode == FIXED) release_buffer_idx(payload->idx_registry, payload->buf_idx);\<close>\<close>

definition release_fixed :: "ptr \<Rightarrow> 'a bufst_scheme \<Rightarrow> 'a bufst_scheme option" where
  "release_fixed bp w = do {
     p \<leftarrow> deref_payload bp w;
     m \<leftarrow> mode p;
     if m = FIXED
     then (case idx_registry p of
             To r \<Rightarrow> do {
               i \<leftarrow> buf_idx p;
               (_, r) \<leftarrow> release_buffer_idx r i;
               Some (upd_payload bp (\<lambda>x. x\<lparr>idx_registry := To r\<rparr>) w)
             }
           | _ \<Rightarrow> None)
     else Some w
   }"

text \<open>\<open>PyBytes_FromStringAndSize\<close> and \<open>PyLong_FromLong\<close> may fail for lack of memory.\<close>

definition new_value :: "env \<Rightarrow> pyval \<Rightarrow> 'a ext_scheme \<Rightarrow> pyval option \<times> 'a ext_scheme" where
  "new_value E v w =
     (let ok = e_alloc_value E (hist w) in (if ok then Some v else None, py (Alloc_value ok) w))"

definition mem_bytes :: "env \<Rightarrow> history \<Rightarrow> ptr \<Rightarrow> nat \<Rightarrow> 8 word list" where
  "mem_bytes E h p n = map (\<lambda>i. e_mem E h (p + i)) [0..<n]"

text \<open>The first \<open>n\<close> bytes of a buffer; reading past its end is undefined.\<close>

definition buffer_bytes ::
    "env \<Rightarrow> LinearBuffer \<Rightarrow> int \<Rightarrow> 'a ext_scheme \<Rightarrow> (pyval option \<times> 'a ext_scheme) option" where
  "buffer_bytes E b n w =
     (if n < 0 \<or> nat n > len b then None
      else Some (new_value E (PyBytes (map Some (mem_bytes E (hist w) (buffer b) (nat n)))) w))"

text \<open>
  The copying loop over the vector: \<open>k\<close> entries left of \<open>nr_vecs\<close>, \<open>remaining\<close> bytes left.  Entries
  past the array are undefined, and so is a length that \<open>(Py_ssize_t)\<close> makes negative, which
  escapes the clamp.
\<close>

fun gather :: "(ptr \<Rightarrow> nat \<Rightarrow> 8 word list) \<Rightarrow> iovec list \<Rightarrow> nat \<Rightarrow> nat \<Rightarrow> 8 word list option" where
  "gather rd vs 0 remaining = Some []"
| "gather rd vs (Suc k) 0 = Some []"
| "gather rd [] (Suc k) (Suc r) = None"
| "gather rd (v # vs) (Suc k) (Suc r) =
     (if iov_len v \<ge> 2 ^ 63 then None
      else let chunk = min (iov_len v) (Suc r)
           in map_option (append (rd (iov_base v) chunk)) (gather rd vs k (Suc r - chunk)))"

text \<open>\<open>PyBytes_FromStringAndSize(NULL, n)\<close>, filled from the vector; what no entry fills stays
  indeterminate.\<close>

definition vector_bytes ::
    "env \<Rightarrow> VectoredBuffer \<Rightarrow> int \<Rightarrow> 'a ext_scheme \<Rightarrow> (pyval option \<times> 'a ext_scheme) option" where
  "vector_bytes E v n w =
     (let (ok, w) = new_value E PyNone w
      in case ok of
           None \<Rightarrow> Some (None, w)
         | Some _ \<Rightarrow> do {
             bs \<leftarrow> gather (mem_bytes E (hist w)) (iovecs v) (unat (nr_vecs v)) (nat n);
             Some (Some (PyBytes (map Some bs @ replicate (nat n - length bs) None)), w)
           })"

section \<open>The cases of the switch\<close>

text \<open>Each case gives the object \<open>result\<close>, which may be \<open>NULL\<close>, or leaves the body with
  \<open>continue\<close>.\<close>

datatype completion = Resolved "pyval option" | Skipped

type_synonym completed = "(completion \<times> loopst) option"

definition long_result :: "env \<Rightarrow> cqe \<Rightarrow> loopst \<Rightarrow> completed" where
  "long_result E cqe w =
     (let (v, w) = new_value E (PyLong (cqe_res cqe)) w in Some (Resolved v, w))"

definition complete_read :: "env \<Rightarrow> cqe \<Rightarrow> int \<Rightarrow> RequestSlot \<Rightarrow> loopst \<Rightarrow> completed" where
  "complete_read E cqe i s w = do {
     p \<leftarrow> deref_payload (buffer_payload s) w;
     b \<leftarrow> linear_head p;
     (v, w) \<leftarrow> (if buffer b \<noteq> 0 then buffer_bytes E b (cqe_res cqe) w else Some (None, w));
     w \<leftarrow> release_fixed (buffer_payload s) w;
     w \<leftarrow> drop_slot_payload i s False w;
     Some (Resolved v, w)
   }"

definition complete_readv :: "env \<Rightarrow> cqe \<Rightarrow> int \<Rightarrow> RequestSlot \<Rightarrow> loopst \<Rightarrow> completed" where
  "complete_readv E cqe i s w = do {
     p \<leftarrow> deref_payload (buffer_payload s) w;
     vec \<leftarrow> vector_of p;
     (v, w) \<leftarrow> vector_bytes E vec (cqe_res cqe) w;
     w \<leftarrow> drop_slot_payload i s False w;
     Some (Resolved v, w)
   }"

definition complete_write :: "env \<Rightarrow> cqe \<Rightarrow> int \<Rightarrow> RequestSlot \<Rightarrow> loopst \<Rightarrow> completed" where
  "complete_write E cqe i s w = do {
     (out, w) \<leftarrow> long_result E cqe w;
     w \<leftarrow> release_fixed (buffer_payload s) w;
     w \<leftarrow> drop_slot_payload i s True w;
     Some (out, w)
   }"

definition complete_writev :: "env \<Rightarrow> cqe \<Rightarrow> int \<Rightarrow> RequestSlot \<Rightarrow> loopst \<Rightarrow> completed" where
  "complete_writev E cqe i s w = do {
     (out, w) \<leftarrow> long_result E cqe w;
     w \<leftarrow> (if buffer_payload s \<noteq> 0 then drop_slot_payload i s False w else Some w);
     Some (out, w)
   }"

definition complete_openat2 :: "cqe \<Rightarrow> RequestSlot \<Rightarrow> loopst \<Rightarrow> completed" where
  "complete_openat2 cqe s w =
     (case slot_file s of
        None \<Rightarrow> Some (Resolved None, w)
      | Some f \<Rightarrow>
          if files w f = None then None
          else Some (Resolved (Some (PyObj f)),
                 upd_file f (\<lambda>x. x\<lparr>file_fd := Some (cqe_res cqe)\<rparr>) w))"

definition complete_socket :: "cqe \<Rightarrow> RequestSlot \<Rightarrow> loopst \<Rightarrow> completed" where
  "complete_socket cqe s w =
     (case slot_socket s of
        None \<Rightarrow> Some (Resolved None, w)
      | Some x \<Rightarrow>
          if sockets w x = None then None
          else Some (Resolved (Some (PyObj x)),
                 upd_socket x (\<lambda>y. y\<lparr>sock_fd := Some (cqe_res cqe)\<rparr>) w))"

text \<open>\<open>BIND\<close>, \<open>CONNECT\<close> and \<open>LISTEN\<close>.\<close>

definition complete_on_socket :: "env \<Rightarrow> cqe \<Rightarrow> RequestSlot \<Rightarrow> loopst \<Rightarrow> completed" where
  "complete_on_socket E cqe s w =
     (if slot_socket s = None then Some (Resolved None, w) else long_result E cqe w)"

definition complete_accept :: "env \<Rightarrow> cqe \<Rightarrow> int \<Rightarrow> RequestSlot \<Rightarrow> loopst \<Rightarrow> completed" where
  "complete_accept E cqe i s w =
     (case slot_socket s of
        None \<Rightarrow> Some (Resolved None, w)
      | Some x \<Rightarrow>
          let (conn, w) = py_new E w
          in case conn of
               None \<Rightarrow>
                 let w = py Err_print (py (Err_set (RuntimeError ''Can't create socket'')) w)
                 in Some (Skipped, c_free (slot_addr s) w)
             | Some c \<Rightarrow> do {
                 y \<leftarrow> sockets w x;
                 let w = py (Incref (loop_obj w)) w;
                 let w = w\<lparr>sockets := (sockets w)(c \<mapsto> \<lparr>sock_fd = Some (cqe_res cqe),
                             sock_domain = sock_domain y, sock_addr = Some (slot_addr s),
                             sock_closed = False\<rparr>)\<rparr>;
                 Some (Resolved (Some (PyObj c)), upd_slot i (\<lambda>z. z\<lparr>buffer_payload := 0\<rparr>) w)
               })"

definition complete_recv :: "env \<Rightarrow> cqe \<Rightarrow> int \<Rightarrow> RequestSlot \<Rightarrow> loopst \<Rightarrow> completed" where
  "complete_recv E cqe i s w =
     (if slot_socket s = None then Some (Resolved None, w)
      else do {
        (v, w) \<leftarrow> (if cqe_res cqe = 0 then Some (new_value E (PyBytes []) w)
          else if cqe_res cqe > 0
          then do {
            p \<leftarrow> deref_payload (buffer_payload s) w;
            b \<leftarrow> linear_head p;
            buffer_bytes E b (cqe_res cqe) w
          }
          else Some (None, w));
        w \<leftarrow> release_fixed (buffer_payload s) w;
        w \<leftarrow> drop_slot_payload i s False w;
        Some (Resolved v, w)
      })"

text \<open>A multishot receive: the buffer the kernel chose, its message header, and a new request with
  the same index when the kernel has ended the old one.\<close>

definition complete_recvmsg_multishot ::
    "env \<Rightarrow> cqe \<Rightarrow> int \<Rightarrow> RequestSlot \<Rightarrow> loopst \<Rightarrow> completed" where
  "complete_recvmsg_multishot E cqe i s w = do {
     p \<leftarrow> deref_payload (buffer_payload s) w;
     b \<leftarrow> linear_head p;
     let bid = unat (drop_bit 16 (cqe_flags cqe));
     let out = uringio_recvmsg_validate_multishot E (buffer b + bid * len b) (cqe_res cqe)
                 (slot_msghdr s) (cqe_res cqe) w;
     let w = (if out_is_null out
              then py Err_print (py (Err_set (RuntimeError ''Operation result is not valid.'')) w)
              else w);
     w \<leftarrow> (if is_uringio_recvmsg_multishot_resubmit_required cqe
          then do {
            x \<leftarrow> slot_socket s;
            y \<leftarrow> sockets w x;
            fd \<leftarrow> sock_fd y;
            g \<leftarrow> bgid p;
            Some (snd (uringio_recvmsg_multishot E i fd g 0 (slot_msghdr s) no_timeout w))
          }
          else Some w);
     let (v, w) = new_value E (PyBytes (map Some
            (mem_bytes E (hist w) (out_payload out) (out_payload_len out)))) w;
     Some (Resolved v, w)
   }"

definition complete_recvmsg :: "env \<Rightarrow> cqe \<Rightarrow> int \<Rightarrow> RequestSlot \<Rightarrow> loopst \<Rightarrow> completed" where
  "complete_recvmsg E cqe i s w = do {
     w \<leftarrow> release_fixed (buffer_payload s) w;
     if stream_strategy s = MULTISHOT then complete_recvmsg_multishot E cqe i s w
     else do {
       p \<leftarrow> deref_payload (buffer_payload s) w;
       pt \<leftarrow> payload_type p;
       (v, w) \<leftarrow> (if pt = PAYLOAD_LINEAR
         then do {
           b \<leftarrow> linear_head p;
           (v, w) \<leftarrow> buffer_bytes E b (cqe_res cqe) w;
           Some (v, if slot_addr s = 0 then w
                    else upd_slot i (\<lambda>z. z\<lparr>slot_addr := 0\<rparr>) (c_free (slot_addr s) w))
         }
         else do {
           vec \<leftarrow> vector_of p;
           vector_bytes E vec (cqe_res cqe) w
         });
       w \<leftarrow> drop_slot_payload i s False w;
       Some (Resolved v, w)
     }
   }"

text \<open>\<open>SEND\<close> and \<open>SENDMSG\<close>.\<close>

definition complete_send :: "env \<Rightarrow> cqe \<Rightarrow> int \<Rightarrow> RequestSlot \<Rightarrow> loopst \<Rightarrow> completed" where
  "complete_send E cqe i s w = do {
     w \<leftarrow> (if buffer_payload s = 0 then Some w
          else do {
            w \<leftarrow> release_fixed (buffer_payload s) w;
            drop_slot_payload i s False w
          });
     long_result E cqe w
   }"

definition complete_close :: "env \<Rightarrow> cqe \<Rightarrow> RequestSlot \<Rightarrow> loopst \<Rightarrow> completed" where
  "complete_close E cqe s w =
     (case slot_socket s of
        Some x \<Rightarrow>
          if sockets w x = None then None
          else long_result E cqe (upd_socket x (\<lambda>y. y\<lparr>sock_closed := True\<rparr>) w)
      | None \<Rightarrow>
          (case slot_file s of
             None \<Rightarrow> Some (Resolved None, w)
           | Some f \<Rightarrow>
               if files w f = None then None
               else long_result E cqe (upd_file f (\<lambda>x. x\<lparr>file_closed := True\<rparr>) w)))"

definition complete_op :: "env \<Rightarrow> cqe \<Rightarrow> int \<Rightarrow> RequestSlot \<Rightarrow> loopst \<Rightarrow> completed" where
  "complete_op E cqe i s w =
     (case opcode s of
        IORING_OP_READ \<Rightarrow> complete_read E cqe i s w
      | IORING_OP_READV \<Rightarrow> complete_readv E cqe i s w
      | IORING_OP_WRITE \<Rightarrow> complete_write E cqe i s w
      | IORING_OP_WRITEV \<Rightarrow> complete_writev E cqe i s w
      | IORING_OP_OPENAT2 \<Rightarrow> complete_openat2 cqe s w
      | IORING_OP_SOCKET \<Rightarrow> complete_socket cqe s w
      | IORING_OP_BIND \<Rightarrow> complete_on_socket E cqe s w
      | IORING_OP_CONNECT \<Rightarrow> complete_on_socket E cqe s w
      | IORING_OP_LISTEN \<Rightarrow> complete_on_socket E cqe s w
      | IORING_OP_ACCEPT \<Rightarrow> complete_accept E cqe i s w
      | IORING_OP_RECV \<Rightarrow> complete_recv E cqe i s w
      | IORING_OP_RECVMSG \<Rightarrow> complete_recvmsg E cqe i s w
      | IORING_OP_SEND \<Rightarrow> complete_send E cqe i s w
      | IORING_OP_SENDMSG \<Rightarrow> complete_send E cqe i s w
      | IORING_OP_CLOSE \<Rightarrow> complete_close E cqe s w
      | IORING_OP_TIMEOUT \<Rightarrow> Some (Resolved (Some PyNone), w)
      | _ \<Rightarrow> long_result E cqe w)"

section \<open>The body of the loop\<close>

abbreviation ETIME :: int where "ETIME \<equiv> 62"

text \<open>A failed request: \<open>OSError(-res)\<close> for the future.  \<open>-res\<close> overflows for the least \<open>int\<close>.\<close>

definition complete_error :: "env \<Rightarrow> cqe \<Rightarrow> obj \<Rightarrow> loopst \<Rightarrow> completed" where
  "complete_error E cqe fut w =
     (if cqe_res cqe = - (2 ^ 31) then None
      else let (exc, w) = new_value E PyNone w
           in Some (Resolved None,
                case exc of
                  Some _ \<Rightarrow> py (Set_exception fut (OSError (- cqe_res cqe))) w
                | None \<Rightarrow> py Err_print w))"

text \<open>The \<open>WAKEUP_FD_TAG\<close> block: read the counter and prepare the next wakeup read.\<close>

definition complete_wakeup :: "env \<Rightarrow> loopst \<Rightarrow> completed" where
  "complete_wakeup E w =
     (let w = libc (Read_fd (wakeup_fd w) (e_read E (hist w))) w;
          (sqe, w) = io_uring_get_sqe E w;
          w = (if sqe = 0 then w
               else lu (Set_data sqe WAKEUP_FD_TAG)
                      (lu (Prep sqe (Prep_read (wakeup_fd w) (wakeup_buf w) 8 0)) w))
      in Some (Skipped, w))"

text \<open>\<open>Py_DECREF(result)\<close>; only the objects of the model are counted.\<close>

definition decref_value :: "pyval \<Rightarrow> 'a ext_scheme \<Rightarrow> 'a ext_scheme" where
  "decref_value v w = (case v of PyObj x \<Rightarrow> py (Decref x) w | _ \<Rightarrow> w)"

definition finish_request :: "int \<Rightarrow> obj \<Rightarrow> cqe \<Rightarrow> completion \<Rightarrow> loopst \<Rightarrow> loopst option" where
  "finish_request i fut cqe out w =
     (case out of
        Skipped \<Rightarrow> Some (lu (Cqe_seen cqe) w)
      | Resolved v \<Rightarrow> do {
          let w = (case v of
                     Some x \<Rightarrow> decref_value x (py (Set_result fut x) w)
                   | None \<Rightarrow> w);
          w \<leftarrow> loop_registry_remove i w;
          Some (lu (Cqe_seen cqe) w)
        })"

definition timeout_expired :: "RequestSlot \<Rightarrow> cqe \<Rightarrow> bool" where
  "timeout_expired s cqe \<longleftrightarrow> opcode s = IORING_OP_TIMEOUT \<and> cqe_res cqe = - ETIME"

text \<open>\<open>IS_SIGNALS_DATA\<close> of an integer is \<open>0\<close>, so the block it guards is not compiled in.\<close>

definition handle_cqe :: "env \<Rightarrow> cqe \<Rightarrow> loopst \<Rightarrow> loopst option" where
  "handle_cqe E cqe w = do {
     reg \<leftarrow> registry w;
     let i = index_of (cqe_user_data cqe);
     (case registry_get reg i of
        None \<Rightarrow> Some (lu (Cqe_seen cqe) w)
      | Some s \<Rightarrow>
          (case future s of
             None \<Rightarrow> Some (lu (Cqe_seen cqe) w)
           | Some fut \<Rightarrow> do {
               (out, w) \<leftarrow>
                 (if cqe_res cqe < 0 \<and> \<not> timeout_expired s cqe then complete_error E cqe fut w
                  else if cqe_user_data cqe = WAKEUP_FD_TAG then complete_wakeup E w
                  else complete_op E cqe i s w);
               finish_request i fut cqe out w
             }))
   }"

text \<open>The loop, which ends when \<open>io_uring_peek_cqe\<close> finds no completion.\<close>

fun on_uring_ready :: "nat \<Rightarrow> env \<Rightarrow> loopst \<Rightarrow> loopst option" where
  "on_uring_ready 0 E w = None"
| "on_uring_ready (Suc n) E w =
     (let c = e_peek_cqe E (hist w); w = lu (Peek_cqe c) w
      in case c of
           None \<Rightarrow> Some w
         | Some cqe \<Rightarrow> Option.bind (handle_cqe E cqe w) (on_uring_ready n E))"

end
