(* ===== verification/Event_Loop.thy ===== *)
theory Event_Loop
  imports Reader
begin

text \<open>
  The event loop (\<open>src/python_api/loop\<close>, \<open>src/python_api/timer/timer.c\<close>,
  \<open>src/python_api/signals/signals.c\<close>): timers, one turn of the loop, shutdown, and the life of the
  loop object.
\<close>

section \<open>timer.c\<close>

text \<open>\<open>get_stream_strategy\<close> comes before the parameters are parsed.  A parameter that is not given
  leaves the timer zero.\<close>

definition zero_timer :: TimerParams where
  "zero_timer = \<lparr>timer_sec = 0, timer_nsec = 0, timer_count = 0, is_multishot = False\<rparr>"

definition UringioLoop_timer :: "env \<Rightarrow> py_param \<Rightarrow> loopst \<Rightarrow> obj api" where
  "UringioLoop_timer E timer_obj =
     ASSERT_LOOP_THREAD E (ASSERT_RING_LOOP_IS_CLOSING E (\<lambda>w. do {
       (strategy, w) \<leftarrow> get_stream_strategy E w;
       let (r, tp, w) = (if timer_obj = P_missing \<or> timer_obj = P_none then (1, zero_timer, w)
                         else parse_timer_params timer_obj strategy zero_timer w);
       if r < 0 then Some (None, w)
       else with_future E (\<lambda>fut w. do {
         (i, w) \<leftarrow> loop_registry_add fut 0 ONESHOT IORING_OP_TIMEOUT None None 0 0 w;
         if i < 0 then raise_exc (RuntimeError ''Registry is full'') (py (Decref fut) w)
         else let (result, w) = timer E i (Some tp) w
              in if result < 1
                 then do {
                   let w = (if result = -1 then py (Err_set sqe_unavailable) w
                            else if result = 0 then py (Err_set submission_failed) w
                            else w);
                   w \<leftarrow> loop_registry_remove i (py (Decref fut) w);
                   Some (None, w)
                 }
                 else Some (Some fut, w)
       }) w
     }))"

section \<open>helpers.c\<close>

text \<open>
  The Python code behind the loop: the clock, rounding to a double, the resolution of the clock,
  \<open>heapq.heappop\<close> (\<open>None\<close> when it raises) and \<open>Handle._run\<close>, which may do anything to the state.
\<close>

record pyloop =
  py_time :: "history \<Rightarrow> rat"
  py_round :: "rat \<Rightarrow> rat"
  py_resolution :: rat
  py_heappop :: "(obj \<Rightarrow> rat) \<Rightarrow> obj list \<Rightarrow> (obj \<times> obj list) option"
  py_run :: "obj \<Rightarrow> loopst \<Rightarrow> loopst"

text \<open>A new reference to an object that exists, where the call that gives it can fail.\<close>

definition py_ref :: "env \<Rightarrow> obj \<Rightarrow> 'a ext_scheme \<Rightarrow> obj option \<times> 'a ext_scheme" where
  "py_ref E h w =
     (case e_new_object E (hist w) of
        None \<Rightarrow> (None, py (New_object None) w)
      | Some _ \<Rightarrow> (Some h, py (Incref h) w))"

text \<open>The delay until the first scheduled handle: \<open>tv_nsec\<close> is computed from
  \<open>delay - (double)delay\<close>.\<close>

definition timeout_of_delay :: "pyloop \<Rightarrow> rat \<Rightarrow> kernel_timespec" where
  "timeout_of_delay P delay =
     (let delay = (if delay < 0 then 0 else delay);
          delay = (if delay > 86400 then 86400 else delay)
      in \<lparr>tv_sec = \<lfloor>delay\<rfloor>,
          tv_nsec = \<lfloor>py_round P (py_round P (delay - delay) * 1000000000)\<rfloor>\<rparr>)"

definition no_wait :: kernel_timespec where
  "no_wait = \<lparr>tv_sec = 0, tv_nsec = 0\<rparr>"

definition compute_timeout :: "env \<Rightarrow> pyloop \<Rightarrow> loopst \<Rightarrow> kernel_timespec \<times> loopst" where
  "compute_timeout E P w =
     (let (ready, w) = py_new E w;
          (scheduled, w) = py_new E w;
          (stop, w) = py_new E w;
          give_back = (\<lambda>w. opt_decref stop (opt_decref scheduled (opt_decref ready w)))
      in if ready = None \<or> scheduled = None \<or> stop = None then (no_wait, give_back w)
         else if ready_q w \<noteq> [] \<or> stopping w then (no_wait, give_back w)
         else (case scheduled_q w of
                 [] \<Rightarrow> (\<lparr>tv_sec = 86400, tv_nsec = 0\<rparr>, give_back w)
               | h # _ \<Rightarrow>
                   let (first, w) = py_ref E h w
                   in case first of
                        None \<Rightarrow> (no_wait, give_back w)
                      | Some f \<Rightarrow>
                          let (when, w) = py_new E w;
                              (loop_time, w) = py_new E w;
                              ts = (if when = None \<or> loop_time = None then no_wait
                                    else timeout_of_delay P
                                      (py_round P (handle_when w f - py_time P (hist w))));
                              w = py (Decref f) (opt_decref loop_time (opt_decref when w))
                          in (ts, give_back w)))"

text \<open>One pass of the loop of \<open>promote_scheduled\<close>: \<open>False\<close> for \<open>break\<close>.\<close>

definition promote_one ::
    "env \<Rightarrow> pyloop \<Rightarrow> rat \<Rightarrow> loopst \<Rightarrow> bool \<times> loopst" where
  "promote_one E P end_time w =
     (case scheduled_q w of
        [] \<Rightarrow> (False, w)
      | h # _ \<Rightarrow>
          let (handle, w) = py_ref E h w
          in case handle of
               None \<Rightarrow> (False, w)
             | Some _ \<Rightarrow>
                 let (when, w) = py_new E w
                 in case when of
                      None \<Rightarrow> (False, py (Decref h) w)
                    | Some x \<Rightarrow>
                        if handle_when w h \<ge> end_time
                        then (False, py (Decref h) (py (Decref x) w))
                        else let w = py (Decref x) w
                             in case py_heappop P (handle_when w) (scheduled_q w) of
                                  None \<Rightarrow> (False, py (Decref h) w)
                                | Some (popped, rest) \<Rightarrow>
                                    let w = py (Incref popped) (w\<lparr>scheduled_q := rest\<rparr>);
                                        w = w\<lparr>handle_scheduled :=
                                              (handle_scheduled w)(popped := False),
                                              ready_q := ready_q w @ [popped]\<rparr>
                                    in (True, py (Decref h) (py (Decref popped) w)))"

fun promote_loop :: "nat \<Rightarrow> env \<Rightarrow> pyloop \<Rightarrow> rat \<Rightarrow> loopst \<Rightarrow> loopst option" where
  "promote_loop 0 E P end_time w = None"
| "promote_loop (Suc n) E P end_time w =
     (let (again, w) = promote_one E P end_time w
      in if again then promote_loop n E P end_time w else Some w)"

text \<open>The five references are given back only when one of the attributes is missing.\<close>

definition promote_scheduled :: "nat \<Rightarrow> env \<Rightarrow> pyloop \<Rightarrow> loopst \<Rightarrow> loopst option" where
  "promote_scheduled n E P w =
     (let (heapq, w) = py_new E w
      in case heapq of
           None \<Rightarrow> Some w
         | Some hq \<Rightarrow>
             let (scheduled, w) = py_new E w;
                 (ready, w) = py_new E w;
                 (loop_time, w) = py_new E w;
                 (clock_res, w) = py_new E w
             in if scheduled = None \<or> ready = None \<or> loop_time = None \<or> clock_res = None
                then Some (py (Decref hq) (opt_decref clock_res (opt_decref loop_time
                       (opt_decref ready (opt_decref scheduled w)))))
                else promote_loop n E P
                       (py_round P (py_time P (hist w) + py_resolution P)) w)"

fun drain_loop :: "nat \<Rightarrow> env \<Rightarrow> pyloop \<Rightarrow> loopst \<Rightarrow> loopst" where
  "drain_loop 0 E P w = w"
| "drain_loop (Suc n) E P w =
     (case ready_q w of
        [] \<Rightarrow> w
      | h # rest \<Rightarrow>
          let w = py (Incref h) (w\<lparr>ready_q := rest\<rparr>);
              (cancelled, w) = py_new E w;
              w = (if cancelled \<noteq> None \<and> \<not> handle_cancelled w h then py_run P h w else w);
              w = py (Decref h) (opt_decref cancelled w)
          in drain_loop n E P w)"

definition drain_ready :: "env \<Rightarrow> pyloop \<Rightarrow> loopst \<Rightarrow> loopst" where
  "drain_ready E P w =
     (let (ready, w) = py_new E w
      in case ready of
           None \<Rightarrow> w
         | Some r \<Rightarrow> py (Decref r) (drain_loop (length (ready_q w)) E P w))"

section \<open>shutdown.c\<close>

definition fast_shutdown :: "env \<Rightarrow> loopst \<Rightarrow> loopst option" where
  "fast_shutdown E w = registry_destroy (registry w) (ring_destroy E (ring w) w)"

abbreviation hundred_ms :: kernel_timespec where
  "hundred_ms \<equiv> \<lparr>tv_sec = 0, tv_nsec = 100000000\<rparr>"

text \<open>One completion during the shutdown; the slot is removed whether or not it has a future.\<close>

definition shutdown_cqe :: "env \<Rightarrow> cqe \<Rightarrow> loopst \<Rightarrow> loopst option" where
  "shutdown_cqe E cqe w =
     (if cqe_user_data cqe = WAKEUP_FD_TAG then Some (lu (Cqe_seen cqe) w)
      else do {
        reg \<leftarrow> registry w;
        let i = index_of (cqe_user_data cqe);
        (case registry_get reg i of
           None \<Rightarrow> Some (lu (Cqe_seen cqe) w)
         | Some s \<Rightarrow> do {
             let w = (case future s of
                        None \<Rightarrow> w
                      | Some fut \<Rightarrow>
                          let (exc, w) = new_value E PyNone w
                          in (case exc of
                                None \<Rightarrow> w
                              | Some _ \<Rightarrow> py (Set_exception fut
                                           (RuntimeError ''Event loop is closed'')) w));
             w \<leftarrow> loop_registry_remove i w;
             Some (lu (Cqe_seen cqe) w)
           })
      })"

fun shutdown_loop :: "nat \<Rightarrow> env \<Rightarrow> loopst \<Rightarrow> loopst option" where
  "shutdown_loop 0 E w = None"
| "shutdown_loop (Suc n) E w =
     (let c = e_wait_cqe E (hist w); w = lu (Wait_cqe_timeout hundred_ms c) w
      in case c of
           None \<Rightarrow> Some w
         | Some cqe \<Rightarrow> Option.bind (shutdown_cqe E cqe w) (shutdown_loop n E))"

definition graceful_shutdown :: "nat \<Rightarrow> env \<Rightarrow> loopst \<Rightarrow> loopst option" where
  "graceful_shutdown n E w = do {
     w \<leftarrow> shutdown_loop n E w;
     w \<leftarrow> registry_destroy (registry w) w;
     let w = w\<lparr>registry := None\<rparr>;
     let (token, w) = ContextVar_set E Ctx_none w;
     let w = (case token of
                Some t \<Rightarrow> give_up_token t w
              | None \<Rightarrow> py Err_clear w);
     Some (ring_destroy E (ring w) w)
   }"

section \<open>signals.c\<close>

abbreviation POLLIN :: int where "POLLIN \<equiv> 1"

text \<open>The entry is used without a check.\<close>

definition set_signals_handler :: "env \<Rightarrow> loopst \<Rightarrow> (int \<times> loopst) option" where
  "set_signals_handler E w =
     (let (rd, wr) = e_pipe2 E (hist w);
          w = libc (Pipe2 rd wr) w;
          (signal_module, w) = py_new E w
      in case signal_module of
           None \<Rightarrow> Some (0, w)
         | Some m \<Rightarrow>
             let (result, w) = py_new E w; w = py (Decref m) w
             in case result of
                  None \<Rightarrow> Some (0, w)
                | Some r \<Rightarrow>
                    let w = py (Decref r) w; (sqe, w) = create_sqe E w
                    in if sqe = 0 then None
                       else let w = lu (Prep sqe (Prep_poll_add rd POLLIN)) w;
                                (p, w) = c_malloc E 4 w
                            in Some (if p = 0 then (0, py (Err_set MemoryError) w)
                                     else (1, lu (Set_data sqe (word_of_nat p)) w)))"

section \<open>loop.c\<close>

text \<open>\<open>sizeof(struct io_uring)\<close> of liburing 2 on a 64-bit Linux.\<close>

abbreviation sizeof_io_uring :: nat where "sizeof_io_uring \<equiv> 216"

text \<open>\<open>tp_alloc\<close> returns zeroed memory: the descriptor of the wakeup counter starts as \<open>0\<close>.\<close>

definition UringioLoop_new :: "env \<Rightarrow> int \<Rightarrow> loopst \<Rightarrow> obj api" where
  "UringioLoop_new E registry_size w =
     (let (reg, w) = registry_new E (word_of_int registry_size) w
      in case reg of
           None \<Rightarrow> raise_exc MemoryError w
         | Some r \<Rightarrow>
             let (self, w) = py_new E w
             in case self of
                  None \<Rightarrow> do {
                    w \<leftarrow> registry_destroy (Some r) w;
                    raise_exc MemoryError w
                  }
                | Some x \<Rightarrow>
                    let (p, w) = c_malloc E sizeof_io_uring w
                    in if p = 0
                       then do {
                         w \<leftarrow> registry_destroy (Some r) w;
                         raise_exc MemoryError (py (Decref x) w)
                       }
                       else Some (Some x, w\<lparr>loop_obj := x, ring := p, loop_tid := 0,
                              wakeup_fd := 0, wakeup_buf := 0, registry := Some r, readers := None,
                              writers := None, loop_context_var := None, initialized := False\<rparr>))"

text \<open>The constructor of the base class is looked up and called; \<open>wakeup_buf\<close> is the address of the
  field of that name.\<close>

definition UringioLoop_init :: "env \<Rightarrow> ptr \<Rightarrow> loopst \<Rightarrow> (int \<times> loopst) option" where
  "UringioLoop_init E buf w =
     (let (init, w) = py_new E w
      in case init of
           None \<Rightarrow> Some (-1, w)
         | Some f \<Rightarrow>
             let (res, w) = py_new E w; w = py (Decref f) w
             in case res of
                  None \<Rightarrow> Some (-1, w)
                | Some r \<Rightarrow>
                    let w = py (Decref r) w; (ret, w) = ring_init E w
                    in if ret < 0 then Some (-1, py (Err_set OSError_errno) w)
                       else do {
                         (_, w) \<leftarrow> set_signals_handler E w;
                         let (rd, w) = py_new E w;
                         let w = w\<lparr>readers := rd\<rparr>;
                         let (wr, w) = py_new E w;
                         let w = w\<lparr>writers := wr\<rparr>;
                         let fd = e_eventfd E (hist w);
                         let w = (libc (Eventfd fd) w)\<lparr>wakeup_fd := fd\<rparr>;
                         if fd < 0 then Some (-1, py (Err_set OSError_errno) w)
                         else do {
                           let w = w\<lparr>wakeup_buf := buf\<rparr>;
                           let (armed, w) = ring_prep_wakeup_read E fd buf w;
                           if armed < 0
                           then Some (-1, py (Err_set
                                  (RuntimeError ''Failed to register wakeup fd'')) w)
                           else do {
                             let w = w\<lparr>loop_tid := e_gettid E (hist w)\<rparr>;
                             let (cv, w) = ContextVar_init E w;
                             Some (if cv = None
                                   then (-1, py (Err_set (RuntimeError
                                          ''Failed to register required contextvar'')) w)
                                   else (0, w\<lparr>loop_context_var := cv, initialized := True\<rparr>))
                           }
                         }
                       })"

definition UringioLoop_clear :: "loopst \<Rightarrow> loopst" where
  "UringioLoop_clear w =
     (let w = (opt_decref (readers w) w)\<lparr>readers := None\<rparr>;
          w = (opt_decref (writers w) w)\<lparr>writers := None\<rparr>
      in (opt_decref (loop_context_var w) w)\<lparr>loop_context_var := None\<rparr>)"

definition close_wakeup :: "loopst \<Rightarrow> loopst" where
  "close_wakeup w =
     (if wakeup_fd w \<ge> 0 then (libc (Close_fd (wakeup_fd w)) w)\<lparr>wakeup_fd := -1\<rparr> else w)"

definition shutdown_ring :: "nat \<Rightarrow> env \<Rightarrow> loopst \<Rightarrow> loopst option" where
  "shutdown_ring n E w = map_option (\<lambda>w. w\<lparr>ring := 0, registry := None\<rparr>) (graceful_shutdown n E w)"

definition UringioLoop_dealloc :: "nat \<Rightarrow> env \<Rightarrow> loopst \<Rightarrow> loopst option" where
  "UringioLoop_dealloc n E w =
     (let w = close_wakeup (UringioLoop_clear w)
      in if ring w \<noteq> 0 then shutdown_ring n E w else Some w)"

text \<open>\<open>Py_RETURN_NONE\<close> is the unit value.\<close>

definition UringioLoop_close :: "nat \<Rightarrow> env \<Rightarrow> loopst \<Rightarrow> unit api" where
  "UringioLoop_close n E =
     ASSERT_LOOP_THREAD E (\<lambda>w.
       if ring w = 0 then Some (Some (), w)
       else let (res, w) = py_new E w
            in case res of
                 None \<Rightarrow> Some (None, w)
               | Some r \<Rightarrow> do {
                   w \<leftarrow> shutdown_ring n E (py (Decref r) w);
                   let w = close_wakeup w;
                   let w = (opt_decref (loop_context_var w) w)\<lparr>loop_context_var := None\<rparr>;
                   let w = (opt_decref (readers w) w)\<lparr>readers := None\<rparr>;
                   Some (Some (), (opt_decref (writers w) w)\<lparr>writers := None\<rparr>)
                 })"

text \<open>One turn; the two bounds are for the completions and for the scheduled handles.\<close>

definition UringioLoop_run_once :: "nat \<Rightarrow> nat \<Rightarrow> env \<Rightarrow> pyloop \<Rightarrow> loopst \<Rightarrow> unit api" where
  "UringioLoop_run_once n m E P =
     ASSERT_PYTHON_THREAD E (\<lambda>w. do {
       let (ts, w) = compute_timeout E P w;
       let w = lu (Submit_and_wait_timeout ts) w;
       w \<leftarrow> on_uring_ready n E w;
       w \<leftarrow> promote_scheduled m E P w;
       Some (Some (), drain_ready E P w)
     })"

definition UringioLoop_write_to_self :: "env \<Rightarrow> loopst \<Rightarrow> unit api" where
  "UringioLoop_write_to_self E w =
     (if wakeup_fd w < 0 then raise_exc (RuntimeError ''wakeup_fd is not initialized'') w
      else let ret = e_write E (hist w); w = libc (Write_fd (wakeup_fd w) ret) w
           in if ret < 0 \<and> \<not> e_errno_again E (hist w) then raise_exc OSError_errno w
              else Some (Some (), w))"

end
