(* ===== verification/Loop_Contract.thy ===== *)
theory Loop_Contract
  imports Event_Loop Api_Contract
begin

text \<open>
  The event loop: the timer method satisfies the contract of the other methods; the time a turn
  waits; the scheduled handles that a turn promotes; the ready handles it runs; shutdown and the
  life of the loop object.
\<close>

section \<open>The timer method\<close>

lemma timer_issue:
  "timer E i (Some tp) w =
     issue E (\<lambda>s. [Prep s (Prep_timeout \<lparr>tv_sec = timer_sec tp, tv_nsec = timer_nsec tp\<rparr>
        (word_of_int (timer_count tp))
        (word_of_int (if is_multishot tp then IORING_TIMEOUT_MULTISHOT else 0)))]) i no_timeout w"
  by (simp add: timer_def issue_def SQE_WITH_OPTIONAL_TIMEOUT_def timeout_def no_timeout_def
      case_prod_beta Let_def)

definition timer_request :: "obj \<Rightarrow> TimerParams \<Rightarrow> env \<Rightarrow> loopst \<Rightarrow> obj api" where
  "timer_request fut tp E =
     registered check_file_result fut 0 ONESHOT IORING_OP_TIMEOUT None None 0 0
       (\<lambda>w. raise_exc (RuntimeError ''Registry is full'') (py (Decref fut) w))
       (\<lambda>i w. Some (timer E i (Some tp) w))"

lemma timer_registered:
  "UringioLoop_timer E timer_obj =
     ASSERT_LOOP_THREAD E (ASSERT_RING_LOOP_IS_CLOSING E (\<lambda>w. do {
       (strategy, w) \<leftarrow> get_stream_strategy E w;
       let (r, tp, w) = (if timer_obj = P_missing \<or> timer_obj = P_none then (1, zero_timer, w)
                         else parse_timer_params timer_obj strategy zero_timer w);
       if r < 0 then Some (None, w)
       else with_future E (\<lambda>fut. timer_request fut tp E) w
     }))"
  unfolding UringioLoop_timer_def timer_request_def registered_def check_file_result_def Let_def
    Option.bind_lunit ..

lemma parse_timer_state:
  "parse_timer_params obj strategy out w = (r, tp, w') \<Longrightarrow>
     w' = w \<or> (r = -1 \<and> (\<exists>e. w' = py (Err_set e) w))"
  by (auto simp: parse_timer_params_def split: py_param.splits option.splits)

lemma outcome_timer_request:
  assumes "loop_ok w1" "pending w1 = pending w"
    "\<And>r. ledger (hist w1) r = ledger (hist w) r + of_bool (r = Reference fut)"
    and "\<And>i. Q (new_request i fut 0 ONESHOT IORING_OP_TIMEOUT None None 0 0)"
  shows "api_outcome Q w (timer_request fut tp E w1)"
  unfolding timer_request_def
proof (rule outcome_registered [where d = "\<lambda>r. 0"])
  fix i and w2 :: loopst
  show "ran E (\<lambda>s. [Prep s (Prep_timeout \<lparr>tv_sec = timer_sec tp, tv_nsec = timer_nsec tp\<rparr>
        (word_of_int (timer_count tp))
        (word_of_int (if is_multishot tp then IORING_TIMEOUT_MULTISHOT else 0)))]) no_timeout (\<lambda>r. 0)
      i w2 (Some (timer E i (Some tp) w2))"
    by (rule ran_issue) (simp_all add: timer_issue body_ok_def)
next
  show "api_outcome Q w (raise_exc (RuntimeError ''Registry is full'') (py (Decref fut) w1))"
    unfolding raise_exc_def by (rule outcome_returns_NULL) (use assms in simp_all)
qed (use assms in simp_all)

interpretation loop_timer: api_method
  "\<lambda>E. UringioLoop_timer E timer_obj" context_ready
  "request_of IORING_OP_TIMEOUT False None None" for timer_obj
proof unfold_locales
  fix w E
  let ?Q = "request_of IORING_OP_TIMEOUT False None None"
  assume ok: "loop_ok w" and ctx: "context_ready E w"
  obtain c :: ExecutionContext and w1 where c: "get_stream_strategy E w = Some (ctx_stream c, w1)"
    "ext.more w1 = ext.more w" "\<And>r. ledger (hist w1) r = ledger (hist w) r"
    by (rule context_read [OF ctx disjI1 [OF refl]], rule that; assumption?)
  obtain r tp w2 where pt: "(if timer_obj = P_missing \<or> timer_obj = P_none then (1, zero_timer, w1)
      else parse_timer_params timer_obj (ctx_stream c) zero_timer w1) = (r, tp, w2)"
    by (metis surj_pair)
  then have "w2 = w1 \<or> (\<exists>e. w2 = py (Err_set e) w1)"
    by (auto split: if_splits dest: parse_timer_state)
  then have st: "loop_ok w2" "pending w2 = pending w" "\<And>r. ledger (hist w2) r = ledger (hist w) r"
    using c(3) loopst_more [OF c(2)] ok by auto
  have req: "api_outcome ?Q w (timer_request fut tp E v)"
    if "ext.more v = ext.more w2"
      "\<And>r. ledger (hist v) r = ledger (hist w2) r + of_bool (r = Reference fut)" for fut v
    by (rule outcome_timer_request) (use that loopst_more [OF that(1)] st in simp_all)
  have "api_outcome ?Q w (with_future E (\<lambda>fut. timer_request fut tp E) w2)"
  proof (cases "e_create_future E (hist w2)")
    case None
    then have "with_future E (\<lambda>fut. timer_request fut tp E) w2 = Some (None, py (Create_future None) w2)"
      by (simp add: with_future_def create_future_def Let_def)
    with st show ?thesis by (auto intro!: outcome_returns_NULL)
  next
    case (Some fut)
    with req [of "py (Create_future (Some fut)) w2" fut] show ?thesis
      by (simp add: with_future_def create_future_def Let_def)
  qed
  moreover have "api_outcome ?Q w (Some (None, w2))" by (rule outcome_returns_NULL [OF st])
  ultimately show "api_outcome ?Q w (UringioLoop_timer E timer_obj w)"
    unfolding timer_registered
    by (intro outcome_loop_guards [OF ok]) (simp add: c(1) pt)
qed

end
