(* ===== verification/Completion.thy ===== *)
theory Completion
  imports Reader
begin

text \<open>
  What the completion reader does with a completion: which future it resolves with what, and what
  it gives back.
\<close>

section \<open>Resolutions of futures\<close>

fun resolution_of :: "call \<Rightarrow> (obj \<times> (pyexc + pyval)) option" where
  "resolution_of (Py (Set_result x v)) = Some (x, Inr v)"
| "resolution_of (Py (Set_exception x e)) = Some (x, Inl e)"
| "resolution_of c = None"

text \<open>What a history has told the futures, in order.\<close>

definition resolutions :: "history \<Rightarrow> (obj \<times> (pyexc + pyval)) list" where
  "resolutions h = List.map_filter resolution_of h"

lemma resolutions_Nil [simp]: "resolutions [] = []"
  by (simp add: resolutions_def List.map_filter_def)

lemma resolutions_append [simp]: "resolutions (h @ h') = resolutions h @ resolutions h'"
  by (simp add: resolutions_def List.map_filter_def)

lemma resolutions_Cons [simp]:
  "resolutions (c # h) =
     (case resolution_of c of None \<Rightarrow> resolutions h | Some x \<Rightarrow> x # resolutions h)"
  by (simp add: resolutions_def List.map_filter_def split: option.split)

text \<open>The completions a history has handed back to the ring.\<close>

fun is_seen :: "call \<Rightarrow> bool" where
  "is_seen (Lu (Cqe_seen c)) = True"
| "is_seen c = False"

definition seen :: "history \<Rightarrow> nat" where
  "seen h = length (filter is_seen h)"

lemma seen_append [simp]: "seen (h @ h') = seen h + seen h'"
  by (simp add: seen_def)

lemma seen_Cons [simp]: "seen (c # h) = (if is_seen c then Suc (seen h) else seen h)"
  by (simp add: seen_def)

lemma seen_Nil [simp]: "seen [] = 0"
  by (simp add: seen_def)

section \<open>Giving back resolves nothing\<close>

text \<open>Releasing calls resolve nothing and hand no completion back.\<close>

lemma releasing_quiet: "releasing e \<Longrightarrow> resolution_of e = None \<and> \<not> is_seen e"
  by (cases e rule: releasing.cases) simp_all

lemma releases_quiet:
  assumes "releases w w'"
  shows "resolutions (hist w') = resolutions (hist w)" "seen (hist w') = seen (hist w)"
proof -
  from assms obtain es where es: "hist w' = hist w @ es" "\<forall>e \<in> set es. releasing e"
    by (auto simp: releases_def)
  from es(2) have "resolutions es = []" "seen es = 0"
    by (induction es) (auto dest: releasing_quiet)
  with es(1) show "resolutions (hist w') = resolutions (hist w)" "seen (hist w') = seen (hist w)"
    by simp_all
qed

lemmas free_payload_quiet = releases_quiet [OF free_payload_releases]
lemmas loop_remove_quiet = releases_quiet [OF loop_remove_releases]

section \<open>Writing a pending slot\<close>

lemma upd_slot_fields [simp]:
  "hist (upd_slot i f w) = hist w" "payloads (upd_slot i f w) = payloads w"
  "files (upd_slot i f w) = files w" "sockets (upd_slot i f w) = sockets w"
  "wakeup_fd (upd_slot i f w) = wakeup_fd w"
  by (simp_all add: upd_slot_def)

lemma releasable_upd_slot [simp]: "releasable (upd_slot i f w) q = releasable w q"
  by (simp add: releasable_def)

lemma slot_units_upd_slot [simp]: "slot_units (upd_slot i f w) s r = slot_units w s r"
  by (simp add: slot_units_def freed_units_def)

lemma upd_slot_pending:
  assumes "loop_ok w" "pending w i = Some s" "future (f s) = future s"
  shows "loop_ok (upd_slot i f w) \<and> pending (upd_slot i f w) = (pending w)(i \<mapsto> f s)"
proof -
  from assms(1,2) obtain reg where reg: "registry w = Some reg" "reg_ok reg"
    "requests reg i = Some s"
    by (auto simp: loop_ok_def pending_def split: option.splits)
  have rng: "0 \<le> i" "i < sint (reg_size reg)" using requests_in_range [OF reg(3)] by auto
  have s: "slots reg ! nat i = s" "future s \<noteq> None"
    using reg(3) requests_Some_iff [OF rng] by auto
  let ?r = "reg\<lparr>slots := (slots reg)[nat i := f s]\<rparr>"
  have len: "length (slots reg) = nat (sint (reg_size reg))" using reg(2) by (simp add: reg_ok_def)
  have used: "i \<notin> set (reg_free reg)"
    using reg_okD(3) [OF reg(2), of i] s by (auto simp: idle_def)
  have "reg_ok ?r"
    using reg_okD(1) [OF reg(2)] used s(2) assms(3)
    by (intro reg_ok_slot [OF reg(2) rng, where s = "f s"]) (auto simp: pool_ok_def reg_free_def)
  moreover have "requests ?r = (requests reg)(i \<mapsto> f s)"
    using requests_update [OF len rng, of "f s"] s assms(3) by simp
  ultimately show ?thesis
    using reg(1) s(1) by (simp add: upd_slot_def pending_def loop_ok_def)
qed

section \<open>What a case of the switch leaves behind\<close>

text \<open>The request is still in the table, has the same future, and what it has given back is no
  longer among what its slot holds; \<open>g\<close> is what the case acquired.  No future has been told
  anything yet.\<close>

definition op_done ::
    "int \<Rightarrow> RequestSlot \<Rightarrow> (resource \<Rightarrow> int) \<Rightarrow> loopst \<Rightarrow> loopst \<Rightarrow> bool" where
  "op_done i s g w w1 \<longleftrightarrow>
     loop_ok w1 \<and> resolutions (hist w1) = resolutions (hist w) \<and>
     (\<exists>s'. pending w1 = (pending w)(i \<mapsto> s') \<and> future s' = future s \<and>
        releasable w1 (buffer_payload s') \<and>
        (\<forall>r. ledger (hist w1) r - slot_units w1 s' r = ledger (hist w) r - slot_units w s r + g r))"

lemma op_doneI:
  assumes "loop_ok w" "pending w i = Some s" "releasable w (buffer_payload s)"
    "loop_ok w1" "pending w1 = pending w" "resolutions (hist w1) = resolutions (hist w)"
    "payloads w1 = payloads w" "\<And>r. ledger (hist w1) r = ledger (hist w) r + g r"
  shows "op_done i s g w w1"
proof -
  have "slot_units w1 s r = slot_units w s r" for r
    by (simp add: slot_units_def freed_units_def assms(7))
  moreover have "releasable w1 (buffer_payload s)" using assms(3,7) by (simp add: releasable_def)
  ultimately show ?thesis
    unfolding op_done_def using assms(2,4-8)
    by (intro conjI exI [of _ s]) (auto simp: fun_upd_idem)
qed

lemma new_value_state:
  assumes "new_value E v w = (x, w1)"
  shows "ext.more w1 = ext.more w" "resolutions (hist w1) = resolutions (hist w)"
    "ledger (hist w1) r = ledger (hist w) r" "e_alloc_value E (hist w) \<Longrightarrow> x = Some v"
  using assms by (auto simp: new_value_def Let_def)

lemma op_done_trans:
  assumes "ext.more w1 = ext.more w" "resolutions (hist w1) = resolutions (hist w)"
    "\<And>r. ledger (hist w1) r = ledger (hist w) r" "op_done i s g w1 w2"
  shows "op_done i s g w w2"
  using assms(4) loopst_more [OF assms(1)]
  by (simp add: op_done_def assms(2,3) slot_units_def freed_units_def)

text \<open>A payload that its request can release, with the index pool it came from when it is a
  registered one.\<close>

definition payload_ready :: "'a bufst_scheme \<Rightarrow> ptr \<Rightarrow> bool" where
  "payload_ready w bp \<longleftrightarrow> bp \<noteq> 0 \<and> releasable w bp \<and>
     (\<forall>p. payloads w bp = Some p \<longrightarrow> mode p = Some FIXED \<longrightarrow>
        (\<exists>r. idx_registry p = To r \<and> fb_ok r \<and> buf_idx p \<noteq> None))"

lemma payload_ready_cong: "payloads v = payloads w \<Longrightarrow> payload_ready v q = payload_ready w q"
  by (simp add: payload_ready_def releasable_def)

lemma release_fixed_done:
  assumes "payload_ready w bp"
  obtains w1 where "release_fixed bp w = Some w1" "hist w1 = hist w" "bufst.more w1 = bufst.more w"
    "releasable w1 bp" "\<And>q r. freed_units w1 q r = freed_units w q r"
proof -
  from assms obtain p m where p: "bp \<noteq> 0" "payloads w bp = Some p" "mode p = Some m"
    by (auto simp: payload_ready_def releasable_def split: option.splits)
  show ?thesis
  proof (cases "m = FIXED")
    case False
    then have "release_fixed bp w = Some w" using p by (simp add: release_fixed_def deref_payload_def)
    with that [of w] assms show ?thesis by (simp add: payload_ready_def)
  next
    case True
    with assms p obtain r i where r: "idx_registry p = To r" "fb_ok r" "buf_idx p = Some i"
      by (auto simp: payload_ready_def)
    have "\<exists>x r'. release_buffer_idx r i = Some (x, r')"
      using r(2) by (auto simp: release_buffer_idx_def fb_ok_def stack_ok_def Let_def)
    then obtain x r' where rel: "release_buffer_idx r i = Some (x, r')" by blast
    have run: "release_fixed bp w = Some (upd_payload bp (\<lambda>x. x\<lparr>idx_registry := To r'\<rparr>) w)"
      using p r rel True by (simp add: release_fixed_def deref_payload_def)
    show ?thesis
      by (rule that [OF run])
        (use p True in \<open>auto simp: upd_payload_def releasable_def freed_units_def\<close>)
  qed
qed

lemma drop_done:
  assumes "loop_ok w" "pending w i = Some s" "releasable w (buffer_payload s)"
  shows "\<exists>w1. drop_slot_payload i s False w = Some w1 \<and> op_done i s (\<lambda>r. 0) w w1"
proof -
  let ?f = "\<lambda>x. x\<lparr>buffer_payload := 0\<rparr>"
  from free_releasable [OF assms(3)] obtain v where
    v: "free_buffer_payload (buffer_payload s) False w = Some v" "bufst.more v = bufst.more w"
    "\<And>r. ledger (hist v) r = ledger (hist w) r - freed_units w (buffer_payload s) r" by blast
  note same = loopst_bufst_more [OF v(2)]
  have slot: "loop_ok (upd_slot i ?f v) \<and> pending (upd_slot i ?f v) = (pending v)(i \<mapsto> ?f s)"
    using assms(1,2) by (intro upd_slot_pending) (simp_all add: same)
  have units: "slot_units v (?f s) r = slot_units w s r - freed_units w (buffer_payload s) r" for r
    by (simp add: slot_units_def freed_units_def split: option.split)
  have "releasable v 0" by (simp add: releasable_def)
  then have "op_done i s (\<lambda>r. 0) w (upd_slot i ?f v)"
    unfolding op_done_def using slot v(3) free_payload_quiet(1) [OF v(1)] units
    by (intro conjI exI [of _ "?f s"]) (simp_all add: same)
  then show ?thesis using v(1) by (simp add: drop_slot_payload_def)
qed

lemma release_and_drop_done:
  assumes "loop_ok w" "pending w i = Some s" "payload_ready w (buffer_payload s)"
  shows "\<exists>w1 w2. release_fixed (buffer_payload s) w = Some w1 \<and>
     drop_slot_payload i s False w1 = Some w2 \<and> op_done i s (\<lambda>r. 0) w w2"
proof -
  from release_fixed_done [OF assms(3)] obtain w1 where
    w1: "release_fixed (buffer_payload s) w = Some w1" "hist w1 = hist w"
    "bufst.more w1 = bufst.more w" "releasable w1 (buffer_payload s)"
    "\<And>q r. freed_units w1 q r = freed_units w q r" by blast
  note same = loopst_bufst_more [OF w1(3)]
  have "loop_ok w1" "pending w1 i = Some s" using assms(1,2) by (simp_all add: same)
  from drop_done [OF this w1(4)] obtain w2 where
    w2: "drop_slot_payload i s False w1 = Some w2" "op_done i s (\<lambda>r. 0) w1 w2" by blast
  have "op_done i s (\<lambda>r. 0) w w2"
    using w2(2) by (simp add: op_done_def w1(2,5) same slot_units_def)
  with w1(1) w2(1) show ?thesis by blast
qed

section \<open>From the case to the resolved future\<close>

definition value_units :: "pyval option \<Rightarrow> resource \<Rightarrow> int" where
  "value_units v r = (case v of Some (PyObj x) \<Rightarrow> of_bool (r = Reference x) | _ \<Rightarrow> 0)"

lemma ledger_decref_value:
  "ledger (hist (decref_value v w)) r = ledger (hist w) r - value_units (Some v) r"
  by (cases v) (simp_all add: decref_value_def value_units_def)

lemma decref_value_simps [simp]:
  "ext.more (decref_value v w) = ext.more w"
  "resolutions (hist (decref_value v w)) = resolutions (hist w)"
  by (cases v; simp add: decref_value_def)+

text \<open>A completion that resolves the request \<open>i\<close>, which held \<open>s\<close>, with \<open>v\<close>.\<close>

definition resolved ::
    "int \<Rightarrow> RequestSlot \<Rightarrow> obj \<Rightarrow> (pyexc + pyval) option \<Rightarrow> (resource \<Rightarrow> int) \<Rightarrow> loopst \<Rightarrow>
     loopst \<Rightarrow> bool" where
  "resolved i s fut v g w w' \<longleftrightarrow>
     loop_ok w' \<and> pending w' = (pending w)(i := None) \<and>
     resolutions (hist w') = resolutions (hist w) @ (case v of None \<Rightarrow> [] | Some x \<Rightarrow> [(fut, x)]) \<and>
     (\<forall>r. ledger (hist w') r = ledger (hist w) r - slot_units w s r + g r)"

lemma removed_done:
  assumes "op_done i s g w w1" "ext.more w2 = ext.more w1"
    "resolutions (hist w2) = resolutions (hist w1) @ (case v of None \<Rightarrow> [] | Some x \<Rightarrow> [(fut, x)])"
    "\<And>r. ledger (hist w2) r = ledger (hist w1) r + h r"
  shows "\<exists>w3. loop_registry_remove i w2 = Some w3 \<and>
     resolved i s fut v (\<lambda>r. g r + h r) w (lu (Cqe_seen cqe) w3)"
proof -
  from assms(1) obtain s' where s': "loop_ok w1" "resolutions (hist w1) = resolutions (hist w)"
    "pending w1 = (pending w)(i \<mapsto> s')" "releasable w1 (buffer_payload s')"
    and led: "\<And>r. ledger (hist w1) r - slot_units w1 s' r =
       ledger (hist w) r - slot_units w s r + g r"
    by (auto simp: op_done_def)
  note same = loopst_more [OF assms(2)]
  have "loop_ok w2" "pending w2 i = Some s'" "releasable w2 (buffer_payload s')"
    using s' by (simp_all add: same releasable_def)
  from loop_remove_pending [OF this] obtain w3 where
    w3: "loop_registry_remove i w2 = Some w3" "loop_ok w3" "pending w3 = (pending w2)(i := None)"
    "\<And>r. ledger (hist w3) r = ledger (hist w2) r - slot_units w2 s' r" by blast
  have "slot_units w2 s' r = slot_units w1 s' r" for r
    by (simp add: slot_units_def freed_units_def same)
  then have "ledger (hist w3) r = ledger (hist w) r - slot_units w s r + (g r + h r)" for r
    using w3(4) [of r] assms(4) [of r] led [of r] by simp
  moreover have "loop_ok (lu c w3) = loop_ok w3" "pending (lu c w3) = pending w3" for c
    using loopst_more [of "lu c w3" w3] by simp_all
  ultimately show ?thesis
    using w3(1,2,3) s'(2,3) same assms(3) loop_remove_quiet(1) [OF w3(1)]
    by (intro exI [of _ w3]) (simp add: resolved_def)
qed

lemma finish_resolves:
  assumes "op_done i s g w w1"
  shows "\<exists>w'. finish_request i fut cqe (Resolved v) w1 = Some w' \<and>
     resolved i s fut (map_option Inr v) (\<lambda>r. g r - value_units v r) w w'"
proof (cases v)
  case None
  from removed_done [OF assms, where v = None and h = "\<lambda>r. 0" and fut = fut and cqe = cqe, of w1] show ?thesis
    by (auto simp: None finish_request_def value_units_def)
next
  case (Some x)
  let ?w2 = "decref_value x (py (Set_result fut x) w1)"
  from removed_done [OF assms, where v = "Some (Inr x)" and h = "\<lambda>r. - value_units v r" and fut = fut
      and cqe = cqe, of ?w2]
  show ?thesis by (auto simp: Some finish_request_def ledger_decref_value)
qed

text \<open>The user data of a pending request is never the wakeup tag.\<close>

lemma index_of_wakeup [simp]: "index_of WAKEUP_FD_TAG = -1"
  unfolding index_of_def WAKEUP_FD_TAG_def by code_simp

lemma pending_cases:
  assumes "loop_ok w" "pending w i = Some s"
  obtains reg fut where "registry w = Some reg" "registry_get reg i = Some s" "future s = Some fut"
    "0 \<le> i" "is_c_int i"
proof -
  from assms obtain reg where reg: "registry w = Some reg" "requests reg i = Some s"
    by (auto simp: loop_ok_def pending_def split: option.splits)
  then obtain fut where "registry_get reg i = Some s" "future s = Some fut"
    by (auto simp: requests_def split: option.splits if_splits)
  moreover have "0 \<le> i" "is_c_int i"
    using requests_in_range [OF reg(2)] sint_lt [of "reg_size reg"] by (auto simp: is_c_int_def)
  ultimately show ?thesis using that reg(1) by blast
qed

lemma handle_cqe_pending:
  assumes "loop_ok w" "pending w i = Some s" "future s = Some fut" "cqe_user_data c = user_data_of i"
  shows "handle_cqe E c w = Option.bind
     (if cqe_res c < 0 \<and> \<not> timeout_expired s c then complete_error E c fut w
      else complete_op E c i s w)
     (\<lambda>(out, w). finish_request i fut c out w)"
proof -
  from pending_cases [OF assms(1,2)] obtain reg where
    reg: "registry w = Some reg" "registry_get reg i = Some s" "0 \<le> i" "is_c_int i" by blast
  have i: "index_of (cqe_user_data c) = i" using index_of_user_data_of [OF reg(4)] assms(4) by simp
  then have "cqe_user_data c \<noteq> WAKEUP_FD_TAG" using reg(3) by auto
  then show ?thesis
    using reg(1,2) assms(3) i by (simp add: handle_cqe_def)
qed

section \<open>The contract of a case\<close>

text \<open>
  For requests of opcode \<open>opc\<close>: in a state that is \<open>ready\<close> for the completion the case is defined,
  gives \<open>val\<close> unless the interpreter has no memory for it, and keeps the books.
\<close>

locale completes =
  fixes opc :: Opcode
    and ready :: "env \<Rightarrow> cqe \<Rightarrow> RequestSlot \<Rightarrow> loopst \<Rightarrow> bool"
    and val :: "env \<Rightarrow> cqe \<Rightarrow> RequestSlot \<Rightarrow> loopst \<Rightarrow> pyval"
    and gained :: "env \<Rightarrow> loopst \<Rightarrow> resource \<Rightarrow> int"
  assumes op: "loop_ok w \<Longrightarrow> pending w i = Some s \<Longrightarrow> opcode s = opc \<Longrightarrow> ready E c s w \<Longrightarrow>
    \<exists>v w1. complete_op E c i s w = Some (Resolved v, w1) \<and>
      ((\<forall>h. e_alloc_value E h) \<longrightarrow> v = Some (val E c s w)) \<and> op_done i s (gained E w) w w1"
begin

text \<open>A successful completion resolves the future of its request, once, with that value and
  removes the request.\<close>

lemma resolves:
  assumes "loop_ok w" "pending w i = Some s" "future s = Some fut" "opcode s = opc" "ready E c s w"
    "cqe_user_data c = user_data_of i" "0 \<le> cqe_res c \<or> timeout_expired s c"
    "\<forall>h. e_alloc_value E h"
  shows "\<exists>w'. handle_cqe E c w = Some w' \<and>
     resolved i s fut (Some (Inr (val E c s w)))
       (\<lambda>r. gained E w r - value_units (Some (val E c s w)) r) w w'"
proof -
  from op [OF assms(1,2,4,5)] assms(8) obtain w1 where
    run: "complete_op E c i s w = Some (Resolved (Some (val E c s w)), w1)"
    and ok: "op_done i s (gained E w) w w1" by blast
  have "\<not> (cqe_res c < 0 \<and> \<not> timeout_expired s c)" using assms(7) by auto
  then have "handle_cqe E c w = finish_request i fut c (Resolved (Some (val E c s w))) w1"
    unfolding handle_cqe_pending [OF assms(1-3,6)] run by auto
  then show ?thesis
    using finish_resolves [OF ok, of fut c "Some (val E c s w)"] by simp
qed

end

section \<open>The cases\<close>

definition slot_releasable :: "env \<Rightarrow> cqe \<Rightarrow> RequestSlot \<Rightarrow> loopst \<Rightarrow> bool" where
  "slot_releasable E c s w \<longleftrightarrow> releasable w (buffer_payload s)"

definition long_value :: "env \<Rightarrow> cqe \<Rightarrow> RequestSlot \<Rightarrow> loopst \<Rightarrow> pyval" where
  "long_value E c s w = PyLong (cqe_res c)"

lemma long_result_done:
  assumes "loop_ok w" "pending w i = Some s" "releasable w (buffer_payload s)"
  shows "\<exists>v w1. long_result E c w = Some (Resolved v, w1) \<and>
     ((\<forall>h. e_alloc_value E h) \<longrightarrow> v = Some (PyLong (cqe_res c))) \<and> op_done i s (\<lambda>r. 0) w w1"
proof -
  obtain v w1 where run: "new_value E (PyLong (cqe_res c)) w = (v, w1)" by (metis surj_pair)
  note st = new_value_state [OF run]
  have "op_done i s (\<lambda>r. 0) w w1"
    by (rule op_doneI) (use assms st loopst_more [OF st(1)] in simp_all)
  with run st(4) show ?thesis by (auto simp: long_result_def)
qed

interpretation fsync_done: completes IORING_OP_FSYNC slot_releasable long_value "\<lambda>E w r. 0"
  by unfold_locales (simp add: complete_op_def long_result_done slot_releasable_def long_value_def)

interpretation splice_done: completes IORING_OP_SPLICE slot_releasable long_value "\<lambda>E w r. 0"
  by unfold_locales (simp add: complete_op_def long_result_done slot_releasable_def long_value_def)

interpretation timer_done: completes IORING_OP_TIMEOUT slot_releasable "\<lambda>E c s w. PyNone"
    "\<lambda>E w r. 0"
  by unfold_locales (auto simp: complete_op_def slot_releasable_def intro!: op_doneI)

definition on_socket :: "env \<Rightarrow> cqe \<Rightarrow> RequestSlot \<Rightarrow> loopst \<Rightarrow> bool" where
  "on_socket E c s w \<longleftrightarrow> slot_socket s \<noteq> None \<and> releasable w (buffer_payload s)"

interpretation bind_done: completes IORING_OP_BIND on_socket long_value "\<lambda>E w r. 0"
  by unfold_locales
    (auto simp: complete_op_def complete_on_socket_def on_socket_def long_value_def
      intro!: long_result_done)

interpretation connect_done: completes IORING_OP_CONNECT on_socket long_value "\<lambda>E w r. 0"
  by unfold_locales
    (auto simp: complete_op_def complete_on_socket_def on_socket_def long_value_def
      intro!: long_result_done)

interpretation listen_done: completes IORING_OP_LISTEN on_socket long_value "\<lambda>E w r. 0"
  by unfold_locales
    (auto simp: complete_op_def complete_on_socket_def on_socket_def long_value_def
      intro!: long_result_done)

text \<open>Opening a file and making a socket: the object gets its descriptor and is the result.\<close>

lemma loopst_upd_file [simp]:
  "hist (upd_file x f w) = hist w" "payloads (upd_file x f w) = payloads w"
  "pending (upd_file x f w) = pending w" "loop_ok (upd_file x f w) = loop_ok w"
  by (simp_all add: upd_file_def pending_def loop_ok_def)

lemma loopst_upd_socket [simp]:
  "hist (upd_socket x f w) = hist w" "payloads (upd_socket x f w) = payloads w"
  "pending (upd_socket x f w) = pending w" "loop_ok (upd_socket x f w) = loop_ok w"
  by (simp_all add: upd_socket_def pending_def loop_ok_def)

definition file_present :: "env \<Rightarrow> cqe \<Rightarrow> RequestSlot \<Rightarrow> loopst \<Rightarrow> bool" where
  "file_present E c s w \<longleftrightarrow> releasable w (buffer_payload s) \<and>
     (case slot_file s of None \<Rightarrow> False | Some f \<Rightarrow> files w f \<noteq> None)"

definition socket_present :: "env \<Rightarrow> cqe \<Rightarrow> RequestSlot \<Rightarrow> loopst \<Rightarrow> bool" where
  "socket_present E c s w \<longleftrightarrow> releasable w (buffer_payload s) \<and>
     (case slot_socket s of None \<Rightarrow> False | Some x \<Rightarrow> sockets w x \<noteq> None)"

interpretation open_done: completes IORING_OP_OPENAT2 file_present
    "\<lambda>E c s w. PyObj (the (slot_file s))" "\<lambda>E w r. 0"
  by unfold_locales
    (auto simp: complete_op_def complete_openat2_def file_present_def split: option.splits
      intro!: op_doneI)

interpretation socket_done: completes IORING_OP_SOCKET socket_present
    "\<lambda>E c s w. PyObj (the (slot_socket s))" "\<lambda>E w r. 0"
  by unfold_locales
    (auto simp: complete_op_def complete_socket_def socket_present_def split: option.splits
      intro!: op_doneI)

interpretation file_close_done: completes IORING_OP_CLOSE
    "\<lambda>E c s w. slot_socket s = None \<and> file_present E c s w" long_value "\<lambda>E w r. 0"
proof unfold_locales
  fix w i s E c
  assume s: "loop_ok w" "pending w i = Some s" "opcode s = IORING_OP_CLOSE"
    "slot_socket s = None \<and> file_present E c s w"
  then obtain f where f: "slot_file s = Some f" "files w f \<noteq> None" "releasable w (buffer_payload s)"
    by (auto simp: file_present_def split: option.splits)
  let ?w = "upd_file f (\<lambda>x. x\<lparr>file_closed := True\<rparr>) w"
  have "releasable ?w (buffer_payload s)" using f(3) by (simp add: releasable_def)
  with long_result_done [of ?w i s E c] s(1,2) obtain v w1 where
    run: "long_result E c ?w = Some (Resolved v, w1)"
      "(\<forall>h. e_alloc_value E h) \<longrightarrow> v = Some (PyLong (cqe_res c))" "op_done i s (\<lambda>r. 0) ?w w1"
    by auto
  have "op_done i s (\<lambda>r. 0) w w1"
    using run(3) by (simp add: op_done_def slot_units_def freed_units_def)
  then show "\<exists>v w1. complete_op E c i s w = Some (Resolved v, w1) \<and>
      ((\<forall>h. e_alloc_value E h) \<longrightarrow> v = Some (long_value E c s w)) \<and> op_done i s (\<lambda>r. 0) w w1"
    using s(3,4) f(1,2) run(1,2)
    by (auto simp: complete_op_def complete_close_def long_value_def)
qed

interpretation socket_close_done: completes IORING_OP_CLOSE socket_present long_value "\<lambda>E w r. 0"
proof unfold_locales
  fix w i s E c
  assume s: "loop_ok w" "pending w i = Some s" "opcode s = IORING_OP_CLOSE" "socket_present E c s w"
  then obtain x where x: "slot_socket s = Some x" "sockets w x \<noteq> None"
    "releasable w (buffer_payload s)"
    by (auto simp: socket_present_def split: option.splits)
  let ?w = "upd_socket x (\<lambda>y. y\<lparr>sock_closed := True\<rparr>) w"
  have "releasable ?w (buffer_payload s)" using x(3) by (simp add: releasable_def)
  with long_result_done [of ?w i s E c] s(1,2) obtain v w1 where
    run: "long_result E c ?w = Some (Resolved v, w1)"
      "(\<forall>h. e_alloc_value E h) \<longrightarrow> v = Some (PyLong (cqe_res c))" "op_done i s (\<lambda>r. 0) ?w w1"
    by auto
  have "op_done i s (\<lambda>r. 0) w w1"
    using run(3) by (simp add: op_done_def slot_units_def freed_units_def)
  then show "\<exists>v w1. complete_op E c i s w = Some (Resolved v, w1) \<and>
      ((\<forall>h. e_alloc_value E h) \<longrightarrow> v = Some (long_value E c s w)) \<and> op_done i s (\<lambda>r. 0) w w1"
    using s(3) x(1,2) run(1,2)
    by (auto simp: complete_op_def complete_close_def long_value_def)
qed

subsection \<open>Cases that release a payload\<close>

text \<open>Make the value, then give back the index and the payload.\<close>

lemma value_then_drop:
  assumes "loop_ok w" "pending w i = Some s" "payload_ready w (buffer_payload s)"
    and "new_value E x w = (v, w1)"
  shows "\<exists>w2 w3. release_fixed (buffer_payload s) w1 = Some w2 \<and>
     drop_slot_payload i s False w2 = Some w3 \<and> op_done i s (\<lambda>r. 0) w w3"
proof -
  note st = new_value_state [OF assms(4)]
  note same = loopst_more [OF st(1)]
  have "loop_ok w1" "pending w1 i = Some s" "payload_ready w1 (buffer_payload s)"
    using assms(1-3) payload_ready_cong [OF same(1)] by (simp_all add: same)
  from release_and_drop_done [OF this] show ?thesis
    using op_done_trans [OF st(1-3)] by blast
qed

lemma value_then_free:
  assumes "loop_ok w" "pending w i = Some s" "releasable w (buffer_payload s)"
    and "new_value E x w = (v, w1)"
  shows "\<exists>w2. drop_slot_payload i s False w1 = Some w2 \<and> op_done i s (\<lambda>r. 0) w w2"
proof -
  note st = new_value_state [OF assms(4)]
  note same = loopst_more [OF st(1)]
  have "loop_ok w1" "pending w1 i = Some s" "releasable w1 (buffer_payload s)"
    using assms(1-3) by (simp_all add: same releasable_def)
  from drop_done [OF this] show ?thesis using op_done_trans [OF st(1-3)] by blast
qed

text \<open>A buffer the kernel has filled with \<open>res\<close> bytes: the first one of a payload of the request's own
  or of a registered one, the buffer whose address the entry carried.  A group of provided
  buffers or a buffer ring is not covered: the kernel picks the buffer there and names it in the
  completion, which the code does not look at.\<close>

definition linear_ready :: "env \<Rightarrow> cqe \<Rightarrow> RequestSlot \<Rightarrow> loopst \<Rightarrow> bool" where
  "linear_ready E c s w \<longleftrightarrow> payload_ready w (buffer_payload s) \<and>
     (\<forall>p. payloads w (buffer_payload s) = Some p \<longrightarrow> mode p \<in> {Some NORMAL_BUF, Some FIXED} \<and>
        (\<exists>b. linear_head p = Some b \<and> buffer b \<noteq> 0 \<and> 0 \<le> cqe_res c \<and> nat (cqe_res c) \<le> len b))"

definition linear_data :: "env \<Rightarrow> cqe \<Rightarrow> RequestSlot \<Rightarrow> loopst \<Rightarrow> pyval" where
  "linear_data E c s w =
     (case Option.bind (payloads w (buffer_payload s)) linear_head of
        None \<Rightarrow> PyNone
      | Some b \<Rightarrow> PyBytes (map Some (mem_bytes E (hist w) (buffer b) (nat (cqe_res c)))))"

lemma linear_readyD:
  assumes "linear_ready E c s w"
  obtains p b where "deref_payload (buffer_payload s) w = Some p" "linear_head p = Some b"
    "buffer b \<noteq> 0" "buffer_bytes E b (cqe_res c) w = Some (new_value E (linear_data E c s w) w)"
    "payload_ready w (buffer_payload s)" "cqe_res c = 0 \<Longrightarrow> linear_data E c s w = PyBytes []"
proof -
  from assms have "payload_ready w (buffer_payload s)" by (simp add: linear_ready_def)
  moreover from this obtain p where p: "payloads w (buffer_payload s) = Some p"
    "buffer_payload s \<noteq> 0" by (auto simp: payload_ready_def releasable_def)
  moreover from assms p(1) obtain b where "linear_head p = Some b" "buffer b \<noteq> 0"
    "0 \<le> cqe_res c" "nat (cqe_res c) \<le> len b" by (auto simp: linear_ready_def)
  ultimately show ?thesis
    by (intro that [of p b])
      (simp_all add: deref_payload_def buffer_bytes_def linear_data_def mem_bytes_def)
qed

interpretation read_done: completes IORING_OP_READ linear_ready linear_data "\<lambda>E w r. 0"
proof unfold_locales
  fix w i s E c
  assume s: "loop_ok w" "pending w i = Some s" "opcode s = IORING_OP_READ" "linear_ready E c s w"
  from s(4) obtain p b where b: "deref_payload (buffer_payload s) w = Some p"
    "linear_head p = Some b" "buffer b \<noteq> 0"
    "buffer_bytes E b (cqe_res c) w = Some (new_value E (linear_data E c s w) w)"
    "payload_ready w (buffer_payload s)" by (rule linear_readyD)
  obtain v w1 where v: "new_value E (linear_data E c s w) w = (v, w1)" by (metis surj_pair)
  from value_then_drop [OF s(1,2) b(5) v] obtain w2 w3 where
    "release_fixed (buffer_payload s) w1 = Some w2" "drop_slot_payload i s False w2 = Some w3"
    "op_done i s (\<lambda>r. 0) w w3" by blast
  then show "\<exists>v w1. complete_op E c i s w = Some (Resolved v, w1) \<and>
      ((\<forall>h. e_alloc_value E h) \<longrightarrow> v = Some (linear_data E c s w)) \<and> op_done i s (\<lambda>r. 0) w w1"
    using b v s(3) new_value_state(4) [OF v]
    by (auto simp: complete_op_def complete_read_def)
qed

interpretation recv_done: completes IORING_OP_RECV
    "\<lambda>E c s w. slot_socket s \<noteq> None \<and> linear_ready E c s w" linear_data "\<lambda>E w r. 0"
proof unfold_locales
  fix w i s E c
  assume s: "loop_ok w" "pending w i = Some s" "opcode s = IORING_OP_RECV"
    "slot_socket s \<noteq> None \<and> linear_ready E c s w"
  from s(4) have "linear_ready E c s w" by simp
  then obtain p b where b: "deref_payload (buffer_payload s) w = Some p"
    "linear_head p = Some b" "buffer b \<noteq> 0"
    "buffer_bytes E b (cqe_res c) w = Some (new_value E (linear_data E c s w) w)"
    "payload_ready w (buffer_payload s)" "cqe_res c = 0 \<Longrightarrow> linear_data E c s w = PyBytes []"
    by (rule linear_readyD) blast
  have "0 \<le> cqe_res c" using s(4) b(1)
    by (auto simp: linear_ready_def deref_payload_def split: if_splits)
  moreover obtain v w1 where v: "new_value E (linear_data E c s w) w = (v, w1)" by (metis surj_pair)
  moreover from value_then_drop [OF s(1,2) b(5) v] obtain w2 w3 where
    "release_fixed (buffer_payload s) w1 = Some w2" "drop_slot_payload i s False w2 = Some w3"
    "op_done i s (\<lambda>r. 0) w w3" by blast
  ultimately show "\<exists>v w1. complete_op E c i s w = Some (Resolved v, w1) \<and>
      ((\<forall>h. e_alloc_value E h) \<longrightarrow> v = Some (linear_data E c s w)) \<and> op_done i s (\<lambda>r. 0) w w1"
    using b s(3,4) new_value_state(4) [OF v]
    by (cases "cqe_res c = 0") (auto simp: complete_op_def complete_recv_def)
qed

text \<open>Vectors: the bytes of the entries one after the other, as far as the kernel has filled
  them.\<close>

definition vector_contents :: "env \<Rightarrow> history \<Rightarrow> VectoredBuffer \<Rightarrow> 8 word list" where
  "vector_contents E h v = concat (map (\<lambda>x. mem_bytes E h (iov_base x) (iov_len x)) (iovecs v))"

lemma length_mem_bytes [simp]: "length (mem_bytes E h p n) = n"
  by (simp add: mem_bytes_def)

lemma take_mem_bytes: "n \<le> m \<Longrightarrow> take n (mem_bytes E h p m) = mem_bytes E h p n"
  by (simp add: mem_bytes_def take_map)

lemma gather_take:
  "\<forall>v \<in> set vs. iov_len v < 2 ^ 63 \<Longrightarrow>
   gather (mem_bytes E h) vs (length vs) n =
     Some (take n (concat (map (\<lambda>x. mem_bytes E h (iov_base x) (iov_len x)) vs)))"
proof (induction vs arbitrary: n)
  case (Cons v vs)
  then show ?case
    by (cases n) (auto simp: Let_def take_mem_bytes min_def)
qed simp

definition vector_ready :: "env \<Rightarrow> cqe \<Rightarrow> RequestSlot \<Rightarrow> loopst \<Rightarrow> bool" where
  "vector_ready E c s w \<longleftrightarrow> releasable w (buffer_payload s) \<and> buffer_payload s \<noteq> 0 \<and>
     (\<forall>p. payloads w (buffer_payload s) = Some p \<longrightarrow>
        (\<exists>v. vector p = To v \<and> unat (nr_vecs v) = length (iovecs v) \<and>
           (\<forall>x \<in> set (iovecs v). iov_len x < 2 ^ 63) \<and>
           nat (cqe_res c) \<le> sum_list (map iov_len (iovecs v))))"

text \<open>The memory is read after the \<open>bytes\<close> object has been made.\<close>

definition vector_data :: "env \<Rightarrow> cqe \<Rightarrow> RequestSlot \<Rightarrow> loopst \<Rightarrow> pyval" where
  "vector_data E c s w =
     (case Option.bind (payloads w (buffer_payload s)) vector_of of
        None \<Rightarrow> PyNone
      | Some v \<Rightarrow> PyBytes (map Some (take (nat (cqe_res c))
                    (vector_contents E (hist w @ [Py (Alloc_value True)]) v))))"

lemma vector_readyD:
  assumes "vector_ready E c s w"
  obtains p vec where "deref_payload (buffer_payload s) w = Some p" "vector_of p = Some vec"
    "vector_bytes E vec (cqe_res c) w =
       (let (v, w1) = new_value E PyNone w
        in Some (map_option (\<lambda>x. vector_data E c s w) v, w1))"
proof -
  from assms obtain p where p: "payloads w (buffer_payload s) = Some p" "buffer_payload s \<noteq> 0"
    by (auto simp: vector_ready_def releasable_def)
  with assms obtain vec where vec: "vector p = To vec" "unat (nr_vecs vec) = length (iovecs vec)"
    "\<forall>x \<in> set (iovecs vec). iov_len x < 2 ^ 63"
    "nat (cqe_res c) \<le> sum_list (map iov_len (iovecs vec))"
    by (auto simp: vector_ready_def)
  have "length (vector_contents E h vec) = sum_list (map iov_len (iovecs vec))" for h
    by (simp add: vector_contents_def length_concat comp_def)
  then have "vector_bytes E vec (cqe_res c) w =
      (let (v, w1) = new_value E PyNone w
       in Some (map_option (\<lambda>x. vector_data E c s w) v, w1))"
    using p vec gather_take [OF vec(3), of E]
    by (simp add: vector_bytes_def new_value_def Let_def vector_data_def vector_of_def
        vector_contents_def)
  with p vec(1) show ?thesis
    by (intro that [of p vec]) (simp_all add: deref_payload_def vector_of_def)
qed

interpretation readv_done: completes IORING_OP_READV vector_ready vector_data "\<lambda>E w r. 0"
proof unfold_locales
  fix w i s E c
  assume s: "loop_ok w" "pending w i = Some s" "opcode s = IORING_OP_READV" "vector_ready E c s w"
  from s(4) obtain p vec where vec: "deref_payload (buffer_payload s) w = Some p"
    "vector_of p = Some vec" "vector_bytes E vec (cqe_res c) w =
       (let (v, w1) = new_value E PyNone w
        in Some (map_option (\<lambda>x. vector_data E c s w) v, w1))" by (rule vector_readyD)
  obtain v w1 where v: "new_value E PyNone w = (v, w1)" by (metis surj_pair)
  have "releasable w (buffer_payload s)" using s(4) by (simp add: vector_ready_def)
  from value_then_free [OF s(1,2) this v] obtain w2 where
    "drop_slot_payload i s False w1 = Some w2" "op_done i s (\<lambda>r. 0) w w2" by blast
  then show "\<exists>v w1. complete_op E c i s w = Some (Resolved v, w1) \<and>
      ((\<forall>h. e_alloc_value E h) \<longrightarrow> v = Some (vector_data E c s w)) \<and> op_done i s (\<lambda>r. 0) w w1"
    using vec v s(3) new_value_state(4) [OF v]
    by (auto simp: complete_op_def complete_readv_def)
qed

text \<open>Writes and sends: the number of bytes.\<close>

definition normal_payload :: "env \<Rightarrow> cqe \<Rightarrow> RequestSlot \<Rightarrow> loopst \<Rightarrow> bool" where
  "normal_payload E c s w \<longleftrightarrow> payload_ready w (buffer_payload s) \<and>
     Option.bind (payloads w (buffer_payload s)) mode = Some NORMAL_BUF"

text \<open>For a payload of the normal mode, forcing makes no difference.\<close>

lemma drop_forced:
  assumes "Option.bind (payloads w (buffer_payload s)) mode = Some NORMAL_BUF"
  shows "drop_slot_payload i s True w = drop_slot_payload i s False w"
  using assms by (auto simp: drop_slot_payload_def free_buffer_payload_def bind_eq_Some_conv)

lemma release_fixed_normal:
  "Option.bind (payloads w q) mode = Some NORMAL_BUF \<Longrightarrow> q \<noteq> 0 \<Longrightarrow> release_fixed q w = Some w"
  by (auto simp: release_fixed_def deref_payload_def bind_eq_Some_conv)

interpretation write_done: completes IORING_OP_WRITE normal_payload long_value "\<lambda>E w r. 0"
proof unfold_locales
  fix w i s E c
  assume s: "loop_ok w" "pending w i = Some s" "opcode s = IORING_OP_WRITE" "normal_payload E c s w"
  obtain v w1 where v: "new_value E (PyLong (cqe_res c)) w = (v, w1)" by (metis surj_pair)
  have st: "payloads w1 = payloads w" using loopst_more [OF new_value_state(1) [OF v]] by simp
  have q: "Option.bind (payloads w1 (buffer_payload s)) mode = Some NORMAL_BUF"
    "buffer_payload s \<noteq> 0" "releasable w (buffer_payload s)"
    using s(4) by (auto simp: normal_payload_def payload_ready_def st)
  from value_then_free [OF s(1,2) q(3) v] obtain w2 where
    "drop_slot_payload i s False w1 = Some w2" "op_done i s (\<lambda>r. 0) w w2" by blast
  then show "\<exists>v w1. complete_op E c i s w = Some (Resolved v, w1) \<and>
      ((\<forall>h. e_alloc_value E h) \<longrightarrow> v = Some (long_value E c s w)) \<and> op_done i s (\<lambda>r. 0) w w1"
    using v s(3) new_value_state(4) [OF v] release_fixed_normal [OF q(1,2)] drop_forced [OF q(1)]
    by (auto simp: complete_op_def complete_write_def long_result_def long_value_def)
qed

interpretation writev_done: completes IORING_OP_WRITEV
    "\<lambda>E c s w. buffer_payload s \<noteq> 0 \<and> releasable w (buffer_payload s)" long_value "\<lambda>E w r. 0"
proof unfold_locales
  fix w i s E and c :: cqe
  assume s: "loop_ok w" "pending w i = Some s" "opcode s = IORING_OP_WRITEV"
    and q: "buffer_payload s \<noteq> 0 \<and> releasable w (buffer_payload s)"
  obtain v w1 where v: "new_value E (PyLong (cqe_res c)) w = (v, w1)" by (metis surj_pair)
  from value_then_free [OF s(1,2) conjunct2 [OF q] v] obtain w2 where
    "drop_slot_payload i s False w1 = Some w2" "op_done i s (\<lambda>r. 0) w w2" by blast
  then show "\<exists>v w1. complete_op E c i s w = Some (Resolved v, w1) \<and>
      ((\<forall>h. e_alloc_value E h) \<longrightarrow> v = Some (long_value E c s w)) \<and> op_done i s (\<lambda>r. 0) w w1"
    using v s(3) q new_value_state(4) [OF v]
    by (auto simp: complete_op_def complete_writev_def long_result_def long_value_def)
qed

lemma send_done_outcome:
  assumes "loop_ok w" "pending w i = Some s" "payload_ready w (buffer_payload s)"
  shows "\<exists>v w1. complete_send E c i s w = Some (Resolved v, w1) \<and>
     ((\<forall>h. e_alloc_value E h) \<longrightarrow> v = Some (PyLong (cqe_res c))) \<and> op_done i s (\<lambda>r. 0) w w1"
proof -
  from release_and_drop_done [OF assms] obtain w1 w2 where
    w2: "release_fixed (buffer_payload s) w = Some w1" "drop_slot_payload i s False w1 = Some w2"
    "op_done i s (\<lambda>r. 0) w w2" by blast
  obtain v w3 where v: "new_value E (PyLong (cqe_res c)) w2 = (v, w3)" by (metis surj_pair)
  note st = new_value_state [OF v]
  have "op_done i s (\<lambda>r. 0) w w3"
    using w2(3) st(2,3) loopst_more [OF st(1)]
    by (simp add: op_done_def slot_units_def freed_units_def releasable_def)
  then show ?thesis
    using w2(1,2) v st(4) assms(3)
    by (auto simp: complete_send_def long_result_def payload_ready_def)
qed

definition send_ready :: "env \<Rightarrow> cqe \<Rightarrow> RequestSlot \<Rightarrow> loopst \<Rightarrow> bool" where
  "send_ready E c s w \<longleftrightarrow> payload_ready w (buffer_payload s)"

interpretation send_done: completes IORING_OP_SEND send_ready long_value "\<lambda>E w r. 0"
  by unfold_locales (simp add: complete_op_def send_done_outcome send_ready_def long_value_def)

interpretation sendmsg_done: completes IORING_OP_SENDMSG send_ready long_value "\<lambda>E w r. 0"
  by unfold_locales (simp add: complete_op_def send_done_outcome send_ready_def long_value_def)

text \<open>An accepted connection: a new socket object that owns a reference to the loop.\<close>

definition accept_ready :: "env \<Rightarrow> cqe \<Rightarrow> RequestSlot \<Rightarrow> loopst \<Rightarrow> bool" where
  "accept_ready E c s w \<longleftrightarrow> socket_present E c s w \<and> buffer_payload s = 0 \<and>
     e_new_object E (hist w) \<noteq> None \<and> e_new_object E (hist w) \<noteq> slot_socket s"

interpretation accept_done: completes IORING_OP_ACCEPT accept_ready
    "\<lambda>E c s w. PyObj (the (e_new_object E (hist w)))"
    "\<lambda>E w r. ref_units (e_new_object E (hist w)) r + of_bool (r = Reference (loop_obj w))"
proof unfold_locales
  fix w i s E and c :: cqe
  assume s: "loop_ok w" "pending w i = Some s" "opcode s = IORING_OP_ACCEPT" "accept_ready E c s w"
  then obtain x y k where x: "slot_socket s = Some x" "sockets w x = Some y"
    "e_new_object E (hist w) = Some k" "buffer_payload s = 0" "releasable w (buffer_payload s)"
    by (auto simp: accept_ready_def socket_present_def split: option.splits)
  let ?v = "py (Incref (loop_obj w)) (py (New_object (Some k)) w)"
  let ?conn = "\<lparr>sock_fd = Some (cqe_res c), sock_domain = sock_domain y,
      sock_addr = Some (slot_addr s), sock_closed = False\<rparr>"
  let ?u = "?v\<lparr>sockets := (sockets w)(k \<mapsto> ?conn)\<rparr>"
  let ?f = "\<lambda>z. z\<lparr>buffer_payload := 0\<rparr>"
  have same: "pending ?u = pending w" "loop_ok ?u = loop_ok w" "payloads ?u = payloads w"
    by (simp_all add: pending_def loop_ok_def)
  have "loop_ok (upd_slot i ?f ?u) \<and> pending (upd_slot i ?f ?u) = (pending ?u)(i \<mapsto> ?f s)"
    by (rule upd_slot_pending) (use s(1,2) same in simp_all)
  moreover have "?f s = s" using x(4) by simp
  ultimately have "op_done i s
      (\<lambda>r. ref_units (Some k) r + of_bool (r = Reference (loop_obj w))) w (upd_slot i ?f ?u)"
    using s(1,2) x(5) same by (intro op_doneI) (auto simp: ref_units_def fun_upd_idem)
  moreover have "complete_op E c i s w = Some (Resolved (Some (PyObj k)), upd_slot i ?f ?u)"
    using s(3) x by (simp add: complete_op_def complete_accept_def py_new_def Let_def)
  ultimately show "\<exists>v w1. complete_op E c i s w = Some (Resolved v, w1) \<and>
      ((\<forall>h. e_alloc_value E h) \<longrightarrow> v = Some (PyObj (the (e_new_object E (hist w))))) \<and>
      op_done i s (\<lambda>r. ref_units (e_new_object E (hist w)) r +
        of_bool (r = Reference (loop_obj w))) w w1"
    using x(3) by auto
qed

section \<open>Completions of failed and unknown requests\<close>

lemma handle_cqe_error:
  assumes "loop_ok w" "pending w i = Some s" "future s = Some fut" "cqe_user_data c = user_data_of i"
    "releasable w (buffer_payload s)" "cqe_res c < 0" "cqe_res c \<noteq> - (2 ^ 31)"
    "\<not> timeout_expired s c" "e_alloc_value E (hist w)"
  shows "\<exists>w'. handle_cqe E c w = Some w' \<and>
     resolved i s fut (Some (Inl (OSError (- cqe_res c)))) (\<lambda>r. 0) w w'"
proof -
  let ?w1 = "py (Alloc_value True) w"
  let ?w2 = "py (Set_exception fut (OSError (- cqe_res c))) ?w1"
  have ok: "op_done i s (\<lambda>r. 0) w ?w1"
    by (rule op_doneI) (use assms(1,2,5) in simp_all)
  have run: "handle_cqe E c w = finish_request i fut c (Resolved None) ?w2"
    unfolding handle_cqe_pending [OF assms(1-4)] using assms(6-9)
    by (simp add: complete_error_def new_value_def Let_def)
  have "\<exists>w3. loop_registry_remove i ?w2 = Some w3 \<and>
      resolved i s fut (Some (Inl (OSError (- cqe_res c)))) (\<lambda>r. 0 + 0) w (lu (Cqe_seen c) w3)"
    by (rule removed_done [OF ok]) simp_all
  then show ?thesis unfolding run by (auto simp: finish_request_def)
qed

lemma handle_cqe_unknown:
  assumes "loop_ok w" "pending w (index_of (cqe_user_data c)) = None"
  shows "handle_cqe E c w = Some (lu (Cqe_seen c) w)"
proof -
  from assms obtain reg where "registry w = Some reg"
    "requests reg (index_of (cqe_user_data c)) = None"
    by (auto simp: loop_ok_def pending_def split: option.splits)
  then show ?thesis
    by (auto simp: handle_cqe_def requests_def split: option.splits if_splits)
qed

lemma pending_nonneg: "loop_ok w \<Longrightarrow> i < 0 \<Longrightarrow> pending w i = None"
  by (cases "pending w i") (auto elim: pending_cases)

end
