(* ===== verification/Loop_Samples.thy ===== *)
theory Loop_Samples
  imports Api_Contract
begin

text \<open>
  Concrete loop states at which the properties of the Python-facing functions are instantiated: a
  registry of two slots, empty or with one request pending, a file and a socket.
\<close>

definition empty_registry :: RequestRegistry where
  "empty_registry = \<lparr>reg_addr = 11, slots_addr = 12, slots = [zero_slot, zero_slot], avail_addr = 13,
     available_indices = [1, 0], top = 1, reg_size = 2\<rparr>"

definition busy_registry :: "RequestSlot \<Rightarrow> RequestRegistry" where
  "busy_registry s = empty_registry\<lparr>slots := [s, zero_slot], top := 0\<rparr>"

definition idle_loop :: loopst where
  "idle_loop = \<lparr>hist = [], payloads = Map.empty, loop_obj = 1, ring = 14, loop_tid = 1,
     wakeup_fd = 5, wakeup_buf = 15, registry = Some empty_registry, readers = Some 2,
     writers = Some 3, loop_context_var = Some 4, initialized = True, context_var = Some 4,
     context_value = Ctx_capsule 6 16, ctx_tokens = [], contexts = [16 \<mapsto> default_context],
     files = [7 \<mapsto> \<lparr>file_fd = Some 9, file_closed = False\<rparr>],
     sockets = [8 \<mapsto> \<lparr>sock_fd = Some 10, sock_domain = Some 2, sock_addr = None,
       sock_closed = False\<rparr>],
     addrs = Map.empty, ready_q = [], scheduled_q = [], stopping = False,
     handle_when = (\<lambda>h. 0), handle_cancelled = (\<lambda>h. False), handle_scheduled = (\<lambda>h. False)\<rparr>"

definition busy_loop :: "RequestSlot \<Rightarrow> loopst" where
  "busy_loop s = idle_loop\<lparr>registry := Some (busy_registry s)\<rparr>"

lemma empty_registry_ok [simp]: "reg_ok empty_registry"
  by (auto simp: reg_ok_def empty_registry_def pool_ok_def stack_ok_def stack_free_def reg_free_def
      idle_def zero_slot_def less_Suc_eq numeral_2_eq_2)

lemma busy_registry_ok: "future s \<noteq> None \<Longrightarrow> reg_ok (busy_registry s)"
  by (auto simp: reg_ok_def busy_registry_def empty_registry_def pool_ok_def stack_ok_def
      stack_free_def reg_free_def idle_def zero_slot_def less_Suc_eq numeral_2_eq_2)

lemma idle_loop_simps [simp]:
  "hist idle_loop = []" "payloads idle_loop = Map.empty" "loop_ok idle_loop" "loop_tid idle_loop = 1"
  "files idle_loop = [7 \<mapsto> \<lparr>file_fd = Some 9, file_closed = False\<rparr>]"
  "sockets idle_loop = [8 \<mapsto> \<lparr>sock_fd = Some 10, sock_domain = Some 2, sock_addr = None,
     sock_closed = False\<rparr>]"
  "registry idle_loop = Some empty_registry"
  by (simp_all add: idle_loop_def loop_ok_def)

lemma busy_loop_simps [simp]:
  "hist (busy_loop s) = []" "payloads (busy_loop s) = Map.empty"
  "files (busy_loop s) = files idle_loop" "sockets (busy_loop s) = sockets idle_loop"
  "registry (busy_loop s) = Some (busy_registry s)" "loop_obj (busy_loop s) = 1"
  by (simp_all add: busy_loop_def) (simp add: idle_loop_def)

lemma idle_loop_pending: "pending idle_loop = Map.empty"
  by (auto simp: pending_def requests_def registry_get_def empty_registry_def zero_slot_def
      fun_eq_iff nth_Cons' split: option.split)

lemma busy_loop_ok [simp]: "future s \<noteq> None \<Longrightarrow> loop_ok (busy_loop s)"
  by (simp add: loop_ok_def busy_registry_ok)

lemma busy_loop_pending: "future s \<noteq> None \<Longrightarrow> pending (busy_loop s) = [0 \<mapsto> s]"
  by (auto simp: pending_def requests_def registry_get_def busy_registry_def empty_registry_def
      zero_slot_def fun_eq_iff nth_Cons' split: option.split)

text \<open>A payload of one four-byte buffer of the program's own, as a vector too.\<close>

definition sample_linear :: BufferPayload where
  "sample_linear = zero_payload\<lparr>payload_origin := Some PAYLOAD_RUNTIME, amount := Some 1,
     linear := To \<lparr>la_addr = 60, la_elems = [\<lparr>buffer = 61, len = 4, views = Null\<rparr>]\<rparr>\<rparr>"

definition sample_vector :: BufferPayload where
  "sample_vector = zero_payload\<lparr>payload_type := Some PAYLOAD_IOVEC,
     payload_origin := Some PAYLOAD_RUNTIME, amount := Some 2,
     vector := To \<lparr>vec_addr = 70, iovecs_addr = 71,
       iovecs = [\<lparr>iov_base = 72, iov_len = 3\<rparr>, \<lparr>iov_base = 80, iov_len = 3\<rparr>], nr_vecs = 2,
       vec_views = Null\<rparr>\<rparr>"

definition loaded_loop :: "BufferPayload \<Rightarrow> RequestSlot \<Rightarrow> loopst" where
  "loaded_loop p s = (busy_loop s)\<lparr>payloads := [50 \<mapsto> p]\<rparr>"

lemma loaded_loop_simps [simp]:
  "hist (loaded_loop p s) = []" "payloads (loaded_loop p s) = [50 \<mapsto> p]"
  "pending (loaded_loop p s) = pending (busy_loop s)"
  "loop_ok (loaded_loop p s) = loop_ok (busy_loop s)"
  by (simp_all add: loaded_loop_def pending_def loop_ok_def)

lemma sample_payloads_ok:
  "payload_wf sample_linear" "mode sample_linear = Some NORMAL_BUF"
  "payload_wf sample_vector" "mode sample_vector = Some NORMAL_BUF"
  by (simp_all add: sample_linear_def sample_vector_def zero_payload_def payload_wf_def wf_defs)

end
