(* ===== verification/Reader_Loop.thy ===== *)
theory Reader_Loop
  imports Completion Loop_Samples
begin

text \<open>
  The loop of the completion reader over a queue of completions, and the properties of the reader.
\<close>

section \<open>Every pass hands one completion back\<close>

lemma new_value_seen: "new_value E v w = (x, w1) \<Longrightarrow> seen (hist w1) = seen (hist w)"
  by (auto simp: new_value_def Let_def)

lemma buffer_bytes_seen: "buffer_bytes E b n w = Some (x, w1) \<Longrightarrow> seen (hist w1) = seen (hist w)"
  by (auto simp: buffer_bytes_def dest: new_value_seen split: if_split_asm)

lemma vector_bytes_seen: "vector_bytes E v n w = Some (x, w1) \<Longrightarrow> seen (hist w1) = seen (hist w)"
  by (auto simp: vector_bytes_def bind_eq_Some_conv dest!: new_value_seen
      split: option.splits prod.splits)

lemma release_fixed_seen: "release_fixed q w = Some w1 \<Longrightarrow> seen (hist w1) = seen (hist w)"
  by (auto simp: release_fixed_def bind_eq_Some_conv upd_payload_def
      split: if_split_asm pfield.splits)

lemma drop_seen: "drop_slot_payload i s b w = Some w1 \<Longrightarrow> seen (hist w1) = seen (hist w)"
  by (auto simp: drop_slot_payload_def dest: free_payload_quiet)

lemma recvmsg_multishot_seen:
  "seen (hist (snd (uringio_recvmsg_multishot E i fd g p m tp w))) = seen (hist w)"
  using request.op_issue [of "R_recvmsg_multishot fd g p m" E i tp w]
  by (simp add: issue_eq issue_events_def timeout_events_def Let_def)

lemmas seen_facts = new_value_seen buffer_bytes_seen vector_bytes_seen release_fixed_seen drop_seen

lemma long_result_seen: "long_result E c w = Some (out, w1) \<Longrightarrow> seen (hist w1) = seen (hist w)"
  by (auto simp: long_result_def dest: new_value_seen split: prod.splits)

lemma recvmsg_seen:
  "complete_recvmsg_multishot E c i s w = Some (out, w1) \<Longrightarrow> seen (hist w1) = seen (hist w)"
  by (auto simp: complete_recvmsg_multishot_def new_value_def bind_eq_Some_conv Let_def
      recvmsg_multishot_seen split: if_split_asm)

lemma complete_op_seen:
  assumes "complete_op E c i s w = Some (out, w1)"
  shows "seen (hist w1) = seen (hist w)"
proof -
  have "seen (hist w1) = seen (hist w)" if "complete_read E c i s w = Some (out, w1)"
    using that by (auto simp: complete_read_def bind_eq_Some_conv dest!: seen_facts
        split: if_split_asm)
  moreover have "seen (hist w1) = seen (hist w)" if "complete_readv E c i s w = Some (out, w1)"
    using that by (auto simp: complete_readv_def bind_eq_Some_conv dest!: seen_facts)
  moreover have "seen (hist w1) = seen (hist w)" if "complete_write E c i s w = Some (out, w1)"
    using that by (auto simp: complete_write_def bind_eq_Some_conv dest!: seen_facts long_result_seen)
  moreover have "seen (hist w1) = seen (hist w)" if "complete_writev E c i s w = Some (out, w1)"
    using that by (auto simp: complete_writev_def bind_eq_Some_conv dest!: seen_facts long_result_seen
        split: if_split_asm)
  moreover have "seen (hist w1) = seen (hist w)" if "complete_openat2 c s w = Some (out, w1)"
    using that by (auto simp: complete_openat2_def split: option.splits if_split_asm)
  moreover have "seen (hist w1) = seen (hist w)" if "complete_socket c s w = Some (out, w1)"
    using that by (auto simp: complete_socket_def split: option.splits if_split_asm)
  moreover have "seen (hist w1) = seen (hist w)" if "complete_on_socket E c s w = Some (out, w1)"
    using that by (auto simp: complete_on_socket_def dest: long_result_seen split: if_split_asm)
  moreover have "seen (hist w1) = seen (hist w)" if "complete_accept E c i s w = Some (out, w1)"
    using that by (auto simp: complete_accept_def py_new_def bind_eq_Some_conv Let_def
        split: option.splits)
  moreover have "seen (hist w1) = seen (hist w)" if "complete_recv E c i s w = Some (out, w1)"
    using that by (auto simp: complete_recv_def bind_eq_Some_conv dest!: seen_facts
        split: if_split_asm)
  moreover have "seen (hist w1) = seen (hist w)" if "complete_recvmsg E c i s w = Some (out, w1)"
    using that by (auto simp: complete_recvmsg_def bind_eq_Some_conv
        dest!: seen_facts recvmsg_seen split: if_split_asm)
  moreover have "seen (hist w1) = seen (hist w)" if "complete_send E c i s w = Some (out, w1)"
    using that by (auto simp: complete_send_def bind_eq_Some_conv dest!: seen_facts long_result_seen
        split: if_split_asm)
  moreover have "seen (hist w1) = seen (hist w)" if "complete_close E c s w = Some (out, w1)"
    using that by (auto simp: complete_close_def dest!: long_result_seen
        split: option.splits if_split_asm)
  ultimately show ?thesis
    using assms long_result_seen [of E c w out w1]
    by (auto simp: complete_op_def split: Opcode.splits)
qed

lemma handle_cqe_seen:
  assumes "handle_cqe E c w = Some w'"
  shows "seen (hist w') = Suc (seen (hist w))"
proof -
  have fin: "seen (hist v') = Suc (seen (hist v))"
    if "finish_request i fut c out v = Some v'" for i fut out v v'
    using that
    by (auto simp: finish_request_def decref_value_def bind_eq_Some_conv dest!: loop_remove_quiet(2)
        split: completion.splits option.splits pyval.splits)
  have err: "seen (hist v) = seen (hist w)" if "complete_error E c fut w = Some (out, v)" for fut out v
    using that by (auto simp: complete_error_def new_value_def Let_def split: if_split_asm)
  have wake: "seen (hist v) = seen (hist w)" if "complete_wakeup E w = Some (out, v)" for out v
    using that by (auto simp: complete_wakeup_def io_uring_get_sqe_def Let_def split: if_split_asm)
  let ?i = "index_of (cqe_user_data c)"
  from assms obtain reg where reg: "registry w = Some reg"
    by (auto simp: handle_cqe_def bind_eq_Some_conv)
  show ?thesis
  proof (cases "Option.bind (registry_get reg ?i) future")
    case None
    then have "w' = lu (Cqe_seen c) w"
      using assms reg by (cases "registry_get reg ?i") (auto simp: handle_cqe_def Let_def)
    then show ?thesis by simp
  next
    case (Some fut)
    then obtain s where s: "registry_get reg ?i = Some s" "future s = Some fut"
      by (auto simp: bind_eq_Some_conv)
    with assms reg obtain out v where
      v: "(if cqe_res c < 0 \<and> \<not> timeout_expired s c then complete_error E c fut w
           else if cqe_user_data c = WAKEUP_FD_TAG then complete_wakeup E w
           else complete_op E c ?i s w) = Some (out, v)"
      and "finish_request ?i fut c out v = Some w'"
      unfolding handle_cqe_def Let_def reg Option.bind.bind_lunit s option.case
      by (auto simp: bind_eq_Some_conv simp del: if_split)
    from fin [OF this(2)] v show ?thesis
      by (auto dest!: err wake complete_op_seen split: if_split_asm)
  qed
qed

section \<open>The completion queue\<close>

text \<open>liburing's queue: \<open>io_uring_peek_cqe\<close> shows the first completion that has not been handed back
  with \<open>io_uring_cqe_seen\<close>, and fails when there is none.\<close>

definition cq :: "env \<Rightarrow> cqe list \<Rightarrow> bool" where
  "cq E q \<longleftrightarrow> (\<forall>h. e_peek_cqe E h = (if seen h < length q then Some (q ! seen h) else None))"

lemma cq_peek:
  assumes "cq E q"
  shows "e_peek_cqe E h = (case drop (seen h) q of [] \<Rightarrow> None | c # cs \<Rightarrow> Some c)"
proof (cases "seen h < length q")
  case True
  then have "drop (seen h) q = q ! seen h # drop (Suc (seen h)) q" by (rule Cons_nth_drop_Suc [symmetric])
  with True assms show ?thesis by (simp add: cq_def)
qed (use assms in \<open>simp add: cq_def\<close>)

text \<open>The loop takes the completions that are left one after the other.\<close>

lemma on_uring_ready_Cons:
  assumes "cq E q" "drop (seen (hist w)) q = c # cs"
  shows "on_uring_ready (Suc n) E w =
     Option.bind (handle_cqe E c (lu (Peek_cqe (Some c)) w)) (on_uring_ready n E)"
    "handle_cqe E c (lu (Peek_cqe (Some c)) w) = Some w' \<Longrightarrow> drop (seen (hist w')) q = cs"
proof -
  show "on_uring_ready (Suc n) E w =
      Option.bind (handle_cqe E c (lu (Peek_cqe (Some c)) w)) (on_uring_ready n E)"
    using assms cq_peek [OF assms(1)] by (simp add: Let_def)
  assume "handle_cqe E c (lu (Peek_cqe (Some c)) w) = Some w'"
  from handle_cqe_seen [OF this] show "drop (seen (hist w')) q = cs"
    using assms(2) by (simp, metis drop_Suc list.sel(3) tl_drop)
qed

lemma on_uring_ready_Nil:
  assumes "cq E q" "drop (seen (hist w)) q = []"
  shows "on_uring_ready (Suc n) E w = Some (lu (Peek_cqe None) w)"
  using assms cq_peek [OF assms(1)] by (simp add: Let_def)

lemma on_uring_ready_enough:
  assumes "cq E q" "length (drop (seen (hist w)) q) < n"
  shows "on_uring_ready (n + k) E w = on_uring_ready n E w"
  using assms(2)
proof (induction n arbitrary: w)
  case (Suc n)
  show ?case
  proof (cases "drop (seen (hist w)) q")
    case Nil
    then show ?thesis using on_uring_ready_Nil [OF assms(1) Nil] by simp
  next
    case (Cons c cs)
    note step = on_uring_ready_Cons [OF assms(1) Cons]
    have "on_uring_ready (n + k) E w' = on_uring_ready n E w'"
      if "handle_cqe E c (lu (Peek_cqe (Some c)) w) = Some w'" for w'
      by (rule Suc.IH) (use Suc.prems Cons step(2) [OF that] in \<open>simp del: length_drop\<close>)
    then show ?thesis
      using step(1) [of "n + k"] step(1) [of n]
      by (cases "handle_cqe E c (lu (Peek_cqe (Some c)) w)") simp_all
  qed
qed simp

section \<open>Properties of single completions\<close>

text \<open>C14: a completed read into a buffer of the request's own or into a registered one resolves the
  future of its request, once, with exactly the bytes the kernel reports, taken from that buffer;
  the request is removed, no other request is touched, and the payload and all references the
  slot held are given back.  Buffers that the kernel selects from a group are left out.\<close>

theorem read_completion:
  assumes "loop_ok w" "pending w i = Some s" "future s = Some fut" "opcode s = IORING_OP_READ"
    "linear_ready E c s w" "cqe_user_data c = user_data_of i" "0 \<le> cqe_res c"
    "\<forall>h. e_alloc_value E h"
  shows "\<exists>w'. handle_cqe E c w = Some w' \<and> loop_ok w' \<and> pending w' = (pending w)(i := None) \<and>
     resolutions (hist w') = resolutions (hist w) @ [(fut, Inr (linear_data E c s w))] \<and>
     (\<forall>r. ledger (hist w') r = ledger (hist w) r - slot_units w s r)"
  using read_done.resolves [OF assms(1-6) disjI1 [OF assms(7)] assms(8)]
  by (auto simp: resolved_def value_units_def linear_data_def split: option.splits)

definition sample_read :: RequestSlot where
  "sample_read = new_request 0 900 50 ONESHOT IORING_OP_READ (Some 7) None 0 0"

theorem read_completion_witness:
  "\<exists>w'. handle_cqe sample_env \<lparr>cqe_user_data = 0, cqe_res = 3, cqe_flags = 0\<rparr>
       (loaded_loop sample_linear sample_read) = Some w' \<and>
     pending w' = Map.empty \<and> resolutions (hist w') = [(900, Inr (PyBytes [Some 0, Some 0, Some 0]))]"
proof -
  let ?w = "loaded_loop sample_linear sample_read"
  let ?c = "\<lparr>cqe_user_data = 0, cqe_res = 3, cqe_flags = 0\<rparr> :: cqe"
  have p: "pending ?w = [0 \<mapsto> sample_read]" "loop_ok ?w"
    by (simp_all add: busy_loop_pending sample_read_def new_request_def)
  have r: "linear_ready sample_env ?c sample_read ?w"
    using sample_payloads_ok
    by (auto simp: linear_ready_def payload_ready_def releasable_def sample_read_def new_request_def
        sample_linear_def linear_head_def)
  have d: "linear_data sample_env ?c sample_read ?w = PyBytes [Some 0, Some 0, Some 0]"
    by (simp add: linear_data_def sample_read_def new_request_def sample_linear_def linear_head_def
        mem_bytes_def sample_env_def numeral_3_eq_3)
  have "\<exists>w'. handle_cqe sample_env ?c ?w = Some w' \<and> loop_ok w' \<and>
      pending w' = (pending ?w)(0 := None) \<and>
      resolutions (hist w') = resolutions (hist ?w) @
        [(900, Inr (linear_data sample_env ?c sample_read ?w))] \<and>
      (\<forall>r. ledger (hist w') r = ledger (hist ?w) r - slot_units ?w sample_read r)"
    by (rule read_completion)
      (use p r in \<open>simp_all add: sample_read_def new_request_def user_data_of_def\<close>)
  then show ?thesis unfolding p(1) d by auto
qed

text \<open>C15: a completed vectored read resolves its future with one bytes object, the first \<open>res\<close> bytes
  of the concatenation of the request's buffers: the copying loop with its clamped chunks equals
  taking a prefix of the concatenation, and no byte of the result is left indeterminate.  (The
  documentation declares a list of bytes for \<open>readv\<close> and a number for \<open>readv_raw\<close>; the code makes
  neither.)\<close>

theorem readv_completion:
  assumes "loop_ok w" "pending w i = Some s" "future s = Some fut" "opcode s = IORING_OP_READV"
    "payloads w (buffer_payload s) = Some p" "vector p = To v" "vector_ready E c s w"
    "cqe_user_data c = user_data_of i" "0 \<le> cqe_res c" "\<forall>h. e_alloc_value E h"
  shows "\<exists>w'. handle_cqe E c w = Some w' \<and> pending w' = (pending w)(i := None) \<and>
     resolutions (hist w') = resolutions (hist w) @
       [(fut, Inr (PyBytes (map Some (take (nat (cqe_res c))
          (vector_contents E (hist w @ [Py (Alloc_value True)]) v)))))] \<and>
     (\<forall>r. ledger (hist w') r = ledger (hist w) r - slot_units w s r)"
  using readv_done.resolves [OF assms(1-4,7,8) disjI1 [OF assms(9)] assms(10)] assms(5,6)
  by (auto simp: resolved_def value_units_def vector_data_def vector_of_def)

definition sample_readv :: RequestSlot where
  "sample_readv = new_request 0 900 50 ONESHOT IORING_OP_READV (Some 7) None 0 0"

theorem readv_completion_witness:
  "\<exists>w'. handle_cqe sample_env \<lparr>cqe_user_data = 0, cqe_res = 4, cqe_flags = 0\<rparr>
       (loaded_loop sample_vector sample_readv) = Some w' \<and>
     pending w' = Map.empty \<and> resolutions (hist w') = [(900, Inr (PyBytes (replicate 4 (Some 0))))]"
proof -
  let ?w = "loaded_loop sample_vector sample_readv"
  let ?c = "\<lparr>cqe_user_data = 0, cqe_res = 4, cqe_flags = 0\<rparr> :: cqe"
  let ?v = "\<lparr>vec_addr = 70, iovecs_addr = 71, iovecs = [\<lparr>iov_base = 72, iov_len = 3\<rparr>,
      \<lparr>iov_base = 80, iov_len = 3\<rparr>], nr_vecs = 2, vec_views = Null\<rparr> :: VectoredBuffer"
  have p: "pending ?w = [0 \<mapsto> sample_readv]" "loop_ok ?w"
    by (simp_all add: busy_loop_pending sample_readv_def new_request_def)
  have r: "vector_ready sample_env ?c sample_readv ?w"
    using sample_payloads_ok
    by (auto simp: vector_ready_def releasable_def sample_readv_def new_request_def
        sample_vector_def)
  have d: "take (nat 4) (vector_contents sample_env h ?v) = replicate 4 0" for h
    by (simp add: vector_contents_def mem_bytes_def sample_env_def numeral_eq_Suc)
  have "\<exists>w'. handle_cqe sample_env ?c ?w = Some w' \<and> pending w' = (pending ?w)(0 := None) \<and>
      resolutions (hist w') = resolutions (hist ?w) @
        [(900, Inr (PyBytes (map Some (take (nat (cqe_res ?c))
           (vector_contents sample_env (hist ?w @ [Py (Alloc_value True)]) ?v)))))] \<and>
      (\<forall>r. ledger (hist w') r = ledger (hist ?w) r - slot_units ?w sample_readv r)"
    by (rule readv_completion [where p = sample_vector])
      (use p r in \<open>simp_all add: sample_readv_def new_request_def user_data_of_def
         sample_vector_def\<close>)
  then show ?thesis unfolding p(1) cqe.simps d by auto
qed

text \<open>The requests whose result is the number the kernel returns, and what their completion needs.\<close>

definition counted :: "env \<Rightarrow> cqe \<Rightarrow> RequestSlot \<Rightarrow> loopst \<Rightarrow> bool" where
  "counted E c s w \<longleftrightarrow>
     (case opcode s of
        IORING_OP_WRITE \<Rightarrow> normal_payload E c s w
      | IORING_OP_WRITEV \<Rightarrow> buffer_payload s \<noteq> 0 \<and> releasable w (buffer_payload s)
      | IORING_OP_SEND \<Rightarrow> send_ready E c s w
      | IORING_OP_SENDMSG \<Rightarrow> send_ready E c s w
      | IORING_OP_BIND \<Rightarrow> on_socket E c s w
      | IORING_OP_CONNECT \<Rightarrow> on_socket E c s w
      | IORING_OP_LISTEN \<Rightarrow> on_socket E c s w
      | IORING_OP_FSYNC \<Rightarrow> slot_releasable E c s w
      | IORING_OP_SPLICE \<Rightarrow> slot_releasable E c s w
      | IORING_OP_CLOSE \<Rightarrow> slot_socket s = None \<and> file_present E c s w \<or> socket_present E c s w
      | _ \<Rightarrow> False)"

lemmas count_resolves = write_done.resolves writev_done.resolves send_done.resolves
  sendmsg_done.resolves bind_done.resolves connect_done.resolves listen_done.resolves
  fsync_done.resolves splice_done.resolves file_close_done.resolves socket_close_done.resolves

lemma count_completes:
  assumes "loop_ok w" "pending w i = Some s" "future s = Some fut" "counted E c s w"
    "cqe_user_data c = user_data_of i" "0 \<le> cqe_res c" "\<forall>h. e_alloc_value E h"
  shows "\<exists>w'. handle_cqe E c w = Some w' \<and>
     resolved i s fut (Some (Inr (PyLong (cqe_res c)))) (\<lambda>r. 0) w w'"
proof -
  note resolves = count_resolves
    [OF assms(1-3) _ _ assms(5) disjI1 [OF assms(6)] assms(7), unfolded diff_0]
  have "\<exists>w'. handle_cqe E c w = Some w' \<and> resolved i s fut (Some (Inr (long_value E c s w)))
      (\<lambda>r. - value_units (Some (long_value E c s w)) r) w w'"
    using assms(4) unfolding counted_def by (cases "opcode s") (auto intro: resolves)
  then show ?thesis by (simp add: value_units_def long_value_def)
qed

text \<open>C16: a completed write, send, bind, connect, listen, fsync, splice or close resolves its future
  with the kernel's result, removes the request and gives back everything the slot held.\<close>

theorem counted_completion:
  assumes "loop_ok w" "pending w i = Some s" "future s = Some fut" "counted E c s w"
    "cqe_user_data c = user_data_of i" "0 \<le> cqe_res c" "\<forall>h. e_alloc_value E h"
  shows "\<exists>w'. handle_cqe E c w = Some w' \<and> loop_ok w' \<and> pending w' = (pending w)(i := None) \<and>
     resolutions (hist w') = resolutions (hist w) @ [(fut, Inr (PyLong (cqe_res c)))] \<and>
     (\<forall>r. ledger (hist w') r = ledger (hist w) r - slot_units w s r)"
  using count_completes [OF assms] by (auto simp: resolved_def)

definition sample_fsync :: RequestSlot where
  "sample_fsync = new_request 0 900 0 ONESHOT IORING_OP_FSYNC (Some 7) None 0 0"

lemma sample_fsync_ready: "counted E c sample_fsync (busy_loop sample_fsync)"
  by (simp add: counted_def sample_fsync_def new_request_def slot_releasable_def releasable_def)

theorem counted_completion_witness:
  "\<exists>w'. handle_cqe sample_env \<lparr>cqe_user_data = 0, cqe_res = 0, cqe_flags = 0\<rparr>
       (busy_loop sample_fsync) = Some w' \<and>
     pending w' = Map.empty \<and> resolutions (hist w') = [(900, Inr (PyLong 0))]"
  using counted_completion [of "busy_loop sample_fsync" 0 sample_fsync 900 sample_env
      "\<lparr>cqe_user_data = 0, cqe_res = 0, cqe_flags = 0\<rparr>", OF _ _ _ sample_fsync_ready]
    busy_loop_pending [of sample_fsync]
  by (auto simp: sample_fsync_def new_request_def user_data_of_def)

text \<open>C17: a failed request: its future gets \<open>OSError\<close> with the kernel's error number, the request
  is removed and everything its slot held is given back.\<close>

theorem failed_completion:
  assumes "loop_ok w" "pending w i = Some s" "future s = Some fut" "cqe_user_data c = user_data_of i"
    "releasable w (buffer_payload s)" "cqe_res c < 0" "cqe_res c \<noteq> - (2 ^ 31)"
    "\<not> timeout_expired s c" "e_alloc_value E (hist w)"
  shows "\<exists>w'. handle_cqe E c w = Some w' \<and> loop_ok w' \<and> pending w' = (pending w)(i := None) \<and>
     resolutions (hist w') = resolutions (hist w) @ [(fut, Inl (OSError (- cqe_res c)))] \<and>
     (\<forall>r. ledger (hist w') r = ledger (hist w) r - slot_units w s r)"
  using handle_cqe_error [OF assms] by (auto simp: resolved_def)

theorem failed_completion_witness:
  "\<exists>w'. handle_cqe sample_env \<lparr>cqe_user_data = 0, cqe_res = -5, cqe_flags = 0\<rparr>
       (busy_loop sample_fsync) = Some w' \<and>
     pending w' = Map.empty \<and> resolutions (hist w') = [(900, Inl (OSError 5))]"
  using failed_completion [of "busy_loop sample_fsync" 0 sample_fsync 900
      "\<lparr>cqe_user_data = 0, cqe_res = -5, cqe_flags = 0\<rparr>" sample_env]
    busy_loop_pending [of sample_fsync]
  by (auto simp: sample_fsync_def new_request_def user_data_of_def releasable_def
      timeout_expired_def)

text \<open>C36: a completion whose user data leads to no pending request (a request that was removed, an
  untagged timeout, an index out of range) is only handed back: nothing else happens.\<close>

theorem unknown_completion:
  assumes "loop_ok w" "pending w (index_of (cqe_user_data c)) = None"
  shows "handle_cqe E c w = Some (lu (Cqe_seen c) w)"
  by (rule handle_cqe_unknown [OF assms])

theorem unknown_completion_witness:
  "handle_cqe sample_env \<lparr>cqe_user_data = 1, cqe_res = 0, cqe_flags = 0\<rparr> idle_loop =
     Some (lu (Cqe_seen \<lparr>cqe_user_data = 1, cqe_res = 0, cqe_flags = 0\<rparr>) idle_loop)"
  by (rule unknown_completion) (simp_all add: idle_loop_pending)

text \<open>C37: the completion of the wakeup read is dropped: its tag reads as index \<open>-1\<close>, so the block that
  empties the event counter and prepares the next wakeup read is never reached, and after the
  first wakeup no further write to the event descriptor wakes the loop.\<close>

theorem wakeup_not_rearmed:
  assumes "loop_ok w" "cqe_user_data c = WAKEUP_FD_TAG"
  shows "handle_cqe E c w = Some (lu (Cqe_seen c) w)"
  by (rule handle_cqe_unknown [OF assms(1)]) (simp add: assms(2) pending_nonneg [OF assms(1)])

theorem wakeup_not_rearmed_witness:
  "handle_cqe sample_env \<lparr>cqe_user_data = WAKEUP_FD_TAG, cqe_res = 8, cqe_flags = 0\<rparr> idle_loop =
     Some (lu (Cqe_seen \<lparr>cqe_user_data = WAKEUP_FD_TAG, cqe_res = 8, cqe_flags = 0\<rparr>) idle_loop)"
  by (rule wakeup_not_rearmed) simp_all

section \<open>The whole queue\<close>

text \<open>Requests without a payload whose result needs nothing but the completion.\<close>

definition payload_free :: "RequestSlot \<Rightarrow> cqe \<Rightarrow> bool" where
  "payload_free s c \<longleftrightarrow> buffer_payload s = 0 \<and> cqe_res c \<noteq> - (2 ^ 31) \<and>
     (opcode s \<in> {IORING_OP_FSYNC, IORING_OP_SPLICE, IORING_OP_TIMEOUT} \<or>
      opcode s \<in> {IORING_OP_BIND, IORING_OP_CONNECT, IORING_OP_LISTEN} \<and> slot_socket s \<noteq> None)"

text \<open>The answer such a request gets.\<close>

definition answer :: "RequestSlot \<Rightarrow> cqe \<Rightarrow> pyexc + pyval" where
  "answer s c =
     (if cqe_res c < 0 \<and> \<not> timeout_expired s c then Inl (OSError (- cqe_res c))
      else if opcode s = IORING_OP_TIMEOUT then Inr PyNone
      else Inr (PyLong (cqe_res c)))"

lemma payload_free_handled:
  assumes "loop_ok w" "pending w i = Some s" "future s = Some fut" "payload_free s c"
    "cqe_user_data c = user_data_of i" "\<forall>h. e_alloc_value E h"
  shows "\<exists>w'. handle_cqe E c w = Some w' \<and> resolved i s fut (Some (answer s c)) (\<lambda>r. 0) w w'"
proof -
  have rel: "releasable w (buffer_payload s)"
    using assms(4) by (simp add: payload_free_def releasable_def)
  consider (err) "cqe_res c < 0" "\<not> timeout_expired s c"
    | (tmo) "opcode s = IORING_OP_TIMEOUT" "0 \<le> cqe_res c \<or> timeout_expired s c"
    | (num) "0 \<le> cqe_res c" "counted E c s w" "opcode s \<noteq> IORING_OP_TIMEOUT"
    using assms(4) rel
    by (cases "cqe_res c < 0") (auto simp: payload_free_def counted_def slot_releasable_def
        on_socket_def timeout_expired_def not_less split: Opcode.split)
  then show ?thesis
  proof cases
    case err
    then show ?thesis
      using handle_cqe_error [OF assms(1-3,5) rel] assms(4,6)
      by (auto simp: answer_def payload_free_def)
  next
    case tmo
    then have "answer s c = Inr PyNone" by (auto simp: answer_def)
    then show ?thesis
      using timer_done.resolves [OF assms(1-3) tmo(1) _ assms(5) tmo(2) assms(6)] rel
      by (simp add: slot_releasable_def value_units_def)
  next
    case num
    then have "answer s c = Inr (PyLong (cqe_res c))" by (simp add: answer_def)
    then show ?thesis
      using count_completes [OF assms(1-3) num(2) assms(5) num(1) assms(6)] by simp
  qed
qed

text \<open>Every completion of the list leads to a pending request without a payload, each to another.\<close>

definition answerable :: "loopst \<Rightarrow> cqe list \<Rightarrow> bool" where
  "answerable w cs \<longleftrightarrow> distinct (map cqe_user_data cs) \<and>
     (\<forall>c \<in> set cs. \<exists>i s fut. cqe_user_data c = user_data_of i \<and> pending w i = Some s \<and>
        future s = Some fut \<and> payload_free s c)"

definition answers :: "loopst \<Rightarrow> cqe list \<Rightarrow> (obj \<times> (pyexc + pyval)) list" where
  "answers w cs =
     map (\<lambda>c. case pending w (index_of (cqe_user_data c)) of
                None \<Rightarrow> (0, Inr PyNone)
              | Some s \<Rightarrow> (the (future s), answer s c)) cs"

lemma answerable_ConsD:
  assumes "loop_ok w" "answerable w (c # cs)"
  obtains i s fut where "cqe_user_data c = user_data_of i" "pending w i = Some s"
    "future s = Some fut" "payload_free s c" "index_of (cqe_user_data c) = i"
    "\<And>v. pending v = (pending w)(i := None) \<Longrightarrow> answerable v cs \<and> answers v cs = answers w cs"
proof -
  from assms(2) obtain i s fut where c: "cqe_user_data c = user_data_of i" "pending w i = Some s"
    "future s = Some fut" "payload_free s c" "cqe_user_data c \<notin> cqe_user_data ` set cs"
    by (auto simp: answerable_def)
  have idx: "index_of (user_data_of j) = j" if "pending w j = Some t" for j t
    using pending_cases [OF assms(1) that] index_of_user_data_of by blast
  have other: "index_of (cqe_user_data d) \<noteq> i \<and>
      (\<exists>j t fut. cqe_user_data d = user_data_of j \<and> pending w j = Some t \<and> future t = Some fut \<and>
        payload_free t d \<and> j \<noteq> i)" if d: "d \<in> set cs" for d
  proof -
    from assms(2) d obtain j t fut where j: "cqe_user_data d = user_data_of j"
      "pending w j = Some t" "future t = Some fut" "payload_free t d"
      by (auto simp: answerable_def)
    moreover have "j \<noteq> i" using c(1,5) d j(1) by (metis imageI)
    ultimately show ?thesis using idx [OF j(2)] by auto
  qed
  show ?thesis
  proof (rule that [OF c(1-4)])
    show "index_of (cqe_user_data c) = i" using idx [OF c(2)] c(1) by simp
    fix v assume v: "pending v = (pending w)(i := None)"
    have "answerable v cs"
      using assms(2) other unfolding answerable_def v by fastforce
    moreover have "answers v cs = answers w cs"
      using other unfolding answers_def v by (auto split: option.split)
    ultimately show "answerable v cs \<and> answers v cs = answers w cs" ..
  qed
qed

lemma reader_drains_list:
  assumes "cq E q" "\<forall>h. e_alloc_value E h"
  shows "loop_ok w \<Longrightarrow> drop (seen (hist w)) q = cs \<Longrightarrow> answerable w cs \<Longrightarrow>
    \<exists>w'. on_uring_ready (Suc (length cs)) E w = Some w' \<and> loop_ok w' \<and>
      pending w' = pending w |` (- index_of ` cqe_user_data ` set cs) \<and>
      resolutions (hist w') = resolutions (hist w) @ answers w cs"
proof (induction cs arbitrary: w)
  case Nil
  have "ext.more (lu (Peek_cqe None) w) = ext.more w" by simp
  from loopst_more [OF this] show ?case
    using on_uring_ready_Nil [OF assms(1) Nil(2)] Nil(1) by (simp add: answers_def)
next
  case (Cons c cs)
  let ?v = "lu (Peek_cqe (Some c)) w"
  have "ext.more ?v = ext.more w" by simp
  note same = loopst_more [OF this]
  from answerable_ConsD [OF Cons.prems(1,3)] obtain i s fut where
    c: "cqe_user_data c = user_data_of i" "pending w i = Some s" "future s = Some fut"
      "payload_free s c" "index_of (cqe_user_data c) = i"
    and rest: "\<And>v. pending v = (pending w)(i := None) \<Longrightarrow>
      answerable v cs \<and> answers v cs = answers w cs" by blast
  from payload_free_handled [of ?v i s fut c E] Cons.prems(1) c assms(2) obtain w1 where
    run: "handle_cqe E c ?v = Some w1" and res: "resolved i s fut (Some (answer s c)) (\<lambda>r. 0) ?v w1"
    by (auto simp: same)
  note step = on_uring_ready_Cons [OF assms(1) Cons.prems(2)]
  have w1: "loop_ok w1" "pending w1 = (pending w)(i := None)"
    "resolutions (hist w1) = resolutions (hist w) @ [(fut, answer s c)]"
    using res by (simp_all add: resolved_def same)
  from Cons.IH [OF w1(1) step(2) [OF run]] rest [OF w1(2)] obtain w' where
    "on_uring_ready (Suc (length cs)) E w1 = Some w'" "loop_ok w'"
    "pending w' = pending w1 |` (- index_of ` cqe_user_data ` set cs)"
    "resolutions (hist w') = resolutions (hist w1) @ answers w cs" by auto
  moreover have "(pending w)(i := None) |` (- A) = pending w |` (- insert i A)" for A
    by (auto simp: restrict_map_def)
  ultimately show ?case
    using step(1) [of "Suc (length cs)"] run c w1 by (simp add: answers_def)
qed

text \<open>C13: the reader drains the queue: with the completions of payload-free requests waiting, it stops
  after one pass over them, having resolved every future in the order of the completions, removed
  exactly those requests and kept the table well formed.\<close>

theorem reader_drains:
  assumes "cq E q" "\<forall>h. e_alloc_value E h" "loop_ok w" "answerable w (drop (seen (hist w)) q)"
  shows "\<exists>w'. on_uring_ready (Suc (length q)) E w = Some w' \<and> loop_ok w' \<and>
     pending w' = pending w |` (- index_of ` cqe_user_data ` set (drop (seen (hist w)) q)) \<and>
     resolutions (hist w') = resolutions (hist w) @ answers w (drop (seen (hist w)) q)"
proof -
  let ?cs = "drop (seen (hist w)) q"
  have "on_uring_ready (Suc (length ?cs) + (length q - length ?cs)) E w =
      on_uring_ready (Suc (length ?cs)) E w"
    by (rule on_uring_ready_enough [OF assms(1)]) simp
  moreover have "Suc (length ?cs) + (length q - length ?cs) = Suc (length q)" by simp
  ultimately show ?thesis
    using reader_drains_list [OF assms(1-3) refl assms(4)] by (simp del: length_drop)
qed

text \<open>An environment whose queue is \<open>q\<close>.\<close>

definition queue_env :: "cqe list \<Rightarrow> env" where
  "queue_env q = sample_env\<lparr>e_peek_cqe :=
     (\<lambda>h. if seen h < length q then Some (q ! seen h) else None)\<rparr>"

theorem reader_drains_witness:
  "\<exists>w'. on_uring_ready 2 (queue_env [\<lparr>cqe_user_data = 0, cqe_res = 0, cqe_flags = 0\<rparr>])
       (busy_loop sample_fsync) = Some w' \<and>
     pending w' = Map.empty \<and> resolutions (hist w') = [(900, Inr (PyLong 0))]"
proof -
  let ?c = "\<lparr>cqe_user_data = 0, cqe_res = 0, cqe_flags = 0\<rparr> :: cqe"
  let ?w = "busy_loop sample_fsync"
  have p: "pending ?w = [0 \<mapsto> sample_fsync]" "loop_ok ?w"
    by (simp_all add: busy_loop_pending sample_fsync_def new_request_def)
  have i: "index_of 0 = 0" by (simp add: index_of_def)
  have s: "future sample_fsync = Some 900" "payload_free sample_fsync ?c"
    "answer sample_fsync ?c = Inr (PyLong 0)"
    by (simp_all add: sample_fsync_def new_request_def payload_free_def answer_def)
  have "answerable ?w [?c]"
    using s(1,2) by (auto simp: answerable_def p user_data_of_def intro!: exI [of _ 0])
  moreover have "cq (queue_env [?c]) [?c]" by (simp add: cq_def queue_env_def)
  moreover have "e_alloc_value (queue_env [?c]) h" for h by (simp add: queue_env_def)
  ultimately have "\<exists>w'. on_uring_ready (Suc (length [?c])) (queue_env [?c]) ?w = Some w' \<and>
      loop_ok w' \<and> pending w' = pending ?w |` (- index_of ` cqe_user_data `
        set (drop (seen (hist ?w)) [?c])) \<and>
      resolutions (hist w') = resolutions (hist ?w) @ answers ?w (drop (seen (hist ?w)) [?c])"
    by (intro reader_drains) (simp_all add: p)
  moreover have "answers ?w [?c] = [(900, Inr (PyLong 0))]"
    by (simp add: answers_def p i s)
  ultimately show ?thesis
    by (auto simp: p i restrict_map_def numeral_2_eq_2 fun_eq_iff)
qed

end
