(* ===== verification/Api_Properties.thy ===== *)
theory Api_Properties
  imports Read_Contract Loop_Contract Reader_Loop
begin

text \<open>
  The Python-facing methods: their contract, and the whole way of a request, from the call through
  the registry and the ring to the completion that resolves the future the call returned.
\<close>

section \<open>From the call to the completion\<close>

context api_method
begin

text \<open>Whatever a method submitted, a failed completion undoes: the future gets the error and nothing
  is left but the caller's reference to it.\<close>

lemma fails_cleanly:
  assumes "loop_ok w" "ready E w" "call E w = Some (Some fut, w')" "\<forall>h. e_alloc_value E h"
  shows "\<exists>i. submitted i w' \<and> (\<forall>c. cqe_user_data c = user_data_of i \<longrightarrow> cqe_res c < 0 \<longrightarrow>
     cqe_res c \<noteq> - (2 ^ 31) \<longrightarrow> cqe_res c \<noteq> - ETIME \<longrightarrow>
     (\<exists>w''. handle_cqe E c w' = Some w'' \<and> loop_ok w'' \<and> pending w'' = pending w \<and>
        resolutions (hist w'') = resolutions (hist w') @ [(fut, Inl (OSError (- cqe_res c)))] \<and>
        (\<forall>r. ledger (hist w'') r = ledger (hist w) r + of_bool (r = Reference fut))))"
proof -
  from accepted [OF assms(1-3)] obtain i s where
    s: "pending w i = None" "pending w' = (pending w)(i \<mapsto> s)" "future s = Some fut"
      "plain_payload w' (buffer_payload s)" "submitted i w'" "loop_ok w'"
    and led: "\<And>x. ledger (hist w') x =
      ledger (hist w) x + of_bool (x = Reference fut) + slot_units w' s x" by blast
  have "\<exists>w''. handle_cqe E c w' = Some w'' \<and> loop_ok w'' \<and> pending w'' = pending w \<and>
      resolutions (hist w'') = resolutions (hist w') @ [(fut, Inl (OSError (- cqe_res c)))] \<and>
      (\<forall>r. ledger (hist w'') r = ledger (hist w) r + of_bool (r = Reference fut))"
    if c: "cqe_user_data c = user_data_of i" "cqe_res c < 0" "cqe_res c \<noteq> - (2 ^ 31)"
      "cqe_res c \<noteq> - ETIME" for c
  proof -
    have "pending w' i = Some s" "\<not> timeout_expired s c" "e_alloc_value E (hist w')"
      using s(2) c(4) assms(4) by (simp_all add: timeout_expired_def)
    from handle_cqe_error [OF s(6) this(1) s(3) c(1) plain_releasable [OF s(4)] c(2,3) this(2,3)]
    obtain w'' where w'': "handle_cqe E c w' = Some w''"
      "resolved i s fut (Some (Inl (OSError (- cqe_res c)))) (\<lambda>r. 0) w' w''" by blast
    moreover have "(pending w')(i := None) = pending w" using s(1,2) by (simp add: fun_upd_idem)
    ultimately show ?thesis using led by (auto simp: resolved_def)
  qed
  with s(5) show ?thesis by blast
qed

end

text \<open>The methods whose result is a number of the kernel.\<close>

locale counting_method = api_method +
  assumes counts: "Q s \<Longrightarrow> plain_payload w (buffer_payload s) \<Longrightarrow> counted E c s w"
begin

lemma succeeds:
  assumes "loop_ok w" "ready E w" "call E w = Some (Some fut, w')" "\<forall>h. e_alloc_value E h"
  shows "\<exists>i. submitted i w' \<and> (\<forall>c. cqe_user_data c = user_data_of i \<longrightarrow> 0 \<le> cqe_res c \<longrightarrow>
     (\<exists>w''. handle_cqe E c w' = Some w'' \<and> loop_ok w'' \<and> pending w'' = pending w \<and>
        resolutions (hist w'') = resolutions (hist w') @ [(fut, Inr (PyLong (cqe_res c)))] \<and>
        (\<forall>r. ledger (hist w'') r = ledger (hist w) r + of_bool (r = Reference fut))))"
proof -
  from accepted [OF assms(1-3)] obtain i s where
    s: "pending w i = None" "pending w' = (pending w)(i \<mapsto> s)" "future s = Some fut" "Q s"
      "plain_payload w' (buffer_payload s)" "submitted i w'" "loop_ok w'"
    and led: "\<And>x. ledger (hist w') x =
      ledger (hist w) x + of_bool (x = Reference fut) + slot_units w' s x" by blast
  have "\<exists>w''. handle_cqe E c w' = Some w'' \<and> loop_ok w'' \<and> pending w'' = pending w \<and>
      resolutions (hist w'') = resolutions (hist w') @ [(fut, Inr (PyLong (cqe_res c)))] \<and>
      (\<forall>r. ledger (hist w'') r = ledger (hist w) r + of_bool (r = Reference fut))"
    if c: "cqe_user_data c = user_data_of i" "0 \<le> cqe_res c" for c
  proof -
    have "pending w' i = Some s" using s(2) by simp
    from count_completes [OF s(7) this s(3) counts [OF s(4,5)] c assms(4)]
    obtain w'' where w'': "handle_cqe E c w' = Some w''"
      "resolved i s fut (Some (Inr (PyLong (cqe_res c)))) (\<lambda>r. 0) w' w''" by blast
    moreover have "(pending w')(i := None) = pending w" using s(1,2) by (simp add: fun_upd_idem)
    ultimately show ?thesis using led by (auto simp: resolved_def)
  qed
  with s(6) show ?thesis by blast
qed

end

lemma plain_ready:
  assumes "q \<noteq> 0" "plain_payload w q"
  shows "payload_ready w q" "Option.bind (payloads w q) mode = Some NORMAL_BUF"
  using assms plain_releasable [OF assms(2)] by (auto simp: plain_payload_def payload_ready_def)

lemmas counted_simps = request_of_def counted_def slot_releasable_def on_socket_def send_ready_def
  normal_payload_def plain_releasable plain_ready

interpretation fsync_counts: counting_method
  "\<lambda>E. UringioFile_fsync E self tobj" "file_ready self"
  "request_of IORING_OP_FSYNC False (Some self) None" for self tobj
  by unfold_locales (simp add: counted_simps)

interpretation fdatasync_counts: counting_method
  "\<lambda>E. UringioFile_fdatasync E self tobj" "file_ready self"
  "request_of IORING_OP_FSYNC False (Some self) None" for self tobj
  by unfold_locales (simp add: counted_simps)

interpretation splice_counts: counting_method
  "\<lambda>E. UringioFile_splice E self src dst cnt offset_src offset_dst flag tobj" "file_ready self"
  "request_of IORING_OP_SPLICE False (Some self) None"
  for self src dst cnt offset_src offset_dst flag tobj
  by unfold_locales (simp add: counted_simps)

interpretation write_counts: counting_method
  "\<lambda>E. UringioFile_write E self data offset tobj" "file_ready self"
  "request_of IORING_OP_WRITE True (Some self) None" for self data offset tobj
  by unfold_locales (simp add: counted_simps)

interpretation listen_counts: counting_method
  "\<lambda>E. UringioSocket_listen E self backlog tobj" "socket_ready self"
  "request_of IORING_OP_LISTEN False None (Some self)" for self backlog tobj
  by unfold_locales (simp add: counted_simps)

interpretation bind_counts: counting_method
  "\<lambda>E. UringioSocket_bind E self host port tobj" "socket_ready self"
  "request_of IORING_OP_BIND False None (Some self)" for self host port tobj
  by unfold_locales (simp add: counted_simps)

interpretation connect_counts: counting_method
  "\<lambda>E. UringioSocket_connect E self host port tobj" "socket_ready self"
  "request_of IORING_OP_CONNECT False None (Some self)" for self host port tobj
  by unfold_locales (simp add: counted_simps)

interpretation send_counts: counting_method
  "\<lambda>E. UringioSocket_send E self data is_poll_first tobj"
  "\<lambda>E w. socket_ready self E w \<and> context_ready E w"
  "request_of IORING_OP_SEND True None (Some self)" for self data is_poll_first tobj
  by unfold_locales (simp add: counted_simps)

section \<open>Concrete calls\<close>

lemma sample_perform:
  assumes "e_get_sqe E = fresh_ptr" "\<And>h. e_submit E h = 1"
  shows "fst (perform_framed rq E i no_timeout w) = 1"
  using assms
  by (simp add: request.op_issue issue_eq issue_events_def timeout_events_def timeout_refused_def
      timeout_wanted_def no_timeout_def Let_def)

lemma sample_registered:
  assumes "registry w = Some empty_registry" "checks check"
    "\<And>w2. payloads w2 = payloads w \<Longrightarrow> files w2 = files w \<Longrightarrow> sockets w2 = sockets w \<Longrightarrow>
       run 0 w2 = Some (perform_framed rq E 0 no_timeout w2)"
    "e_get_sqe E = fresh_ptr" "\<And>h. e_submit E h = 1"
  shows "\<exists>w'. registered check fut bp strategy opc file socket sockaddr msghdr full run w =
     Some (Some fut, w')"
proof -
  define reg where "reg = empty_registry\<lparr>top := 0, slots := [zero_slot\<lparr>user_data := 0, opcode := opc,
    future := Some fut, buffer_payload := bp, slot_socket := socket, slot_file := file,
    slot_addr := sockaddr, stream_strategy := strategy, slot_msghdr := msghdr\<rparr>, zero_slot]\<rparr>"
  define w2 where
    "w2 = (opt_incref file (opt_incref socket (py (Incref fut) w)))\<lparr>registry := Some reg\<rparr>"
  have add: "loop_registry_add fut bp strategy opc file socket sockaddr msghdr w = Some (0, w2)"
    using assms(1)
    by (simp add: loop_registry_add_def registry_add_def registry_pop_def empty_registry_def w2_def
        reg_def)
  have "payloads w2 = payloads w" "files w2 = files w" "sockets w2 = sockets w"
    by (simp_all add: w2_def)
  from assms(3) [OF this] obtain w3 where "run 0 w2 = Some (1, w3)"
    using sample_perform [OF assms(4,5), of rq 0 w2] by (metis prod.collapse)
  moreover have "check 1 = check_file_result 1" using assms(2) by (simp add: checks_def)
  ultimately show ?thesis
    using add by (simp add: registered_def check_file_result_def)
qed

lemma idle_loop_current: "current idle_loop = Some default_context"
  by (simp add: current_def pointee_def deref_ctx_def idle_loop_def)

lemma idle_loop_context_var: "context_var idle_loop = Some 4"
  by (simp add: idle_loop_def)

lemma sample_ready [simp]:
  "file_ready 7 E idle_loop" "socket_ready 8 E idle_loop" "context_ready sample_env idle_loop"
  "plain_context idle_loop" "0 \<le> n \<Longrightarrow> allocating n sample_env"
  by (simp_all add: file_ready_def file_fd_of_def socket_ready_def context_ready_def
      plain_context_def allocating_def idle_loop_current)
    (simp_all add: idle_loop_def default_context_def)

lemma sample_guards:
  "file_guard sample_env 7 rest idle_loop = rest idle_loop"
  "socket_guard sample_env 8 rest idle_loop = rest idle_loop"
  by (simp_all add: file_guard_def socket_guard_def ASSERT_LOOP_THREAD_def ASSERT_RING_LOOP_IS_CLOSING_def)

lemma sample_no_timeout: "with_timeout P_missing rest w = rest no_timeout w"
  by (simp add: with_timeout_def parse_timeout_params_def)

lemma sample_future: "with_future sample_env rest w = rest 900 (py (Create_future (Some 900)) w)"
  "with_future_or sample_env undo rest w = rest 900 (py (Create_future (Some 900)) w)"
  by (simp_all add: with_future_def with_future_or_def create_future_def Let_def)

lemma sample_sequence: "short_sequence sample_env q"
  by (simp add: short_sequence_def)

lemmas sample_call = sample_guards sample_no_timeout sample_future

lemma sample_fsync_call:
  "\<exists>w'. UringioFile_fsync sample_env 7 P_missing idle_loop = Some (Some 900, w')"
  unfolding UringioFile_fsync_def sample_call file_request_registered
  by (rule sample_registered [where E = sample_env and rq = "R_fsync 9"]) (simp_all add: fd_run_def file_fd_of_def)

lemma sample_payload:
  obtains q w1 x la b where "create_buffer_payload_from_data sample_env d w = (q, w1)" "q \<noteq> 0"
    "bufst.more w1 = bufst.more w" "payloads w1 q = Some x" "linear x = To la" "la_elems la = [b]"
    "mode x = Some NORMAL_BUF"
proof -
  obtain q w1 where mk: "create_buffer_payload_from_data sample_env d w = (q, w1)" by (metis surj_pair)
  then have "q \<noteq> 0"
    by (auto simp: create_buffer_payload_from_data_def malloc_payload_def c_malloc_def
        pymem_malloc_def Let_def fresh_ptr_def)
  with mk from_data_built [OF mk] show ?thesis
    by (auto simp: built_def intro: that)
qed

lemma sample_write_call:
  "\<exists>w'. UringioFile_write sample_env 7 5 0 P_missing idle_loop = Some (Some 900, w')"
proof -
  let ?w = "py (Create_future (Some 900)) idle_loop"
  obtain q w1 x la b where b: "create_buffer_payload_from_data sample_env 5 ?w = (q, w1)" "q \<noteq> 0"
    "bufst.more w1 = bufst.more ?w" "payloads w1 q = Some x" "linear x = To la" "la_elems la = [b]"
    "mode x = Some NORMAL_BUF" by (rule sample_payload)
  note same = loopst_bufst_more [OF b(3)]
  have "\<exists>w'. registered check_file_result 900 q ONESHOT IORING_OP_WRITE (Some 7) None 0 0 full
      (\<lambda>i w. write_dispatcher sample_env 7 q i 0 no_timeout w) w1 = Some (Some 900, w')" for full
    by (rule sample_registered [where E = sample_env and rq = "R_write 9 (buffer b) (word_of_nat (len b)) 0"])
      (use b in \<open>simp_all add: same write_dispatcher_def linear_head_def file_fd_of_def\<close>)
  then show ?thesis
    unfolding UringioFile_write_def sample_call file_request_registered b(1) using b(2) by simp
qed

lemma sample_send_call:
  "\<exists>w'. UringioSocket_send sample_env 8 5 0 P_missing idle_loop = Some (Some 900, w')"
proof -
  obtain q w1 x la b where b: "create_buffer_payload_from_data sample_env 5 idle_loop = (q, w1)"
    "q \<noteq> 0" "bufst.more w1 = bufst.more idle_loop" "payloads w1 q = Some x" "linear x = To la"
    "la_elems la = [b]" "mode x = Some NORMAL_BUF" by (rule sample_payload)
  note same = loopst_bufst_more [OF b(3)]
  obtain c :: ExecutionContext and w2 where c: "current idle_loop = Some c"
    "get_transfer_mode sample_env w1 = Some (ctx_transfer_mode c, w2)" "ext.more w2 = ext.more w1"
    by (rule context_read [OF sample_ready(3) disjI2 [OF b(3)]], rule that; assumption?)
  let ?w3 = "py (Create_future (Some 900)) w2"
  note same2 = loopst_more [OF c(3)]
  have tm: "ctx_transfer_mode c = NORMAL_TRANSFER"
    using c(1) by (auto simp: idle_loop_current default_context_def)
  have "\<exists>w'. registered check_sockets_result 900 q ONESHOT IORING_OP_SEND None (Some 8) 0 0 full
      (\<lambda>i w. send_dispatcher sample_env 8 q (ctx_transfer_mode c) i 0 no_timeout w) ?w3 =
      Some (Some 900, w')" for full
    by (rule sample_registered [where E = sample_env and rq = "R_send 10 (buffer b) (len b mod 2 ^ 32) 0"])
      (use b in \<open>simp_all add: same same2 tm send_dispatcher_def linear_head_def sock_fd_of_def\<close>)
  then show ?thesis
    unfolding UringioSocket_send_def sample_call socket_request_registered
    using b(1,2) c(2) by (simp add: sample_future)
qed

section \<open>The contract of the methods\<close>

text \<open>C8: every method of a file object that does not read is atomic: it is never undefined; when
  it raises, the table of requests and the ledger of blocks, exports and references are as
  before the call; when it returns a future, exactly one request was added, for that future and
  with the method's opcode, its entry was the last one submitted and carries the request's index,
  and the program holds the caller's reference and what the slot owns, no more.  \<open>writev\<close> reads the
  current context first, so it needs one that is alive, and a sequence of fewer than \<open>2 ^ 31\<close>
  buffers.\<close>

theorem file_methods_contract:
  assumes "loop_ok w" "file_ready self E w"
  shows
    "api_outcome (request_of IORING_OP_WRITE True (Some self) None) w
       (UringioFile_write E self data offset tobj w) \<and>
     (context_ready E w \<and> short_sequence E buffers_obj \<longrightarrow>
        api_outcome (request_of IORING_OP_WRITEV True (Some self) None) w
          (UringioFile_writev E self buffers_obj flags offset tobj w)) \<and>
     api_outcome (request_of IORING_OP_WRITEV True (Some self) None) w
       (UringioFile_writev_raw E self iovecs_obj contiguous flags offset tobj w) \<and>
     api_outcome (request_of IORING_OP_FSYNC False (Some self) None) w
       (UringioFile_fsync E self tobj w) \<and>
     api_outcome (request_of IORING_OP_FSYNC False (Some self) None) w
       (UringioFile_fdatasync E self tobj w) \<and>
     api_outcome (request_of IORING_OP_SPLICE False (Some self) None) w
       (UringioFile_splice E self src dst cnt offset_src offset_dst flag tobj w) \<and>
     api_outcome (request_of IORING_OP_CLOSE False (Some self) None) w
       (UringioFile_close E self tobj w) \<and>
     api_outcome (request_of IORING_OP_CLOSE False (Some self) None) w
       (UringioFile_aexit E self body_exc w)"
  by (intro conjI impI file_write.atomic file_writev.atomic file_writev_raw.atomic file_fsync.atomic
      file_fdatasync.atomic file_splice.atomic file_close.atomic file_aexit.atomic assms)
    (simp_all add: assms)

theorem file_methods_contract_witness:
  "api_outcome (request_of IORING_OP_WRITE True (Some 7) None) idle_loop
     (UringioFile_write sample_env 7 5 0 P_missing idle_loop) \<and>
   api_outcome (request_of IORING_OP_WRITEV True (Some 7) None) idle_loop
     (UringioFile_writev sample_env 7 5 0 0 P_missing idle_loop) \<and>
   (\<exists>w'. UringioFile_write sample_env 7 5 0 P_missing idle_loop = Some (Some 900, w'))"
  using file_methods_contract [of idle_loop 7 sample_env] sample_write_call sample_sequence by simp

text \<open>C9: the same for the sockets: listen, bind, connect, send, close and the exit of the context
  manager.\<close>

theorem socket_methods_contract:
  assumes "loop_ok w" "socket_ready self E w" "context_ready E w"
  shows
    "api_outcome (request_of IORING_OP_LISTEN False None (Some self)) w
       (UringioSocket_listen E self backlog tobj w) \<and>
     api_outcome (request_of IORING_OP_BIND False None (Some self)) w
       (UringioSocket_bind E self host port tobj w) \<and>
     api_outcome (request_of IORING_OP_CONNECT False None (Some self)) w
       (UringioSocket_connect E self host port tobj w) \<and>
     api_outcome (request_of IORING_OP_SEND True None (Some self)) w
       (UringioSocket_send E self data is_poll_first tobj w) \<and>
     api_outcome (request_of IORING_OP_CLOSE False None (Some self)) w
       (UringioSocket_close E self tobj w) \<and>
     api_outcome (request_of IORING_OP_CLOSE False None (Some self)) w
       (UringioSocket_aexit E self body_exc w)"
  by (intro conjI socket_listen.atomic socket_bind.atomic socket_connect.atomic socket_send.atomic
      socket_close.atomic socket_aexit.atomic assms)

theorem socket_methods_contract_witness:
  "api_outcome (request_of IORING_OP_SEND True None (Some 8)) idle_loop
     (UringioSocket_send sample_env 8 5 0 P_missing idle_loop) \<and>
   (\<exists>w'. UringioSocket_send sample_env 8 5 0 P_missing idle_loop = Some (Some 900, w'))"
  using socket_methods_contract [of idle_loop 8 sample_env] sample_send_call by simp

text \<open>C10: the same for reading from a file and receiving from a socket into a buffer of the request's
  own, for a size that is not negative and an allocator that has memory for the array of one
  buffer and for a buffer of that size.  Without that memory the code carries on with a payload
  whose buffers are indeterminate and the call is undefined: \<open>read_without_memory\<close>.\<close>

theorem reading_contract:
  assumes "loop_ok w" "context_ready E w" "plain_context w"
  shows
    "(file_ready self E w \<and> allocating size_i E \<longrightarrow>
        api_outcome (request_of IORING_OP_READ True (Some self) None) w
          (UringioFile_read E self offset size_i tobj w)) \<and>
     (socket_ready self E w \<and> allocating bufsize E \<longrightarrow>
        api_outcome (request_of IORING_OP_RECV True None (Some self)) w
          (UringioSocket_recv E self bufsize None is_poll_first tobj w))"
  using file_read.atomic [OF assms(1)] socket_recv.atomic [OF assms(1)] assms(2,3)
  by (simp add: read_ready_def)

theorem reading_contract_witness:
  "api_outcome (request_of IORING_OP_READ True (Some 7) None) idle_loop
     (UringioFile_read sample_env 7 0 16 P_missing idle_loop) \<and>
   api_outcome (request_of IORING_OP_RECV True None (Some 8)) idle_loop
     (UringioSocket_recv sample_env 8 32 None 0 P_missing idle_loop)"
  using reading_contract [of idle_loop sample_env 7 16 0 P_missing 8 32]
    reading_contract [of idle_loop sample_env 8 16 0 P_missing 32 0] by simp

text \<open>A size of \<open>-1\<close>, which asks for more than the allocator ever gives, makes the call undefined.\<close>

theorem read_without_memory_witness:
  "UringioFile_read (sample_env\<lparr>e_pymem_malloc := (\<lambda>h n. if n < 2 ^ 63 then fresh_ptr h else 0)\<rparr>)
     7 0 (-1) P_missing idle_loop = None"
  by (rule read_without_memory [where f = "\<lparr>file_fd = Some 9, file_closed = False\<rparr>"])
    (simp_all add: size_t_def fresh_ptr_def idle_loop_current context_ready_def idle_loop_context_var)

text \<open>C11: the same for the timer of the loop, whatever its parameters are.\<close>

theorem timer_contract:
  assumes "loop_ok w" "context_ready E w"
  shows "api_outcome (request_of IORING_OP_TIMEOUT False None None) w
     (UringioLoop_timer E timer_obj w)"
  by (rule loop_timer.atomic [OF assms])

theorem timer_contract_witness:
  "api_outcome (request_of IORING_OP_TIMEOUT False None None) idle_loop
     (UringioLoop_timer sample_env P_none idle_loop)"
  by (rule timer_contract) simp_all

section \<open>The whole way of a request\<close>

text \<open>C7: a write from the call to its completion: the call that returned a future submitted an entry
  with an index, and the completion that comes back with that index resolves that future with the
  number of bytes the kernel reports.  Afterwards the pending requests are those from before the
  call and the ledger differs by the caller's reference to the future only: the payload, the
  export of the caller's data and every reference have been given back exactly once.\<close>

theorem write_round_trip:
  assumes "loop_ok w" "file_ready self E w" "\<forall>h. e_alloc_value E h"
    "UringioFile_write E self data offset tobj w = Some (Some fut, w')"
  shows "\<exists>i. submitted i w' \<and> (\<forall>c. cqe_user_data c = user_data_of i \<longrightarrow> 0 \<le> cqe_res c \<longrightarrow>
     (\<exists>w''. handle_cqe E c w' = Some w'' \<and> loop_ok w'' \<and> pending w'' = pending w \<and>
        resolutions (hist w'') = resolutions (hist w') @ [(fut, Inr (PyLong (cqe_res c)))] \<and>
        (\<forall>r. ledger (hist w'') r = ledger (hist w) r + of_bool (r = Reference fut))))"
  by (rule write_counts.succeeds [OF assms(1,2,4,3)])

theorem write_round_trip_witness:
  "\<exists>w' w'' i. UringioFile_write sample_env 7 5 0 P_missing idle_loop = Some (Some 900, w') \<and>
     handle_cqe sample_env \<lparr>cqe_user_data = user_data_of i, cqe_res = 16, cqe_flags = 0\<rparr> w' =
       Some w'' \<and>
     (900, Inr (PyLong 16)) \<in> set (resolutions (hist w'')) \<and> pending w'' = Map.empty"
proof -
  obtain w' where call: "UringioFile_write sample_env 7 5 0 P_missing idle_loop = Some (Some 900, w')"
    using sample_write_call by blast
  have "\<exists>i. submitted i w' \<and> (\<forall>c. cqe_user_data c = user_data_of i \<longrightarrow> 0 \<le> cqe_res c \<longrightarrow>
     (\<exists>w''. handle_cqe sample_env c w' = Some w'' \<and> loop_ok w'' \<and> pending w'' = pending idle_loop \<and>
        resolutions (hist w'') = resolutions (hist w') @ [(900, Inr (PyLong (cqe_res c)))] \<and>
        (\<forall>r. ledger (hist w'') r = ledger (hist idle_loop) r + of_bool (r = Reference 900))))"
    by (rule write_round_trip [OF _ _ _ call]) simp_all
  then obtain i where "\<exists>w''. handle_cqe sample_env
        \<lparr>cqe_user_data = user_data_of i, cqe_res = 16, cqe_flags = 0\<rparr> w' = Some w'' \<and>
      (900, Inr (PyLong 16)) \<in> set (resolutions (hist w'')) \<and> pending w'' = Map.empty"
    by (force simp: idle_loop_pending)
  with call show ?thesis by blast
qed

text \<open>C12: a send that the kernel fails: the future that the call returned gets \<open>OSError\<close> with the
  error number, and nothing is left of the request but the caller's reference to the future.\<close>

theorem send_failure_round_trip:
  assumes "loop_ok w" "socket_ready self E w" "context_ready E w" "\<forall>h. e_alloc_value E h"
    "UringioSocket_send E self data is_poll_first tobj w = Some (Some fut, w')"
  shows "\<exists>i. submitted i w' \<and> (\<forall>c. cqe_user_data c = user_data_of i \<longrightarrow> cqe_res c < 0 \<longrightarrow>
     cqe_res c \<noteq> - (2 ^ 31) \<longrightarrow> cqe_res c \<noteq> - ETIME \<longrightarrow>
     (\<exists>w''. handle_cqe E c w' = Some w'' \<and> loop_ok w'' \<and> pending w'' = pending w \<and>
        resolutions (hist w'') = resolutions (hist w') @ [(fut, Inl (OSError (- cqe_res c)))] \<and>
        (\<forall>r. ledger (hist w'') r = ledger (hist w) r + of_bool (r = Reference fut))))"
  by (rule socket_send.fails_cleanly [OF assms(1) conjI [OF assms(2,3)] assms(5,4)])

theorem send_failure_round_trip_witness:
  "\<exists>w' w'' i. UringioSocket_send sample_env 8 5 0 P_missing idle_loop = Some (Some 900, w') \<and>
     handle_cqe sample_env \<lparr>cqe_user_data = user_data_of i, cqe_res = -32, cqe_flags = 0\<rparr> w' =
       Some w'' \<and>
     (900, Inl (OSError 32)) \<in> set (resolutions (hist w'')) \<and> pending w'' = Map.empty"
proof -
  obtain w' where call: "UringioSocket_send sample_env 8 5 0 P_missing idle_loop = Some (Some 900, w')"
    using sample_send_call by blast
  have "\<exists>i. submitted i w' \<and> (\<forall>c. cqe_user_data c = user_data_of i \<longrightarrow> cqe_res c < 0 \<longrightarrow>
     cqe_res c \<noteq> - (2 ^ 31) \<longrightarrow> cqe_res c \<noteq> - ETIME \<longrightarrow>
     (\<exists>w''. handle_cqe sample_env c w' = Some w'' \<and> loop_ok w'' \<and> pending w'' = pending idle_loop \<and>
        resolutions (hist w'') = resolutions (hist w') @ [(900, Inl (OSError (- cqe_res c)))] \<and>
        (\<forall>r. ledger (hist w'') r = ledger (hist idle_loop) r + of_bool (r = Reference 900))))"
    by (rule send_failure_round_trip [OF _ _ _ _ call]) simp_all
  then obtain i where i: "cqe_user_data c = user_data_of i \<Longrightarrow> cqe_res c < 0 \<Longrightarrow>
      cqe_res c \<noteq> - (2 ^ 31) \<Longrightarrow> cqe_res c \<noteq> - ETIME \<Longrightarrow>
      \<exists>w''. handle_cqe sample_env c w' = Some w'' \<and> pending w'' = pending idle_loop \<and>
        resolutions (hist w'') = resolutions (hist w') @ [(900, Inl (OSError (- cqe_res c)))]" for c
    by blast
  have "\<exists>w''. handle_cqe sample_env
        \<lparr>cqe_user_data = user_data_of i, cqe_res = -32, cqe_flags = 0\<rparr> w' = Some w'' \<and>
      (900, Inl (OSError 32)) \<in> set (resolutions (hist w'')) \<and> pending w'' = Map.empty"
    using i [of "\<lparr>cqe_user_data = user_data_of i, cqe_res = -32, cqe_flags = 0\<rparr>"]
    by (auto simp: idle_loop_pending)
  with call show ?thesis by blast
qed

end
