(* ===== verification/Quiet_Calls.thy ===== *)
theory Quiet_Calls
  imports Loop_Contract Reader_Loop Socket_Contract
begin

text \<open>
  The methods without a payload resolve no future: whatever they do, they return or raise without
  telling any future a result.  Only completions resolve futures.
\<close>

definition quiet :: "(loopst \<Rightarrow> ('r \<times> loopst) option) \<Rightarrow> bool" where
  "quiet f \<longleftrightarrow> (\<forall>w r w'. f w = Some (r, w') \<longrightarrow> resolutions (hist w') = resolutions (hist w))"

named_theorems quiet_intros

lemma quietD: "f w = Some (r, w') \<Longrightarrow> quiet f \<Longrightarrow> resolutions (hist w') = resolutions (hist w)"
  by (simp add: quiet_def)

section \<open>The steps of a method\<close>

lemma quiet_raise [quiet_intros]: "quiet (raise_exc e)"
  by (simp add: quiet_def raise_exc_def)

lemma quiet_guards [quiet_intros]:
  "quiet rest \<Longrightarrow> quiet (ASSERT_LOOP_THREAD E rest)"
  "quiet rest \<Longrightarrow> quiet (ASSERT_RING_LOOP_IS_CLOSING E rest)"
  "quiet rest \<Longrightarrow> quiet (file_guard E self rest)"
  "quiet rest \<Longrightarrow> quiet (socket_guard E self rest)"
  by (auto simp: quiet_def ASSERT_LOOP_THREAD_def ASSERT_RING_LOOP_IS_CLOSING_def file_guard_def
      socket_guard_def raise_exc_def bind_eq_Some_conv split: if_splits)

lemma quiet_with_timeout [quiet_intros]:
  assumes "\<And>tp. quiet (rest tp)"
  shows "quiet (with_timeout obj rest)"
  unfolding quiet_def
proof (intro allI impI)
  fix w r w' assume run: "with_timeout obj rest w = Some (r, w')"
  obtain x tp v where v: "parse_timeout_params obj no_timeout w = (x, tp, v)" by (metis surj_pair)
  from parse_timeout_state [OF v] have "resolutions (hist v) = resolutions (hist w)" by auto
  with run v assms show "resolutions (hist w') = resolutions (hist w)"
    by (auto simp: with_timeout_def quiet_def split: if_splits)
qed

lemma quiet_with_future [quiet_intros]:
  assumes "\<And>fut. quiet (rest fut)"
  shows "quiet (with_future E rest)"
  using assms by (auto simp: quiet_def with_future_def create_future_def Let_def split: option.splits)

lemma quiet_with_future_or:
  assumes "\<And>fut. quiet (rest fut)"
    "\<And>w w'. undo w = Some w' \<Longrightarrow> resolutions (hist w') = resolutions (hist w)"
  shows "quiet (with_future_or E undo rest)"
  using assms
  by (fastforce simp: quiet_def with_future_or_def create_future_def Let_def split: option.splits)

lemma resolutions_opt_ref [simp]:
  "resolutions (hist (opt_incref x w)) = resolutions (hist w)"
  "resolutions (hist (opt_decref x w)) = resolutions (hist w)"
  by (cases x; simp add: opt_incref_def opt_decref_def)+

lemma loop_add_quiet:
  "loop_registry_add fut bp strategy opc file socket sockaddr msghdr w = Some (i, w') \<Longrightarrow>
     resolutions (hist w') = resolutions (hist w)"
  by (auto simp: loop_registry_add_def registry_add_def bind_eq_Some_conv Let_def split: if_splits)

lemma quiet_checks: "quiet (check_file_result r i fut)" "quiet (check_sockets_result r i fut)"
  by (auto simp: quiet_def check_file_result_def check_sockets_result_def bind_eq_Some_conv Let_def
      dest!: loop_remove_quiet(1) split: if_splits)

lemma quiet_registered:
  assumes "\<And>r i. quiet (check r i fut)" "quiet full" "\<And>i. quiet (run i)"
  shows "quiet (registered check fut bp strategy opc file socket sockaddr msghdr full run)"
  unfolding quiet_def registered_def
  by (auto simp: bind_eq_Some_conv dest!: loop_add_quiet quietD [OF _ assms(1)] quietD [OF _ assms(2)]
      quietD [OF _ assms(3)] split: if_splits)

lemma issue_quiet:
  assumes "issue E body i tp w = (result, w')"
  shows "resolutions (hist w') = resolutions (hist w)"
proof -
  have lu: "resolutions (map Lu cs) = []" for cs by (induction cs) simp_all
  obtain h where "issue_events E body i tp (hist w) = (result, h)" "w' = w\<lparr>hist := h\<rparr>"
    using assms by (auto simp: issue_eq split: prod.splits)
  then show ?thesis
    by (auto simp: issue_events_def timeout_events_def lu Let_def split: if_splits)
qed

lemma perform_quiet:
  "perform_framed rq E i tp w = (r, w') \<Longrightarrow> resolutions (hist w') = resolutions (hist w)"
  unfolding request.op_issue by (rule issue_quiet)

section \<open>The methods\<close>

lemma quiet_file_request:
  assumes "\<And>i. quiet (run i)"
  shows "quiet (file_request self fut bp strategy opc run)"
  unfolding file_request_registered
proof (rule quiet_registered [OF quiet_checks(1) _ assms])
  show "quiet (\<lambda>w. Option.bind (free_buffer_payload bp False (py (Decref fut) w))
      (raise_exc (RuntimeError ''Registry is full'')))"
    by (auto simp: quiet_def raise_exc_def bind_eq_Some_conv dest!: free_payload_quiet(1))
qed

lemma quiet_runs:
  assumes "\<And>fd w. op E i fd tp w = perform_framed (rq fd) E i tp w"
  shows "quiet (fd_run op E self tp i)" "quiet (sock_run op E self tp i)"
  by (auto simp: quiet_def fd_run_def sock_run_def assms dest: perform_quiet)

lemma quiet_file_methods:
  "quiet (UringioFile_fsync E self tobj)" "quiet (UringioFile_fdatasync E self tobj)"
  "quiet (UringioFile_splice E self src dst cnt offset_src offset_dst flag tobj)"
proof -
  have fsync: "quiet (fd_run uringio_fsync E self tp i)" for tp i
    by (rule quiet_runs(1) [where rq = R_fsync]) simp
  have fdatasync: "quiet (fd_run uringio_fdatasync E self tp i)" for tp i
    by (rule quiet_runs(1) [where rq = R_fdatasync]) simp
  have splice: "quiet (\<lambda>w. Some (uringio_splice E i src offset_src dst offset_dst cnt flag tp w))" for tp i
    using perform_quiet [of "R_splice src offset_src dst offset_dst cnt flag"] by (auto simp: quiet_def)
  show "quiet (UringioFile_fsync E self tobj)" "quiet (UringioFile_fdatasync E self tobj)"
    "quiet (UringioFile_splice E self src dst cnt offset_src offset_dst flag tobj)"
    unfolding UringioFile_fsync_def UringioFile_fdatasync_def UringioFile_splice_def
    by (intro quiet_intros quiet_file_request fsync fdatasync splice)+
qed

lemma free_addr_quiet [simp]: "resolutions (hist (free_addr p w)) = resolutions (hist w)"
  by (simp add: free_addr_def c_free_def event_simps)

lemma serialize_address_quiet:
  "serialize_address E host port domain w = (a, w') \<Longrightarrow> resolutions (hist w') = resolutions (hist w)"
  by (auto simp: serialize_address_def fill_address_def c_malloc_def put_addr_def Let_def
      split: if_splits option.splits)

lemma quiet_address_request:
  assumes op: "\<And>fd a n i tp w. op E i fd a n tp w = perform_framed (rq fd a n) E i tp w"
    and full: "\<And>a fut. quiet (full a fut)"
  shows "quiet (address_request op opc full E self host port tobj)"
proof -
  have run: "quiet (\<lambda>w. map_option (\<lambda>fd. let (result, w) = op E i fd a n tp w in (result, free_addr a w))
      (sock_fd_of w self))" for i a n tp
    by (auto simp: quiet_def op split_beta perform_quiet [OF prod.collapse [symmetric]])
  have req: "quiet (with_future_or E (\<lambda>w. Some (free_addr a w)) (\<lambda>fut.
      socket_request self fut 0 ONESHOT opc 0 0 (full a fut) (\<lambda>i w. map_option (\<lambda>fd.
        let (result, w) = op E i fd a n tp w in (result, free_addr a w)) (sock_fd_of w self))))" for a n tp
    unfolding socket_request_registered
    by (rule quiet_with_future_or, rule quiet_registered [OF quiet_checks(2) full run]) auto
  have "quiet (\<lambda>w. do {
      s \<leftarrow> sockets w self;
      domain \<leftarrow> sock_domain s;
      let (addr, w) = serialize_address E (Some host) port domain w;
      if addr = 0 then Some (None, w)
      else with_future_or E (\<lambda>w. Some (free_addr addr w)) (\<lambda>fut w.
             socket_request self fut 0 ONESHOT opc 0 0 (full addr fut)
               (\<lambda>i w. map_option (\<lambda>fd.
                  let (result, w) = op E i fd addr (get_socket_size domain) tp w
                  in (result, free_addr addr w)) (sock_fd_of w self)) w) w
    })" (is "quiet (?body tp)") for tp
    unfolding quiet_def
  proof (intro allI impI)
    fix w r w' assume run: "?body tp w = Some (r, w')"
    then obtain s domain where s: "sockets w self = Some s" "sock_domain s = Some domain"
      by (auto simp: bind_eq_Some_conv)
    obtain a v where v: "serialize_address E (Some host) port domain w = (a, v)" by (metis surj_pair)
    have "resolutions (hist w') = resolutions (hist v)"
      using run s v quietD [OF _ req, of a "get_socket_size domain" tp v]
      by (auto simp: Let_def split: if_splits)
    then show "resolutions (hist w') = resolutions (hist w)" using serialize_address_quiet [OF v] by simp
  qed
  then show ?thesis unfolding address_request_def by (intro quiet_intros)
qed

lemma quiet_socket_methods:
  "quiet (UringioSocket_listen E self backlog tobj)" "quiet (UringioSocket_bind E self host port tobj)"
  "quiet (UringioSocket_connect E self host port tobj)"
proof -
  have listen: "quiet (sock_run (\<lambda>E i fd. uringio_listen E i fd backlog) E self tp i)" for tp i
    by (rule quiet_runs(2) [where rq = "\<lambda>fd. R_listen fd backlog"]) simp
  show "quiet (UringioSocket_listen E self backlog tobj)"
    unfolding UringioSocket_listen_def socket_request_registered full_plain_def
    by (intro quiet_intros quiet_registered quiet_checks listen) (auto simp: quiet_def raise_exc_def)
  show "quiet (UringioSocket_bind E self host port tobj)"
    unfolding UringioSocket_bind_def
    by (rule quiet_address_request [where rq = R_bind]) (auto simp: quiet_def raise_exc_def)
  show "quiet (UringioSocket_connect E self host port tobj)"
    unfolding UringioSocket_connect_def
    by (rule quiet_address_request [where rq = R_connect]) (auto simp: quiet_def)
qed

lemma ContextVar_get_quiet:
  "ContextVar_get E d w = (x, w') \<Longrightarrow> resolutions (hist w') = resolutions (hist w)"
  by (auto simp: ContextVar_get_def py_new_def Let_def split: if_splits option.splits ctx_value.splits)

lemma quiet_timer: "quiet (UringioLoop_timer E timer_obj)"
proof -
  have run: "quiet (\<lambda>w. Some (timer E i (Some tp) w))" for i tp
    unfolding timer_issue by (auto simp: quiet_def dest: issue_quiet)
  have req: "quiet (with_future E (\<lambda>fut. timer_request fut tp E))" for tp
    unfolding timer_request_def
    by (intro quiet_intros quiet_registered quiet_checks run) (auto simp: quiet_def raise_exc_def)
  let ?rest = "\<lambda>w. do {
       (strategy, w) \<leftarrow> get_stream_strategy E w;
       let (r, tp, w) = (if timer_obj = P_missing \<or> timer_obj = P_none then (1, zero_timer, w)
                         else parse_timer_params timer_obj strategy zero_timer w);
       if r < 0 then Some (None, w)
       else with_future E (\<lambda>fut. timer_request fut tp E) w
     }"
  have "quiet ?rest"
    unfolding quiet_def
  proof (intro allI impI)
    fix w r w' assume run: "?rest w = Some (r, w')"
    then obtain strategy v where g: "get_stream_strategy E w = Some (strategy, v)"
      by (cases "get_stream_strategy E w") auto
    then obtain c where c: "ContextVar_get E None w = (c, v)"
      by (auto simp: get_stream_strategy_def current_field_def bind_eq_Some_conv split: prod.splits)
    obtain x tp u where u: "(if timer_obj = P_missing \<or> timer_obj = P_none then (1, zero_timer, v)
        else parse_timer_params timer_obj strategy zero_timer v) = (x, tp, u)" by (metis surj_pair)
    then have "resolutions (hist u) = resolutions (hist v)"
      by (auto split: if_splits dest!: parse_timer_state)
    moreover have "resolutions (hist w') = resolutions (hist u)"
      using run quietD [OF _ req] by (auto simp: g u split: if_splits)
    ultimately show "resolutions (hist w') = resolutions (hist w)"
      using ContextVar_get_quiet [OF c] by simp
  qed
  then show ?thesis unfolding timer_registered by (intro quiet_intros)
qed

end
