(* ===== verification/Loop_Session.thy ===== *)
theory Loop_Session
  imports Api_Properties Quiet_Calls "HOL-Library.Multiset"
begin

text \<open>
  Sessions: calls of the methods that carry no payload, interleaved in any order with the completions
  of the kernel, as a step relation; the abstract table of outstanding futures that a client
  reasons with, and the simulation between the two.
\<close>

section \<open>Steps\<close>

text \<open>What a client sees of a step: the future a call returned, that it raised, or the futures that a
  completion resolved and with what.\<close>

datatype action = Returned obj | Raised | Handled "(obj \<times> (pyexc + pyval)) list"

fun visible :: "obj option \<Rightarrow> action" where
  "visible None = Raised"
| "visible (Some fut) = Returned fut"

text \<open>The futures that an action resolves.\<close>

fun answered :: "action \<Rightarrow> (obj \<times> (pyexc + pyval)) list" where
  "answered (Handled rs) = rs"
| "answered _ = []"

text \<open>A completion of the kernel: it answers an entry of a request or the wakeup read, and its result
  is not the one integer that has no negation.\<close>

definition from_kernel :: "cqe \<Rightarrow> bool" where
  "from_kernel c \<longleftrightarrow> cqe_res c \<noteq> - (2 ^ 31) \<and>
     (cqe_user_data c = WAKEUP_FD_TAG \<or> (\<exists>i. is_c_int i \<and> cqe_user_data c = user_data_of i))"

inductive step :: "env \<Rightarrow> loopst \<Rightarrow> action \<Rightarrow> loopst \<Rightarrow> bool" for E where
  fsync: "file_ready self E w \<Longrightarrow> UringioFile_fsync E self tobj w = Some (r, w') \<Longrightarrow>
    step E w (visible r) w'"
| fdatasync: "file_ready self E w \<Longrightarrow> UringioFile_fdatasync E self tobj w = Some (r, w') \<Longrightarrow>
    step E w (visible r) w'"
| splice: "file_ready self E w \<Longrightarrow>
    UringioFile_splice E self src dst cnt offset_src offset_dst flag tobj w = Some (r, w') \<Longrightarrow>
    step E w (visible r) w'"
| listen: "socket_ready self E w \<Longrightarrow> UringioSocket_listen E self backlog tobj w = Some (r, w') \<Longrightarrow>
    step E w (visible r) w'"
| bind: "socket_ready self E w \<Longrightarrow> UringioSocket_bind E self host port tobj w = Some (r, w') \<Longrightarrow>
    step E w (visible r) w'"
| connect: "socket_ready self E w \<Longrightarrow>
    UringioSocket_connect E self host port tobj w = Some (r, w') \<Longrightarrow> step E w (visible r) w'"
| timer: "context_ready E w \<Longrightarrow> UringioLoop_timer E timer_obj w = Some (r, w') \<Longrightarrow>
    step E w (visible r) w'"
| completion: "from_kernel c \<Longrightarrow> handle_cqe E c w = Some w' \<Longrightarrow>
    resolutions (hist w') = resolutions (hist w) @ rs \<Longrightarrow> step E w (Handled rs) w'"

inductive session :: "env \<Rightarrow> loopst \<Rightarrow> action list \<Rightarrow> loopst \<Rightarrow> bool" for E where
  none: "session E w [] w"
| more: "session E w as v \<Longrightarrow> step E v a w' \<Longrightarrow> session E w (as @ [a]) w'"

section \<open>The abstract table\<close>

text \<open>A client's view of the loop: which futures are outstanding, under which index.\<close>

type_synonym table = "int \<rightharpoonup> obj"

definition outstanding :: "loopst \<Rightarrow> table" where
  "outstanding w i = Option.bind (pending w i) future"

inductive spec_step :: "table \<Rightarrow> action \<Rightarrow> table \<Rightarrow> bool" where
  accept: "t i = None \<Longrightarrow> spec_step t (Returned fut) (t(i \<mapsto> fut))"
| refuse: "spec_step t Raised t"
| resolve: "t i = Some fut \<Longrightarrow> spec_step t (Handled [(fut, v)]) (t(i := None))"
| drop: "spec_step t (Handled []) t"

inductive spec_session :: "table \<Rightarrow> action list \<Rightarrow> table \<Rightarrow> bool" where
  none: "spec_session t [] t"
| more: "spec_session t as u \<Longrightarrow> spec_step u a t' \<Longrightarrow> spec_session t (as @ [a]) t'"

inductive_cases spec_stepE [elim]: "spec_step t a t'"

section \<open>The invariant and the simulation\<close>

text \<open>Every pending request is one whose completion needs nothing but itself.\<close>

definition light :: "RequestSlot \<Rightarrow> bool" where
  "light s \<longleftrightarrow> buffer_payload s = 0 \<and>
     (opcode s \<in> {IORING_OP_FSYNC, IORING_OP_SPLICE, IORING_OP_TIMEOUT} \<or>
      opcode s \<in> {IORING_OP_BIND, IORING_OP_CONNECT, IORING_OP_LISTEN} \<and> slot_socket s \<noteq> None)"

definition tidy :: "loopst \<Rightarrow> bool" where
  "tidy w \<longleftrightarrow> loop_ok w \<and> (\<forall>i s. pending w i = Some s \<longrightarrow> future s \<noteq> None \<and> light s)"

lemma light_payload_free: "light s \<Longrightarrow> from_kernel c \<Longrightarrow> payload_free s c"
  by (simp add: light_def payload_free_def from_kernel_def)

lemma tidy_add:
  assumes "tidy w" "loop_ok w'" "pending w' = (pending w)(i \<mapsto> s)" "future s = Some fut" "light s"
  shows "tidy w' \<and> outstanding w' = (outstanding w)(i \<mapsto> fut)"
  using assms by (auto simp: tidy_def outstanding_def fun_eq_iff)

lemma tidy_remove:
  assumes "tidy w" "loop_ok w'" "pending w' = (pending w)(i := None)"
  shows "tidy w' \<and> outstanding w' = (outstanding w)(i := None)"
  using assms by (auto simp: tidy_def outstanding_def fun_eq_iff)

lemma tidy_same:
  assumes "tidy w" "loop_ok w'" "pending w' = pending w"
  shows "tidy w' \<and> outstanding w' = outstanding w"
  using assms by (auto simp: tidy_def outstanding_def fun_eq_iff)

text \<open>A step keeps the invariant, is a step of the table and resolves what its action shows.\<close>

definition simulated :: "loopst \<Rightarrow> action \<Rightarrow> loopst \<Rightarrow> bool" where
  "simulated w a w' \<longleftrightarrow> tidy w' \<and> spec_step (outstanding w) a (outstanding w') \<and>
     resolutions (hist w') = resolutions (hist w) @ answered a"

text \<open>The methods whose requests are light and that resolve nothing themselves.\<close>

locale light_method = api_method +
  assumes light: "Q s \<Longrightarrow> light s"
    and silent: "quiet (call E)"
begin

lemma simulates:
  assumes "tidy w" "ready E w" "call E w = Some (r, w')"
  shows "simulated w (visible r) w'"
proof (cases r)
  case None
  have ok: "loop_ok w" using assms(1) by (simp add: tidy_def)
  have "loop_ok w'" using defined [OF ok assms(2)] assms(3) by simp
  moreover have "pending w' = pending w" using refused [OF ok assms(2)] assms(3) None by blast
  ultimately show ?thesis
    using tidy_same [OF assms(1)] None quietD [of "call E", OF assms(3) silent]
    by (auto simp: simulated_def intro: spec_step.refuse)
next
  case (Some fut)
  have ok: "loop_ok w" using assms(1) by (simp add: tidy_def)
  from accepted [OF ok assms(2)] assms(3) Some obtain i s where
    s: "pending w i = None" "pending w' = (pending w)(i \<mapsto> s)" "future s = Some fut" "Q s" "loop_ok w'"
    by blast
  then have "outstanding w i = None" by (simp add: outstanding_def)
  with tidy_add [OF assms(1) s(5,2,3) light [OF s(4)]] Some quietD [of "call E", OF assms(3) silent]
  show ?thesis by (auto simp: simulated_def intro: spec_step.accept)
qed

end

lemmas light_simps = light_def request_of_def
lemmas quiet_methods = quiet_file_methods quiet_socket_methods quiet_timer

interpretation light_fsync: light_method "\<lambda>E. UringioFile_fsync E self tobj" "file_ready self"
  "request_of IORING_OP_FSYNC False (Some self) None" for self tobj
  by unfold_locales (simp_all add: light_simps quiet_methods)

interpretation light_fdatasync: light_method "\<lambda>E. UringioFile_fdatasync E self tobj"
  "file_ready self" "request_of IORING_OP_FSYNC False (Some self) None" for self tobj
  by unfold_locales (simp_all add: light_simps quiet_methods)

interpretation light_splice: light_method
  "\<lambda>E. UringioFile_splice E self src dst cnt offset_src offset_dst flag tobj" "file_ready self"
  "request_of IORING_OP_SPLICE False (Some self) None"
  for self src dst cnt offset_src offset_dst flag tobj
  by unfold_locales (simp_all add: light_simps quiet_methods)

interpretation light_listen: light_method "\<lambda>E. UringioSocket_listen E self backlog tobj"
  "socket_ready self" "request_of IORING_OP_LISTEN False None (Some self)" for self backlog tobj
  by unfold_locales (simp_all add: light_simps quiet_methods)

interpretation light_bind: light_method "\<lambda>E. UringioSocket_bind E self host port tobj"
  "socket_ready self" "request_of IORING_OP_BIND False None (Some self)" for self host port tobj
  by unfold_locales (simp_all add: light_simps quiet_methods)

interpretation light_connect: light_method "\<lambda>E. UringioSocket_connect E self host port tobj"
  "socket_ready self" "request_of IORING_OP_CONNECT False None (Some self)" for self host port tobj
  by unfold_locales (simp_all add: light_simps quiet_methods)

interpretation light_timer: light_method "\<lambda>E. UringioLoop_timer E timer_obj" context_ready
  "request_of IORING_OP_TIMEOUT False None None" for timer_obj
  by unfold_locales (simp_all add: light_simps quiet_methods)

lemma completion_simulates:
  assumes "tidy w" "from_kernel c" "handle_cqe E c w = Some w'"
    "resolutions (hist w') = resolutions (hist w) @ rs" "\<forall>h. e_alloc_value E h"
  shows "simulated w (Handled rs) w'"
proof (cases "pending w (index_of (cqe_user_data c))")
  case None
  have ok: "loop_ok w" using assms(1) by (simp add: tidy_def)
  from handle_cqe_unknown [OF ok None] assms(3) have w': "w' = lu (Cqe_seen c) w" by simp
  have rs: "rs = []" using assms(4) unfolding w' by simp
  have "ext.more w' = ext.more w" unfolding w' by simp
  note same = loopst_more [OF this]
  have "tidy w' \<and> outstanding w' = outstanding w"
    by (rule tidy_same [OF assms(1)]) (simp_all add: same ok)
  then show ?thesis using assms(4) unfolding simulated_def rs by (simp add: spec_step.drop)
next
  case (Some s)
  let ?i = "index_of (cqe_user_data c)"
  have ok: "loop_ok w" and s: "light s" using assms(1) Some by (auto simp: tidy_def)
  obtain fut where fut: "future s = Some fut" using assms(1) Some by (auto simp: tidy_def)
  have ud: "cqe_user_data c = user_data_of ?i"
    using assms(2) Some pending_nonneg [OF ok, of "- 1"] index_of_user_data_of
    by (auto simp: from_kernel_def)
  from payload_free_handled [OF ok Some fut light_payload_free [OF s assms(2)] ud assms(5)] assms(3)
  have res: "resolved ?i s fut (Some (answer s c)) (\<lambda>r. 0) w w'" by simp
  then have w': "loop_ok w'" "pending w' = (pending w)(?i := None)" and rs: "rs = [(fut, answer s c)]"
    using assms(4) by (simp_all add: resolved_def)
  have "outstanding w ?i = Some fut" using Some fut by (simp add: outstanding_def)
  from spec_step.resolve [of "outstanding w" ?i fut, OF this] tidy_remove [OF assms(1) w'] show ?thesis
    using assms(4) unfolding simulated_def rs by simp
qed

lemma step_simulates:
  assumes "step E w a w'" "tidy w" "\<forall>h. e_alloc_value E h"
  shows "simulated w a w'"
  using assms
  by (cases rule: step.cases) (auto intro: light_fsync.simulates light_fdatasync.simulates
      light_splice.simulates light_listen.simulates light_bind.simulates light_connect.simulates
      light_timer.simulates completion_simulates)

lemma session_simulates:
  assumes "session E w as w'" "tidy w" "\<forall>h. e_alloc_value E h"
  shows "tidy w' \<and> spec_session (outstanding w) as (outstanding w') \<and>
     resolutions (hist w') = resolutions (hist w) @ concat (map answered as)"
  using assms
proof (induction rule: session.induct)
  case (more w as v a w')
  then have "tidy v" "spec_session (outstanding w) as (outstanding v)"
    "resolutions (hist v) = resolutions (hist w) @ concat (map answered as)" by simp_all
  with step_simulates [OF more.hyps(2)] more.prems show ?case
    by (auto simp: simulated_def intro: spec_session.more)
qed (simp add: spec_session.none)

section \<open>Counting futures\<close>

text \<open>The futures an action returned and the futures of a table.\<close>

fun issued_by :: "action \<Rightarrow> obj list" where
  "issued_by (Returned fut) = [fut]"
| "issued_by _ = []"

definition futures :: "table \<Rightarrow> obj multiset" where
  "futures t = image_mset (\<lambda>i. the (t i)) (mset_set (dom t))"

lemma futures_empty [simp]: "futures Map.empty = {#}"
  by (simp add: futures_def)

lemma futures_insert:
  assumes "finite (dom t)" "t i = None"
  shows "futures (t(i \<mapsto> fut)) = add_mset fut (futures t)"
proof -
  have "image_mset (\<lambda>j. the ((t(i \<mapsto> fut)) j)) (mset_set (dom t)) =
      image_mset (\<lambda>j. the (t j)) (mset_set (dom t))"
    using assms by (intro image_mset_cong) auto
  then show ?thesis using assms by (simp add: futures_def domIff)
qed

lemma futures_delete:
  assumes "finite (dom t)" "t i = Some fut"
  shows "futures t = add_mset fut (futures (t(i := None)))"
proof -
  have "finite (dom (t(i := None)))" using assms(1) by simp
  from futures_insert [OF this, of i fut] show ?thesis using assms(2) by (simp add: fun_upd_idem)
qed

text \<open>The abstract table neither loses nor invents a future.\<close>

lemma spec_step_conserves:
  assumes "spec_step t a t'" "finite (dom t)"
  shows "finite (dom t') \<and>
     futures t + mset (issued_by a) = futures t' + mset (map fst (answered a))"
  using assms by (cases rule: spec_step.cases) (auto simp: futures_insert dest: futures_delete)

lemma spec_session_conserves:
  assumes "spec_session t as t'" "finite (dom t)"
  shows "finite (dom t') \<and>
     futures t + mset (concat (map issued_by as)) = futures t' + mset (map fst (concat (map answered as)))"
  using assms
proof (induction rule: spec_session.induct)
  case (more t as u a t')
  then have "finite (dom u)" and IH: "futures t + mset (concat (map issued_by as)) =
      futures u + mset (map fst (concat (map answered as)))" by simp_all
  note st = spec_step_conserves [OF more.hyps(2) this(1)]
  have "futures t + mset (concat (map issued_by (as @ [a]))) =
      (futures t + mset (concat (map issued_by as))) + mset (issued_by a)" by simp
  also have "\<dots> = (futures u + mset (issued_by a)) + mset (map fst (concat (map answered as)))"
    unfolding IH by simp
  also have "\<dots> = futures t' + mset (map fst (concat (map answered (as @ [a]))))"
    using st by simp
  finally show ?case using st by simp
qed simp

lemma outstanding_finite:
  assumes "loop_ok w"
  shows "finite (dom (outstanding w))"
proof -
  obtain reg where reg: "registry w = Some reg" using assms by (auto simp: loop_ok_def split: option.splits)
  have "dom (outstanding w) \<subseteq> {0..<sint (reg_size reg)}"
    using requests_in_range by (fastforce simp: outstanding_def pending_def reg bind_eq_Some_conv)
  then show ?thesis by (rule finite_subset) simp
qed

section \<open>The reader at the end of a session\<close>

text \<open>The unread completions of the queue answer every outstanding request, each once.\<close>

definition covers :: "cqe list \<Rightarrow> table \<Rightarrow> bool" where
  "covers cs t \<longleftrightarrow> distinct (map cqe_user_data cs) \<and> (\<forall>c \<in> set cs. from_kernel c) \<and>
     index_of ` cqe_user_data ` set cs = dom t"

lemma tidy_outstanding:
  assumes "tidy w" "i \<in> dom (outstanding w)"
  obtains s fut where "pending w i = Some s" "future s = Some fut" "light s" "outstanding w i = Some fut"
  using assms by (auto simp: tidy_def outstanding_def bind_eq_Some_conv)

lemma covered_index:
  assumes "tidy w" "covers cs (outstanding w)" "c \<in> set cs"
  obtains i s fut where "cqe_user_data c = user_data_of i" "index_of (cqe_user_data c) = i"
    "pending w i = Some s" "future s = Some fut" "light s" "from_kernel c" "outstanding w i = Some fut"
proof -
  let ?i = "index_of (cqe_user_data c)"
  have ok: "loop_ok w" and k: "from_kernel c" using assms by (simp_all add: tidy_def covers_def)
  have "?i \<in> dom (outstanding w)" using assms(2,3) by (auto simp: covers_def)
  with assms(1) obtain s fut where s: "pending w ?i = Some s" "future s = Some fut" "light s"
    "outstanding w ?i = Some fut" by (rule tidy_outstanding)
  have "cqe_user_data c = user_data_of ?i"
    using k s(1) pending_nonneg [OF ok, of "- 1"] index_of_user_data_of
    by (auto simp: from_kernel_def)
  from that [OF this refl s(1-3) k s(4)] show ?thesis .
qed

lemma covers_answerable:
  assumes "tidy w" "covers cs (outstanding w)"
  shows "answerable w cs"
  unfolding answerable_def
proof (intro conjI ballI)
  show "distinct (map cqe_user_data cs)" using assms(2) by (simp add: covers_def)
  fix c assume "c \<in> set cs"
  with assms obtain i s fut where "cqe_user_data c = user_data_of i" "pending w i = Some s"
    "future s = Some fut" "light s" "from_kernel c" by (rule covered_index)
  with light_payload_free show "\<exists>i s fut. cqe_user_data c = user_data_of i \<and> pending w i = Some s \<and>
      future s = Some fut \<and> payload_free s c" by blast
qed

lemma covers_futures:
  assumes "tidy w" "covers cs (outstanding w)"
  shows "mset (map fst (answers w cs)) = futures (outstanding w)"
proof -
  let ?ix = "\<lambda>c. index_of (cqe_user_data c)"
  have "inj_on ?ix (set cs)"
  proof (rule inj_onI)
    fix c d assume c: "c \<in> set cs" and d: "d \<in> set cs" and eq: "?ix c = ?ix d"
    obtain i where "cqe_user_data c = user_data_of i" "?ix c = i"
      by (rule covered_index [OF assms c])
    moreover obtain j where "cqe_user_data d = user_data_of j" "?ix d = j"
      by (rule covered_index [OF assms d])
    ultimately have "cqe_user_data c = cqe_user_data d" using eq by simp
    with assms(2) c d show "c = d" by (auto simp: covers_def distinct_map dest: inj_onD)
  qed
  then have dist: "distinct (map ?ix cs)"
    using assms(2) by (auto simp: covers_def distinct_map)
  have "map fst (answers w cs) = map (\<lambda>i. the (outstanding w i)) (map ?ix cs)"
    unfolding answers_def map_map
  proof (rule map_cong [OF refl])
    fix c assume "c \<in> set cs"
    with assms obtain i s fut where "?ix c = i" "pending w i = Some s" "future s = Some fut"
      "outstanding w i = Some fut" by (rule covered_index)
    then show "(fst \<circ> (\<lambda>c. case pending w (?ix c) of None \<Rightarrow> (0, Inr PyNone)
        | Some s \<Rightarrow> (the (future s), answer s c))) c = ((\<lambda>i. the (outstanding w i)) \<circ> ?ix) c"
      by simp
  qed
  then have "mset (map fst (answers w cs)) = image_mset (\<lambda>i. the (outstanding w i)) (mset (map ?ix cs))"
    by (metis mset_map)
  also have "mset (map ?ix cs) = mset_set (set (map ?ix cs))" by (rule mset_set_set [OF dist, symmetric])
  also have "set (map ?ix cs) = dom (outstanding w)"
    using assms(2) by (auto simp: covers_def image_image)
  finally show ?thesis by (simp only: futures_def)
qed

lemma tidy_dom: "tidy w \<Longrightarrow> dom (outstanding w) = dom (pending w)"
  by (auto simp: tidy_def outstanding_def bind_eq_Some_conv)

lemma reader_answers:
  assumes "tidy w" "cq E q" "\<forall>h. e_alloc_value E h" "covers (drop (seen (hist w)) q) (outstanding w)"
  shows "\<exists>w' rs. on_uring_ready (Suc (length q)) E w = Some w' \<and> pending w' = Map.empty \<and>
     resolutions (hist w') = resolutions (hist w) @ rs \<and> mset (map fst rs) = futures (outstanding w)"
proof -
  let ?cs = "drop (seen (hist w)) q"
  have ok: "loop_ok w" using assms(1) by (simp add: tidy_def)
  have len: "Suc (length ?cs) + (length q - length ?cs) = Suc (length q)" by simp
  have "on_uring_ready (Suc (length ?cs) + (length q - length ?cs)) E w =
      on_uring_ready (Suc (length ?cs)) E w"
    by (rule on_uring_ready_enough [OF assms(2)]) simp
  then have run: "on_uring_ready (Suc (length q)) E w = on_uring_ready (Suc (length ?cs)) E w"
    unfolding len .
  from reader_drains_list [OF assms(2,3) ok refl covers_answerable [OF assms(1,4)]] obtain w' where
    w': "on_uring_ready (Suc (length ?cs)) E w = Some w'"
      "pending w' = pending w |` (- index_of ` cqe_user_data ` set ?cs)"
      "resolutions (hist w') = resolutions (hist w) @ answers w ?cs" by blast
  have "index_of ` cqe_user_data ` set ?cs = dom (pending w)"
    using assms(4) tidy_dom [OF assms(1)] by (simp add: covers_def)
  then have "pending w' = Map.empty" unfolding w'(2) by (auto simp: restrict_map_def domIff)
  with w'(1,3) covers_futures [OF assms(1,4)] show ?thesis unfolding run by blast
qed

section \<open>A concrete session\<close>

text \<open>One call, then its completion.\<close>

lemma tidy_idle: "tidy idle_loop" "outstanding idle_loop = Map.empty"
  by (simp_all add: tidy_def outstanding_def idle_loop_pending fun_eq_iff)

lemma sample_session:
  obtains w where "session sample_env idle_loop
    [Returned 900, Handled [(900, Inr (PyLong 0))]] w"
proof -
  from sample_fsync_call obtain v where
    v: "UringioFile_fsync sample_env 7 P_missing idle_loop = Some (Some 900, v)" by blast
  have "loop_ok idle_loop" "file_ready 7 sample_env idle_loop" by simp_all
  from file_fsync.accepted [OF this v] obtain i s where i: "is_c_int i"
    and s: "pending v = (pending idle_loop)(i \<mapsto> s)" "future s = Some 900" "loop_ok v"
      "request_of IORING_OP_FSYNC False (Some 7) None s" "plain_payload v (buffer_payload s)" by blast
  define c where "c = \<lparr>cqe_user_data = user_data_of i, cqe_res = 0, cqe_flags = 0\<rparr>"
  have c: "from_kernel c" using i by (auto simp: from_kernel_def c_def)
  have "\<exists>w. handle_cqe sample_env c v = Some w \<and>
      resolved i s 900 (Some (Inr (PyLong (cqe_res c)))) (\<lambda>r. 0) v w"
    by (rule count_completes [OF s(3) _ s(2) fsync_counts.counts [OF s(4,5)]])
      (simp_all add: s(1) c_def)
  then obtain w where w: "handle_cqe sample_env c v = Some w"
    "resolutions (hist w) = resolutions (hist v) @ [(900, Inr (PyLong 0))]"
    by (auto simp: resolved_def c_def)
  have "step sample_env idle_loop (visible (Some 900)) v" by (rule step.fsync [OF _ v]) simp
  then have "session sample_env idle_loop ([] @ [visible (Some 900)]) v"
    by (rule session.more [OF session.none])
  from session.more [OF this step.completion [OF c w]] show ?thesis by (intro that) simp
qed

text \<open>One request pending, and its completion in the queue.\<close>

definition answer_zero :: cqe where
  "answer_zero = \<lparr>cqe_user_data = 0, cqe_res = 0, cqe_flags = 0\<rparr>"

lemma sample_covered:
  "cq (queue_env [answer_zero]) [answer_zero]" "e_alloc_value (queue_env [answer_zero]) h"
  "tidy (busy_loop sample_fsync)" "futures (outstanding (busy_loop sample_fsync)) = {#900#}"
  "covers [answer_zero] (outstanding (busy_loop sample_fsync))"
proof -
  have p: "pending (busy_loop sample_fsync) = [0 \<mapsto> sample_fsync]" "loop_ok (busy_loop sample_fsync)"
    by (simp_all add: busy_loop_pending sample_fsync_def new_request_def)
  have o': "outstanding (busy_loop sample_fsync) = [0 \<mapsto> 900]"
    unfolding fun_eq_iff outstanding_def p by (simp add: sample_fsync_def new_request_def)
  show "cq (queue_env [answer_zero]) [answer_zero]" "e_alloc_value (queue_env [answer_zero]) h"
    by (simp_all add: queue_env_def cq_def)
  show "tidy (busy_loop sample_fsync)"
    using p(2) unfolding tidy_def p(1) by (auto simp: light_def sample_fsync_def new_request_def)
  show "futures (outstanding (busy_loop sample_fsync)) = {#900#}"
    by (simp add: o' futures_def)
  have "is_c_int 0" "user_data_of 0 = 0" by (simp_all add: is_c_int_def user_data_of_def)
  then have "from_kernel answer_zero" by (auto simp: from_kernel_def answer_zero_def intro!: exI [of _ 0])
  then show "covers [answer_zero] (outstanding (busy_loop sample_fsync))"
    by (simp add: covers_def o' answer_zero_def index_of_def)
qed

end
