(* ===== verification/Loop_Properties.thy ===== *)
theory Loop_Properties
  imports Loop_Contract Reader_Loop "HOL-Library.Multiset"
begin

text \<open>
  Properties of the event loop: how long a turn waits, which scheduled handles it promotes, which
  ready handles it runs, and what shutdown and deallocation do.
\<close>

section \<open>How long a turn waits\<close>

lemma queues_py [simp]:
  "ready_q (py c w) = ready_q w" "scheduled_q (py c w) = scheduled_q w" "stopping (py c w) = stopping w"
  "handle_when (py c w) = handle_when w" "handle_cancelled (py c w) = handle_cancelled w"
  by (simp_all add: py_def)

lemma py_ref_state:
  "py_ref E h w = (x, w') \<Longrightarrow> ext.more w' = ext.more w \<and>
     (\<forall>r. ledger (hist w') r = ledger (hist w) r + ref_units x r) \<and> (x = None \<or> x = Some h)"
  by (auto simp: py_ref_def ref_units_def split: option.splits)

lemma py_new_state:
  "py_new E w = (x, w') \<Longrightarrow> ext.more w' = ext.more w \<and>
     (\<forall>r. ledger (hist w') r = ledger (hist w) r + ref_units x r)"
  by (auto simp: py_new_def ref_units_def Let_def split: option.splits)

lemma opt_decref_state:
  "ext.more (opt_decref x w) = ext.more w"
  "ledger (hist (opt_decref x w)) r = ledger (hist w) r - ref_units x r"
  by (auto simp: opt_decref_def ref_units_def split: option.splits)

definition whole_seconds :: "kernel_timespec \<Rightarrow> bool" where
  "whole_seconds ts \<longleftrightarrow> 0 \<le> tv_sec ts \<and> tv_sec ts \<le> 86400 \<and> tv_nsec ts = 0"

lemma timeout_of_delay_whole:
  assumes "py_round P 0 = 0"
  shows "whole_seconds (timeout_of_delay P d)"
  using assms floor_mono [of d "86400 :: rat"] by (auto simp: whole_seconds_def timeout_of_delay_def Let_def)

lemma timeout_of_delay_sec: "tv_sec (timeout_of_delay P d) = \<lfloor>min 86400 (max 0 d)\<rfloor>"
  by (simp add: timeout_of_delay_def Let_def min_def max_def)

lemma constant_waits [simp]: "whole_seconds no_wait" "whole_seconds \<lparr>tv_sec = 86400, tv_nsec = 0\<rparr>"
  by (simp_all add: whole_seconds_def no_wait_def)

text \<open>C27: the time a turn waits is between nothing and a day, in whole seconds, and computing it
  changes no state and leaves every reference it took balanced.\<close>

theorem compute_timeout_bounds:
  assumes "py_round P 0 = 0" "compute_timeout E P w = (ts, w')"
  shows "0 \<le> tv_sec ts \<and> tv_sec ts \<le> 86400 \<and> tv_nsec ts = 0 \<and> ext.more w' = ext.more w \<and>
     ledger (hist w') = ledger (hist w)"
proof -
  obtain a w1 where a: "py_new E w = (a, w1)" by (metis surj_pair)
  obtain b w2 where b: "py_new E w1 = (b, w2)" by (metis surj_pair)
  obtain c w3 where c: "py_new E w2 = (c, w3)" by (metis surj_pair)
  note s = py_new_state [OF a] py_new_state [OF b] py_new_state [OF c]
  let ?g = "\<lambda>w. opt_decref c (opt_decref b (opt_decref a w))"
  have g: "ext.more (?g v) = ext.more w" "ledger (hist (?g v)) r = ledger (hist w) r"
    if "ext.more v = ext.more w3" "\<And>r. ledger (hist v) r = ledger (hist w3) r" for v r
    using that s by (simp_all add: opt_decref_state)
  have "whole_seconds ts \<and> (\<exists>v. w' = ?g v \<and> ext.more v = ext.more w3 \<and>
      (\<forall>r. ledger (hist v) r = ledger (hist w3) r))"
  proof (cases "a = None \<or> b = None \<or> c = None \<or> ready_q w3 \<noteq> [] \<or> stopping w3 \<or> scheduled_q w3 = []")
    case True
    then show ?thesis
      using assms(2) by (auto simp: compute_timeout_def a b c Let_def split: if_splits list.splits)
  next
    case False
    then obtain h q where q: "scheduled_q w3 = h # q" by (auto simp: neq_Nil_conv)
    obtain f w4 where f: "py_ref E h w3 = (f, w4)" by (metis surj_pair)
    obtain d w5 where d: "py_new E w4 = (d, w5)" by (metis surj_pair)
    obtain e w6 where e: "py_new E w5 = (e, w6)" by (metis surj_pair)
    note t = py_ref_state [OF f] py_new_state [OF d] py_new_state [OF e]
    show ?thesis
    proof (cases f)
      case None
      with False q f t(1) assms(2) show ?thesis
        by (auto simp: compute_timeout_def a b c Let_def ref_units_def)
    next
      case (Some x)
      let ?v = "py (Decref x) (opt_decref e (opt_decref d w6))"
      have "ext.more ?v = ext.more w3" "ledger (hist ?v) r = ledger (hist w3) r" for r
        using t Some by (simp_all add: opt_decref_state ref_units_def)
      moreover have "w' = ?g ?v" "whole_seconds ts"
        using False q f Some assms timeout_of_delay_whole [OF assms(1)]
        by (auto simp: compute_timeout_def a b c d e Let_def split: if_splits)
      ultimately show ?thesis by blast
    qed
  qed
  then show ?thesis using g by (auto simp: whole_seconds_def fun_eq_iff)
qed

text \<open>A Python side at which the properties are instantiated: the clock stands at ten, and popping
  keeps the queue sorted.\<close>

definition sample_pop :: "(obj \<Rightarrow> rat) \<Rightarrow> obj list \<Rightarrow> (obj \<times> obj list) option" where
  "sample_pop wh xs = (case xs of [] \<Rightarrow> None | x # r \<Rightarrow> Some (x, sort_key wh r))"

definition sample_pyloop :: pyloop where
  "sample_pyloop = \<lparr>py_time = (\<lambda>h. 10), py_round = (\<lambda>x. x), py_resolution = 1,
     py_heappop = sample_pop, py_run = (\<lambda>h w. w)\<rparr>"

lemma sample_pyloop_simps [simp]:
  "py_time sample_pyloop h = 10" "py_round sample_pyloop x = x" "py_resolution sample_pyloop = 1"
  "py_heappop sample_pyloop = sample_pop" "py_run sample_pyloop x1 w = w"
  by (simp_all add: sample_pyloop_def)

definition timed_loop :: "rat \<Rightarrow> loopst" where
  "timed_loop t = idle_loop\<lparr>scheduled_q := [20], handle_when := (\<lambda>h. t)\<rparr>"

lemma idle_queues [simp]:
  "ready_q idle_loop = []" "scheduled_q idle_loop = []" "\<not> stopping idle_loop"
  by (simp_all add: idle_loop_def)

theorem compute_timeout_bounds_witness:
  "tv_nsec (fst (compute_timeout sample_env sample_pyloop (timed_loop (25 / 2)))) = 0"
proof -
  obtain ts w' where ts: "compute_timeout sample_env sample_pyloop (timed_loop (25 / 2)) = (ts, w')"
    by (metis surj_pair)
  from compute_timeout_bounds [OF _ ts] show ?thesis by (simp add: ts)
qed

text \<open>C28: when every attribute can be read, a turn does not wait while handles are ready or the loop
  is stopping, waits a day with nothing scheduled, and otherwise waits the whole seconds until the
  first handle is due; the fraction is lost, so within its last second the loop polls.\<close>

theorem compute_timeout_value:
  assumes "\<forall>h. e_new_object E h \<noteq> None" "compute_timeout E P w = (ts, w')"
  shows "(ready_q w \<noteq> [] \<or> stopping w \<longrightarrow> tv_sec ts = 0) \<and>
     (ready_q w = [] \<and> \<not> stopping w \<longrightarrow>
        (case scheduled_q w of
           [] \<Rightarrow> tv_sec ts = 86400
         | h # q \<Rightarrow> \<exists>t. tv_sec ts = \<lfloor>min 86400 (max 0 (py_round P (handle_when w h - py_time P t)))\<rfloor>))"
proof -
  define new where "new h = the (e_new_object E h)" for h
  have new: "e_new_object E h = Some (new h)" for h
    using assms(1) unfolding new_def by (metis option.collapse)
  note eval = compute_timeout_def py_new_def py_ref_def new Let_def
  consider "ready_q w \<noteq> [] \<or> stopping w" | "ready_q w = []" "\<not> stopping w" "scheduled_q w = []"
    | h q where "ready_q w = []" "\<not> stopping w" "scheduled_q w = h # q"
    by (cases "scheduled_q w") auto
  then show ?thesis
  proof cases
    case 1
    with assms(2) show ?thesis by (auto simp: eval no_wait_def)
  next
    case 2
    with assms(2) show ?thesis by (auto simp: eval)
  next
    case 3
    then have "\<exists>t. ts = timeout_of_delay P (py_round P (handle_when w h - py_time P t))"
      using assms(2) by (simp add: eval) blast
    with 3 show ?thesis by (auto simp: timeout_of_delay_sec)
  qed
qed

theorem compute_timeout_value_witness:
  "tv_sec (fst (compute_timeout sample_env sample_pyloop (timed_loop (25 / 2)))) = 2"
proof -
  obtain ts w' where ts: "compute_timeout sample_env sample_pyloop (timed_loop (25 / 2)) = (ts, w')"
    by (metis surj_pair)
  have "\<lfloor>5 / 2 :: rat\<rfloor> = 2" by (rule floor_unique) simp_all
  with compute_timeout_value [OF _ ts] have "tv_sec ts = 2"
    by (simp add: timed_loop_def min_def max_def)
  then show ?thesis by (simp add: ts)
qed

section \<open>Promoting scheduled handles\<close>

text \<open>The invariant of a binary heap kept in a list, and what \<open>heapq.heappop\<close> does to one: it
  takes out the first item and leaves a heap of the others.\<close>

definition is_heap :: "(obj \<Rightarrow> rat) \<Rightarrow> obj list \<Rightarrow> bool" where
  "is_heap wh xs \<longleftrightarrow> (\<forall>j < length xs. 0 < j \<longrightarrow> wh (xs ! ((j - 1) div 2)) \<le> wh (xs ! j))"

definition heapq :: "pyloop \<Rightarrow> bool" where
  "heapq P \<longleftrightarrow> (\<forall>wh x xs. is_heap wh (x # xs) \<longrightarrow>
     (\<exists>rest. py_heappop P wh (x # xs) = Some (x, rest) \<and> mset rest = mset xs \<and> is_heap wh rest))"

lemma heap_root:
  assumes "is_heap wh xs"
  shows "j < length xs \<Longrightarrow> wh (xs ! 0) \<le> wh (xs ! j)"
proof (induction j rule: less_induct)
  case (less j)
  show ?case
  proof (cases "j = 0")
    case False
    then have "(j - 1) div 2 < j" by linarith
    with less have "wh (xs ! 0) \<le> wh (xs ! ((j - 1) div 2))" by simp
    also have "\<dots> \<le> wh (xs ! j)" using assms less(2) False by (simp add: is_heap_def)
    finally show ?thesis .
  qed simp
qed

lemma heap_first: "is_heap wh (x # xs) \<Longrightarrow> y \<in> set (x # xs) \<Longrightarrow> wh x \<le> wh y"
  using heap_root [of wh "x # xs"] by (metis in_set_conv_nth nth_Cons_0)

lemma sorted_is_heap: "sorted (map wh xs) \<Longrightarrow> is_heap wh xs"
  by (auto simp: is_heap_def sorted_iff_nth_mono)

lemma sample_heapq: "heapq sample_pyloop"
  by (auto simp: heapq_def sample_pop_def intro!: sorted_is_heap)

text \<open>What one turn may change of the loop when it promotes.\<close>

definition queues_only :: "loopst \<Rightarrow> loopst \<Rightarrow> bool" where
  "queues_only w w' \<longleftrightarrow> w' = w\<lparr>hist := hist w', ready_q := ready_q w', scheduled_q := scheduled_q w',
     handle_scheduled := handle_scheduled w'\<rparr>"

lemma queues_only_trans: "queues_only w v \<Longrightarrow> queues_only v u \<Longrightarrow> queues_only w u"
  unfolding queues_only_def by (cases w, cases v, cases u) simp

lemma queues_only_same:
  assumes "queues_only w w'"
  shows "handle_when w' = handle_when w" "registry w' = registry w" "payloads w' = payloads w"
  by (subst assms [unfolded queues_only_def], simp)+

lemma queues_only_more: "ext.more w' = ext.more w \<Longrightarrow> queues_only w w'"
  unfolding queues_only_def by (cases w, cases w') simp

lemma promote_one_due:
  assumes "\<forall>h. e_new_object E h \<noteq> None" "scheduled_q w = x # xs" "handle_when w x < t"
    "py_heappop P (handle_when w) (x # xs) = Some (x, rest)"
  obtains w' where "promote_one E P t w = (True, w')" "queues_only w w'" "scheduled_q w' = rest"
    "ready_q w' = ready_q w @ [x]" "\<And>r. ledger (hist w') r = ledger (hist w) r"
proof -
  from assms(1) obtain a b where ab: "e_new_object E (hist w) = Some a"
    "e_new_object E (hist w @ [Py (Incref x)]) = Some b" by blast
  let ?w = "w\<lparr>scheduled_q := rest, handle_scheduled := (handle_scheduled w)(x := False),
     ready_q := ready_q w @ [x], hist := hist w @ [Py (Incref x), Py (New_object (Some b)),
       Py (Decref b), Py (Incref x), Py (Decref x), Py (Decref x)]\<rparr>"
  from ab assms(2-4) show ?thesis
    by (intro that [of ?w]) (simp_all add: promote_one_def py_ref_def py_new_def Let_def queues_only_def py_def)
qed

lemma promote_one_stops:
  assumes "\<forall>h. e_new_object E h \<noteq> None" "scheduled_q w = [] \<or> t \<le> handle_when w (hd (scheduled_q w))"
  obtains w' where "promote_one E P t w = (False, w')" "queues_only w w'"
    "scheduled_q w' = scheduled_q w" "ready_q w' = ready_q w"
    "\<And>r. ledger (hist w') r = ledger (hist w) r"
proof (cases "scheduled_q w")
  case Nil
  then show ?thesis by (intro that [of w]) (simp_all add: promote_one_def queues_only_def)
next
  case (Cons x xs)
  from assms(1) obtain a b where ab: "e_new_object E (hist w) = Some a"
    "e_new_object E (hist w @ [Py (Incref x)]) = Some b" by blast
  let ?w = "py (Decref x) (py (Decref b) (py (New_object (Some b)) (py (Incref x) w)))"
  from ab Cons assms(2) show ?thesis
    by (intro that [of ?w])
      (simp_all add: promote_one_def py_ref_def py_new_def Let_def queues_only_more)
qed

lemma promote_loop_spec:
  assumes "heapq P" "\<forall>h. e_new_object E h \<noteq> None"
  shows "is_heap (handle_when w) (scheduled_q w) \<Longrightarrow> length (scheduled_q w) < n \<Longrightarrow>
     \<exists>w' due. promote_loop n E P t w = Some w' \<and> queues_only w w' \<and> ready_q w' = ready_q w @ due \<and>
       mset (scheduled_q w) = mset due + mset (scheduled_q w') \<and>
       (\<forall>h \<in> set due. handle_when w h < t) \<and> (\<forall>h \<in> set (scheduled_q w'). t \<le> handle_when w h) \<and>
       sorted (map (handle_when w) due) \<and> is_heap (handle_when w) (scheduled_q w') \<and>
       (\<forall>r. ledger (hist w') r = ledger (hist w) r)"
proof (induction n arbitrary: w)
  case (Suc n)
  let ?wh = "handle_when w"
  show ?case
  proof (cases "scheduled_q w = [] \<or> t \<le> ?wh (hd (scheduled_q w))")
    case True
    obtain w1 where w1: "promote_one E P t w = (False, w1)" "queues_only w w1"
      "scheduled_q w1 = scheduled_q w" "ready_q w1 = ready_q w"
      "\<And>r. ledger (hist w1) r = ledger (hist w) r"
      by (rule promote_one_stops [where P = P, OF assms(2) True], rule that; assumption?)
    have "t \<le> ?wh h" if "h \<in> set (scheduled_q w)" for h
      using that True Suc.prems(1) heap_first [of ?wh "hd (scheduled_q w)" "tl (scheduled_q w)" h]
      by (cases "scheduled_q w") auto
    with w1 Suc.prems(1) show ?thesis
      by (intro exI [of _ w1] exI [of _ "[]"]) (simp add: Let_def)
  next
    case False
    then obtain x xs where q: "scheduled_q w = x # xs" "?wh x < t" by (cases "scheduled_q w") auto
    from assms(1) Suc.prems(1) q(1) obtain rest where
      rest: "py_heappop P ?wh (x # xs) = Some (x, rest)" "mset rest = mset xs" "is_heap ?wh rest"
      unfolding heapq_def by metis
    obtain w1 where w1: "promote_one E P t w = (True, w1)" "queues_only w w1" "scheduled_q w1 = rest"
      "ready_q w1 = ready_q w @ [x]" "\<And>r. ledger (hist w1) r = ledger (hist w) r"
      by (rule promote_one_due [OF assms(2) q rest(1)], rule that; assumption?)
    note same = queues_only_same [OF w1(2)]
    have "length rest = length xs" using rest(2) by (metis size_mset)
    with Suc.IH [of w1] w1(3) rest(3) Suc.prems(2) q(1) obtain w2 due where
      w2: "promote_loop n E P t w1 = Some w2" "queues_only w1 w2" "ready_q w2 = ready_q w1 @ due"
      "mset (scheduled_q w1) = mset due + mset (scheduled_q w2)" "\<forall>h \<in> set due. ?wh h < t"
      "\<forall>h \<in> set (scheduled_q w2). t \<le> ?wh h" "sorted (map ?wh due)" "is_heap ?wh (scheduled_q w2)"
      "\<And>r. ledger (hist w2) r = ledger (hist w1) r"
      by (auto simp: same)
    have "set due \<subseteq> set xs"
      using w2(4) w1(3) rest(2) by (metis set_mset_mset set_mset_union Un_upper1)
    with heap_first [OF Suc.prems(1) [unfolded q(1)]] have "?wh x \<le> ?wh h" if "h \<in> set due" for h
      using that by auto
    then have "sorted (map ?wh (x # due))" using w2(7) by simp
    moreover have "mset (scheduled_q w) = mset (x # due) + mset (scheduled_q w2)"
      using q(1) w2(4) w1(3) rest(2) by simp
    moreover have "promote_loop (Suc n) E P t w = Some w2" using w1(1) w2(1) by (simp add: Let_def)
    moreover have "queues_only w w2" using w1(2) w2(2) by (rule queues_only_trans)
    ultimately show ?thesis
      using w1(4,5) w2 q(2) by (intro exI [of _ w2] exI [of _ "x # due"]) simp
  qed
qed simp

text \<open>The five objects that \<open>promote_scheduled\<close> takes before its loop.\<close>

lemma promote_prefix:
  assumes "\<forall>h. e_new_object E h \<noteq> None"
  obtains w1 a b c d e t where
    "promote_scheduled n E P w = promote_loop n E P t w1" "ext.more w1 = ext.more w"
    "\<And>r. ledger (hist w1) r = ledger (hist w) r +
       (\<Sum>x\<leftarrow>[a, b, c, d, e]. of_bool (r = Reference x))"
    "t = py_round P (py_time P (hist w1) + py_resolution P)"
proof -
  define new where "new h = the (e_new_object E h)" for h
  have new: "e_new_object E h = Some (new h)" for h
    using assms unfolding new_def by (metis option.collapse)
  define step where "step v = py (New_object (Some (new (hist v)))) v" for v :: loopst
  have step: "py_new E v = (Some (new (hist v)), step v)" "ext.more (step v) = ext.more v"
    "\<And>r. ledger (hist (step v)) r = ledger (hist v) r + of_bool (r = Reference (new (hist v)))" for v
    by (simp_all add: py_new_def new step_def Let_def)
  let ?w1 = "step w" and ?w2 = "step (step w)" and ?w3 = "step (step (step w))"
    and ?w4 = "step (step (step (step w)))"
  show ?thesis
    by (rule that [of _ "step ?w4" "new (hist w)" "new (hist ?w1)" "new (hist ?w2)" "new (hist ?w3)"
          "new (hist ?w4)"]) (simp_all add: promote_scheduled_def step)
qed

text \<open>C25: with \<open>heapq\<close>'s promise, promoting ends after at most one pass per scheduled handle and moves
  exactly the handles that are due before the end of the clock's tick to the end of the ready
  queue, earliest first; the others stay scheduled, as a heap, and nothing else of the loop
  changes.\<close>

theorem promote_scheduled_moves_due:
  assumes "heapq P" "\<forall>h. e_new_object E h \<noteq> None" "is_heap (handle_when w) (scheduled_q w)"
  shows "\<exists>w' due t h. promote_scheduled (Suc (length (scheduled_q w))) E P w = Some w' \<and>
     t = py_round P (py_time P h + py_resolution P) \<and> ready_q w' = ready_q w @ due \<and>
     sorted (map (handle_when w) due) \<and>
     mset due = filter_mset (\<lambda>x. handle_when w x < t) (mset (scheduled_q w)) \<and>
     mset (scheduled_q w') = filter_mset (\<lambda>x. t \<le> handle_when w x) (mset (scheduled_q w)) \<and>
     is_heap (handle_when w) (scheduled_q w') \<and> queues_only w w'"
proof -
  let ?n = "Suc (length (scheduled_q w))"
  obtain w1 a b c d e t where w1: "promote_scheduled ?n E P w = promote_loop ?n E P t w1"
    "ext.more w1 = ext.more w" "t = py_round P (py_time P (hist w1) + py_resolution P)"
    by (rule promote_prefix [where n = ?n and P = P and w = w, OF assms(2)], rule that; assumption?)
  have q: "queues_only w w1" by (rule queues_only_more [OF w1(2)])
  have same: "scheduled_q w1 = scheduled_q w" "ready_q w1 = ready_q w" "handle_when w1 = handle_when w"
    using w1(2) by (cases w, cases w1, simp)+
  from promote_loop_spec [OF assms(1,2), of w1 ?n t] same assms(3) obtain w' due where
    w': "promote_loop ?n E P t w1 = Some w'" "queues_only w1 w'" "ready_q w' = ready_q w @ due"
    "mset (scheduled_q w) = mset due + mset (scheduled_q w')" "\<forall>h \<in> set due. handle_when w h < t"
    "\<forall>h \<in> set (scheduled_q w'). t \<le> handle_when w h" "sorted (map (handle_when w) due)"
    "is_heap (handle_when w) (scheduled_q w')" by auto
  have "filter (\<lambda>x. handle_when w x < t) due = due"
    "filter (\<lambda>x. t \<le> handle_when w x) (scheduled_q w') = scheduled_q w'"
    using w'(5,6) by (auto intro: filter_True)
  then have "filter_mset (\<lambda>x. handle_when w x < t) (mset due + mset (scheduled_q w')) = mset due"
    "filter_mset (\<lambda>x. t \<le> handle_when w x) (mset due + mset (scheduled_q w')) = mset (scheduled_q w')"
    using w'(5,6) by (simp_all flip: mset_filter add: filter_empty_conv not_le not_less)
  then show ?thesis
    using w1(1,3) w' queues_only_trans [OF q w'(2)] by metis
qed

lemma timed_loop_simps [simp]:
  "scheduled_q (timed_loop t) = [20]" "ready_q (timed_loop t) = []" "handle_when (timed_loop t) h = t"
  "hist (timed_loop t) = []"
  by (simp_all add: timed_loop_def)

lemma timed_loop_heap: "is_heap (handle_when (timed_loop t)) [20]"
  by (simp add: is_heap_def)

theorem promote_scheduled_moves_due_witness:
  "\<exists>w'. promote_scheduled 2 sample_env sample_pyloop (timed_loop 5) = Some w' \<and> ready_q w' = [20] \<and>
     scheduled_q w' = []"
proof -
  have "\<exists>w' due t h. promote_scheduled (Suc (length (scheduled_q (timed_loop 5)))) sample_env
        sample_pyloop (timed_loop 5) = Some w' \<and>
      t = py_round sample_pyloop (py_time sample_pyloop h + py_resolution sample_pyloop) \<and>
      ready_q w' = ready_q (timed_loop 5) @ due \<and> sorted (map (handle_when (timed_loop 5)) due) \<and>
      mset due = filter_mset (\<lambda>x. handle_when (timed_loop 5) x < t) (mset (scheduled_q (timed_loop 5))) \<and>
      mset (scheduled_q w') = filter_mset (\<lambda>x. t \<le> handle_when (timed_loop 5) x)
        (mset (scheduled_q (timed_loop 5))) \<and>
      is_heap (handle_when (timed_loop 5)) (scheduled_q w') \<and> queues_only (timed_loop 5) w'"
    by (rule promote_scheduled_moves_due [OF sample_heapq]) (simp_all add: timed_loop_heap)
  then show ?thesis by (auto simp: numeral_2_eq_2)
qed

text \<open>Every turn that gets past the attribute checks leaks the five references that promoting took:
  the module, the two queues, the clock's reading and its resolution.\<close>

theorem promote_scheduled_leaks:
  assumes "heapq P" "\<forall>h. e_new_object E h \<noteq> None" "is_heap (handle_when w) (scheduled_q w)"
  shows "\<exists>w' a b c d e. promote_scheduled (Suc (length (scheduled_q w))) E P w = Some w' \<and>
     (\<forall>r. ledger (hist w') r =
        ledger (hist w) r + (\<Sum>x\<leftarrow>[a, b, c, d, e]. of_bool (r = Reference x)))"
proof -
  let ?n = "Suc (length (scheduled_q w))"
  obtain w1 a b c d e t where w1: "promote_scheduled ?n E P w = promote_loop ?n E P t w1"
    "ext.more w1 = ext.more w"
    "\<And>r. ledger (hist w1) r = ledger (hist w) r + (\<Sum>x\<leftarrow>[a, b, c, d, e]. of_bool (r = Reference x))"
    by (rule promote_prefix [where n = ?n and P = P and w = w, OF assms(2)], rule that; assumption?)
  have same: "scheduled_q w1 = scheduled_q w" "handle_when w1 = handle_when w"
    using w1(2) by (cases w, cases w1, simp)+
  from promote_loop_spec [OF assms(1,2), of w1 ?n t] same assms(3) obtain w' where
    "promote_loop ?n E P t w1 = Some w'" "\<And>r. ledger (hist w') r = ledger (hist w1) r" by auto
  with w1 show ?thesis by metis
qed

theorem promote_scheduled_leaks_witness:
  "\<exists>w' a b c d e. promote_scheduled 2 sample_env sample_pyloop (timed_loop 5) = Some w' \<and>
     (\<forall>r. ledger (hist w') r = (\<Sum>x\<leftarrow>[a, b, c, d, e]. of_bool (r = Reference x)))"
  using promote_scheduled_leaks [OF sample_heapq, of sample_env "timed_loop 5"]
  by (simp add: timed_loop_heap numeral_2_eq_2)

section \<open>Running the ready handles\<close>

text \<open>Callbacks that append \<open>N h\<close> to the ready queue and cancel nothing.\<close>

definition calls_soon :: "pyloop \<Rightarrow> (obj \<Rightarrow> obj list) \<Rightarrow> bool" where
  "calls_soon P N \<longleftrightarrow> (\<forall>h v. ready_q (py_run P h v) = ready_q v @ N h \<and>
     handle_cancelled (py_run P h v) = handle_cancelled v)"

lemma queues_opt_decref [simp]:
  "ready_q (opt_decref x w) = ready_q w" "handle_cancelled (opt_decref x w) = handle_cancelled w"
  by (simp_all add: opt_decref_def split: option.split)

lemma drain_loop_runs:
  assumes "calls_soon P N" "\<forall>h. e_new_object E h \<noteq> None"
  shows "ready_q w = q @ later \<Longrightarrow>
     ready_q (drain_loop (length q) E P w) =
       later @ concat (map N (filter (\<lambda>h. \<not> handle_cancelled w h) q))"
proof (induction q arbitrary: w later)
  case (Cons h q)
  obtain y where y: "e_new_object E (hist w @ [Py (Incref h)]) = Some y" using assms(2) by blast
  let ?v = "py (New_object (Some y)) (py (Incref h) (w\<lparr>ready_q := q @ later\<rparr>))"
  let ?u = "if handle_cancelled w h then ?v else py_run P h ?v"
  let ?w' = "py (Decref h) (opt_decref (Some y) ?u)"
  have "drain_loop (length (h # q)) E P w = drain_loop (length q) E P ?w'"
    using Cons.prems y by (simp add: py_new_def Let_def)
  moreover have "ready_q ?w' = q @ later @ (if handle_cancelled w h then [] else N h)"
    "handle_cancelled ?w' = handle_cancelled w"
    using assms(1) by (auto simp: calls_soon_def)
  ultimately show ?case using Cons.IH [of ?w'] by simp
qed simp

text \<open>C26: a turn runs the handles that were ready when it began, in order, each once and none that was
  cancelled; what their callbacks make ready waits for the next turn.\<close>

theorem drain_ready_runs_snapshot:
  assumes "calls_soon P N" "\<forall>h. e_new_object E h \<noteq> None"
  shows "ready_q (drain_ready E P w) =
     concat (map N (filter (\<lambda>h. \<not> handle_cancelled w h) (ready_q w)))"
proof -
  obtain y where y: "e_new_object E (hist w) = Some y" using assms(2) by blast
  from drain_loop_runs [OF assms, of "py (New_object (Some y)) w" "ready_q w" "[]"] show ?thesis
    by (simp add: drain_ready_def py_new_def y Let_def)
qed

theorem drain_ready_runs_snapshot_witness:
  "ready_q (drain_ready sample_env (sample_pyloop\<lparr>py_run := (\<lambda>h w. w\<lparr>ready_q := ready_q w @ [h + 1]\<rparr>)\<rparr>)
     (idle_loop\<lparr>ready_q := [30, 40], handle_cancelled := (\<lambda>h. h = 30)\<rparr>)) = [41]"
  by (subst drain_ready_runs_snapshot [where N = "\<lambda>h. [h + 1]"]) (simp_all add: calls_soon_def)

end
