(* ===== verification/Shutdown_Properties.thy ===== *)
theory Shutdown_Properties
  imports Loop_Contract Reader_Loop
begin

text \<open>
  The end of a loop: the completions that arrive during the shutdown, the requests that are still
  pending when it is over, closing twice, and the deallocation of a loop that was never initialised.
\<close>

section \<open>What a shutdown does to the history\<close>

lemma destroy_slots_releases: "destroy_slots ss w = Some w' \<Longrightarrow> releases w w'"
proof (induction ss arbitrary: w)
  case (Cons s ss)
  let ?w = "opt_decref (future s) w"
  from Cons.prems obtain v where
    v: "(if buffer_payload s \<noteq> 0 then free_buffer_payload (buffer_payload s) True ?w else Some ?w) = Some v"
    "destroy_slots ss (opt_decref (slot_file s) (opt_decref (slot_socket s) v)) = Some w'"
    by (auto simp: bind_eq_Some_conv Let_def simp del: if_split)
  have "releases ?w v" using v(1) by (auto split: if_splits dest: free_payload_releases)
  then have "releases w v" by (rule releases_first)
  then have "releases w (opt_decref (slot_file s) (opt_decref (slot_socket s) v))"
    by (intro releases_next)
  then show ?case using Cons.IH [OF v(2)] by (rule releases_trans)
qed simp

lemma destroy_releases: "registry_destroy reg w = Some w' \<Longrightarrow> releases w w'"
  by (auto simp: registry_destroy_def bind_eq_Some_conv split: option.splits if_splits
      dest!: destroy_slots_releases intro!: releases_next)

lemma ring_destroy_quiet:
  "resolutions (hist (ring_destroy E r w)) = resolutions (hist w)"
  "ext.more (ring_destroy E r w) = ext.more w"
  "\<exists>es. hist (ring_destroy E r w) = hist w @ es"
  by (auto simp: ring_destroy_def event_simps)

lemma ContextVar_set_quiet:
  assumes "ContextVar_set E v w = (t, w')"
  shows "resolutions (hist w') = resolutions (hist w)" "registry w' = registry w"
    "\<exists>es. hist w' = hist w @ es"
  using assms by (auto simp: ContextVar_set_def py_new_def Let_def split: if_splits option.splits)

lemma give_up_token_quiet:
  "resolutions (hist (give_up_token t w)) = resolutions (hist w)"
  "registry (give_up_token t w) = registry w" "\<exists>es. hist (give_up_token t w) = hist w @ es"
  by (auto simp: give_up_token_def let_go_def free_exec_context_def loopst_more [OF more_c_free]
      event_simps split: ctx_value.split)

text \<open>The steps after the last completion.\<close>

lemma after_shutdown:
  assumes "graceful_shutdown n E w = Some w'"
  obtains v u where "shutdown_loop n E w = Some v" "registry_destroy (registry v) v = Some u"
    "registry w' = None" "resolutions (hist w') = resolutions (hist u)" "\<exists>es. hist w' = hist u @ es"
proof -
  from assms obtain v u where vu: "shutdown_loop n E w = Some v"
    "registry_destroy (registry v) v = Some u"
    by (auto simp: graceful_shutdown_def bind_eq_Some_conv)
  obtain t x where t: "ContextVar_set E Ctx_none (u\<lparr>registry := None\<rparr>) = (t, x)"
    by (metis surj_pair)
  define y where "y = (case t of Some s \<Rightarrow> give_up_token s x | None \<Rightarrow> py Err_clear x)"
  note q = ContextVar_set_quiet [OF t]
  have y: "registry y = None" "resolutions (hist y) = resolutions (hist u)" "\<exists>es. hist y = hist u @ es"
    using q give_up_token_quiet [of _ x] by (auto simp: y_def split: option.split) (metis append.assoc)
  note r = ring_destroy_quiet [of E "ring y" y]
  have "w' = ring_destroy E (ring y) y"
    using assms vu t by (simp add: graceful_shutdown_def y_def Let_def)
  with r y that [OF vu] loopst_more [OF r(2)] show ?thesis by force
qed

section \<open>Histories only grow\<close>

definition extends :: "'a ext_scheme \<Rightarrow> 'b ext_scheme \<Rightarrow> bool" where
  "extends w w' \<longleftrightarrow> set (hist w) \<subseteq> set (hist w')"

lemma extends_trans: "extends w v \<Longrightarrow> extends v u \<Longrightarrow> extends w u"
  by (auto simp: extends_def)

lemma extends_releases: "releases w w' \<Longrightarrow> extends w w'"
  by (auto simp: releases_def extends_def)

text \<open>The state in which the slot of a completion is removed: its future has got an exception.\<close>

definition told :: "env \<Rightarrow> RequestSlot \<Rightarrow> loopst \<Rightarrow> loopst" where
  "told E s w =
     (case future s of
        None \<Rightarrow> w
      | Some fut \<Rightarrow>
          if e_alloc_value E (hist w)
          then py (Set_exception fut (RuntimeError ''Event loop is closed'')) (py (Alloc_value True) w)
          else py (Alloc_value False) w)"

lemma shutdown_cqe_slot:
  assumes "cqe_user_data c \<noteq> WAKEUP_FD_TAG" "registry w = Some reg"
    "registry_get reg (index_of (cqe_user_data c)) = Some s"
  shows "shutdown_cqe E c w =
     map_option (lu (Cqe_seen c)) (loop_registry_remove (index_of (cqe_user_data c)) (told E s w))"
  using assms
  by (cases "loop_registry_remove (index_of (cqe_user_data c)) (told E s w)")
    (auto simp: shutdown_cqe_def told_def new_value_def Let_def split: option.splits)

lemma shutdown_cqe_extends:
  assumes "shutdown_cqe E c w = Some w'"
  shows "extends w w'"
proof (cases "w' = lu (Cqe_seen c) w")
  case True
  then show ?thesis by (auto simp: extends_def)
next
  case False
  with assms obtain reg s where "cqe_user_data c \<noteq> WAKEUP_FD_TAG" "registry w = Some reg"
    "registry_get reg (index_of (cqe_user_data c)) = Some s"
    by (cases "registry w"; cases "registry_get (the (registry w)) (index_of (cqe_user_data c))")
      (auto simp: shutdown_cqe_def Let_def split: if_splits)
  from assms [unfolded shutdown_cqe_slot [OF this]] obtain u where
    u: "loop_registry_remove (index_of (cqe_user_data c)) (told E s w) = Some u"
    "w' = lu (Cqe_seen c) u" by auto
  have "extends w (told E s w)" by (auto simp: extends_def told_def split: option.split)
  moreover have "extends (told E s w) u" by (rule extends_releases [OF loop_remove_releases [OF u(1)]])
  moreover have "extends u w'" using u(2) by (auto simp: extends_def)
  ultimately show ?thesis by (blast intro: extends_trans)
qed

lemma shutdown_loop_extends: "shutdown_loop n E w = Some w' \<Longrightarrow> extends w w'"
proof (induction n arbitrary: w)
  case (Suc n)
  let ?w = "lu (Wait_cqe_timeout hundred_ms (e_wait_cqe E (hist w))) w"
  have w: "extends w ?w" by (auto simp: extends_def)
  show ?case
  proof (cases "e_wait_cqe E (hist w)")
    case None
    with Suc.prems w show ?thesis by (simp add: Let_def)
  next
    case (Some c)
    with Suc.prems obtain v where "shutdown_cqe E c ?w = Some v" "shutdown_loop n E v = Some w'"
      by (auto simp: Let_def bind_eq_Some_conv)
    with shutdown_cqe_extends Suc.IH w show ?thesis by (blast intro: extends_trans)
  qed
qed simp

lemma graceful_shutdown_extends:
  assumes "graceful_shutdown n E w = Some w'"
  shows "extends w w'"
proof -
  from assms obtain v u where v: "shutdown_loop n E w = Some v"
    "registry_destroy (registry v) v = Some u" "\<exists>es. hist w' = hist u @ es"
    by (rule after_shutdown)
  from v(3) have "extends u w'" by (auto simp: extends_def)
  with shutdown_loop_extends [OF v(1)] extends_releases [OF destroy_releases [OF v(2)]]
  show ?thesis by (blast intro: extends_trans)
qed

section \<open>The properties\<close>

text \<open>C29: a completion that arrives during the shutdown tells the waiting future that the loop is
  closed, whatever its result was, removes the request and gives back what its slot held.\<close>

theorem shutdown_answers:
  assumes "loop_ok w" "pending w i = Some s" "future s = Some fut" "cqe_user_data c = user_data_of i"
    "releasable w (buffer_payload s)" "e_alloc_value E (hist w)"
  shows "\<exists>w'. shutdown_cqe E c w = Some w' \<and> loop_ok w' \<and> pending w' = (pending w)(i := None) \<and>
     resolutions (hist w') =
       resolutions (hist w) @ [(fut, Inl (RuntimeError ''Event loop is closed''))] \<and>
     (\<forall>r. ledger (hist w') r = ledger (hist w) r - slot_units w s r)"
proof -
  obtain reg f where reg: "registry w = Some reg" "registry_get reg i = Some s" "future s = Some f"
    "0 \<le> i" "is_c_int i" by (rule pending_cases [OF assms(1,2)])
  have i: "index_of (cqe_user_data c) = i" using index_of_user_data_of [OF reg(5)] assms(4) by simp
  then have "cqe_user_data c \<noteq> WAKEUP_FD_TAG" using reg(4) by auto
  note run = shutdown_cqe_slot [OF this reg(1), unfolded i, OF reg(2)]
  let ?w1 = "py (Alloc_value True) w"
  let ?w2 = "py (Set_exception fut (RuntimeError ''Event loop is closed'')) ?w1"
  have "told E s w = ?w2" using assms(3,6) by (simp add: told_def)
  moreover have "op_done i s (\<lambda>r. 0) w ?w1" by (rule op_doneI) (use assms(1,2,5) in simp_all)
  then have "\<exists>w3. loop_registry_remove i ?w2 = Some w3 \<and>
      resolved i s fut (Some (Inl (RuntimeError ''Event loop is closed''))) (\<lambda>r. 0 + 0) w
        (lu (Cqe_seen c) w3)"
    by (rule removed_done) simp_all
  ultimately show ?thesis using run [of E] by (auto simp: resolved_def)
qed

theorem shutdown_answers_witness:
  "\<exists>w'. shutdown_cqe sample_env \<lparr>cqe_user_data = 0, cqe_res = 4, cqe_flags = 0\<rparr>
       (busy_loop sample_fsync) = Some w' \<and> pending w' = Map.empty \<and>
     resolutions (hist w') = [(900, Inl (RuntimeError ''Event loop is closed''))]"
  using shutdown_answers [of "busy_loop sample_fsync" 0 sample_fsync 900
      "\<lparr>cqe_user_data = 0, cqe_res = 4, cqe_flags = 0\<rparr>" sample_env]
    busy_loop_pending [of sample_fsync]
  by (auto simp: sample_fsync_def new_request_def user_data_of_def)

lemma graceful_defined:
  "shutdown_loop n E w = Some v \<Longrightarrow> registry_destroy (registry v) v = Some u \<Longrightarrow>
   \<exists>w'. graceful_shutdown n E w = Some w'"
  by (simp add: graceful_shutdown_def Let_def split: prod.split)

text \<open>C38: the requests whose completion does not arrive in time are abandoned: when the wait expires,
  the table is destroyed and no future is resolved, so whoever awaits one waits forever.\<close>

theorem shutdown_abandons:
  assumes "\<forall>h. e_wait_cqe E h = None" "graceful_shutdown (Suc n) E w = Some w'"
  shows "registry w' = None \<and> resolutions (hist w') = resolutions (hist w)"
proof -
  from assms(2) obtain v u where v: "shutdown_loop (Suc n) E w = Some v"
    "registry_destroy (registry v) v = Some u" "registry w' = None"
    "resolutions (hist w') = resolutions (hist u)" by (rule after_shutdown)
  from v(1) assms(1) have "resolutions (hist v) = resolutions (hist w)" by (auto simp: Let_def)
  with v(3,4) releases_quiet(1) [OF destroy_releases [OF v(2)]] show ?thesis by simp
qed

lemma sample_wait [simp]: "e_wait_cqe sample_env h = None"
  by (simp add: sample_env_def)

theorem shutdown_abandons_witness:
  "\<exists>w'. pending (busy_loop sample_fsync) \<noteq> Map.empty \<and>
     graceful_shutdown 1 sample_env (busy_loop sample_fsync) = Some w' \<and> resolutions (hist w') = []"
proof -
  let ?v = "lu (Wait_cqe_timeout hundred_ms None) (busy_loop sample_fsync)"
  have "\<exists>u. registry_destroy (registry ?v) ?v = Some u"
    using loopst_more [of ?v "busy_loop sample_fsync"]
    by (simp add: registry_destroy_def busy_registry_def empty_registry_def sample_fsync_def
        new_request_def zero_slot_def Let_def)
  then have "\<exists>w'. graceful_shutdown (Suc 0) sample_env (busy_loop sample_fsync) = Some w'"
    using graceful_defined [of "Suc 0" sample_env "busy_loop sample_fsync" ?v] by (auto simp: Let_def)
  then obtain w' where w': "graceful_shutdown (Suc 0) sample_env (busy_loop sample_fsync) = Some w'"
    by blast
  from shutdown_abandons [OF _ w'] w' show ?thesis
    by (auto simp: busy_loop_pending sample_fsync_def new_request_def)
qed

text \<open>C30: closing a loop takes the ring, the registry, the wakeup descriptor and the loop's own
  references away, and closing it again does nothing.\<close>

theorem close_idempotent:
  assumes "UringioLoop_close n E w = Some (Some (), w')" "ring w \<noteq> 0"
  shows "ring w' = 0 \<and> registry w' = None \<and> wakeup_fd w' < 0 \<and> readers w' = None \<and> writers w' = None \<and>
     loop_context_var w' = None \<and>
     (loop_tid w' = e_gettid E (hist w') \<longrightarrow> UringioLoop_close m E w' = Some (Some (), w'))"
proof -
  from assms obtain v where v: "w' = (let w = close_wakeup (v\<lparr>ring := 0, registry := None\<rparr>);
       w = (opt_decref (loop_context_var w) w)\<lparr>loop_context_var := None\<rparr>;
       w = (opt_decref (readers w) w)\<lparr>readers := None\<rparr>
     in (opt_decref (writers w) w)\<lparr>writers := None\<rparr>)"
    by (auto simp: UringioLoop_close_def ASSERT_LOOP_THREAD_def raise_exc_def shutdown_ring_def
        bind_eq_Some_conv Let_def split: if_splits option.splits prod.splits)
  have more: "ring (opt_decref x u) = ring u" "registry (opt_decref x u) = registry u"
    "wakeup_fd (opt_decref x u) = wakeup_fd u" "readers (opt_decref x u) = readers u"
    "loop_context_var (opt_decref x u) = loop_context_var u" for x u
    by (simp_all add: opt_decref_def py_def split: option.split)
  have "ring w' = 0" "registry w' = None" "wakeup_fd w' < 0" "readers w' = None" "writers w' = None"
    "loop_context_var w' = None"
    by (simp_all add: v Let_def more close_wakeup_def libc_def)
  then show ?thesis by (simp add: UringioLoop_close_def ASSERT_LOOP_THREAD_def)
qed

lemma idle_shutdown:
  assumes "ext.more v = ext.more idle_loop"
  shows "\<exists>w'. graceful_shutdown (Suc 0) sample_env v = Some w'"
proof -
  let ?v = "lu (Wait_cqe_timeout hundred_ms None) v"
  have "registry ?v = Some empty_registry"
    using loopst_more [of ?v v] loopst_more [OF assms] by simp
  then have "\<exists>u. registry_destroy (registry ?v) ?v = Some u"
    by (simp add: registry_destroy_def empty_registry_def zero_slot_def Let_def)
  then show ?thesis
    using graceful_defined [of "Suc 0" sample_env v ?v] by (auto simp: Let_def)
qed

theorem close_idempotent_witness:
  "\<exists>w'. UringioLoop_close 1 sample_env idle_loop = Some (Some (), w') \<and> ring w' = 0 \<and> registry w' = None"
proof -
  let ?v = "py (Decref 901) (py (New_object (Some 901)) idle_loop)"
  have ring: "ring idle_loop \<noteq> 0" by (simp add: idle_loop_def)
  obtain u where "graceful_shutdown (Suc 0) sample_env ?v = Some u" using idle_shutdown [of ?v] by auto
  then have "\<exists>w'. UringioLoop_close 1 sample_env idle_loop = Some (Some (), w')"
    using ring
    by (simp add: UringioLoop_close_def ASSERT_LOOP_THREAD_def py_new_def shutdown_ring_def Let_def)
  then obtain w' where w': "UringioLoop_close 1 sample_env idle_loop = Some (Some (), w')" by blast
  from close_idempotent [OF this ring] w' show ?thesis by blast
qed

text \<open>A loop that was made but not initialised, when it is deallocated, closes descriptor \<open>0\<close>, the
  standard input: the field still holds the zero of its allocation and only a negative value means
  that there is no descriptor.\<close>

theorem dealloc_closes_standard_input:
  assumes "UringioLoop_new E registry_size w = Some (Some x, w1)" "UringioLoop_dealloc n E w1 = Some w2"
  shows "Libc (Close_fd 0) \<in> set (hist w2)"
proof -
  from assms(1) have w1: "wakeup_fd w1 = 0" "readers w1 = None" "writers w1 = None"
    "loop_context_var w1 = None"
    by (auto simp: UringioLoop_new_def raise_exc_def bind_eq_Some_conv Let_def
        split: option.splits prod.splits if_splits)
  let ?c = "close_wakeup (UringioLoop_clear w1)"
  have c: "Libc (Close_fd 0) \<in> set (hist ?c)"
    by (simp add: close_wakeup_def UringioLoop_clear_def w1 opt_decref_def)
  show ?thesis
  proof (cases "ring ?c = 0")
    case True
    with assms(2) c show ?thesis by (simp add: UringioLoop_dealloc_def Let_def)
  next
    case False
    with assms(2) obtain v where "graceful_shutdown n E ?c = Some v" "hist w2 = hist v"
      by (auto simp: UringioLoop_dealloc_def shutdown_ring_def Let_def)
    with graceful_shutdown_extends [of n E ?c v] c show ?thesis by (auto simp: extends_def)
  qed
qed

lemma destroy_zero_slots: "destroy_slots (replicate n zero_slot) w = Some w"
  by (induction n) (simp_all add: zero_slot_def opt_decref_def)

theorem dealloc_closes_standard_input_witness:
  "\<exists>w1 w2. UringioLoop_new sample_env 1 idle_loop = Some (Some 901, w1) \<and>
     UringioLoop_dealloc 1 sample_env w1 = Some w2 \<and> Libc (Close_fd 0) \<in> set (hist w2)"
proof -
  obtain w1 reg where w1: "UringioLoop_new sample_env 1 idle_loop = Some (Some 901, w1)"
    "registry w1 = Some reg" "slots reg = replicate 1 zero_slot" "ring w1 \<noteq> 0"
    by (simp add: UringioLoop_new_def registry_new_def c_malloc_def py_new_def Let_def)
  let ?c = "close_wakeup (UringioLoop_clear w1)"
  let ?v = "lu (Wait_cqe_timeout hundred_ms None) ?c"
  have c: "registry ?v = Some reg" "ring ?c \<noteq> 0"
    using w1(2,4)
    by (simp_all add: close_wakeup_def UringioLoop_clear_def opt_decref_def Let_def py_def lu_def libc_def
        split: option.split)
  have "take m [zero_slot] = replicate (min m 1) zero_slot" for m by (cases m) simp_all
  then have "\<exists>u. registry_destroy (registry ?v) ?v = Some u"
    using w1(3) by (simp add: registry_destroy_def c(1) destroy_zero_slots)
  with graceful_defined [of "Suc 0" sample_env ?c ?v] obtain u where
    "graceful_shutdown (Suc 0) sample_env ?c = Some u" by (auto simp: Let_def)
  then have "\<exists>w2. UringioLoop_dealloc 1 sample_env w1 = Some w2"
    using c(2) by (simp add: UringioLoop_dealloc_def shutdown_ring_def Let_def)
  with dealloc_closes_standard_input [OF w1(1)] w1(1) show ?thesis by blast
qed

end
