(* ===== verification/Context_Managers.thy ===== *)
theory Context_Managers
  imports Loop_Samples
begin

text \<open>
  The four context managers as implementations of one interface: entering stores a capsule around a
  changed copy of the current context (the execution context manager: around its own context) and
  keeps a token of the previous value, leaving with that token restores it, and the capsule that
  nobody holds any more takes its context with it.
\<close>

section \<open>The context variable\<close>

lemma let_go_state [simp]:
  "context_value (let_go v w) = context_value w" "ctx_tokens (let_go v w) = ctx_tokens w"
  "context_var (let_go v w) = context_var w"
  by (simp_all add: let_go_def free_exec_context_def c_free_def libc_def split: ctx_value.split)

lemma held_same:
  "context_value v = context_value w \<Longrightarrow> ctx_tokens v = ctx_tokens w \<Longrightarrow> held_value x v = held_value x w"
  by (simp add: held_value_def)

lemma contexts_let_go:
  "contexts (let_go v w) =
     (case v of
        Ctx_capsule k p \<Rightarrow> if held_value v w \<or> p = 0 then contexts w else (contexts w)(p := None)
      | _ \<Rightarrow> contexts w)"
  by (simp add: let_go_def free_exec_context_def c_free_def libc_def split: ctx_value.split)

lemma give_up_state [simp]:
  "context_value (give_up_token t w) = context_value w"
  "ctx_tokens (give_up_token t w) = remove1 t (ctx_tokens w)"
  "context_var (give_up_token t w) = context_var w"
  by (simp_all add: give_up_token_def)

text \<open>Giving up a token whose value the variable holds frees nothing.\<close>

lemma give_up_current:
  "context_value w = snd t \<Longrightarrow> contexts (give_up_token t w) = contexts w"
  by (simp add: give_up_token_def contexts_let_go held_value_def split: ctx_value.split)

lemma ContextVar_get_capsule:
  assumes "ContextVar_get E None w = (Some p, w')"
  shows "(\<exists>k. context_value w = Ctx_capsule k p) \<and> ext.more w' = ext.more w"
  using assms
  by (auto simp: ContextVar_get_def py_new_def Let_def split: if_splits option.splits ctx_value.splits)

lemma ContextVar_set_value:
  assumes "ContextVar_set E v w = (Some t, w')"
  shows "context_value w' = v \<and> snd t = context_value w \<and> contexts w' = contexts w \<and>
    ctx_tokens w' = t # ctx_tokens w"
  using assms
  by (auto simp: ContextVar_set_def py_new_def Let_def py_def split: if_splits option.splits)

text \<open>A successful reset puts the remembered value back and lets go of the one it replaces.\<close>

lemma ContextVar_reset_value:
  assumes "ContextVar_reset E (Some t) w = (r, w')" "\<not> r < 0"
  shows "context_value w' = snd t \<and> ctx_tokens w' = ctx_tokens w \<and>
    contexts w' = contexts (let_go (context_value w) (w\<lparr>context_value := snd t\<rparr>))"
proof -
  obtain o' v where t: "t = (o', v)" by (cases t)
  from assms t obtain b u where u: "ext.more u = ext.more w"
    "w' = py (Decref b) (let_go (context_value w) (u\<lparr>context_value := v\<rparr>))"
  proof -
    from assms t obtain n x where
      "w' = py (Decref x) (let_go (context_value w) ((py (Decref n) (py (New_object (Some x))
         (py (New_object (Some n)) w)))\<lparr>context_value := v\<rparr>))"
      by (auto simp: ContextVar_reset_def py_new_def Let_def split: if_splits option.splits)
    with that [of "py (Decref n) (py (New_object (Some x)) (py (New_object (Some n)) w))" x]
    show ?thesis by simp
  qed
  note same = loopst_more [OF u(1)]
  show ?thesis
    by (simp add: u(2) t same contexts_let_go held_value_def split: ctx_value.split)
qed

lemma clone_value:
  assumes "clone_execution_context E src w = Some (Some p, w')"
  shows "p \<noteq> 0 \<and> (\<exists>c. deref_ctx w src = Some c \<and> contexts w' = (contexts w)(p \<mapsto> c)) \<and>
    context_value w' = context_value w \<and> ctx_tokens w' = ctx_tokens w"
  using assms
  by (auto simp: clone_execution_context_def c_malloc_def Let_def libc_def deref_ctx_def
      bind_eq_Some_conv split: if_splits)

lemma store_context_value:
  assumes "store_context E b b' p w = (Some t, w')"
  shows "(\<exists>k. context_value w' = Ctx_capsule k p) \<and> snd t = context_value w \<and>
    contexts w' = contexts w \<and> ctx_tokens w' = t # ctx_tokens w"
proof -
  from assms obtain k v where v: "e_new_object E (hist w) = Some k"
    "ContextVar_set E (Ctx_capsule k p) (py (New_object (Some k)) w) = (Some t, v)" "w' = py (Decref k) v"
    by (auto simp: store_context_def py_new_def Let_def split: option.splits prod.splits)
  with ContextVar_set_value [OF v(2)] show ?thesis by simp
qed

lemma reset_token_value:
  assumes "reset_token E (To t) w = Some (True, w')"
  shows "context_value w' = snd t \<and>
    contexts w' = contexts (let_go (context_value w) (w\<lparr>context_value := snd t\<rparr>))"
proof -
  obtain r v where v: "ContextVar_reset E (Some t) w = (r, v)" by (metis surj_pair)
  with assms have "\<not> r < 0" "w' = give_up_token t v"
    by (auto simp: reset_token_def Let_def split: if_splits)
  with ContextVar_reset_value [OF v] show ?thesis by (simp add: give_up_current)
qed

text \<open>Setting up and closing a buffer mode touches neither the variable nor the contexts.\<close>

definition same_context :: "loopst \<Rightarrow> loopst \<Rightarrow> bool" where
  "same_context w v \<longleftrightarrow> context_value v = context_value w \<and> contexts v = contexts w \<and>
     ctx_tokens v = ctx_tokens w"

lemma same_context_simps [simp]:
  "same_context w w" "same_context w (lu c v) = same_context w v"
  "same_context w (upd_payload bp f v) = same_context w v"
  "same_context w (libc d v) = same_context w v" "same_context w (py d' v) = same_context w v"
  by (simp_all add: same_context_def lu_def libc_def upd_payload_def)

lemma ring_adds_context [simp]: "same_context w (fold (\<lambda>i. lu (f i)) is v) = same_context w v"
  by (induction "is" arbitrary: v) simp_all

lemma c_mode_context [simp]:
  "same_context w (snd (init_fixed_mode E iov n v)) = same_context w v"
  "same_context w (snd (close_fixed_mode E v)) = same_context w v"
  "same_context w (snd (close_buf_ring_mode q m g v)) = same_context w v"
  "same_context w (snd (init_buf_ring_mode E a b m g v)) = same_context w v"
  by (simp_all add: init_fixed_mode_def close_fixed_mode_def close_buf_ring_mode_def
      init_buf_ring_mode_def Let_def)

lemma provided_mode_context [simp]:
  "same_context w (snd (init_provided_mode E a b m g v)) = same_context w v"
  "same_context w (snd (close_provided_mode E m g v)) = same_context w v"
  by (simp_all add: init_provided_mode_def close_provided_mode_def SQE_WITH_OPTIONAL_TIMEOUT_def
      timeout_def create_sqe_eq io_uring_get_sqe_def io_uring_submit_def Let_def)

lemma index_registry_context [simp]:
  "same_context w (snd (buffer_idx_registry_create E k v)) = same_context w v"
  "same_context w (snd (buffer_idx_registry_destroy y v)) = same_context w v"
  by (auto simp: buffer_idx_registry_create_def buffer_idx_registry_destroy_def c_malloc_def
      c_free_def Let_def)

lemma fail_enter_not_True: "fail_enter E t msg w \<noteq> Some (True, w')"
  by (auto simp: fail_enter_def Let_def split: prod.splits)

lemma enter_mode_context:
  assumes "enter_mode E t bp w = Some (True, w')"
  shows "same_context w w'"
proof -
  from assms obtain p m where m: "payloads w bp = Some p" "mode p = Some m"
    by (auto simp: enter_mode_def bind_eq_Some_conv)
  show ?thesis
    using assms m
    by (cases m) (auto simp: enter_mode_def bind_eq_Some_conv Let_def fail_enter_not_True split_beta
        split: pfield.splits if_splits option.splits)
qed

lemma exit_mode_context:
  assumes "exit_mode E bp w = Some w'"
  shows "same_context w w'"
proof -
  from assms obtain p m where m: "payloads w bp = Some p" "mode p = Some m"
    by (auto simp: exit_mode_def bind_eq_Some_conv)
  show ?thesis
    using assms m
    by (cases m) (auto simp: exit_mode_def bind_eq_Some_conv Let_def split_beta
        split: pfield.splits)
qed

section \<open>The interface of a context manager\<close>

text \<open>The fields each of the managers changes; the last one replaces the whole context by its own,
  as long as that has not been freed.\<close>

abbreviation sets_stream :: "StreamStrategyCtx \<Rightarrow> loopst \<Rightarrow> ExecutionContext option" where
  "sets_stream m w \<equiv> map_option (\<lambda>c. c\<lparr>ctx_stream := ss_stream m\<rparr>) (current w)"

abbreviation sets_transfer :: "TransferModeCtx \<Rightarrow> loopst \<Rightarrow> ExecutionContext option" where
  "sets_transfer m w \<equiv> map_option (\<lambda>c. c\<lparr>ctx_transfer_mode := tm_mode m\<rparr>) (current w)"

abbreviation sets_buffers :: "BufferModeCtx \<Rightarrow> loopst \<Rightarrow> ExecutionContext option" where
  "sets_buffers m w \<equiv>
     map_option (\<lambda>c. c\<lparr>ctx_buffer_mode := bm_mode m, ctx_payload := bm_payload m\<rparr>) (current w)"

abbreviation sets_all :: "ExecutionContextCtx \<Rightarrow> loopst \<Rightarrow> ExecutionContext option" where
  "sets_all m w \<equiv> deref_ctx w (ec_context m)"

text \<open>The address a value of the variable holds.\<close>

definition address :: "ctx_value \<Rightarrow> ptr" where
  "address v = (case v of Ctx_capsule k p \<Rightarrow> p | _ \<Rightarrow> 0)"

text \<open>
  What a \<open>with\<close> statement sees.  Inside it the changed fields.  After it the old value of the
  variable, whatever the body did; the restored context is what it was before the exit, unless
  the exit frees another capsule around the same address; and the context of the manager is gone
  when the body has left it current and no token remembers it.
\<close>

definition scoped ::
    "(env \<Rightarrow> 'm \<Rightarrow> loopst \<Rightarrow> 'm api) \<Rightarrow> (env \<Rightarrow> 'm \<Rightarrow> loopst \<Rightarrow> ('m \<times> bool option \<times> loopst) option) \<Rightarrow>
     ('m \<Rightarrow> loopst \<Rightarrow> ExecutionContext option) \<Rightarrow> env \<Rightarrow> 'm \<Rightarrow> loopst \<Rightarrow> bool" where
  "scoped enter leave change E m w \<longleftrightarrow> (\<forall>m' w1. enter E m w = Some (Some m', w1) \<longrightarrow>
     current w1 = change m w \<and>
     (\<forall>w2 m'' b w3. leave E m' w2 = Some (m'', Some b, w3) \<longrightarrow>
        context_value w3 = context_value w \<and> \<not> b \<and>
        (address (context_value w2) \<noteq> address (context_value w) \<longrightarrow>
           current w3 = pointee w2 (context_value w)) \<and>
        (context_value w2 = context_value w1 \<and> context_value w1 \<noteq> context_value w \<and>
         context_value w1 \<notin> snd ` set (ctx_tokens w2) \<longrightarrow>
           pointee w3 (context_value w1) = None)))"

text \<open>
  A manager \<open>change\<close>s the current context for the extent of its body: \<open>__enter__\<close> stores the changed
  context and a token, \<open>__exit__\<close> restores what the token remembers, lets go of what it replaces and
  gives the token up.
\<close>

locale context_manager =
  fixes enter :: "env \<Rightarrow> 'm \<Rightarrow> loopst \<Rightarrow> 'm api"
    and leave :: "env \<Rightarrow> 'm \<Rightarrow> loopst \<Rightarrow> ('m \<times> bool option \<times> loopst) option"
    and token :: "'m \<Rightarrow> ctx_token pfield"
    and change :: "'m \<Rightarrow> loopst \<Rightarrow> ExecutionContext option"
  assumes entering: "enter E m w = Some (Some m', w') \<Longrightarrow>
      current w' = change m w \<and> (\<exists>t. token m' = To t \<and> snd t = context_value w)"
    and leaving: "leave E m w = Some (m', Some b, w') \<Longrightarrow> token m = To t \<Longrightarrow>
      context_value w' = snd t \<and> \<not> b \<and> token m' = Null \<and>
      contexts w' = contexts (let_go (context_value w) (w\<lparr>context_value := snd t\<rparr>))"
begin

lemma balanced: "scoped enter leave change E m w"
  unfolding scoped_def
proof (intro allI impI)
  fix m' and w1 :: loopst assume "enter E m w = Some (Some m', w1)"
  from entering [OF this] obtain t where
    t: "current w1 = change m w" "token m' = To t" "snd t = context_value w" by blast
  have leave: "context_value w3 = context_value w \<and> \<not> b \<and>
      (address (context_value w2) \<noteq> address (context_value w) \<longrightarrow>
         current w3 = pointee w2 (context_value w)) \<and>
      (context_value w2 = context_value w1 \<and> context_value w1 \<noteq> context_value w \<and>
       context_value w1 \<notin> snd ` set (ctx_tokens w2) \<longrightarrow> pointee w3 (context_value w1) = None)"
    if "leave E m' w2 = Some (m'', Some b, w3)" for w2 w3 :: loopst and m'' b
  proof -
    from leaving [OF that t(2)] have l: "context_value w3 = context_value w" "\<not> b"
      "contexts w3 = contexts (let_go (context_value w2) (w2\<lparr>context_value := context_value w\<rparr>))"
      by (simp_all add: t(3))
    have "current w3 = pointee w2 (context_value w)"
      if "address (context_value w2) \<noteq> address (context_value w)"
      using that l(1,3)
      by (auto simp: current_def pointee_def deref_ctx_def contexts_let_go address_def
          split: ctx_value.splits)
    moreover have "pointee w3 (context_value w1) = None"
      if "context_value w2 = context_value w1" "context_value w1 \<noteq> context_value w"
        "context_value w1 \<notin> snd ` set (ctx_tokens w2)"
      using that l(3)
      by (auto simp: pointee_def deref_ctx_def contexts_let_go held_value_def split: ctx_value.splits)
    ultimately show ?thesis using l(1,2) by blast
  qed
  with t(1) show "current w1 = change m w \<and> (\<forall>w2 m'' b w3. leave E m' w2 = Some (m'', Some b, w3) \<longrightarrow>
      context_value w3 = context_value w \<and> \<not> b \<and>
      (address (context_value w2) \<noteq> address (context_value w) \<longrightarrow>
         current w3 = pointee w2 (context_value w)) \<and>
      (context_value w2 = context_value w1 \<and> context_value w1 \<noteq> context_value w \<and>
       context_value w1 \<notin> snd ` set (ctx_tokens w2) \<longrightarrow> pointee w3 (context_value w1) = None))"
    by blast
qed

end

text \<open>Three of the managers store a changed copy of the current context.\<close>

lemma stored_change:
  assumes get: "ContextVar_get E None w = (Some q, w1)"
    and clone: "clone_execution_context E q w1 = Some (Some p, w2)"
    and store: "store_context E b b' p (write_ctx p f w2) = (Some t, v)"
    and same: "same_context v u"
  shows "current u = map_option f (current w) \<and> snd t = context_value w"
proof -
  from ContextVar_get_capsule [OF get] obtain k where
    k: "context_value w = Ctx_capsule k q" "ext.more w1 = ext.more w" by blast
  note w1 = loopst_more [OF k(2)]
  from clone_value [OF clone] obtain c where c: "p \<noteq> 0" "deref_ctx w1 q = Some c"
    "contexts w2 = (contexts w1)(p \<mapsto> c)" "context_value w2 = context_value w1" by blast
  from store_context_value [OF store] obtain k' where k': "context_value v = Ctx_capsule k' p"
    "snd t = context_value (write_ctx p f w2)" "contexts v = contexts (write_ctx p f w2)" by blast
  have "current w = Some c" using k(1) c(2) w1 by (simp add: current_def pointee_def deref_ctx_def split: if_splits)
  moreover have "current u = Some (f c)"
    using k' c(1,3) same by (simp add: current_def pointee_def deref_ctx_def write_ctx_def same_context_def)
  ultimately show ?thesis using k'(2) c(4) w1 by (simp add: write_ctx_def)
qed

lemma cloned_entry:
  assumes "(let (cur, v) = ContextVar_get E None w
      in case cur of
           None \<Rightarrow> Some (None, v)
         | Some src \<Rightarrow> do {
             (new, u) \<leftarrow> clone_execution_context E src v;
             (case new of None \<Rightarrow> Some (None, u) | Some p \<Rightarrow> k p u)
           }) = Some (Some m', w')"
  obtains q w1 p w2 where "ContextVar_get E None w = (Some q, w1)"
    "clone_execution_context E q w1 = Some (Some p, w2)" "k p w2 = Some (Some m', w')"
  using assms by (auto simp: bind_eq_Some_conv split: option.splits prod.splits)

lemma stored_entry:
  assumes "(let (token, v) = store in case token of None \<Rightarrow> Some (None, v) | Some t \<Rightarrow> k t v) =
      Some (Some m', w')"
  obtains t v where "store = (Some t, v)" "k t v = Some (Some m', w')"
  using assms by (cases store; cases "fst store") auto

lemma entered_own:
  assumes "ContextVar_set E (Ctx_capsule k p) w = (Some t, v)" "same_context v u"
  shows "current u = deref_ctx w p \<and> snd t = context_value w"
  using ContextVar_set_value [OF assms(1)] assms(2)
  by (simp add: current_def pointee_def deref_ctx_def same_context_def)

interpretation stream_strategy: context_manager StreamStrategyCtx_enter StreamStrategyCtx_exit ss_token
  sets_stream
proof unfold_locales
  fix E m and w :: loopst and m' w'
  assume "StreamStrategyCtx_enter E m w = Some (Some m', w')"
  then obtain q w1 p w2 where e:
    "ContextVar_get E None w = (Some q, w1)" "clone_execution_context E q w1 = Some (Some p, w2)"
    "(let (token, v) = store_context E True True p (write_ctx p (\<lambda>c. c\<lparr>ctx_stream := ss_stream m\<rparr>) w2)
      in case token of None \<Rightarrow> Some (None, v)
         | Some t \<Rightarrow> Some (Some (m\<lparr>ss_token := To t\<rparr>), py (Incref (ss_obj m)) v)) = Some (Some m', w')"
    unfolding StreamStrategyCtx_enter_def by (elim cloned_entry) (simp add: Let_def)
  from e(3) obtain t v where s:
    "store_context E True True p (write_ctx p (\<lambda>c. c\<lparr>ctx_stream := ss_stream m\<rparr>) w2) = (Some t, v)"
    "m' = m\<lparr>ss_token := To t\<rparr>" "w' = py (Incref (ss_obj m)) v"
    by (elim stored_entry) simp
  have "same_context v w'" using s(3) by simp
  from stored_change [OF e(1,2) s(1) this] show
    "current w' = sets_stream m w \<and> (\<exists>t. ss_token m' = To t \<and> snd t = context_value w)"
    using s(2) by simp
next
  fix E m and w :: loopst and m' b w' t
  assume "StreamStrategyCtx_exit E m w = Some (m', Some b, w')" "ss_token m = To t"
  then show "context_value w' = snd t \<and> \<not> b \<and> ss_token m' = Null \<and>
      contexts w' = contexts (let_go (context_value w) (w\<lparr>context_value := snd t\<rparr>))"
    by (auto simp: StreamStrategyCtx_exit_def bind_eq_Some_conv dest!: reset_token_value
        split: if_splits)
qed

interpretation transfer_mode: context_manager TransferModeCtx_enter TransferModeCtx_exit tm_token
  sets_transfer
proof unfold_locales
  fix E m and w :: loopst and m' w'
  assume "TransferModeCtx_enter E m w = Some (Some m', w')"
  then obtain q w1 p w2 where e:
    "ContextVar_get E None w = (Some q, w1)" "clone_execution_context E q w1 = Some (Some p, w2)"
    "(let (token, v) = store_context E True True p (write_ctx p (\<lambda>c. c\<lparr>ctx_transfer_mode := tm_mode m\<rparr>) w2)
      in case token of None \<Rightarrow> Some (None, v)
         | Some t \<Rightarrow> Some (Some (m\<lparr>tm_token := To t\<rparr>), py (Incref (tm_obj m)) v)) = Some (Some m', w')"
    unfolding TransferModeCtx_enter_def by (elim cloned_entry) (simp add: Let_def)
  from e(3) obtain t v where s:
    "store_context E True True p (write_ctx p (\<lambda>c. c\<lparr>ctx_transfer_mode := tm_mode m\<rparr>) w2) = (Some t, v)"
    "m' = m\<lparr>tm_token := To t\<rparr>" "w' = py (Incref (tm_obj m)) v"
    by (elim stored_entry) simp
  have "same_context v w'" using s(3) by simp
  from stored_change [OF e(1,2) s(1) this] show
    "current w' = sets_transfer m w \<and> (\<exists>t. tm_token m' = To t \<and> snd t = context_value w)"
    using s(2) by simp
next
  fix E m and w :: loopst and m' b w' t
  assume "TransferModeCtx_exit E m w = Some (m', Some b, w')" "tm_token m = To t"
  then show "context_value w' = snd t \<and> \<not> b \<and> tm_token m' = Null \<and>
      contexts w' = contexts (let_go (context_value w) (w\<lparr>context_value := snd t\<rparr>))"
    by (auto simp: TransferModeCtx_exit_def bind_eq_Some_conv dest!: reset_token_value
        split: if_splits)
qed

interpretation buffer_mode: context_manager BufferModeCtx_enter BufferModeCtx_exit bm_token
  sets_buffers
proof unfold_locales
  fix E m and w :: loopst and m' w'
  assume "BufferModeCtx_enter E m w = Some (Some m', w')"
  then obtain q w1 p w2 where e:
    "ContextVar_get E None w = (Some q, w1)" "clone_execution_context E q w1 = Some (Some p, w2)"
    "(let (token, v) = store_context E False True p (write_ctx p (\<lambda>c. c\<lparr>ctx_buffer_mode := bm_mode m,
        ctx_payload := bm_payload m\<rparr>) w2)
      in case token of None \<Rightarrow> Some (None, v)
         | Some t \<Rightarrow> do {
             (ok, u) \<leftarrow> enter_mode E t (bm_payload m) v;
             Some (if ok then (Some (m\<lparr>bm_token := To t\<rparr>), py (Incref (bm_obj m)) u) else (None, u))
           }) = Some (Some m', w')"
    unfolding BufferModeCtx_enter_def by (elim cloned_entry) (simp add: Let_def)
  from e(3) obtain t v u where s:
    "store_context E False True p (write_ctx p (\<lambda>c. c\<lparr>ctx_buffer_mode := bm_mode m,
       ctx_payload := bm_payload m\<rparr>) w2) = (Some t, v)"
    "enter_mode E t (bm_payload m) v = Some (True, u)"
    "m' = m\<lparr>bm_token := To t\<rparr>" "w' = py (Incref (bm_obj m)) u"
    by (elim stored_entry) (auto simp: bind_eq_Some_conv split: if_splits)
  have "same_context v w'" using enter_mode_context [OF s(2)] s(4) by simp
  from stored_change [OF e(1,2) s(1) this] show
    "current w' = sets_buffers m w \<and> (\<exists>t. bm_token m' = To t \<and> snd t = context_value w)"
    using s(3) by simp
next
  fix E m and w :: loopst and m' b w' t
  assume "BufferModeCtx_exit E m w = Some (m', Some b, w')" "bm_token m = To t"
  then obtain v where v: "reset_token E (To t) w = Some (True, v)" "exit_mode E (bm_payload m) v = Some w'"
    "m' = m\<lparr>bm_token := Null\<rparr>" "\<not> b"
    by (auto simp: BufferModeCtx_exit_def bind_eq_Some_conv Let_def split: if_splits)
  from reset_token_value [OF v(1)] exit_mode_context [OF v(2)] v(3,4)
  show "context_value w' = snd t \<and> \<not> b \<and> bm_token m' = Null \<and>
      contexts w' = contexts (let_go (context_value w) (w\<lparr>context_value := snd t\<rparr>))"
    by (simp add: same_context_def)
qed

interpretation execution_context: context_manager ExecutionContextCtx_enter ExecutionContextCtx_exit
  ec_token sets_all
proof unfold_locales
  fix E m and w :: loopst and m' w'
  assume "ExecutionContextCtx_enter E m w = Some (Some m', w')"
  then obtain k t v u where e:
    "ContextVar_set E (Ctx_capsule k (ec_context m)) (py (New_object (Some k)) w) = (Some t, v)"
    "enter_mode E t (ec_payload m) (py (Decref k) v) = Some (True, u)"
    "m' = m\<lparr>ec_token := To t\<rparr>" "w' = py (Incref (ec_obj m)) u"
    by (auto simp: ExecutionContextCtx_enter_def py_new_def raise_exc_def Let_def bind_eq_Some_conv
        split: option.splits prod.splits if_splits)
  have "same_context v w'" using enter_mode_context [OF e(2)] e(4) by (simp add: same_context_def)
  from entered_own [OF e(1) this] show
    "current w' = sets_all m w \<and> (\<exists>t. ec_token m' = To t \<and> snd t = context_value w)"
    using e(3) by (simp add: deref_ctx_def)
next
  fix E m and w :: loopst and m' b w' t
  assume "ExecutionContextCtx_exit E m w = Some (m', Some b, w')" "ec_token m = To t"
  then show "context_value w' = snd t \<and> \<not> b \<and> ec_token m' = Null \<and>
      contexts w' = contexts (let_go (context_value w) (w\<lparr>context_value := snd t\<rparr>))"
    by (auto simp: ExecutionContextCtx_exit_def bind_eq_Some_conv dest!: reset_token_value
        split: if_splits)
qed

section \<open>The properties\<close>

text \<open>C24: each of the four context managers scopes its setting.  After a successful \<open>__enter__\<close> the
  current context is the previous one with exactly the manager's fields changed; for the execution
  context manager it is the manager's own context, which exists only as long as it was not freed.
  A successful \<open>__exit__\<close> in any later state puts back the value of the variable from before the
  \<open>__enter__\<close>, whatever the body did to it, leaves the restored context alone (unless the value it
  replaces is another capsule around the same address) and does not swallow exceptions.  When the
  body has left the manager's capsule current and no token remembers it, the exit frees its context:
  an execution context manager can be entered once only.\<close>

theorem context_restored:
  shows
    "scoped StreamStrategyCtx_enter StreamStrategyCtx_exit
       sets_stream E ss w \<and>
     scoped TransferModeCtx_enter TransferModeCtx_exit
       sets_transfer E tm w \<and>
     scoped BufferModeCtx_enter BufferModeCtx_exit
       sets_buffers E bm w \<and>
     scoped ExecutionContextCtx_enter ExecutionContextCtx_exit
       sets_all E ec w"
  by (intro conjI stream_strategy.balanced transfer_mode.balanced buffer_mode.balanced
      execution_context.balanced)

definition multishot_manager :: StreamStrategyCtx where
  "multishot_manager = \<lparr>ss_obj = 30, ss_stream = MULTISHOT, ss_token = Wild\<rparr>"

definition entered_loop :: loopst where
  "entered_loop = snd (the (StreamStrategyCtx_enter sample_env multishot_manager idle_loop))"

lemma multishot_enter:
  "\<exists>m t p. StreamStrategyCtx_enter sample_env multishot_manager idle_loop = Some (Some m, entered_loop) \<and>
     ss_token m = To t \<and> context_var entered_loop = Some 4 \<and>
     context_value entered_loop = Ctx_capsule 901 p \<and> ctx_tokens entered_loop = [(901, Ctx_capsule 6 16)]"
  by (simp add: entered_loop_def StreamStrategyCtx_enter_def ContextVar_get_def py_new_def Let_def
      clone_execution_context_def c_malloc_def store_context_def ContextVar_set_def multishot_manager_def
      idle_loop_def fresh_ptr_def libc_def deref_ctx_def write_ctx_def)

lemma multishot_leave:
  assumes "ss_token m = To t" "context_var w = Some 4"
  shows "\<exists>m' w'. StreamStrategyCtx_exit sample_env m w = Some (m', Some False, w')"
  using assms
  by (cases t) (simp add: StreamStrategyCtx_exit_def reset_token_def ContextVar_reset_def py_new_def Let_def)

theorem context_restored_witness:
  "\<exists>m m' w'. StreamStrategyCtx_enter sample_env multishot_manager idle_loop =
       Some (Some m, entered_loop) \<and>
     current entered_loop = Some \<lparr>ctx_buffer_mode = NORMAL_BUF,
       ctx_stream = MULTISHOT, ctx_transfer_mode = NORMAL_TRANSFER, ctx_payload = 0\<rparr> \<and>
     StreamStrategyCtx_exit sample_env m entered_loop = Some (m', Some False, w') \<and>
     context_value w' = context_value idle_loop \<and>
     pointee w' (context_value entered_loop) = None"
proof -
  obtain m t p where m: "StreamStrategyCtx_enter sample_env multishot_manager idle_loop =
      Some (Some m, entered_loop)" "ss_token m = To t" "context_var entered_loop = Some 4"
    and v: "context_value entered_loop = Ctx_capsule 901 p"
      "ctx_tokens entered_loop = [(901, Ctx_capsule 6 16)]"
    using multishot_enter by blast
  obtain m' w' where m': "StreamStrategyCtx_exit sample_env m entered_loop = Some (m', Some False, w')"
    using multishot_leave [OF m(2,3)] by blast
  have idle: "context_value idle_loop = Ctx_capsule 6 16"
    "current idle_loop = Some default_context"
    by (simp_all add: idle_loop_def current_def pointee_def deref_ctx_def)
  have "scoped StreamStrategyCtx_enter StreamStrategyCtx_exit
      sets_stream
      sample_env multishot_manager idle_loop"
    using context_restored by blast
  note s = this [unfolded scoped_def, rule_format, OF m(1)]
  have "current entered_loop = Some (default_context\<lparr>ctx_stream := MULTISHOT\<rparr>)"
    using conjunct1 [OF s] idle by (simp add: multishot_manager_def)
  moreover have "context_value entered_loop \<noteq> context_value idle_loop"
    "context_value entered_loop \<notin> snd ` set (ctx_tokens entered_loop)"
    using v idle(1) by simp_all
  with conjunct2 [OF s, rule_format, OF m']
  have "context_value w' = context_value idle_loop" "pointee w' (context_value entered_loop) = None"
    by blast+
  ultimately show ?thesis using m(1) m' by (auto simp: default_context_def)
qed

section \<open>Entering again\<close>

text \<open>An execution context manager whose context was freed can be entered again; the first function
  that reads the current context then reads freed memory.\<close>

lemma current_field_None:
  assumes "current w = None"
  shows "current_field E field w = None"
proof (cases "ContextVar_get E None w")
  case (Pair p v)
  show ?thesis
  proof (cases p)
    case (Some q)
    with Pair ContextVar_get_capsule [of E w q v] obtain k where
      k: "context_value w = Ctx_capsule k q" "ext.more v = ext.more w" by blast
    with assms have "deref_ctx v q = None"
      using loopst_more(11) [OF k(2)] by (simp add: current_def pointee_def deref_ctx_def split: if_splits)
    with Pair Some show ?thesis by (simp add: current_field_def)
  qed (use Pair in \<open>simp add: current_field_def\<close>)
qed

theorem reentered_context_undefined:
  assumes "ExecutionContextCtx_enter E m w = Some (Some m', w')" "deref_ctx w (ec_context m) = None"
  shows "get_stream_strategy E' w' = None \<and> get_transfer_mode E' w' = None \<and> get_buffer E' w' = None"
proof -
  have "current w' = None"
    using execution_context.entering [OF assms(1)] assms(2) by simp
  then show ?thesis
    by (simp add: get_buffer_def get_transfer_mode_def get_stream_strategy_def current_field_None)
qed

definition own_context_manager :: ExecutionContextCtx where
  "own_context_manager = \<lparr>ec_obj = 31, ec_context = 24, ec_token = Null, ec_payload = 20\<rparr>"

definition own_context_loop :: loopst where
  "own_context_loop = idle_loop\<lparr>payloads := [20 \<mapsto> raw_payload\<lparr>mode := Some NORMAL_BUF\<rparr>],
     contexts := [16 \<mapsto> default_context, 24 \<mapsto> default_context]\<rparr>"

theorem reentered_context_undefined_witness:
  "\<exists>m1 w1 m2 w2 m3 w3. ExecutionContextCtx_enter sample_env own_context_manager own_context_loop =
       Some (Some m1, w1) \<and> get_stream_strategy sample_env w1 \<noteq> None \<and>
     ExecutionContextCtx_exit sample_env m1 w1 = Some (m2, Some False, w2) \<and>
     ExecutionContextCtx_enter sample_env m2 w2 = Some (Some m3, w3) \<and>
     get_stream_strategy sample_env w3 = None"
proof -
  note step = ExecutionContextCtx_enter_def ExecutionContextCtx_exit_def ContextVar_set_def
    ContextVar_reset_def reset_token_def py_new_def Let_def enter_mode_def own_context_manager_def
    own_context_loop_def idle_loop_def raw_payload_def
  obtain m1 w1 where 1: "ExecutionContextCtx_enter sample_env own_context_manager own_context_loop =
      Some (Some m1, w1)" "ec_token m1 = To (901, Ctx_capsule 6 16)" "ec_context m1 = 24"
      "ec_payload m1 = 20" "context_var w1 = Some 4" "context_value w1 = Ctx_capsule 901 24"
      "ctx_tokens w1 = [(901, Ctx_capsule 6 16)]"
      "payloads w1 20 = Some (raw_payload\<lparr>mode := Some NORMAL_BUF\<rparr>)"
      "contexts w1 = [16 \<mapsto> default_context, 24 \<mapsto> default_context]"
    by (simp add: step)
  have read: "get_stream_strategy sample_env w1 \<noteq> None"
    using 1(5,6,9) by (simp add: get_stream_strategy_def current_field_def ContextVar_get_def py_new_def
        Let_def deref_ctx_def)
  obtain m2 w2 where 2: "ExecutionContextCtx_exit sample_env m1 w1 = Some (m2, Some False, w2)"
      "ec_context m2 = 24" "ec_payload m2 = 20" "context_var w2 = Some 4" "contexts w2 24 = None"
      "payloads w2 20 = Some (raw_payload\<lparr>mode := Some NORMAL_BUF\<rparr>)"
    using 1(2-9) by (simp add: ExecutionContextCtx_exit_def reset_token_def ContextVar_reset_def
        py_new_def Let_def let_go_def held_value_def free_exec_context_def give_up_token_def
        c_free_def libc_def)
  obtain m3 w3 where 3: "ExecutionContextCtx_enter sample_env m2 w2 = Some (Some m3, w3)"
    using 2(3,4,6) by (simp add: ExecutionContextCtx_enter_def ContextVar_set_def py_new_def Let_def
        enter_mode_def)
  have "deref_ctx w2 (ec_context m2) = None" using 2(2,5) by (simp add: deref_ctx_def)
  from reentered_context_undefined [OF 3 this, of sample_env] 1(1) read 2(1) 3 show ?thesis by blast
qed

text \<open>When the capsule was made but the variable cannot be set, the new context is freed twice:
  giving up the capsule runs its destructor, and \<open>__enter__\<close> frees the same block again.\<close>

theorem failed_enter_frees_twice:
  assumes "ContextVar_get E None w = (Some q, w1)"
    "clone_execution_context E q w1 = Some (Some p, w2)" "e_new_object E (hist w2) \<noteq> None"
    "StreamStrategyCtx_enter E m w = Some (None, w')"
  shows "ledger (hist w') (Block p) = ledger (hist w2) (Block p) - 2"
proof -
  obtain k where k: "e_new_object E (hist w2) = Some k" using assms(3) by blast
  let ?w2 = "write_ctx p (\<lambda>c. c\<lparr>ctx_stream := ss_stream m\<rparr>) w2"
  have hist: "hist ?w2 = hist w2" by (simp add: write_ctx_def)
  obtain t v where v: "ContextVar_set E (Ctx_capsule k p) (py (New_object (Some k)) ?w2) = (t, v)"
    by (metis surj_pair)
  have "t = None" "w' = c_free p (free_exec_context p (py (Decref k) v))"
    using assms v k
    by (auto simp: StreamStrategyCtx_enter_def store_context_def py_new_def Let_def hist
        split: option.splits)
  moreover have "p \<noteq> 0" using clone_value [OF assms(2)] by simp
  moreover have "ledger (hist v) (Block p) = ledger (hist w2) (Block p)"
    using v by (auto simp: ContextVar_set_def py_new_def Let_def event_simps hist
        split: if_splits option.splits)
  ultimately show ?thesis by (simp add: free_exec_context_def event_simps c_free_def)
qed

definition exhausted_env :: env where
  "exhausted_env = sample_env\<lparr>e_new_object := \<lambda>h. if length h \<le> 3 then Some 901 else None\<rparr>"

lemma exhausted_enter:
  obtains q w1 p w2 w' where "ContextVar_get exhausted_env None idle_loop = (Some q, w1)"
    "clone_execution_context exhausted_env q w1 = Some (Some p, w2)"
    "e_new_object exhausted_env (hist w2) \<noteq> None" "ledger (hist w2) (Block p) = 1"
    "StreamStrategyCtx_enter exhausted_env multishot_manager idle_loop = Some (None, w')"
proof -
  let ?E = exhausted_env
  define w1 where "w1 = py (Decref 901) (py (New_object (Some 901)) idle_loop)"
  have c: "context_value idle_loop = Ctx_capsule 6 16" "context_var idle_loop = Some 4"
    "contexts idle_loop 16 = Some default_context"
    by (simp_all add: idle_loop_def)
  define p where "p = fresh_ptr (hist w1)"
  define w2 where "w2 = (libc (Malloc sizeof_ExecutionContext p) w1)
    \<lparr>contexts := (contexts idle_loop)(p \<mapsto> default_context)\<rparr>"
  have E: "e_new_object ?E h = (if length h \<le> 3 then Some 901 else None)" "e_malloc ?E h n = fresh_ptr h"
    for h n by (simp_all add: exhausted_env_def)
  have p: "p \<noteq> 0" by (simp add: p_def fresh_ptr_def)
  have get: "ContextVar_get ?E None idle_loop = (Some 16, w1)"
    using c by (simp add: ContextVar_get_def py_new_def Let_def E w1_def)
  have libc: "contexts (libc d v) = contexts v" for d and v :: loopst by (simp add: libc_def)
  have clone: "clone_execution_context ?E 16 w1 = Some (Some p, w2)"
    using p c(3) by (simp add: clone_execution_context_def c_malloc_def Let_def E w2_def p_def
        deref_ctx_def libc w1_def)
  have h: "length (hist w2) = 3" "context_var w2 = Some 4"
    using c(2) by (simp_all add: w2_def w1_def libc_def)
  then have "\<exists>w'. StreamStrategyCtx_enter ?E multishot_manager idle_loop = Some (None, w')"
    using get clone by (simp add: StreamStrategyCtx_enter_def store_context_def ContextVar_set_def
        py_new_def Let_def E write_ctx_def)
  moreover have "ledger (hist w2) (Block p) = 1"
    using p by (simp add: w2_def w1_def libc_def event_simps)
  ultimately show ?thesis using that [OF get clone] h by (auto simp: E)
qed

theorem failed_enter_frees_twice_witness:
  "\<exists>p w'. StreamStrategyCtx_enter exhausted_env multishot_manager idle_loop = Some (None, w') \<and>
     ledger (hist w') (Block p) = - 1"
proof -
  obtain q w1 p w2 w' where w: "ContextVar_get exhausted_env None idle_loop = (Some q, w1)"
    "clone_execution_context exhausted_env q w1 = Some (Some p, w2)"
    "e_new_object exhausted_env (hist w2) \<noteq> None" "ledger (hist w2) (Block p) = 1"
    "StreamStrategyCtx_enter exhausted_env multishot_manager idle_loop = Some (None, w')"
    by (rule exhausted_enter)
  with failed_enter_frees_twice [OF w(1-3,5)] show ?thesis by auto
qed

end
