(* ===== verification/Module_Init.thy ===== *)
theory Module_Init
  imports Exec_Context "HOL-Library.Multiset"
begin

text \<open>
  The module's initialisation (\<open>uringio_init.c\<close>) and the enumerations it publishes
  (\<open>execution_context/enums.c\<close>, \<open>ops/files/enums.c\<close>): which members Python sees, that the loop's
  functions accept exactly those, and that initialisation keeps the references balanced on every
  path.
\<close>

section \<open>State\<close>

record enumeration =
  enum_base :: string
  enum_name :: string
  enum_members :: "(string \<times> int) list"

text \<open>The enumeration classes made so far, the types made ready, the module's dictionary in the order
  of insertion, and the global \<open>UringioLoopType\<close>.\<close>

record modst = ext +
  enums :: "obj \<Rightarrow> enumeration option"
  ready_types :: "string list"
  attrs :: "(string \<times> obj) list"
  loop_type :: "obj option"

text \<open>CPython's answers: the addresses of the static types, and the results of \<open>PyType_Ready\<close> and of
  adding a name to a module.\<close>

record module_env =
  m_static :: "string \<Rightarrow> obj"
  m_type_ready :: "history \<Rightarrow> string \<Rightarrow> int"
  m_add_object :: "history \<Rightarrow> string \<Rightarrow> int"

section \<open>enums.c\<close>

text \<open>\<open>Py_BuildValue\<close> with a format \<open>{s:i, \<dots>}\<close> builds a dictionary of as many pairs as the format has;
  further arguments are not read.\<close>

definition format_pairs :: "string \<Rightarrow> nat" where
  "format_pairs fmt = length (filter (\<lambda>c. c = CHR '':'') fmt)"

definition Py_BuildValue :: "string \<Rightarrow> (string \<times> int) list \<Rightarrow> (string \<times> int) list" where
  "Py_BuildValue fmt args = take (format_pairs fmt) args"

text \<open>The seven functions differ in the base class, the name, the format and the arguments only.\<close>

definition create_enum ::
    "string \<Rightarrow> string \<Rightarrow> string \<Rightarrow> (string \<times> int) list \<Rightarrow> env \<Rightarrow> modst \<Rightarrow> obj option \<times> modst" where
  "create_enum base name fmt args E w =
     (let (enum_module, w) = py_new E w
      in case enum_module of
           None \<Rightarrow> (None, w)
         | Some m \<Rightarrow>
             let (cls, w) = py_new E w; w = py (Decref m) w
             in case cls of
                  None \<Rightarrow> (None, w)
                | Some c \<Rightarrow>
                    let (members, w) = py_new E w
                    in case members of
                         None \<Rightarrow> (None, py (Decref c) w)
                       | Some d \<Rightarrow>
                           let (result, w) = py_new E w; w = py (Decref d) (py (Decref c) w)
                           in case result of
                                None \<Rightarrow> (None, w)
                              | Some x \<Rightarrow> (Some x, w\<lparr>enums := (enums w)(x \<mapsto>
                                  \<lparr>enum_base = base, enum_name = name,
                                    enum_members = Py_BuildValue fmt args\<rparr>)\<rparr>))"

definition create_resolve_enum :: "env \<Rightarrow> modst \<Rightarrow> obj option \<times> modst" where
  "create_resolve_enum = create_enum ''IntFlag'' ''ResolveFlags'' ''{s:i, s:i, s:i, s:i, s:i, s:i}''
     [(''NO_XDEV'', 1), (''NO_MAGICLINKS'', 2), (''NO_SYMLINKS'', 4), (''BENEATH'', 8),
      (''IN_ROOT'', 16), (''CACHED'', 32)]"

definition create_statx_flags_enum :: "env \<Rightarrow> modst \<Rightarrow> obj option \<times> modst" where
  "create_statx_flags_enum = create_enum ''IntFlag'' ''StatxFlags'' ''{s:i, s:i, s:i, s:i, s:i}''
     [(''EMPTY_PATH'', 0x1000), (''SYMLINK_NOFOLLOW'', 0x100), (''NO_AUTOMOUNT'', 0x800),
      (''STATX_SYNC_AS_STAT'', 0), (''STATX_FORCE_SYNC'', 0x2000), (''STATX_DONT_SYNC'', 0x4000)]"

definition create_statx_mask_enum :: "env \<Rightarrow> modst \<Rightarrow> obj option \<times> modst" where
  "create_statx_mask_enum = create_enum ''IntFlag'' ''StatxMask''
     ''{s:i, s:i, s:i, s:i, s:i, s:i, s:i, s:i, s:i, s:i, s:i, s:i}''
     [(''TYPE'', 1), (''MODE'', 2), (''NLINK'', 4), (''UID'', 8), (''GID'', 0x10),
      (''ATIME'', 0x20), (''MTIME'', 0x40), (''CTIME'', 0x80), (''INO'', 0x100), (''SIZE'', 0x200),
      (''BLOCKS'', 0x400), (''BASIC_STATS'', 0x7ff), (''BTIME'', 0x800), (''ALL'', 0xfff)]"

text \<open>The values of the C enumerators.\<close>

fun buffer_mode_value :: "BufferMode \<Rightarrow> int" where
  "buffer_mode_value NORMAL_BUF = 0"
| "buffer_mode_value FIXED = 1"
| "buffer_mode_value PROVIDED = 2"
| "buffer_mode_value BUF_RING = 3"
| "buffer_mode_value BUF_NO_VAL = 4"

fun payload_type_value :: "PayloadType \<Rightarrow> int" where
  "payload_type_value PAYLOAD_LINEAR = 0"
| "payload_type_value PAYLOAD_IOVEC = 1"
| "payload_type_value PAYLOAD_LINEAR_AND_IOVEC = 2"
| "payload_type_value PAYLOAD_TYPE_NO_VAL = 3"

fun stream_value :: "StreamStrategy \<Rightarrow> int" where
  "stream_value ONESHOT = 0"
| "stream_value MULTISHOT = 1"

fun transfer_value :: "TransferMode \<Rightarrow> int" where
  "transfer_value NORMAL_TRANSFER = 0"
| "transfer_value ZERO_COPY = 1"

definition create_buffer_mode_enum :: "env \<Rightarrow> modst \<Rightarrow> obj option \<times> modst" where
  "create_buffer_mode_enum = create_enum ''IntEnum'' ''BUFFER_MODE'' ''{s:i, s:i, s:i, s:i}''
     [(''NORMAL'', buffer_mode_value NORMAL_BUF), (''FIXED'', buffer_mode_value FIXED),
      (''PROVIDED'', buffer_mode_value PROVIDED), (''BUF_RING'', buffer_mode_value BUF_RING)]"

definition create_stream_strategy_enum :: "env \<Rightarrow> modst \<Rightarrow> obj option \<times> modst" where
  "create_stream_strategy_enum = create_enum ''IntEnum'' ''STREAM_STRATEGY'' ''{s:i, s:i}''
     [(''ONESHOT'', stream_value ONESHOT), (''MULTISHOT'', stream_value MULTISHOT)]"

definition create_transfer_mode_enum :: "env \<Rightarrow> modst \<Rightarrow> obj option \<times> modst" where
  "create_transfer_mode_enum = create_enum ''IntEnum'' ''TRANSFER_MODE'' ''{s:i, s:i}''
     [(''NORMAL'', transfer_value NORMAL_TRANSFER), (''ZERO_COPY'', transfer_value ZERO_COPY)]"

definition create_payload_type_enum :: "env \<Rightarrow> modst \<Rightarrow> obj option \<times> modst" where
  "create_payload_type_enum = create_enum ''IntEnum'' ''PAYLOAD_TYPE'' ''{s:i, s:i, s:i}''
     [(''LINEAR'', payload_type_value PAYLOAD_LINEAR), (''IOVEC'', payload_type_value PAYLOAD_IOVEC),
      (''LINEAR_AND_IOVEC'', payload_type_value PAYLOAD_LINEAR_AND_IOVEC)]"

section \<open>uringio\_init.c\<close>

type_synonym modstep = "modst \<Rightarrow> int \<times> modst"

text \<open>\<open>if (PyType_Ready(&T) < 0) return -1;\<close>\<close>

definition type_ready :: "module_env \<Rightarrow> string \<Rightarrow> modstep \<Rightarrow> modstep" where
  "type_ready M t rest w =
     (if m_type_ready M (hist w) t < 0 then (-1, w)
      else rest (w\<lparr>ready_types := ready_types w @ [t]\<rparr>))"

text \<open>\<open>PyModule_AddObjectRef\<close> takes a reference of its own, \<open>PyModule_AddObject\<close> takes over the caller's
  when it succeeds.\<close>

definition add_ref :: "module_env \<Rightarrow> string \<Rightarrow> obj \<Rightarrow> modstep \<Rightarrow> modstep" where
  "add_ref M name x rest w =
     (if m_add_object M (hist w) name < 0 then (-1, w)
      else rest ((py (Incref x) w)\<lparr>attrs := attrs w @ [(name, x)]\<rparr>))"

definition add_enum ::
    "module_env \<Rightarrow> env \<Rightarrow> string \<Rightarrow> (env \<Rightarrow> modst \<Rightarrow> obj option \<times> modst) \<Rightarrow> modstep \<Rightarrow> modstep" where
  "add_enum M E name create rest w =
     (let (flags, w) = create E w
      in case flags of
           None \<Rightarrow> (-1, w)
         | Some x \<Rightarrow>
             if m_add_object M (hist w) name < 0 then (-1, py (Decref x) w)
             else rest (w\<lparr>attrs := attrs w @ [(name, x)]\<rparr>))"

text \<open>The class of the loop, a subclass of \<open>asyncio.BaseEventLoop\<close>.\<close>

definition loop_class :: "env \<Rightarrow> modst \<Rightarrow> obj option \<times> modst" where
  "loop_class E w =
     (let (asyncio, w) = py_new E w
      in case asyncio of
           None \<Rightarrow> (None, w)
         | Some a \<Rightarrow>
             let (base, w) = py_new E w; w = py (Decref a) w
             in case base of
                  None \<Rightarrow> (None, w)
                | Some b \<Rightarrow>
                    let (bases, w) = py_new E w; w = py (Decref b) w
                    in case bases of
                         None \<Rightarrow> (None, w)
                       | Some bs \<Rightarrow> let (type, w) = py_new E w in (type, py (Decref bs) w))"

definition add_enums :: "module_env \<Rightarrow> env \<Rightarrow> modstep" where
  "add_enums M E =
     add_enum M E ''ResolveFlags'' create_resolve_enum
     (add_enum M E ''StatxFlags'' create_statx_flags_enum
     (add_enum M E ''StatxMask'' create_statx_mask_enum
     (add_enum M E ''BUFFER_MODE'' create_buffer_mode_enum
     (add_enum M E ''STREAM_STRATEGY'' create_stream_strategy_enum
     (add_enum M E ''TRANSFER_MODE'' create_transfer_mode_enum
     (add_enum M E ''PAYLOAD_TYPE'' create_payload_type_enum (\<lambda>w. (0, w))))))))"

definition add_types :: "module_env \<Rightarrow> env \<Rightarrow> obj \<Rightarrow> modstep" where
  "add_types M E t =
     type_ready M ''UringioSocketType'' (type_ready M ''UringioFileType''
     (type_ready M ''UringioBufferModeCtxType'' (type_ready M ''UringioStreamStrategyCtxType''
     (type_ready M ''UringioTransferModeCtxType'' (type_ready M ''UringioExecutionContextCtxType''
     (add_ref M ''UringioLoop'' t
     (add_ref M ''File'' (m_static M ''UringioFileType'')
     (add_ref M ''Socket'' (m_static M ''UringioSocketType'')
     (add_ref M ''BufferModeCtx'' (m_static M ''UringioBufferModeCtxType'')
     (add_ref M ''StreamStrategyCtx'' (m_static M ''UringioStreamStrategyCtxType'')
     (add_ref M ''TransferModeCtx'' (m_static M ''UringioTransferModeCtxType'')
     (add_ref M ''ExecutionContextCtx'' (m_static M ''UringioExecutionContextCtxType'')
     (add_enums M E)))))))))))))"

definition uringio_module_exec :: "module_env \<Rightarrow> env \<Rightarrow> modstep" where
  "uringio_module_exec M E w =
     (let (type, w) = loop_class E w
      in case type of
           None \<Rightarrow> (-1, w)
         | Some t \<Rightarrow> add_types M E t (w\<lparr>loop_type := Some t\<rparr>))"

section \<open>Balance\<close>

text \<open>The references that the module holds: the values of its dictionary and the loop's class.\<close>

definition held :: "modst \<Rightarrow> resource \<Rightarrow> int" where
  "held w r = (\<Sum>(n, x)\<leftarrow>attrs w. of_bool (r = Reference x)) + ref_units (loop_type w) r"

definition balanced :: "modst \<Rightarrow> modst \<Rightarrow> bool" where
  "balanced w w' \<longleftrightarrow> (\<forall>r. ledger (hist w') r - held w' r = ledger (hist w) r - held w r)"

lemma balanced_trans: "balanced w v \<Longrightarrow> balanced v u \<Longrightarrow> balanced w u"
  by (simp add: balanced_def)

lemma modst_py [simp]:
  "attrs (py c w) = attrs w" "loop_type (py c w) = loop_type w" "enums (py c w) = enums w"
  "ready_types (py c w) = ready_types w"
  by (simp_all add: py_def)

text \<open>A part of the initialisation that publishes the names \<open>ns\<close> when it succeeds, and is balanced
  whether it succeeds or not.\<close>

definition publishes :: "modstep \<Rightarrow> string list \<Rightarrow> bool" where
  "publishes f ns \<longleftrightarrow> (\<forall>w r w'. f w = (r, w') \<longrightarrow> balanced w w' \<and> loop_type w' = loop_type w \<and>
     (r = 0 \<and> map fst (attrs w') = map fst (attrs w) @ ns \<or> r = -1))"

text \<open>A part that creates an object and hands its reference to the caller.\<close>

definition creates :: "(modst \<Rightarrow> obj option \<times> modst) \<Rightarrow> bool" where
  "creates f \<longleftrightarrow> (\<forall>w x w'. f w = (x, w') \<longrightarrow> attrs w' = attrs w \<and> loop_type w' = loop_type w \<and>
     (\<forall>r. ledger (hist w') r = ledger (hist w) r + ref_units x r))"

named_theorems module_steps

lemma creates_enum [module_steps]: "creates (create_enum base name fmt args E)"
  unfolding creates_def create_enum_def
  by (auto simp: py_new_def Let_def ref_units_def split: option.splits)

lemma creates_loop_class: "creates (loop_class E)"
  unfolding creates_def loop_class_def
  by (auto simp: py_new_def Let_def ref_units_def split: option.splits)

lemma publishes_none [module_steps]: "publishes (\<lambda>w. (0, w)) []"
  by (simp add: publishes_def balanced_def)

lemma publishes_then:
  assumes "publishes rest ns" "balanced w v" "loop_type v = loop_type w"
    "map fst (attrs v) = map fst (attrs w) @ ms" "rest v = (r, w')"
  shows "balanced w w' \<and> loop_type w' = loop_type w \<and>
     (r = 0 \<and> map fst (attrs w') = map fst (attrs w) @ ms @ ns \<or> r = -1)"
  using assms(1) [unfolded publishes_def, rule_format, OF assms(5)] assms(2-4)
  by (auto intro: balanced_trans)

lemma publishes_type_ready [module_steps]:
  assumes "publishes rest ns"
  shows "publishes (type_ready M t rest) ns"
  unfolding publishes_def
proof (intro allI impI)
  fix w r w' assume run: "type_ready M t rest w = (r, w')"
  let ?v = "w\<lparr>ready_types := ready_types w @ [t]\<rparr>"
  show "balanced w w' \<and> loop_type w' = loop_type w \<and>
      (r = 0 \<and> map fst (attrs w') = map fst (attrs w) @ ns \<or> r = -1)"
  proof (cases "m_type_ready M (hist w) t < 0")
    case True
    with run show ?thesis by (auto simp: type_ready_def balanced_def)
  next
    case False
    with run have "rest ?v = (r, w')" by (simp add: type_ready_def)
    moreover have "balanced w ?v" by (simp add: balanced_def held_def)
    ultimately show ?thesis using publishes_then [OF assms, of w ?v "[]"] by simp
  qed
qed

lemma publishes_add_ref [module_steps]:
  assumes "publishes rest ns"
  shows "publishes (add_ref M n x rest) (n # ns)"
  unfolding publishes_def
proof (intro allI impI)
  fix w r w' assume run: "add_ref M n x rest w = (r, w')"
  let ?v = "(py (Incref x) w)\<lparr>attrs := attrs w @ [(n, x)]\<rparr>"
  show "balanced w w' \<and> loop_type w' = loop_type w \<and>
      (r = 0 \<and> map fst (attrs w') = map fst (attrs w) @ n # ns \<or> r = -1)"
  proof (cases "m_add_object M (hist w) n < 0")
    case True
    with run show ?thesis by (auto simp: add_ref_def balanced_def)
  next
    case False
    with run have "rest ?v = (r, w')" by (simp add: add_ref_def)
    moreover have "balanced w ?v" by (simp add: balanced_def held_def)
    ultimately show ?thesis using publishes_then [OF assms, of w ?v "[n]"] by simp
  qed
qed

lemma publishes_add_enum [module_steps]:
  assumes "publishes rest ns" "creates (create E)"
  shows "publishes (add_enum M E n create rest) (n # ns)"
  unfolding publishes_def
proof (intro allI impI)
  fix w r w' assume run: "add_enum M E n create rest w = (r, w')"
  obtain x u where u: "create E w = (x, u)" by (metis surj_pair)
  from assms(2) u have eff: "attrs u = attrs w" "loop_type u = loop_type w"
    "\<And>r. ledger (hist u) r = ledger (hist w) r + ref_units x r" by (auto simp: creates_def)
  show "balanced w w' \<and> loop_type w' = loop_type w \<and>
      (r = 0 \<and> map fst (attrs w') = map fst (attrs w) @ n # ns \<or> r = -1)"
  proof (cases "x = None \<or> m_add_object M (hist u) n < 0")
    case True
    then show ?thesis
      using run u eff by (cases x) (auto simp: add_enum_def balanced_def held_def ref_units_def)
  next
    case False
    then obtain y where y: "x = Some y" by auto
    let ?v = "u\<lparr>attrs := attrs u @ [(n, y)]\<rparr>"
    from y False run u have "rest ?v = (r, w')" by (simp add: add_enum_def)
    moreover have "balanced w ?v" using eff y by (simp add: balanced_def held_def ref_units_def)
    ultimately show ?thesis using publishes_then [OF assms(1), of w ?v "[n]"] eff by simp
  qed
qed

lemma publishesD:
  assumes "f w = (r, w')" "publishes f ns"
  shows "balanced w w' \<and> loop_type w' = loop_type w \<and>
     (r = 0 \<and> map fst (attrs w') = map fst (attrs w) @ ns \<or> r = -1)"
  using assms(2) [unfolded publishes_def, rule_format, OF assms(1)] .

lemmas enum_functions = create_resolve_enum_def create_statx_flags_enum_def create_statx_mask_enum_def
  create_buffer_mode_enum_def create_stream_strategy_enum_def create_transfer_mode_enum_def
  create_payload_type_enum_def

lemma publishes_enums [module_steps]:
  "publishes (add_enums M E) [''ResolveFlags'', ''StatxFlags'', ''StatxMask'', ''BUFFER_MODE'',
     ''STREAM_STRATEGY'', ''TRANSFER_MODE'', ''PAYLOAD_TYPE'']"
  unfolding add_enums_def enum_functions by (intro module_steps)

lemma publishes_types:
  "publishes (add_types M E t) [''UringioLoop'', ''File'', ''Socket'', ''BufferModeCtx'',
     ''StreamStrategyCtx'', ''TransferModeCtx'', ''ExecutionContextCtx'', ''ResolveFlags'',
     ''StatxFlags'', ''StatxMask'', ''BUFFER_MODE'', ''STREAM_STRATEGY'', ''TRANSFER_MODE'',
     ''PAYLOAD_TYPE'']"
  unfolding add_types_def by (intro module_steps)

section \<open>The properties\<close>

text \<open>C32: initialising the module keeps the references balanced on every path, whichever call of CPython
  fails: each reference it took and did not give back is held by the module's dictionary or is the
  loop's class; and when it succeeds, the dictionary has got exactly the fourteen names, in
  order.\<close>

theorem module_exec_balanced:
  assumes "loop_type w = None" "uringio_module_exec M E w = (r, w')"
  shows "(r = 0 \<and> map fst (attrs w') = map fst (attrs w) @
       [''UringioLoop'', ''File'', ''Socket'', ''BufferModeCtx'', ''StreamStrategyCtx'',
        ''TransferModeCtx'', ''ExecutionContextCtx'', ''ResolveFlags'', ''StatxFlags'', ''StatxMask'',
        ''BUFFER_MODE'', ''STREAM_STRATEGY'', ''TRANSFER_MODE'', ''PAYLOAD_TYPE''] \<or> r = -1) \<and>
     (\<forall>x. ledger (hist w') x - held w' x = ledger (hist w) x - held w x)"
proof -
  obtain t u where u: "loop_class E w = (t, u)" by (metis surj_pair)
  have eff: "attrs u = attrs w" "loop_type u = loop_type w"
    "\<And>r. ledger (hist u) r = ledger (hist w) r + ref_units t r"
    using creates_loop_class [of E] u by (auto simp: creates_def)
  show ?thesis
  proof (cases t)
    case None
    with assms u eff show ?thesis by (auto simp: uringio_module_exec_def held_def ref_units_def)
  next
    case (Some c)
    let ?v = "u\<lparr>loop_type := Some c\<rparr>"
    from Some assms(2) u have "add_types M E c ?v = (r, w')" by (simp add: uringio_module_exec_def)
    from publishesD [of "add_types M E c", OF this publishes_types] have
      "balanced ?v w'" "r = 0 \<and> map fst (attrs w') = map fst (attrs ?v) @
       [''UringioLoop'', ''File'', ''Socket'', ''BufferModeCtx'', ''StreamStrategyCtx'',
        ''TransferModeCtx'', ''ExecutionContextCtx'', ''ResolveFlags'', ''StatxFlags'', ''StatxMask'',
        ''BUFFER_MODE'', ''STREAM_STRATEGY'', ''TRANSFER_MODE'', ''PAYLOAD_TYPE''] \<or> r = -1"
      by blast+
    moreover have "balanced w ?v"
      using eff assms(1) Some by (simp add: balanced_def held_def ref_units_def)
    ultimately show ?thesis using balanced_trans eff(1) by (auto simp: balanced_def)
  qed
qed

definition fresh_module :: modst where
  "fresh_module = \<lparr>hist = [], enums = Map.empty, ready_types = [], attrs = [], loop_type = None\<rparr>"

definition sample_module :: module_env where
  "sample_module = \<lparr>m_static = (\<lambda>t. 800 + length t), m_type_ready = (\<lambda>h t. 0),
     m_add_object = (\<lambda>h n. 0)\<rparr>"

text \<open>With a fresh module where nothing fails but the last name.\<close>

definition failing_module :: module_env where
  "failing_module = sample_module\<lparr>m_add_object := \<lambda>h n. if n = ''PAYLOAD_TYPE'' then -1 else 0\<rparr>"

theorem module_exec_balanced_witness:
  "loop_type fresh_module = None \<and>
   (\<forall>x. ledger (hist (snd (uringio_module_exec failing_module sample_env fresh_module))) x =
      held (snd (uringio_module_exec failing_module sample_env fresh_module)) x)"
  using module_exec_balanced [of fresh_module failing_module sample_env, OF _ prod.collapse [symmetric]]
  by (simp add: fresh_module_def held_def ref_units_def)

lemma create_enum_members:
  assumes "create_enum base name fmt args E w = (Some x, w')"
  shows "enum_members (the (enums w' x)) = take (format_pairs fmt) args"
  using assms
  by (auto simp: create_enum_def py_new_def Let_def Py_BuildValue_def split: option.splits)

lemma validators_inverse:
  "m \<noteq> BUF_NO_VAL \<Longrightarrow> validate_buffer_mode (buffer_mode_value m) u = (m, u)"
  "t \<noteq> PAYLOAD_TYPE_NO_VAL \<Longrightarrow> validate_payload_type (payload_type_value t) u = (t, u)"
  "stream_of_int (stream_value s) = Some s" "transfer_of_int (transfer_value y) = Some y"
  by ((cases m; simp add: validate_buffer_mode_def), (cases t; simp add: validate_payload_type_def),
    (cases s; simp add: stream_of_int_def), (cases y; simp add: transfer_of_int_def))

lemma members_read_back:
  "validate_buffer_mode 0 u = (NORMAL_BUF, u)" "validate_buffer_mode 1 u = (FIXED, u)"
  "validate_buffer_mode 2 u = (PROVIDED, u)" "validate_buffer_mode 3 u = (BUF_RING, u)"
  "validate_payload_type 0 u = (PAYLOAD_LINEAR, u)" "validate_payload_type 1 u = (PAYLOAD_IOVEC, u)"
  "validate_payload_type 2 u = (PAYLOAD_LINEAR_AND_IOVEC, u)"
  "stream_of_int 0 = Some ONESHOT" "stream_of_int 1 = Some MULTISHOT"
  "transfer_of_int 0 = Some NORMAL_TRANSFER" "transfer_of_int 1 = Some ZERO_COPY"
  by (simp_all add: validate_buffer_mode_def validate_payload_type_def stream_of_int_def
      transfer_of_int_def)

lemma accepted_values:
  "{v. fst (validate_buffer_mode v u) \<noteq> BUF_NO_VAL} = {0, 1, 2, 3}"
  "{v. fst (validate_payload_type v u) \<noteq> PAYLOAD_TYPE_NO_VAL} = {0, 1, 2}"
  "{v. stream_of_int v \<noteq> None} = {0, 1}" "{v. transfer_of_int v \<noteq> None} = {0, 1}"
  by (auto simp: validate_buffer_mode_def validate_payload_type_def stream_of_int_def
      transfer_of_int_def)

text \<open>C31: the enumerations that Python sees and the functions that take their values agree, name by name:
  the value of each member of \<open>BUFFER_MODE\<close>, \<open>PAYLOAD_TYPE\<close>, \<open>STREAM_STRATEGY\<close> and
  \<open>TRANSFER_MODE\<close> is read back as the C enumerator the member's name stands for, every valid
  enumerator has its member, and no number that is not the value of a member is accepted.\<close>

theorem enumerations_agree:
  shows "(create_buffer_mode_enum E w = (Some x, w') \<longrightarrow>
       map (\<lambda>(name, v). (name, validate_buffer_mode v u)) (enum_members (the (enums w' x))) =
         [(''NORMAL'', NORMAL_BUF, u), (''FIXED'', FIXED, u), (''PROVIDED'', PROVIDED, u),
          (''BUF_RING'', BUF_RING, u)] \<and>
       snd ` set (enum_members (the (enums w' x))) = {v. fst (validate_buffer_mode v u) \<noteq> BUF_NO_VAL} \<and>
       (\<forall>m. m \<noteq> BUF_NO_VAL \<longrightarrow> validate_buffer_mode (buffer_mode_value m) u = (m, u))) \<and>
     (create_payload_type_enum E w = (Some x, w') \<longrightarrow>
       map (\<lambda>(name, v). (name, validate_payload_type v u)) (enum_members (the (enums w' x))) =
         [(''LINEAR'', PAYLOAD_LINEAR, u), (''IOVEC'', PAYLOAD_IOVEC, u),
          (''LINEAR_AND_IOVEC'', PAYLOAD_LINEAR_AND_IOVEC, u)] \<and>
       snd ` set (enum_members (the (enums w' x))) =
         {v. fst (validate_payload_type v u) \<noteq> PAYLOAD_TYPE_NO_VAL} \<and>
       (\<forall>t. t \<noteq> PAYLOAD_TYPE_NO_VAL \<longrightarrow> validate_payload_type (payload_type_value t) u = (t, u))) \<and>
     (create_stream_strategy_enum E w = (Some x, w') \<longrightarrow>
       map (\<lambda>(name, v). (name, stream_of_int v)) (enum_members (the (enums w' x))) =
         [(''ONESHOT'', Some ONESHOT), (''MULTISHOT'', Some MULTISHOT)] \<and>
       snd ` set (enum_members (the (enums w' x))) = {v. stream_of_int v \<noteq> None} \<and>
       (\<forall>s. stream_of_int (stream_value s) = Some s)) \<and>
     (create_transfer_mode_enum E w = (Some x, w') \<longrightarrow>
       map (\<lambda>(name, v). (name, transfer_of_int v)) (enum_members (the (enums w' x))) =
         [(''NORMAL'', Some NORMAL_TRANSFER), (''ZERO_COPY'', Some ZERO_COPY)] \<and>
       snd ` set (enum_members (the (enums w' x))) = {v. transfer_of_int v \<noteq> None} \<and>
       (\<forall>t. transfer_of_int (transfer_value t) = Some t))"
  unfolding accepted_values enum_functions
  by (intro conjI impI allI validators_inverse)
    (auto dest!: create_enum_members simp: format_pairs_def members_read_back)

theorem enumerations_agree_witness:
  "\<exists>x w'. create_buffer_mode_enum sample_env fresh_module = (Some x, w') \<and>
     snd ` set (enum_members (the (enums w' x))) = {0, 1, 2, 3} \<and>
     map (\<lambda>(name, v). (name, fst (validate_buffer_mode v fresh_module)))
         (enum_members (the (enums w' x))) =
       [(''NORMAL'', NORMAL_BUF), (''FIXED'', FIXED), (''PROVIDED'', PROVIDED),
        (''BUF_RING'', BUF_RING)]"
proof -
  obtain x w' where x: "create_buffer_mode_enum sample_env fresh_module = (Some x, w')"
    by (simp add: create_buffer_mode_enum_def create_enum_def py_new_def Let_def)
  with enumerations_agree [of sample_env fresh_module x w' fresh_module]
  have "snd ` set (enum_members (the (enums w' x))) = {0, 1, 2, 3}"
    and "map (\<lambda>(name, v). (name, validate_buffer_mode v fresh_module))
        (enum_members (the (enums w' x))) =
      [(''NORMAL'', NORMAL_BUF, fresh_module), (''FIXED'', FIXED, fresh_module),
       (''PROVIDED'', PROVIDED, fresh_module), (''BUF_RING'', BUF_RING, fresh_module)]"
    unfolding accepted_values by blast+
  from x this(1) arg_cong [OF this(2), of "map (\<lambda>(name, m, u). (name, m))"] show ?thesis
    by (auto simp: comp_def split_beta)
qed

text \<open>The format strings of the \<open>statx\<close> enumerations have fewer pairs than there are arguments: the last
  members are not published.\<close>

theorem statx_members_missing:
  "(create_statx_flags_enum E w = (Some x, w') \<longrightarrow>
      ''STATX_DONT_SYNC'' \<notin> fst ` set (enum_members (the (enums w' x)))) \<and>
   (create_statx_mask_enum E w = (Some x, w') \<longrightarrow>
      {''BTIME'', ''ALL''} \<inter> fst ` set (enum_members (the (enums w' x))) = {})"
  unfolding enum_functions by (auto dest!: create_enum_members simp: format_pairs_def)

end
