(* ===== verification/Spec2Isabelle.thy ===== *)
theory Spec2Isabelle
  imports Loop_Session Loop_Properties Shutdown_Properties Context_Managers Module_Init
begin

text \<open>
  A verification development for uringio, a CPython extension in C that runs an asyncio event loop on
  the io\_uring interface of the kernel (sources under \<open>src/src\<close>).

  \<^bold>\<open>The program.\<close>  A method of a file, a socket or the loop (\<open>python_api/ops\<close>, \<open>python_api/timer\<close>)
  creates a future and a payload, enters a request into the registry (\<open>registry\<close>), prepares an entry
  of the submission queue with the index of the request as user data (\<open>ops\<close>, \<open>timer\<close>, \<open>ring\<close>) and
  submits it.  A turn of the loop (\<open>python_api/loop\<close>) waits for completions; the reader
  (\<open>python_api/reader\<close>) takes each one's index, turns the result of the kernel into a Python value,
  resolves the future and removes the request; then due handles are promoted and the ready ones run.
  The execution context (\<open>python_api/execution_context\<close>), a context variable with four context
  managers, chooses buffers, strategy and transfer mode.

  \<^bold>\<open>The model.\<close>  Code outside the repository (liburing and the kernel, libc, CPython) is a parameter:
  a record \<open>env\<close> with one function per entry point that answers anything, applied to the history of
  calls so far.  The program's own state is explicit: \<open>ext\<close> holds the history, \<open>bufst\<close> adds the
  payloads, \<open>loopst\<close> the loop object, its registry, the file and socket objects, the context variable
  and the queues.  An undefined C behaviour (a null or wild pointer, an index out of range, a failed
  assertion) is \<open>None\<close>; a Python function returns \<open>Some (None, w)\<close> for \<open>NULL\<close> with an exception and
  \<open>Some (Some x, w)\<close> for a result (\<open>api\<close>).  \<open>ledger\<close> counts from the history what the program holds of
  every block, buffer export and reference; \<open>resolutions\<close> lists the futures resolved and with what.
  The context variable holds a capsule with the address of an execution context; the contexts that
  are alive are a map from addresses (\<open>contexts\<close>), and a capsule that neither the variable nor a token
  (\<open>ctx_tokens\<close>) holds any more frees its context.
  Machine integers are words where C has them unsigned and integers with the conversions \<open>c_int\<close> and
  \<open>size_t\<close> written out where it has them signed.

  \<^bold>\<open>Theories.\<close>
  \<^item> \<open>Uringio_Prelude\<close>: addresses, events, the environment, the ledger, conversions, a sample environment.
  \<^item> \<open>Ring_Timer\<close> (\<open>ring/\<close>, \<open>timer/\<close>, \<open>macroses.h\<close>), with the locale \<open>request_op\<close> of an operation that
    prepares and submits an entry; \<open>File_Ops\<close> and \<open>Socket_Ops\<close> (\<open>ops/\<close>): the operations of the C
    layer; \<open>Ops_Contract\<close>: one datatype with all of them, \<open>prep_socket\<close> and \<open>timer\<close> included, and what
    any that succeeds, fails or finds the queue full has done.
  \<^item> \<open>Index_Pool\<close> (\<open>buffer_controllers/buffer_index.c\<close>): the stack of free indices, as a locale that the
    request registry interprets too; \<open>Request_Registry\<close> (\<open>registry/\<close>): the table, its invariant, its
    refinement of a finite map from indices to requests.
  \<^item> \<open>Buffers\<close> (\<open>python_api/buffers\<close>) and \<open>Buffer_Ownership\<close>: construction and release of payloads, and
    that every constructor and the release agree about what a payload owns.
  \<^item> \<open>Loop_State\<close> (guards, futures, parameters), \<open>Exec_Context\<close> (\<open>execution_context.c\<close>, \<open>contextvar.c\<close>,
    \<open>buffer_modes.c\<close>), \<open>File_Api\<close>, \<open>Socket_Api\<close>: the Python-facing functions.
  \<^item> \<open>Api_Contract\<close>: the locale \<open>api_method\<close>, the atomicity of a call, with its interpretations in
    \<open>File_Contract\<close>, \<open>Socket_Contract\<close>, \<open>Read_Contract\<close> and \<open>Loop_Contract\<close>.
  \<^item> \<open>Reader\<close> (\<open>on_ready.c\<close>); \<open>Completion\<close>: the locale \<open>completes\<close>, one interpretation per case of the
    switch; \<open>Reader_Loop\<close>: single completions and the whole queue.
  \<^item> \<open>Event_Loop\<close> (\<open>loop.c\<close>, \<open>helpers.c\<close>, \<open>shutdown.c\<close>, \<open>signals.c\<close>), \<open>Loop_Properties\<close>,
    \<open>Shutdown_Properties\<close>: turns, timers, shutdown, the life of the loop object.
  \<^item> \<open>Context_Managers\<close>: the locale \<open>context_manager\<close> and its four interpretations.
  \<^item> \<open>Module_Init\<close> (\<open>uringio_init.c\<close>, the two \<open>enums.c\<close>): initialisation and published enumerations.
  \<^item> \<open>Api_Properties\<close>: the contracts of the methods and the way of a request from call to completion;
    \<open>Quiet_Calls\<close>: that calls resolve no future; \<open>Loop_Session\<close>: sessions as a step relation, and the
    abstract table they refine.
  \<^item> This theory: the properties of whole sessions.

  \<^bold>\<open>What is shown.\<close>  Requests: every operation submits exactly the entry it describes, tagged with its
  request's index, or reports why not.  Registry: it refines insertion into and deletion from a finite
  map, and gives back what a slot holds.  Buffers: what is built is given back, and failed construction
  leaves nothing.  Methods: a call is never undefined, changes nothing when it raises, and otherwise
  adds one request.  Completions: the future is resolved once, with the bytes, number or error of the
  kernel, and everything the request held is given back.  Sessions: any interleaving of calls and
  completions refines a table of outstanding futures; no future is lost or answered twice; and once
  the kernel has answered, the reader empties the table.  Loop: bounds of the waiting time, promotion
  and running of handles, shutdown, closing twice.  Contexts: managers restore what they found and
  free what they made.  The published enumerations and their readers agree name by name.
  Further theorems state defects of the code as they are: the wakeup read that is not renewed, the
  untagged linked timeout, the payload that cannot be freed, the futures a shutdown abandons, the
  references promotion leaks, the context freed twice, the context manager that cannot be entered a
  second time, the read that goes on without a buffer, the link that a multishot read loses, the
  message headers and addresses that destroying a registry leaks, the members missing from two
  enumerations.

  \<^bold>\<open>Bounds and fuel.\<close>  \<open>on_uring_ready\<close>, \<open>shutdown_loop\<close> and \<open>promote_loop\<close> may run as long as their
  environment supplies work, so they take fuel, and running out of it is \<open>None\<close>.  The length of the
  queue plus one is enough for the reader, the number of scheduled handles plus one for promotion;
  both are proved.  Sessions consist of the calls without a payload; for the calls with one the round
  trips of single requests are shown, because two payloads may share memory when the allocator is
  arbitrary.

  \<^bold>\<open>Not modelled.\<close>  The static method and type tables of \<open>uringio_init.c\<close>, the \<open>tp_traverse\<close> functions,
  which only visit, and the destructors of the context managers, which only free the object, hold no
  logic of the program.  An asyncio task runs in its own copy of the context; the model follows the
  variable in one of them, and a capsule that another copy still holds would live longer.  A completed read is covered for buffers
  of the request and for registered ones, not for buffers that the kernel selects from a group: there
  the code reads the first buffer whatever the completion names.  The atomicity of \<open>read\<close> and \<open>recv\<close> is
  shown where the allocator has memory for the size asked for, that of \<open>writev\<close> for sequences of fewer
  than \<open>2 ^ 31\<close> buffers.  Parsing of arguments by CPython is represented by the parsed values, threads
  by the answer of the thread checks.  Bytes that the kernel writes are those of \<open>e_mem\<close> at the time
  of the completion.
\<close>

section \<open>Properties of whole sessions\<close>

text \<open>C1: every session of payload-free calls and completions, in any interleaving, refines the
  abstract table of outstanding futures: an accepted call inserts its future under an index that
  was free, a refused call changes nothing, a completion deletes the one future it resolves or
  changes nothing; the invariant of the loop holds at the end, and the futures that were told
  anything are exactly those the completions resolved, in order.\<close>

theorem session_refines:
  assumes "session E w as w'" "tidy w" "\<forall>h. e_alloc_value E h"
  shows "tidy w' \<and> spec_session (outstanding w) as (outstanding w') \<and>
     resolutions (hist w') = resolutions (hist w) @ concat (map answered as)"
  by (rule session_simulates [OF assms])

theorem session_refines_witness:
  "\<exists>w. session sample_env idle_loop [Returned 900, Handled [(900, Inr (PyLong 0))]] w \<and> tidy w \<and>
     spec_session Map.empty [Returned 900, Handled [(900, Inr (PyLong 0))]] (outstanding w)"
proof -
  obtain w where w: "session sample_env idle_loop
    [Returned 900, Handled [(900, Inr (PyLong 0))]] w" by (rule sample_session)
  with session_refines [OF w tidy_idle(1)] show ?thesis unfolding tidy_idle(2) by auto
qed

text \<open>C2: no request is lost and none is answered twice: counted with multiplicity, the futures that
  the calls of a session returned are those that have been told a result and those that are still
  outstanding.\<close>

theorem session_conserves:
  assumes "session E w as w'" "tidy w" "outstanding w = Map.empty" "\<forall>h. e_alloc_value E h"
  shows "\<exists>rs. resolutions (hist w') = resolutions (hist w) @ rs \<and>
     mset (concat (map issued_by as)) = mset (map fst rs) + futures (outstanding w')"
proof -
  have "spec_session (outstanding w) as (outstanding w')"
    and res: "resolutions (hist w') = resolutions (hist w) @ concat (map answered as)"
    using session_simulates [OF assms(1,2,4)] by blast+
  from spec_session_conserves [OF this(1)] assms(3) have
    "mset (concat (map issued_by as)) =
      mset (map fst (concat (map answered as))) + futures (outstanding w')"
    by (simp add: add.commute)
  with res show ?thesis by blast
qed

theorem session_conserves_witness:
  "\<exists>w. session sample_env idle_loop [Returned 900, Handled [(900, Inr (PyLong 0))]] w \<and>
     (\<exists>rs. resolutions (hist w) = rs \<and> {#900#} = mset (map fst rs) + futures (outstanding w))"
proof -
  obtain w where w: "session sample_env idle_loop
    [Returned 900, Handled [(900, Inr (PyLong 0))]] w" by (rule sample_session)
  with session_conserves [OF w tidy_idle] show ?thesis by auto
qed

text \<open>C3: every request is eventually answered: after any session, once the kernel has put a completion
  for each outstanding request into the queue, one pass of the reader ends, empties the table and
  resolves what was left, so that all futures from before the session and all that its calls
  returned have been resolved exactly once.\<close>

theorem session_answered:
  assumes "session E w as w'" "tidy w" "\<forall>h. e_alloc_value E h" "cq E q"
    "covers (drop (seen (hist w')) q) (outstanding w')"
  shows "\<exists>w'' rs. on_uring_ready (Suc (length q)) E w' = Some w'' \<and> pending w'' = Map.empty \<and>
     resolutions (hist w'') = resolutions (hist w) @ rs \<and>
     futures (outstanding w) + mset (concat (map issued_by as)) = mset (map fst rs)"
proof -
  have s: "tidy w'" "spec_session (outstanding w) as (outstanding w')"
    "resolutions (hist w') = resolutions (hist w) @ concat (map answered as)"
    using session_simulates [OF assms(1-3)] by blast+
  have "finite (dom (outstanding w))"
    using assms(2) by (intro outstanding_finite) (simp add: tidy_def)
  from spec_session_conserves [OF s(2) this] have sum:
    "futures (outstanding w) + mset (concat (map issued_by as)) =
      mset (map fst (concat (map answered as))) + futures (outstanding w')" by (simp add: add.commute)
  from reader_answers [OF s(1) assms(4,3,5)] obtain w'' rs where
    "on_uring_ready (Suc (length q)) E w' = Some w''" "pending w'' = Map.empty"
    "resolutions (hist w'') = resolutions (hist w') @ rs"
    "mset (map fst rs) = futures (outstanding w')" by blast
  with s(3) sum show ?thesis
    by (intro exI [of _ w''] exI [of _ "concat (map answered as) @ rs"]) simp
qed

theorem session_answered_witness:
  "\<exists>w. on_uring_ready 2 (queue_env [answer_zero]) (busy_loop sample_fsync) = Some w \<and>
     pending w = Map.empty \<and> mset (map fst (resolutions (hist w))) = {#900#}"
proof -
  have "\<exists>w rs. on_uring_ready (Suc (length [answer_zero])) (queue_env [answer_zero])
       (busy_loop sample_fsync) = Some w \<and> pending w = Map.empty \<and>
     resolutions (hist w) = resolutions (hist (busy_loop sample_fsync)) @ rs \<and>
     futures (outstanding (busy_loop sample_fsync)) + mset (concat (map issued_by [])) =
       mset (map fst rs)"
    by (rule session_answered [OF session.none sample_covered(3)]) (simp_all add: sample_covered)
  then show ?thesis by (auto simp: sample_covered numeral_2_eq_2 simp del: on_uring_ready.simps)
qed

end
